(* ===== verification/Prelude.thy ===== *)
theory Prelude
  imports Complex_Main "HOL-Library.Product_Lexorder"
begin

text \<open>
  Shared vocabulary of the development: the collections the component theories fill, the
  fragments of Python's string, list and number behaviour that the modelled sources use, and the
  generic lemmas on stable sorting that the policy resolver rests on.

  A Python \<open>str\<close> is a \<open>string\<close>, its UTF-8 encoding as a list of characters of one byte each, under
  which concatenation, equality, prefixes and suffixes are those of the text. Agent identities,
  whose validation looks at single code points, are lists of code points (\<open>ucs\<close>).
  A Python \<open>float\<close> is an exact rational (\<open>rat\<close>); every float of the modelled code is either a
  decimal literal, a ratio of small integers or a value already rounded to four decimals.
\<close>

section \<open>Collections\<close>

named_theorems verdict_simps \<open>unfolding of verdict ranks and strictness\<close>
named_theorems resolver_defs \<open>definitions of the policy resolver\<close>
named_theorems stage_defs \<open>definitions of the decision stages of one evaluation\<close>
named_theorems cache_defs \<open>operations of the in-process cache\<close>
named_theorems loader_defs \<open>operations of the policy loader\<close>
named_theorems trust_defs \<open>definitions of the trust calculator\<close>

type_synonym ucs = "nat list"
type_synonym time = rat

abbreviation code_points :: "string \<Rightarrow> ucs" where
  "code_points \<equiv> map of_char"

section \<open>Python strings\<close>

definition starts_with :: "'a list \<Rightarrow> 'a list \<Rightarrow> bool" where
  "starts_with s p \<longleftrightarrow> take (length p) s = p"

definition ends_with :: "'a list \<Rightarrow> 'a list \<Rightarrow> bool" where
  "ends_with s p \<longleftrightarrow> length p \<le> length s \<and> drop (length s - length p) s = p"

lemma starts_with_append [simp]: "starts_with (p @ s) p"
  by (simp add: starts_with_def)

lemma starts_with_iff: "starts_with s p \<longleftrightarrow> (\<exists>r. s = p @ r)"
  unfolding starts_with_def by (metis append_eq_conv_conj append_take_drop_id)

lemma ends_with_append [simp]: "ends_with (s @ p) p"
  by (simp add: ends_with_def)

lemma ends_with_iff: "ends_with s p \<longleftrightarrow> (\<exists>r. s = r @ p)"
  unfolding ends_with_def
  by (metis append_take_drop_id diff_diff_cancel length_append length_drop add_diff_cancel_right'
      append_eq_conv_conj le_add2)

lemma ends_with_appendD: "ends_with (a @ b) p \<Longrightarrow> ends_with b p \<or> ends_with p b"
  by (auto simp: ends_with_iff append_eq_append_conv2)

text \<open>
  \<open>str.lower\<close>, on the ASCII letters. The code compares its result with ASCII literals only.
\<close>

definition lower_char :: "char \<Rightarrow> char" where
  "lower_char c = (let n = of_char c :: nat in if 65 \<le> n \<and> n \<le> 90 then char_of (n + 32) else c)"

definition lower :: "string \<Rightarrow> string" where
  "lower = map lower_char"

definition is_space :: "char \<Rightarrow> bool" where
  "is_space c = (let n = of_char c :: nat in 9 \<le> n \<and> n \<le> 13 \<or> 28 \<le> n \<and> n \<le> 32)"

definition strip :: "string \<Rightarrow> string" where
  "strip s = rev (dropWhile is_space (rev (dropWhile is_space s)))"

text \<open>
  \<open>len(s)\<close> and \<open>s[:n]\<close> count code points: the bytes of a UTF-8 encoding that are no
  continuation bytes.
\<close>

definition is_continuation :: "char \<Rightarrow> bool" where
  "is_continuation c \<longleftrightarrow> (let n = of_char c :: nat in 128 \<le> n \<and> n < 192)"

definition text_length :: "string \<Rightarrow> nat" where
  "text_length s = length (filter (\<lambda>c. \<not> is_continuation c) s)"

fun clip :: "nat \<Rightarrow> string \<Rightarrow> string" where
  "clip n [] = []"
| "clip n (c # cs) =
     (if is_continuation c then c # clip n cs
      else case n of 0 \<Rightarrow> [] | Suc m \<Rightarrow> c # clip m cs)"

text \<open>\<open>str(n)\<close> of an integer.\<close>

definition digit_char :: "nat \<Rightarrow> char" where
  "digit_char n = char_of (48 + n mod 10)"

fun show_nat :: "nat \<Rightarrow> string" where
  "show_nat n = (if n < 10 then [digit_char n] else show_nat (n div 10) @ [digit_char n])"

declare show_nat.simps [simp del]

definition show_int :: "int \<Rightarrow> string" where
  "show_int i = (if i < 0 then ''-'' @ show_nat (nat (- i)) else show_nat (nat i))"

text \<open>The UTF-8 encoding of the dash (U+2014) in the engine's messages.\<close>

definition em_dash :: string where
  "em_dash = [CHR 0xE2, CHR 0x80, CHR 0x94]"

section \<open>Results that may raise\<close>

type_synonym ('e, 'a) res = "'e + 'a"

fun bind_res :: "('e, 'a) res \<Rightarrow> ('a \<Rightarrow> ('e, 'b) res) \<Rightarrow> ('e, 'b) res" where
  "bind_res (Inl e) f = Inl e"
| "bind_res (Inr x) f = f x"

lemma bind_res_Inr: "bind_res m f = Inr y \<longleftrightarrow> (\<exists>x. m = Inr x \<and> f x = Inr y)"
  by (cases m) simp_all

text \<open>The same with a state, which an exception leaves as it is at that point.\<close>

definition then_do ::
  "('e, 'a) res \<times> 's \<Rightarrow> ('a \<Rightarrow> 's \<Rightarrow> ('e, 'b) res \<times> 's) \<Rightarrow> ('e, 'b) res \<times> 's" where
  "then_do m f = (case m of (Inl e, s) \<Rightarrow> (Inl e, s) | (Inr x, s) \<Rightarrow> f x s)"

lemma then_do_Inr:
  "then_do m f = (Inr y, s') \<longleftrightarrow> (\<exists>x s. m = (Inr x, s) \<and> f x s = (Inr y, s'))"
  by (auto simp: then_do_def split: prod.splits sum.splits)

lemma then_do_simps [simp]: "then_do (Inl e, s) f = (Inl e, s)" "then_do (Inr x, s) f = f x s"
  by (simp_all add: then_do_def)

section \<open>The first element of a stable sort\<close>

text \<open>
  \<open>items.sort(key=f); return items[0]\<close>: Python's sort is stable, as \<open>sort_key\<close> is. On an empty
  list the subscript raises; the callers guard that case, and here it is \<open>None\<close>.
\<close>

definition first_sorted :: "('a \<Rightarrow> 'k::linorder) \<Rightarrow> 'a list \<Rightarrow> 'a option" where
  "first_sorted f xs = (case sort_key f xs of [] \<Rightarrow> None | x # _ \<Rightarrow> Some x)"

lemma first_sorted_None [simp]: "first_sorted f xs = None \<longleftrightarrow> xs = []"
proof -
  have "sort_key f xs = [] \<longleftrightarrow> xs = []"
    by (metis length_0_conv length_sort)
  then show ?thesis by (auto simp: first_sorted_def split: list.splits)
qed

lemma first_sorted_in: "first_sorted f xs = Some x \<Longrightarrow> x \<in> set xs"
  by (auto simp: first_sorted_def split: list.splits) (metis list.set_intros(1) set_sort)

lemma first_sorted_least:
  assumes "first_sorted f xs = Some x" and "y \<in> set xs"
  shows "f x \<le> f y"
proof -
  obtain zs where zs: "sort_key f xs = x # zs"
    using assms(1) by (auto simp: first_sorted_def split: list.splits)
  have "sorted (map f (x # zs))"
    using sorted_sort_key [of f xs] zs by simp
  moreover have "y \<in> set (x # zs)"
    using assms(2) zs by (metis set_sort)
  ultimately show ?thesis by auto
qed

lemma first_sorted_single [simp]: "first_sorted f [x] = Some x"
  by (simp add: first_sorted_def)

end
