(* ===== verification/Loader.thy ===== *)
theory Loader
  imports Prelude "HOL-Library.AList" "HOL-Library.List_Lexorder" "HOL-Library.Char_ord"
begin

text \<open>
  The policy loader (\<open>norviq/engine/policy_loader.py\<close>) with the Postgres tables it writes and the
  evaluator's own policy index (\<open>load_policy\<close>, \<open>unload_policy\<close>, \<open>reload_policy\<close> of
  \<open>norviq/engine/evaluator.py\<close>). The tables are the durable state; a replica holds the in-memory
  state of one process and the list of Redis operations it has issued. Each SQL statement is a
  function on the rows; the database clock and the process clock are arguments, as are the fresh
  row identifiers.
\<close>

section \<open>Rows, entries and replicas\<close>

type_synonym 'a dict = "(string \<times> 'a) list"

record policy_row =
  pr_id :: nat
  pr_name :: string
  pr_namespace :: string
  pr_agent_class :: string
  pr_rego_source :: string
  pr_version :: int
  pr_enforcement_mode :: "string option"
  pr_priority :: "int option"
  pr_created_at :: time
  pr_applied_at :: "time option"

record version_row =
  vr_policy_id :: nat
  vr_version :: int
  vr_rego_source :: string
  vr_saved_at :: time
  vr_saved_by :: "string option"
  vr_priority :: "int option"
  vr_enforcement_mode :: "string option"

record db =
  db_policies :: "policy_row list"
  db_versions :: "version_row list"

record loader_entry =
  en_rego :: string
  en_priority :: int
  en_mode :: string

record policy_version =
  pv_version :: int
  pv_rego_source :: string
  pv_priority :: int
  pv_enforcement_mode :: string
  pv_saved_by :: string
  pv_saved_at :: time

record index_entry =
  ix_rego :: string
  ix_priority :: int
  ix_package_name :: "string option"

datatype effect =
    Mirror_delete string string
  | Mirror_set string string string int int
  | Invalidate_eval string "string option"
  | Publish_invalidated string
  | Publish_event string string string int

record replica =
  rp_policies :: "loader_entry dict"
  rp_versions :: "policy_version list dict"
  rp_applied_at :: "time dict"
  rp_warmed :: bool
  rp_index :: "index_entry dict"
  rp_pool :: bool
  rp_effects :: "effect list"

datatype loader_error = Db_error | Version_not_found

definition max_versions :: nat where
  "max_versions = 10"

definition remediation_suffix :: string where
  "remediation_suffix = ''__remediation__''"

definition policy_key :: "string \<Rightarrow> string \<Rightarrow> string" where
  "policy_key ns cls = ns @ '':'' @ cls"

definition stored_priority :: "int option \<Rightarrow> int" where
  "stored_priority v = (case v of None \<Rightarrow> 100 | Some p \<Rightarrow> p)"

text \<open>\<open>str(value or "block")\<close> and \<open>str(value or "")\<close>.\<close>

definition stored_mode :: "string option \<Rightarrow> string" where
  "stored_mode m = (case m of None \<Rightarrow> ''block'' | Some s \<Rightarrow> if s = '''' then ''block'' else s)"

definition stored_text :: "string option \<Rightarrow> string" where
  "stored_text m = (case m of None \<Rightarrow> '''' | Some s \<Rightarrow> s)"

definition last_n :: "nat \<Rightarrow> 'a list \<Rightarrow> 'a list" where
  "last_n n xs = drop (length xs - n) xs"

section \<open>The package header\<close>

text \<open>
  \<open>_PACKAGE_RE\<close>, \<open>(?m)^\s*package\s+([A-Za-z0-9_.]+)\s*$\<close>, tried at each line start. No repetition
  of it needs backtracking except the last, where some line end inside the blanks suffices.
\<close>

definition is_ident_char :: "char \<Rightarrow> bool" where
  "is_ident_char c = (let n = of_char c :: nat in
     65 \<le> n \<and> n \<le> 90 \<or> 97 \<le> n \<and> n \<le> 122 \<or> 48 \<le> n \<and> n \<le> 57 \<or> c = CHR ''_'' \<or> c = CHR ''.'')"

definition package_at :: "string \<Rightarrow> string option" where
  "package_at s =
     (let s1 = dropWhile is_space s
      in if \<not> starts_with s1 ''package'' then None
         else let s2 = drop 7 s1;
                  s3 = dropWhile is_space s2;
                  name = takeWhile is_ident_char s3;
                  s4 = dropWhile is_ident_char s3
           in if s3 \<noteq> s2 \<and> name \<noteq> []
                 \<and> (dropWhile is_space s4 = [] \<or> CHR 0x0A \<in> set (takeWhile is_space s4))
              then Some name else None)"

lemma dropWhile_Cons_length: "dropWhile P s = x # rest \<Longrightarrow> length rest < length s"
  using length_dropWhile_le [of P s] by simp

function package_search :: "string \<Rightarrow> string option" where
  "package_search s =
     (case package_at s of
        Some name \<Rightarrow> Some name
      | None \<Rightarrow> (case dropWhile (\<lambda>c. c \<noteq> CHR 0x0A) s of [] \<Rightarrow> None | _ # rest \<Rightarrow> package_search rest))"
  by pat_completeness auto
termination
  by (relation "measure length") (simp_all add: dropWhile_Cons_length)

declare package_search.simps [simp del]

definition extract_package_name :: "string \<Rightarrow> string option" where
  "extract_package_name rego = (if rego = '''' then None else map_option strip (package_search rego))"

section \<open>The evaluator's policy index\<close>

definition load_policy :: "string \<Rightarrow> string \<Rightarrow> string \<Rightarrow> int \<Rightarrow> replica \<Rightarrow> replica" where
  "load_policy ns cls rego prio rp =
     rp\<lparr>rp_index := AList.update (policy_key ns cls)
       \<lparr>ix_rego = rego, ix_priority = prio, ix_package_name = extract_package_name rego\<rparr>
       (rp_index rp)\<rparr>"

definition unload_policy :: "string \<Rightarrow> string \<Rightarrow> replica \<Rightarrow> replica" where
  "unload_policy ns cls rp = rp\<lparr>rp_index := AList.delete (policy_key ns cls) (rp_index rp)\<rparr>"

definition reload_policy :: "string \<Rightarrow> string \<Rightarrow> string \<Rightarrow> int option \<Rightarrow> replica \<Rightarrow> replica" where
  "reload_policy ns cls rego prio rp =
     (let resolved = (case prio of Some p \<Rightarrow> p
            | None \<Rightarrow> (case map_of (rp_index rp) (policy_key ns cls) of
                 Some e \<Rightarrow> ix_priority e | None \<Rightarrow> 100))
      in load_policy ns cls rego resolved rp)"

section \<open>Table operations\<close>

definition row_matches :: "string \<Rightarrow> string \<Rightarrow> policy_row \<Rightarrow> bool" where
  "row_matches ns cls r \<longleftrightarrow> pr_namespace r = ns \<and> pr_agent_class r = cls"

definition select_row :: "db \<Rightarrow> string \<Rightarrow> string \<Rightarrow> policy_row option" where
  "select_row d ns cls =
     first_sorted (\<lambda>r. - pr_version r) (filter (row_matches ns cls) (db_policies d))"

definition entry_of_row :: "policy_row \<Rightarrow> loader_entry" where
  "entry_of_row r =
     \<lparr>en_rego = pr_rego_source r, en_priority = stored_priority (pr_priority r),
      en_mode = stored_mode (pr_enforcement_mode r)\<rparr>"

definition upsert_row ::
  "nat \<Rightarrow> string \<Rightarrow> string \<Rightarrow> string \<Rightarrow> string \<Rightarrow> string \<Rightarrow> int \<Rightarrow> time \<Rightarrow> db \<Rightarrow> db" where
  "upsert_row pid name ns cls rego mode prio now d =
     (if list_ex (row_matches ns cls) (db_policies d)
      then d\<lparr>db_policies := map (\<lambda>r. if row_matches ns cls r
             then r\<lparr>pr_rego_source := rego, pr_version := pr_version r + 1,
                    pr_priority := Some prio, pr_enforcement_mode := Some mode,
                    pr_created_at := now, pr_applied_at := Some now\<rparr>
             else r) (db_policies d)\<rparr>
      else d\<lparr>db_policies := db_policies d @
             [\<lparr>pr_id = pid, pr_name = name, pr_namespace = ns, pr_agent_class = cls,
               pr_rego_source = rego, pr_version = 1, pr_enforcement_mode = Some mode,
               pr_priority = Some prio, pr_created_at = now, pr_applied_at = Some now\<rparr>]\<rparr>)"

definition insert_version :: "version_row \<Rightarrow> db \<Rightarrow> db" where
  "insert_version v d = d\<lparr>db_versions := db_versions d @ [v]\<rparr>"

definition select_versions :: "db \<Rightarrow> string \<Rightarrow> string \<Rightarrow> version_row list" where
  "select_versions d ns cls =
     sort_key vr_version
       (filter (\<lambda>v. list_ex (\<lambda>r. pr_id r = vr_policy_id v \<and> row_matches ns cls r) (db_policies d))
         (db_versions d))"

definition version_of_row :: "version_row \<Rightarrow> policy_version" where
  "version_of_row v =
     \<lparr>pv_version = vr_version v, pv_rego_source = vr_rego_source v,
      pv_priority = stored_priority (vr_priority v),
      pv_enforcement_mode = stored_mode (vr_enforcement_mode v),
      pv_saved_by = stored_text (vr_saved_by v), pv_saved_at = vr_saved_at v\<rparr>"

section \<open>Process-local operations\<close>

definition emit :: "effect \<Rightarrow> replica \<Rightarrow> replica" where
  "emit e rp = rp\<lparr>rp_effects := rp_effects rp @ [e]\<rparr>"

definition update_memory :: "string \<Rightarrow> string \<Rightarrow> int \<Rightarrow> string \<Rightarrow> replica \<Rightarrow> replica" where
  "update_memory key rego prio mode rp =
     rp\<lparr>rp_policies := AList.update key
       \<lparr>en_rego = rego, en_priority = prio, en_mode = mode\<rparr> (rp_policies rp)\<rparr>"

definition mark_applied :: "string \<Rightarrow> string \<Rightarrow> time option \<Rightarrow> time \<Rightarrow> replica \<Rightarrow> replica" where
  "mark_applied ns cls applied clock rp =
     rp\<lparr>rp_applied_at := AList.update (policy_key ns cls)
       (case applied of Some t \<Rightarrow> t | None \<Rightarrow> clock) (rp_applied_at rp)\<rparr>"

definition get_entry :: "replica \<Rightarrow> string \<Rightarrow> string \<Rightarrow> loader_entry option" where
  "get_entry rp ns cls = map_of (rp_policies rp) (policy_key ns cls)"

definition get_current :: "replica \<Rightarrow> string \<Rightarrow> string \<Rightarrow> string option" where
  "get_current rp ns cls = map_option en_rego (get_entry rp ns cls)"

definition get_versions :: "replica \<Rightarrow> string \<Rightarrow> string \<Rightarrow> policy_version list" where
  "get_versions rp ns cls =
     (case map_of (rp_versions rp) (policy_key ns cls) of None \<Rightarrow> [] | Some h \<Rightarrow> h)"

definition get_applied_at :: "replica \<Rightarrow> string \<Rightarrow> string \<Rightarrow> time option" where
  "get_applied_at rp ns cls = map_of (rp_applied_at rp) (policy_key ns cls)"

definition policy_count :: "replica \<Rightarrow> nat" where
  "policy_count rp = length (rp_policies rp)"

text \<open>
  The scope of cached decisions that a policy change invalidates: the whole namespace (\<open>None\<close>) for
  the reserved scopes and the namespace and workload tiers, the base class for a remediation overlay.
\<close>

definition eval_scope_target :: "string \<Rightarrow> string option" where
  "eval_scope_target cls =
     (if starts_with cls ''__'' \<or> starts_with cls ''namespace:'' \<or> starts_with cls ''deployment:''
      then None
      else if ends_with cls remediation_suffix \<and> length remediation_suffix < length cls
      then Some (take (length cls - length remediation_suffix) cls)
      else Some cls)"

definition invalidate_eval_for_policy_scope :: "string \<Rightarrow> string \<Rightarrow> replica \<Rightarrow> replica" where
  "invalidate_eval_for_policy_scope ns cls = emit (Invalidate_eval ns (eval_scope_target cls))"

definition publish_invalidated :: "string \<Rightarrow> replica \<Rightarrow> replica" where
  "publish_invalidated key rp = (if rp_pool rp then emit (Publish_invalidated key) rp else rp)"

definition unload_local :: "string \<Rightarrow> string \<Rightarrow> replica \<Rightarrow> bool \<times> replica" where
  "unload_local ns cls rp =
     (let key = policy_key ns cls;
          was_loaded = (map_of (rp_policies rp) key \<noteq> None);
          rp1 = rp\<lparr>rp_policies := AList.delete key (rp_policies rp),
                   rp_versions := AList.delete key (rp_versions rp)\<rparr>
      in (was_loaded, invalidate_eval_for_policy_scope ns cls (unload_policy ns cls rp1)))"

section \<open>Loader operations\<close>

text \<open>
  What one call takes from its environment: whether its main transaction and its best-effort one
  succeed, the database's and the process's clock, a fresh row identifier and the retention settings.
\<close>

record io =
  io_db_up :: bool
  io_aux_up :: bool
  io_now :: time
  io_clock :: time
  io_fresh :: nat
  io_keep_count :: nat
  io_keep_days :: int

type_synonym 'a outcome = "(loader_error, 'a) res \<times> db \<times> replica"

definition scope_exists :: "db \<Rightarrow> string \<Rightarrow> string \<Rightarrow> bool" where
  "scope_exists d ns cls = list_ex (row_matches ns cls) (db_policies d)"

definition count_namespace_scopes :: "db \<Rightarrow> string \<Rightarrow> nat" where
  "count_namespace_scopes d ns = length (filter (\<lambda>r. pr_namespace r = ns) (db_policies d))"

definition latest_versions :: "nat \<Rightarrow> version_row list \<Rightarrow> int list" where
  "latest_versions keep vs = take keep (rev (sort (map vr_version vs)))"

definition prune_versions :: "io \<Rightarrow> string \<Rightarrow> string \<Rightarrow> db \<Rightarrow> nat \<times> db" where
  "prune_versions io ns cls d =
     (if \<not> io_aux_up io then (0, d)
      else case select_row d ns cls of
          None \<Rightarrow> (0, d)
        | Some row \<Rightarrow>
            let cutoff = io_clock io - of_int (io_keep_days io) * 86400;
                own = filter (\<lambda>v. vr_policy_id v = pr_id row) (db_versions d);
                kept = filter (\<lambda>v. \<not> (vr_policy_id v = pr_id row
                         \<and> vr_version v \<noteq> pr_version row
                         \<and> vr_saved_at v < cutoff
                         \<and> vr_version v \<notin> set (latest_versions (io_keep_count io) own)))
                       (db_versions d)
            in (length (db_versions d) - length kept, d\<lparr>db_versions := kept\<rparr>))"

definition create_policy ::
  "io \<Rightarrow> string \<Rightarrow> string \<Rightarrow> string \<Rightarrow> string \<Rightarrow> int \<Rightarrow> string \<Rightarrow> string option \<Rightarrow> db \<Rightarrow> replica
   \<Rightarrow> int outcome" where
  "create_policy io ns cls rego saved_by prio mode policy_name d rp =
     (if \<not> io_db_up io then (Inl Db_error, d, rp)
      else
       let key = policy_key ns cls;
           name = (case policy_name of None \<Rightarrow> cls | Some n \<Rightarrow> if n = '''' then cls else n);
           d1 = upsert_row (io_fresh io) name ns cls rego mode prio (io_now io) d
       in case select_row d1 ns cls of
            None \<Rightarrow> (Inl Db_error, d, rp)
          | Some row \<Rightarrow>
              let new_version = pr_version row;
                  d2 = insert_version
                    \<lparr>vr_policy_id = pr_id row, vr_version = new_version, vr_rego_source = rego,
                     vr_saved_at = io_now io, vr_saved_by = Some saved_by, vr_priority = Some prio,
                     vr_enforcement_mode = Some mode\<rparr> d1;
                  snapshot = \<lparr>pv_version = new_version, pv_rego_source = rego, pv_priority = prio,
                     pv_enforcement_mode = mode, pv_saved_by = saved_by, pv_saved_at = io_clock io\<rparr>;
                  rp1 = rp\<lparr>rp_versions := AList.update key
                     (last_n max_versions (get_versions rp ns cls @ [snapshot])) (rp_versions rp)\<rparr>;
                  rp2 = update_memory key rego prio mode rp1;
                  rp3 = mark_applied ns cls (pr_applied_at row) (io_clock io) rp2;
                  rp4 = emit (Mirror_set ns cls rego prio new_version) (emit (Mirror_delete ns cls) rp3);
                  rp5 = publish_invalidated key (invalidate_eval_for_policy_scope ns cls rp4);
                  rp6 = emit (Publish_event ''upsert'' ns cls new_version) rp5;
                  rp7 = load_policy ns cls rego prio rp6
              in (Inr new_version, snd (prune_versions io ns cls d2), rp7))"

definition rollback ::
  "io \<Rightarrow> string \<Rightarrow> string \<Rightarrow> int \<Rightarrow> db \<Rightarrow> replica \<Rightarrow> string outcome" where
  "rollback io ns cls target_version d rp =
     (case find (\<lambda>item. pv_version item = target_version) (get_versions rp ns cls) of
        None \<Rightarrow> (Inl Version_not_found, d, rp)
      | Some target \<Rightarrow>
          (case create_policy io ns cls (pv_rego_source target)
                  (''rollback_to_v'' @ show_int target_version)
                  (pv_priority target) (pv_enforcement_mode target) None d rp of
             (Inl e, d', rp') \<Rightarrow> (Inl e, d', rp')
           | (Inr _, d', rp') \<Rightarrow> (Inr (pv_rego_source target), d', rp')))"

definition delete_policy :: "io \<Rightarrow> string \<Rightarrow> string \<Rightarrow> db \<Rightarrow> replica \<Rightarrow> bool outcome" where
  "delete_policy io ns cls d rp =
     (let key = policy_key ns cls;
          in_memory = (map_of (rp_policies rp) key \<noteq> None);
          rp1 = rp\<lparr>rp_policies := AList.delete key (rp_policies rp),
                   rp_versions := AList.delete key (rp_versions rp)\<rparr>
      in if \<not> io_db_up io then (Inl Db_error, d, rp1)
         else
          let ids = set (map pr_id (filter (row_matches ns cls) (db_policies d)));
              d1 = d\<lparr>db_versions := filter (\<lambda>v. vr_policy_id v \<notin> ids) (db_versions d),
                     db_policies := filter (\<lambda>r. \<not> row_matches ns cls r) (db_policies d)\<rparr>;
              db_deleted = list_ex (row_matches ns cls) (db_policies d)
          in if \<not> in_memory \<and> \<not> db_deleted then (Inr False, d1, rp1)
             else
              let rp2 = emit (Mirror_delete ns cls) (unload_policy ns cls rp1);
                  rp3 = invalidate_eval_for_policy_scope ns cls rp2;
                  rp4 = emit (Publish_event ''delete'' ns cls 0) rp3
              in (Inr True, d1, publish_invalidated key rp4))"

definition load_from_db ::
  "io \<Rightarrow> string \<Rightarrow> string \<Rightarrow> db \<Rightarrow> replica \<Rightarrow> (loader_error, loader_entry option) res \<times> replica" where
  "load_from_db io ns cls d rp =
     (if \<not> io_db_up io then (Inl Db_error, rp)
      else case select_row d ns cls of
          None \<Rightarrow> (Inr None, rp)
        | Some row \<Rightarrow>
            let key = policy_key ns cls;
                entry = entry_of_row row;
                rp1 = rp\<lparr>rp_policies := AList.update key entry (rp_policies rp)\<rparr>;
                rp2 = (case pr_applied_at row of None \<Rightarrow> rp1
                  | Some t \<Rightarrow> rp1\<lparr>rp_applied_at := AList.update key t (rp_applied_at rp1)\<rparr>)
            in (Inr (Some entry), reload_policy ns cls (en_rego entry) (Some (en_priority entry)) rp2))"

definition rehydrate_versions_for_key ::
  "io \<Rightarrow> string \<Rightarrow> string \<Rightarrow> db \<Rightarrow> replica \<Rightarrow> replica" where
  "rehydrate_versions_for_key io ns cls d rp =
     (if \<not> io_aux_up io then rp
      else let rows = select_versions d ns cls
        in if rows = [] then rp
           else rp\<lparr>rp_versions := AList.update (policy_key ns cls)
                  (last_n max_versions (map version_of_row rows)) (rp_versions rp)\<rparr>)"

definition apply_remote_event ::
  "io \<Rightarrow> string \<Rightarrow> string \<Rightarrow> string \<Rightarrow> db \<Rightarrow> replica \<Rightarrow> replica" where
  "apply_remote_event io operation ns cls d rp =
     (if operation = ''delete'' then snd (unload_local ns cls rp)
      else case load_from_db io ns cls d rp of
          (Inl _, rp') \<Rightarrow> rp'
        | (Inr None, rp') \<Rightarrow> snd (unload_local ns cls rp')
        | (Inr (Some _), rp') \<Rightarrow>
            invalidate_eval_for_policy_scope ns cls (rehydrate_versions_for_key io ns cls d rp'))"

definition reload_one ::
  "io \<Rightarrow> string \<Rightarrow> string \<Rightarrow> db \<Rightarrow> replica \<Rightarrow> (loader_error, loader_entry option) res \<times> replica" where
  "reload_one io ns cls d rp =
     (case load_from_db io ns cls d rp of
        (Inl e, rp') \<Rightarrow> (Inl e, rp')
      | (Inr None, rp') \<Rightarrow> (Inr None, snd (unload_local ns cls rp'))
      | (Inr (Some entry), rp') \<Rightarrow> (Inr (Some entry), rp'))"

definition set_row_mode :: "string \<Rightarrow> string \<Rightarrow> string \<Rightarrow> time \<Rightarrow> db \<Rightarrow> db" where
  "set_row_mode ns cls mode now d =
     d\<lparr>db_policies := map (\<lambda>r. if row_matches ns cls r
         then r\<lparr>pr_enforcement_mode := Some mode, pr_applied_at := Some now\<rparr> else r) (db_policies d)\<rparr>"

definition set_version_mode :: "string \<Rightarrow> string \<Rightarrow> int \<Rightarrow> string \<Rightarrow> db \<Rightarrow> db" where
  "set_version_mode ns cls version mode d =
     d\<lparr>db_versions := map (\<lambda>v. if vr_version v = version
           \<and> list_ex (\<lambda>r. row_matches ns cls r \<and> pr_id r = vr_policy_id v) (db_policies d)
         then v\<lparr>vr_enforcement_mode := Some mode\<rparr> else v) (db_versions d)\<rparr>"

definition patch_last_mode :: "string \<Rightarrow> policy_version list \<Rightarrow> policy_version list" where
  "patch_last_mode mode h =
     (if h = [] then h else butlast h @ [(last h)\<lparr>pv_enforcement_mode := mode\<rparr>])"

definition apply_to_target ::
  "io \<Rightarrow> string \<Rightarrow> string \<Rightarrow> string \<Rightarrow> string \<Rightarrow> string \<Rightarrow> string \<Rightarrow> db \<Rightarrow> replica
   \<Rightarrow> (int \<times> bool) option outcome" where
  "apply_to_target io src_ns src_cls ns cls saved_by mode d rp =
     (case get_entry rp src_ns src_cls of
        None \<Rightarrow> (Inr None, d, rp)
      | Some src \<Rightarrow>
          let rego = en_rego src; prio = en_priority src; key = policy_key ns cls
          in if get_current rp ns cls = Some rego then
            let existing_mode = (case get_entry rp ns cls of None \<Rightarrow> mode | Some e \<Rightarrow> en_mode e);
                mode_changed = (mode \<noteq> existing_mode);
                effective_mode = (if mode_changed then mode else existing_mode);
                versions = get_versions rp ns cls;
                current_version = (if versions = [] then 1 else pv_version (last versions))
            in if mode_changed \<and> (\<not> io_db_up io \<or> \<not> scope_exists d ns cls)
               then (Inl Db_error, d, rp)
               else
                let d1 = (if mode_changed
                          then set_version_mode ns cls current_version mode
                                 (set_row_mode ns cls mode (io_now io) d)
                          else d);
                    rp1 = (if mode_changed \<and> versions \<noteq> []
                           then rp\<lparr>rp_versions := AList.update key (patch_last_mode mode versions)
                                    (rp_versions rp)\<rparr>
                           else rp);
                    rp2 = mark_applied ns cls (if mode_changed then Some (io_now io) else None)
                            (io_clock io) rp1;
                    rp3 = update_memory key rego prio effective_mode rp2;
                    rp4 = publish_invalidated key (invalidate_eval_for_policy_scope ns cls rp3);
                    rp5 = load_policy ns cls rego prio rp4;
                    rp6 = (if mode_changed
                           then emit (Publish_event ''upsert'' ns cls current_version) rp5 else rp5)
                in (Inr (Some (current_version, False)), d1, rp6)
          else case create_policy io ns cls rego saved_by prio mode None d rp of
                 (Inl e, d', rp') \<Rightarrow> (Inl e, d', rp')
               | (Inr version, d', rp') \<Rightarrow> (Inr (Some (version, True)), d', rp'))"

text \<open>\<open>key.split(":", 1)\<close> of a key that has a colon, and \<open>key.partition(":")\<close>.\<close>

definition split_key :: "string \<Rightarrow> string \<times> string" where
  "split_key key =
     (takeWhile (\<lambda>c. c \<noteq> CHR '':'') key, drop 1 (dropWhile (\<lambda>c. c \<noteq> CHR '':'') key))"

definition namespaces_for_class :: "io \<Rightarrow> string \<Rightarrow> db \<Rightarrow> replica \<Rightarrow> string list" where
  "namespaces_for_class io cls d rp =
     (let classes = {cls, cls @ ''__remediation__''};
          in_memory = map fst (filter (\<lambda>(ns, ac). ac \<in> classes \<and> ns \<notin> {''all'', ''__cluster__''})
            (map (split_key \<circ> fst) (rp_policies rp)));
          in_db = (if io_db_up io
            then map pr_namespace (filter (\<lambda>r. pr_agent_class r \<in> classes \<and> pr_namespace r \<noteq> ''all'')
                   (db_policies d))
            else [])
      in sort (remdups (in_memory @ in_db)))"

definition load_source :: "(string \<times> int) option \<Rightarrow> string \<Rightarrow> string \<Rightarrow> replica \<Rightarrow> string option \<times> replica" where
  "load_source mirror ns cls rp =
     (case get_entry rp ns cls of
        Some e \<Rightarrow> (Some (en_rego e), rp)
      | None \<Rightarrow>
          (case mirror of
             None \<Rightarrow> (None, rp)
           | Some (rego, prio) \<Rightarrow>
               (Some rego, update_memory (policy_key ns cls) rego prio ''block'' rp)))"

definition reload_all :: "replica \<Rightarrow> nat \<times> replica" where
  "reload_all rp =
     (length (rp_policies rp),
      fold (\<lambda>(key, entry) acc. case split_key key of (ns, cls) \<Rightarrow>
          load_policy ns cls (en_rego entry) (en_priority entry) acc) (rp_policies rp) rp)"

fun hydrate_one :: "string \<times> string \<times> int \<Rightarrow> nat \<times> replica \<Rightarrow> nat \<times> replica" where
  "hydrate_one (key, rego, prio) (n, rp) =
     (if \<not> starts_with key ''policy:'' then (n, rp)
      else let rest = drop 7 key
        in if CHR '':'' \<notin> set rest then (n, rp)
           else case split_key rest of (ns, cls) \<Rightarrow>
             (n + 1, load_policy ns cls rego prio
                       (update_memory (policy_key ns cls) rego prio ''block'' rp)))"

definition load_all_from_redis :: "(string \<times> string \<times> int) list \<Rightarrow> replica \<Rightarrow> nat \<times> replica" where
  "load_all_from_redis entries rp = fold hydrate_one entries (0, rp)"

definition warm_row ::
  "policy_row \<Rightarrow> loader_entry dict \<times> time dict \<times> replica \<Rightarrow> loader_entry dict \<times> time dict \<times> replica" where
  "warm_row row acc =
     (case acc of (ps, ap, rp) \<Rightarrow>
       let key = policy_key (pr_namespace row) (pr_agent_class row); entry = entry_of_row row
       in if map_of ps key \<noteq> None then acc
          else (AList.update key entry ps,
                (case pr_applied_at row of None \<Rightarrow> ap | Some t \<Rightarrow> AList.update key t ap),
                reload_policy (pr_namespace row) (pr_agent_class row) (en_rego entry)
                  (Some (en_priority entry)) rp))"

definition joined_versions :: "db \<Rightarrow> (policy_row \<times> version_row) list" where
  "joined_versions d =
     sort_key (\<lambda>(r, v). (pr_namespace r, pr_agent_class r, vr_version v))
       (concat (map (\<lambda>v. map (\<lambda>r. (r, v)) (filter (\<lambda>r. pr_id r = vr_policy_id v) (db_policies d)))
         (db_versions d)))"

definition append_snapshot ::
  "policy_row \<times> version_row \<Rightarrow> policy_version list dict \<Rightarrow> policy_version list dict" where
  "append_snapshot rv m =
     (case rv of (r, v) \<Rightarrow>
       let key = policy_key (pr_namespace r) (pr_agent_class r);
           h = (case map_of m key of None \<Rightarrow> [] | Some h \<Rightarrow> h)
       in AList.update key (h @ [version_of_row v]) m)"

definition rehydrate_versions :: "io \<Rightarrow> db \<Rightarrow> replica \<Rightarrow> replica" where
  "rehydrate_versions io d rp =
     (if \<not> io_aux_up io then rp
      else let rehydrated = map (\<lambda>(k, h). (k, last_n max_versions h))
                  (fold append_snapshot (joined_versions d) [])
        in rp\<lparr>rp_versions := AList.merge rehydrated (rp_versions rp)\<rparr>)"

definition warm_cache :: "io \<Rightarrow> db \<Rightarrow> replica \<Rightarrow> (loader_error, unit) res \<times> replica" where
  "warm_cache io d rp =
     (if \<not> io_db_up io then (Inl Db_error, rp)
      else let rows = sort_key (\<lambda>r. (pr_namespace r, pr_agent_class r, - pr_version r)) (db_policies d)
        in case fold warm_row rows ([], [], rp) of (ps, ap, rp1) \<Rightarrow>
          let rp2 = rp1\<lparr>rp_policies := AList.merge (rp_policies rp1) ps,
                        rp_applied_at := AList.merge ap (rp_applied_at rp1)\<rparr>
          in (Inr (), (rehydrate_versions io d rp2)\<lparr>rp_warmed := True\<rparr>))"

lemmas [loader_defs] =
  load_policy_def unload_policy_def reload_policy_def emit_def update_memory_def mark_applied_def
  get_entry_def get_current_def get_versions_def get_applied_at_def
  invalidate_eval_for_policy_scope_def publish_invalidated_def unload_local_def

end
