(* ===== verification/Loader_Props.thy ===== *)
theory Loader_Props
  imports Loader
begin

text \<open>
  Correctness of the policy loader: the tables stay well formed under every mutation, what a replica
  holds in memory is what the tables say, deletion reaches every layer, rollback restores the
  version it names, and a peer that handles an upsert event converges to the tables. Two lemmas show
  where the code departs from that.
\<close>

section \<open>Keys\<close>

definition plain :: "string \<Rightarrow> bool" where
  "plain ns \<longleftrightarrow> CHR '':'' \<notin> set ns"

lemma split_policy_key: "plain ns \<Longrightarrow> split_key (policy_key ns cls) = (ns, cls)"
  by (auto simp: split_key_def policy_key_def plain_def takeWhile_append dropWhile_append)

lemma policy_key_inject:
  "\<lbrakk>plain ns; plain ns'\<rbrakk> \<Longrightarrow> policy_key ns cls = policy_key ns' cls' \<longleftrightarrow> ns = ns' \<and> cls = cls'"
  by (metis split_policy_key prod.inject)

section \<open>Well-formed tables\<close>

abbreviation scopes :: "db \<Rightarrow> (string \<times> string) list" where
  "scopes d \<equiv> map (\<lambda>r. (pr_namespace r, pr_agent_class r)) (db_policies d)"

definition backs :: "version_row \<Rightarrow> policy_row \<Rightarrow> bool" where
  "backs v r \<longleftrightarrow> vr_policy_id v = pr_id r \<and> vr_version v = pr_version r
     \<and> vr_rego_source v = pr_rego_source r \<and> vr_priority v = pr_priority r
     \<and> vr_enforcement_mode v = pr_enforcement_mode r"

definition db_wf :: "db \<Rightarrow> bool" where
  "db_wf d \<longleftrightarrow> distinct (scopes d) \<and> distinct (map pr_id (db_policies d))
     \<and> list_all (\<lambda>r. list_ex (\<lambda>v. backs v r) (db_versions d)) (db_policies d)
     \<and> list_all (\<lambda>v. list_ex (\<lambda>r. pr_id r = vr_policy_id v \<and> vr_version v \<le> pr_version r)
         (db_policies d)) (db_versions d)"

lemma db_wf_version_row:
  "\<lbrakk>db_wf d; v \<in> set (db_versions d)\<rbrakk>
   \<Longrightarrow> \<exists>r \<in> set (db_policies d). pr_id r = vr_policy_id v \<and> vr_version v \<le> pr_version r"
  by (simp add: db_wf_def list_all_iff list_ex_iff)

lemma db_wf_backed:
  "\<lbrakk>db_wf d; r \<in> set (db_policies d)\<rbrakk> \<Longrightarrow> \<exists>v \<in> set (db_versions d). backs v r"
  by (simp add: db_wf_def list_all_iff list_ex_iff)

lemma db_wf_same_id:
  "\<lbrakk>db_wf d; r \<in> set (db_policies d); q \<in> set (db_policies d); pr_id r = pr_id q\<rbrakk> \<Longrightarrow> r = q"
  by (auto simp: db_wf_def distinct_map dest: inj_onD)

text \<open>What the tables say is enforced for a scope.\<close>

definition db_entry :: "db \<Rightarrow> string \<Rightarrow> string \<Rightarrow> loader_entry option" where
  "db_entry d ns cls = map_option entry_of_row (select_row d ns cls)"

lemma select_row_None:
  "select_row d ns cls = None \<longleftrightarrow> \<not> scope_exists d ns cls"
  by (auto simp: select_row_def scope_exists_def filter_empty_conv list_ex_iff)

lemma select_row_in:
  "select_row d ns cls = Some r \<Longrightarrow> r \<in> set (db_policies d) \<and> row_matches ns cls r"
  unfolding select_row_def by (auto dest: first_sorted_in)

lemma distinct_scopes_unique:
  "\<lbrakk>distinct (scopes d); r \<in> set (db_policies d); q \<in> set (db_policies d);
    row_matches ns cls r; row_matches ns cls q\<rbrakk> \<Longrightarrow> r = q"
  by (auto simp: distinct_map row_matches_def dest: inj_onD)

lemma select_row_eq:
  assumes "distinct (scopes d)" "r \<in> set (db_policies d)" "row_matches ns cls r"
  shows "select_row d ns cls = Some r"
proof -
  have "scope_exists d ns cls"
    using assms by (auto simp: scope_exists_def list_ex_iff)
  then obtain q where q: "select_row d ns cls = Some q"
    by (metis not_None_eq select_row_None)
  with assms distinct_scopes_unique [OF assms(1)] select_row_in [OF q] show ?thesis
    by metis
qed

lemma select_row_iff:
  "distinct (scopes d) \<Longrightarrow>
   select_row d ns cls = Some r \<longleftrightarrow> r \<in> set (db_policies d) \<and> row_matches ns cls r"
  using select_row_eq select_row_in by metis

lemma row_matches_same: "row_matches ns cls r \<Longrightarrow> row_matches ns' cls' r \<longleftrightarrow> ns = ns' \<and> cls = cls'"
  by (auto simp: row_matches_def)

lemma select_row_cong:
  "filter (row_matches ns cls) (db_policies d) = filter (row_matches ns cls) (db_policies d')
   \<Longrightarrow> select_row d ns cls = select_row d' ns cls"
  by (simp add: select_row_def)

section \<open>Table operations\<close>

definition upserted ::
  "nat \<Rightarrow> string \<Rightarrow> string \<Rightarrow> string \<Rightarrow> string \<Rightarrow> string \<Rightarrow> int \<Rightarrow> time \<Rightarrow> db \<Rightarrow> policy_row" where
  "upserted pid name ns cls rego mode prio now d =
     (case select_row d ns cls of
        Some r \<Rightarrow> r\<lparr>pr_rego_source := rego, pr_version := pr_version r + 1, pr_priority := Some prio,
                    pr_enforcement_mode := Some mode, pr_created_at := now, pr_applied_at := Some now\<rparr>
      | None \<Rightarrow> \<lparr>pr_id = pid, pr_name = name, pr_namespace = ns, pr_agent_class = cls,
                 pr_rego_source = rego, pr_version = 1, pr_enforcement_mode = Some mode,
                 pr_priority = Some prio, pr_created_at = now, pr_applied_at = Some now\<rparr>)"

lemma filter_map_if_other:
  "(\<And>x. P x \<Longrightarrow> \<not> Q (f x)) \<Longrightarrow> (\<And>x. P x \<Longrightarrow> \<not> Q x) \<Longrightarrow>
   filter Q (map (\<lambda>x. if P x then f x else x) xs) = filter Q xs"
  by (induction xs) auto

lemma upsert_other:
  assumes "(ns', cls') \<noteq> (ns, cls)"
  shows "select_row (upsert_row pid name ns cls rego mode prio now d) ns' cls' = select_row d ns' cls'"
  using assms
  by (intro select_row_cong)
     (auto simp: upsert_row_def row_matches_def intro!: filter_map_if_other)

lemma scopes_upsert:
  "scopes (upsert_row pid name ns cls rego mode prio now d) =
   (if scope_exists d ns cls then scopes d else scopes d @ [(ns, cls)])"
  by (auto simp: upsert_row_def scope_exists_def)

lemma upsert_distinct:
  "distinct (scopes d) \<Longrightarrow> distinct (scopes (upsert_row pid name ns cls rego mode prio now d))"
  unfolding scopes_upsert by (auto simp: scope_exists_def list_ex_iff row_matches_def)

lemma upsert_self:
  assumes "distinct (scopes d)"
  shows "select_row (upsert_row pid name ns cls rego mode prio now d) ns cls =
         Some (upserted pid name ns cls rego mode prio now d)"
proof (cases "select_row d ns cls")
  case None
  then have "\<not> list_ex (row_matches ns cls) (db_policies d)"
    using select_row_None by (metis scope_exists_def)
  with None show ?thesis
    using upsert_distinct [OF assms, of pid name ns cls rego mode prio now]
    by (intro select_row_eq) (auto simp: upserted_def upsert_row_def row_matches_def)
next
  case (Some r)
  then have "r \<in> set (db_policies d)" "row_matches ns cls r" "scope_exists d ns cls"
    using select_row_in [OF Some] by (auto simp: scope_exists_def list_ex_iff)
  then show ?thesis
    using Some upsert_distinct [OF assms, of pid name ns cls rego mode prio now]
    by (intro select_row_eq)
       (auto simp: upserted_def upsert_row_def scope_exists_def row_matches_def image_iff)
qed

lemma prune_policies [simp]: "db_policies (snd (prune_versions io ns cls d)) = db_policies d"
  by (auto simp: prune_versions_def Let_def split: option.splits)

lemma prune_subset: "set (db_versions (snd (prune_versions io ns cls d))) \<subseteq> set (db_versions d)"
  by (auto simp: prune_versions_def Let_def split: option.splits)

lemma insert_version_policies [simp]: "db_policies (insert_version v d) = db_policies d"
  by (simp add: insert_version_def)

lemma select_row_policies:
  "db_policies d = db_policies d' \<Longrightarrow> select_row d ns cls = select_row d' ns cls"
  by (simp add: select_row_def)

lemma db_entry_policies:
  "db_policies d = db_policies d' \<Longrightarrow> db_entry d ns cls = db_entry d' ns cls"
  by (simp add: db_entry_def select_row_def)

text \<open>Pruning never removes the version that backs an enforced row.\<close>

lemma prune_keeps_backing:
  assumes "db_wf d" "r \<in> set (db_policies d)" "v \<in> set (db_versions d)" "backs v r"
  shows "v \<in> set (db_versions (snd (prune_versions io ns cls d)))"
proof (cases "io_aux_up io \<and> scope_exists d ns cls")
  case False
  then have "\<not> io_aux_up io \<or> select_row d ns cls = None"
    by (simp add: select_row_None)
  then show ?thesis
    using assms(3) by (auto simp: prune_versions_def)
next
  case True
  then obtain row where row: "select_row d ns cls = Some row"
    using select_row_None by (metis not_None_eq)
  have "vr_policy_id v = pr_id row \<Longrightarrow> row = r"
    using select_row_in [OF row] assms(2,4)
    by (intro db_wf_same_id [OF assms(1)]) (simp_all add: backs_def)
  then show ?thesis
    using assms(3,4) row True by (auto simp: prune_versions_def Let_def backs_def)
qed

lemma prune_wf:
  assumes "db_wf d"
  shows "db_wf (snd (prune_versions io ns cls d))"
proof -
  have "list_all (\<lambda>r. list_ex (\<lambda>v. backs v r) (db_versions (snd (prune_versions io ns cls d))))
      (db_policies d)"
    using assms prune_keeps_backing [OF assms]
    by (auto simp: db_wf_def list_all_iff list_ex_iff) blast
  with assms prune_subset [of io ns cls d] show ?thesis
    by (auto simp: db_wf_def list_all_iff)
qed

section \<open>Creating a policy\<close>

definition new_row :: "io \<Rightarrow> string \<Rightarrow> string \<Rightarrow> string \<Rightarrow> int \<Rightarrow> string \<Rightarrow> string option \<Rightarrow> db \<Rightarrow> policy_row" where
  "new_row io ns cls rego prio mode policy_name d =
     upserted (io_fresh io)
       (case policy_name of None \<Rightarrow> cls | Some n \<Rightarrow> if n = '''' then cls else n)
       ns cls rego mode prio (io_now io) d"

lemma new_row_fields [simp]:
  "pr_rego_source (new_row io ns cls rego prio mode pn d) = rego"
  "pr_priority (new_row io ns cls rego prio mode pn d) = Some prio"
  "pr_enforcement_mode (new_row io ns cls rego prio mode pn d) = Some mode"
  "pr_applied_at (new_row io ns cls rego prio mode pn d) = Some (io_now io)"
  "pr_version (new_row io ns cls rego prio mode pn d) =
     (case select_row d ns cls of None \<Rightarrow> 1 | Some r \<Rightarrow> pr_version r + 1)"
  by (simp_all add: new_row_def upserted_def split: option.splits)

lemma new_row_matches: "row_matches ns cls (new_row io ns cls rego prio mode pn d)"
proof (cases "select_row d ns cls")
  case None
  then show ?thesis by (simp add: new_row_def upserted_def row_matches_def)
next
  case (Some r)
  with select_row_in [OF Some] show ?thesis
    by (simp add: new_row_def upserted_def row_matches_def)
qed

text \<open>Every effect of a successful create, on the tables and on the replica.\<close>

lemma create_policy_effects:
  assumes up: "io_db_up io" and wf: "distinct (scopes d)"
    and run: "create_policy io ns cls rego saved_by prio mode pn d rp = (res, d', rp')"
  defines "row \<equiv> new_row io ns cls rego prio mode pn d"
  shows create_result: "res = Inr (pr_version row)"
    and create_row: "select_row d' ns cls = Some row"
    and create_other: "(ns', cls') \<noteq> (ns, cls) \<Longrightarrow> select_row d' ns' cls' = select_row d ns' cls'"
    and create_memory: "rp_policies rp' = AList.update (policy_key ns cls)
          \<lparr>en_rego = rego, en_priority = prio, en_mode = mode\<rparr> (rp_policies rp)"
    and create_index: "map_of (rp_index rp') (policy_key ns cls) =
          Some \<lparr>ix_rego = rego, ix_priority = prio, ix_package_name = extract_package_name rego\<rparr>"
    and create_history: "rp_versions rp' = AList.update (policy_key ns cls)
          (last_n max_versions (get_versions rp ns cls @
             [\<lparr>pv_version = pr_version row, pv_rego_source = rego, pv_priority = prio,
               pv_enforcement_mode = mode, pv_saved_by = saved_by, pv_saved_at = io_clock io\<rparr>]))
          (rp_versions rp)"
    and create_announces: "Invalidate_eval ns (eval_scope_target cls) \<in> set (rp_effects rp')"
          "Publish_event ''upsert'' ns cls (pr_version row) \<in> set (rp_effects rp')"
proof -
  let ?name = "case pn of None \<Rightarrow> cls | Some n \<Rightarrow> if n = '''' then cls else n"
  let ?d1 = "upsert_row (io_fresh io) ?name ns cls rego mode prio (io_now io) d"
  have row: "select_row ?d1 ns cls = Some row"
    unfolding row_def new_row_def by (rule upsert_self [OF wf])
  note unfolded = run [symmetric, unfolded create_policy_def Let_def row, simplified up]
  show "res = Inr (pr_version row)" "select_row d' ns cls = Some row"
    using unfolded row by (auto simp: select_row_def)
  show "(ns', cls') \<noteq> (ns, cls) \<Longrightarrow> select_row d' ns' cls' = select_row d ns' cls'"
    using unfolded upsert_other [of ns' cls' ns cls] by (auto simp: select_row_def)
  show "rp_policies rp' = AList.update (policy_key ns cls)
      \<lparr>en_rego = rego, en_priority = prio, en_mode = mode\<rparr> (rp_policies rp)"
    "map_of (rp_index rp') (policy_key ns cls) =
      Some \<lparr>ix_rego = rego, ix_priority = prio, ix_package_name = extract_package_name rego\<rparr>"
    "rp_versions rp' = AList.update (policy_key ns cls)
      (last_n max_versions (get_versions rp ns cls @
         [\<lparr>pv_version = pr_version row, pv_rego_source = rego, pv_priority = prio,
           pv_enforcement_mode = mode, pv_saved_by = saved_by, pv_saved_at = io_clock io\<rparr>]))
      (rp_versions rp)"
    "Invalidate_eval ns (eval_scope_target cls) \<in> set (rp_effects rp')"
    "Publish_event ''upsert'' ns cls (pr_version row) \<in> set (rp_effects rp')"
    using unfolded by (simp_all add: loader_defs AList.update_conv')
qed

lemma create_db:
  assumes "io_db_up io" "distinct (scopes d)"
    and "create_policy io ns cls rego saved_by prio mode pn d rp = (res, d', rp')"
  shows "\<exists>name v. d' = snd (prune_versions io ns cls (insert_version v
      (upsert_row (io_fresh io) name ns cls rego mode prio (io_now io) d)))
    \<and> backs v (upserted (io_fresh io) name ns cls rego mode prio (io_now io) d)"
proof -
  let ?name = "case pn of None \<Rightarrow> cls | Some n \<Rightarrow> if n = '''' then cls else n"
  let ?row = "new_row io ns cls rego prio mode pn d"
  have row: "select_row (upsert_row (io_fresh io) ?name ns cls rego mode prio (io_now io) d) ns cls
      = Some ?row"
    unfolding new_row_def by (rule upsert_self [OF assms(2)])
  let ?v = "\<lparr>vr_policy_id = pr_id ?row, vr_version = pr_version ?row, vr_rego_source = rego,
       vr_saved_at = io_now io, vr_saved_by = Some saved_by, vr_priority = Some prio,
       vr_enforcement_mode = Some mode\<rparr>"
  have "backs ?v ?row" by (simp add: backs_def)
  then have "backs ?v (upserted (io_fresh io) ?name ns cls rego mode prio (io_now io) d)"
    unfolding new_row_def .
  then show ?thesis
    using assms(3) [symmetric, unfolded create_policy_def Let_def row, simplified assms(1)]
    by (intro exI [of _ ?name] exI [of _ ?v]) simp
qed

lemma upsert_ids:
  "map pr_id (db_policies (upsert_row pid name ns cls rego mode prio now d)) =
   (if scope_exists d ns cls then map pr_id (db_policies d) else map pr_id (db_policies d) @ [pid])"
  by (auto simp: upsert_row_def scope_exists_def)

lemma upsert_rows:
  assumes "distinct (scopes d)"
  shows "set (db_policies (upsert_row pid name ns cls rego mode prio now d)) =
    insert (upserted pid name ns cls rego mode prio now d)
      {r \<in> set (db_policies d). \<not> row_matches ns cls r}"
proof (cases "select_row d ns cls")
  case None
  then have "\<not> list_ex (row_matches ns cls) (db_policies d)"
    using select_row_None by (metis scope_exists_def)
  with None show ?thesis
    by (auto simp: upserted_def upsert_row_def list_ex_iff)
next
  case (Some r)
  have r: "r \<in> set (db_policies d)" "row_matches ns cls r"
    using select_row_in [OF Some] by auto
  have only: "q = r" if "q \<in> set (db_policies d)" "row_matches ns cls q" for q
    using distinct_scopes_unique [OF assms that(1) r(1) that(2) r(2)] .

  have map_rows: "set (map (\<lambda>q. if row_matches ns cls q then f q else q) (db_policies d)) =
      insert (f r) {q \<in> set (db_policies d). \<not> row_matches ns cls q}" for f
  proof -
    have "{q \<in> set (db_policies d). row_matches ns cls q} = {r}"
      using r only by blast
    moreover have "set (map (\<lambda>q. if row_matches ns cls q then f q else q) (db_policies d)) =
        f ` {q \<in> set (db_policies d). row_matches ns cls q}
        \<union> {q \<in> set (db_policies d). \<not> row_matches ns cls q}"
      by (rule set_eqI) (simp add: image_iff, blast)
    ultimately show ?thesis by simp
  qed
  have "list_ex (row_matches ns cls) (db_policies d)"
    using r by (auto simp: list_ex_iff)
  then have "db_policies (upsert_row pid name ns cls rego mode prio now d) =
      map (\<lambda>q. if row_matches ns cls q
         then q\<lparr>pr_rego_source := rego, pr_version := pr_version q + 1, pr_priority := Some prio,
                pr_enforcement_mode := Some mode, pr_created_at := now, pr_applied_at := Some now\<rparr>
         else q) (db_policies d)"
    by (simp add: upsert_row_def)
  then show ?thesis
    unfolding upserted_def Some by (simp only: map_rows option.case)
qed

lemma upserted_version_mono:
  assumes "select_row d ns cls = Some r"
  shows "pr_id (upserted pid name ns cls rego mode prio now d) = pr_id r"
    and "pr_version r < pr_version (upserted pid name ns cls rego mode prio now d)"
  using assms by (simp_all add: upserted_def)

lemma create_wf:
  assumes wf: "db_wf d" and fresh: "io_fresh io \<notin> pr_id ` set (db_policies d)"
    and up: "io_db_up io"
    and run: "create_policy io ns cls rego saved_by prio mode pn d rp = (res, d', rp')"
  shows "db_wf d'"
proof -
  have dist: "distinct (scopes d)" using wf by (simp add: db_wf_def)
  obtain name row v where d': "d' = snd (prune_versions io ns cls (insert_version v
      (upsert_row (io_fresh io) name ns cls rego mode prio (io_now io) d)))"
    and row: "row = upserted (io_fresh io) name ns cls rego mode prio (io_now io) d"
    and v: "backs v row"
    using create_db [OF up dist run] by blast
  let ?d1 = "upsert_row (io_fresh io) name ns cls rego mode prio (io_now io) d"
  have rows: "set (db_policies ?d1) = insert row {r \<in> set (db_policies d). \<not> row_matches ns cls r}"
    unfolding row by (rule upsert_rows [OF dist])
  have versions: "db_versions ?d1 = db_versions d"
    by (simp add: upsert_row_def)
  have old: "\<exists>r' \<in> set (db_policies ?d1). pr_id r' = pr_id r \<and> pr_version r \<le> pr_version r'"
    if "r \<in> set (db_policies d)" for r
  proof (cases "row_matches ns cls r")
    case True
    then have "select_row d ns cls = Some r" by (rule select_row_eq [OF dist that])
    then show ?thesis
      unfolding rows row by (auto dest: upserted_version_mono intro!: order.strict_implies_order)
  qed (use that rows in auto)
  have "distinct (map pr_id (db_policies ?d1))"
    unfolding upsert_ids using wf fresh by (auto simp: db_wf_def)
  moreover have "\<exists>u \<in> insert v (set (db_versions d)). backs u r" if "r \<in> set (db_policies ?d1)" for r
    using that v wf unfolding rows by (auto simp: db_wf_def list_all_iff list_ex_iff)
  moreover have "\<exists>r \<in> set (db_policies ?d1). pr_id r = vr_policy_id u \<and> vr_version u \<le> pr_version r"
    if "u \<in> insert v (set (db_versions d))" for u
  proof (cases "u = v")
    case True
    then show ?thesis using v by (auto simp: backs_def rows)
  next
    case False
    then have "u \<in> set (db_versions d)" using that by simp
    then obtain r where "r \<in> set (db_policies d)" "pr_id r = vr_policy_id u" "vr_version u \<le> pr_version r"
      using db_wf_version_row [OF wf] by blast
    with old [of r] show ?thesis by fastforce
  qed
  ultimately have "db_wf (insert_version v ?d1)"
    using upsert_distinct [OF dist] unfolding db_wf_def
    by (simp add: insert_version_def versions list_all_iff list_ex_iff)
  then show ?thesis unfolding d' by (rule prune_wf)
qed

section \<open>Memory agrees with the tables\<close>

definition coherent :: "db \<Rightarrow> replica \<Rightarrow> bool" where
  "coherent d rp \<longleftrightarrow> (\<forall>ns cls e. plain ns \<longrightarrow> get_entry rp ns cls = Some e \<longrightarrow> db_entry d ns cls = Some e)"

lemma get_entry_update:
  assumes "plain ns" "plain ns'" "rp_policies rp' = AList.update (policy_key ns cls) e (rp_policies rp)"
  shows "get_entry rp' ns' cls' = (if ns' = ns \<and> cls' = cls then Some e else get_entry rp ns' cls')"
  using assms by (simp add: get_entry_def AList.update_conv' policy_key_inject)

lemma get_entry_delete:
  assumes "plain ns" "plain ns'" "rp_policies rp' = AList.delete (policy_key ns cls) (rp_policies rp)"
  shows "get_entry rp' ns' cls' = (if ns' = ns \<and> cls' = cls then None else get_entry rp ns' cls')"
  using assms by (simp add: get_entry_def AList.delete_conv' policy_key_inject)

lemma stored_mode_nonempty [simp]: "stored_mode m \<noteq> ''''"
  by (simp add: stored_mode_def split: option.splits)

lemma stored_mode_id: "m \<noteq> '''' \<Longrightarrow> stored_mode (Some m) = m"
  by (simp add: stored_mode_def)

text \<open>Setting an entry to what the tables say keeps the agreement; so does dropping one.\<close>

lemma coherent_update:
  assumes "coherent d rp" "plain ns" "db_entry d' ns cls = Some e"
    and "\<And>ns' cls'. (ns', cls') \<noteq> (ns, cls) \<Longrightarrow> db_entry d' ns' cls' = db_entry d ns' cls'"
    and "rp_policies rp' = AList.update (policy_key ns cls) e (rp_policies rp)"
  shows "coherent d' rp'"
  using assms get_entry_update [OF assms(2) _ assms(5)]
  by (auto simp: coherent_def split: if_splits)

lemma coherent_delete:
  assumes "coherent d rp" "plain ns"
    and "\<And>ns' cls'. (ns', cls') \<noteq> (ns, cls) \<Longrightarrow> db_entry d' ns' cls' = db_entry d ns' cls'"
    and "rp_policies rp' = AList.delete (policy_key ns cls) (rp_policies rp)"
  shows "coherent d' rp'"
  using assms get_entry_delete [OF assms(2) _ assms(4)]
  by (auto simp: coherent_def split: if_splits)

lemma create_entry:
  assumes "io_db_up io" "distinct (scopes d)" "mode \<noteq> ''''"
    and "create_policy io ns cls rego saved_by prio mode pn d rp = (res, d', rp')"
  shows "db_entry d' ns cls = Some \<lparr>en_rego = rego, en_priority = prio, en_mode = mode\<rparr>"
  using create_row [OF assms(1,2,4)] stored_mode_id [OF assms(3)]
  by (simp add: db_entry_def entry_of_row_def stored_priority_def)

lemma create_coherent:
  assumes "coherent d rp" "plain ns" "distinct (scopes d)" "mode \<noteq> ''''"
    and run: "create_policy io ns cls rego saved_by prio mode pn d rp = (res, d', rp')"
  shows "coherent d' rp'"
proof (cases "io_db_up io")
  case True
  show ?thesis
    using create_other [OF True assms(3) run] create_entry [OF True assms(3,4) run]
    by (intro coherent_update [OF assms(1,2) _ _ create_memory [OF True assms(3) run]])
       (simp_all add: db_entry_def)
next
  case False
  then show ?thesis using assms(1) run by (simp add: create_policy_def)
qed

lemma delete_db:
  assumes "io_db_up io" and "delete_policy io ns cls d rp = (res, d', rp')"
  shows "db_policies d' = filter (\<lambda>r. \<not> row_matches ns cls r) (db_policies d)"
    and "db_versions d' = filter (\<lambda>v. vr_policy_id v \<notin>
      pr_id ` {r \<in> set (db_policies d). row_matches ns cls r}) (db_versions d)"
  using assms by (auto simp: delete_policy_def Let_def split: if_splits)

lemma delete_memory:
  assumes "delete_policy io ns cls d rp = (res, d', rp')"
  shows "rp_policies rp' = AList.delete (policy_key ns cls) (rp_policies rp)"
    and "rp_versions rp' = AList.delete (policy_key ns cls) (rp_versions rp)"
  using assms by (auto simp: delete_policy_def Let_def loader_defs split: if_splits)

lemma delete_select:
  assumes "io_db_up io" "delete_policy io ns cls d rp = (res, d', rp')"
  shows "select_row d' ns' cls' = (if ns' = ns \<and> cls' = cls then None else select_row d ns' cls')"
proof -
  have "filter (row_matches ns' cls') (db_policies d') =
      (if ns' = ns \<and> cls' = cls then [] else filter (row_matches ns' cls') (db_policies d))"
    unfolding delete_db(1) [OF assms]
    by (auto simp: row_matches_def filter_empty_conv intro!: filter_cong)
  then show ?thesis by (simp add: select_row_def first_sorted_def)
qed

lemma delete_coherent:
  assumes "coherent d rp" "plain ns"
    and run: "delete_policy io ns cls d rp = (res, d', rp')"
  shows "coherent d' rp'"
proof (cases "io_db_up io")
  case True
  then show ?thesis
    using delete_select [OF True run]
    by (intro coherent_delete [OF assms(1,2) _ delete_memory(1) [OF run]]) (auto simp: db_entry_def)
next
  case False
  then have "d' = d" using run by (simp add: delete_policy_def Let_def)
  then show ?thesis
    by (intro coherent_delete [OF assms(1,2) _ delete_memory(1) [OF run]]) simp
qed

lemma delete_wf:
  assumes "db_wf d" and run: "delete_policy io ns cls d rp = (res, d', rp')"
  shows "db_wf d'"
proof (cases "io_db_up io")
  case True
  let ?gone = "pr_id ` {r \<in> set (db_policies d). row_matches ns cls r}"
  have ids: "pr_id r \<in> ?gone \<longleftrightarrow> row_matches ns cls r" if "r \<in> set (db_policies d)" for r
    using assms(1) that by (auto simp: db_wf_def distinct_map dest: inj_onD)
  have "distinct (scopes d')" "distinct (map pr_id (db_policies d'))"
    using assms(1) unfolding delete_db(1) [OF True run] by (auto simp: db_wf_def distinct_map_filter)
  moreover have "\<exists>v \<in> set (db_versions d'). backs v r" if "r \<in> set (db_policies d')" for r
  proof -
    have r: "r \<in> set (db_policies d)" "\<not> row_matches ns cls r"
      using that unfolding delete_db(1) [OF True run] by auto
    then obtain v where "v \<in> set (db_versions d)" "backs v r"
      using db_wf_backed [OF assms(1)] by blast
    with r ids [OF r(1)] show ?thesis
      unfolding delete_db(2) [OF True run] by (intro bexI [of _ v]) (auto simp: backs_def)
  qed
  moreover have "\<exists>r \<in> set (db_policies d'). pr_id r = vr_policy_id v \<and> vr_version v \<le> pr_version r"
    if "v \<in> set (db_versions d')" for v
  proof -
    have v: "v \<in> set (db_versions d)" "vr_policy_id v \<notin> ?gone"
      using that unfolding delete_db(2) [OF True run] by auto
    then obtain r where "r \<in> set (db_policies d)" "pr_id r = vr_policy_id v" "vr_version v \<le> pr_version r"
      using db_wf_version_row [OF assms(1)] by blast
    with v ids [of r] show ?thesis
      unfolding delete_db(1) [OF True run] by (intro bexI [of _ r]) simp_all
  qed
  ultimately show ?thesis by (simp add: db_wf_def list_all_iff list_ex_iff)
next
  case False
  then show ?thesis using assms by (simp add: delete_policy_def Let_def)
qed

section \<open>Reading the tables back\<close>

definition index_of :: "loader_entry \<Rightarrow> index_entry" where
  "index_of e = \<lparr>ix_rego = en_rego e, ix_priority = en_priority e,
     ix_package_name = extract_package_name (en_rego e)\<rparr>"

lemma load_from_db_down: "\<not> io_db_up io \<Longrightarrow> load_from_db io ns cls d rp = (Inl Db_error, rp)"
  by (simp add: load_from_db_def)

lemma load_from_db_absent:
  "\<lbrakk>io_db_up io; db_entry d ns cls = None\<rbrakk> \<Longrightarrow> load_from_db io ns cls d rp = (Inr None, rp)"
  by (simp add: load_from_db_def db_entry_def)

lemma load_from_db_present:
  assumes "io_db_up io" "db_entry d ns cls = Some e"
  obtains rp' where "load_from_db io ns cls d rp = (Inr (Some e), rp')"
    and "rp_policies rp' = AList.update (policy_key ns cls) e (rp_policies rp)"
    and "rp_versions rp' = rp_versions rp"
    and "map_of (rp_index rp') (policy_key ns cls) = Some (index_of e)"
    and "rp_effects rp' = rp_effects rp"
proof -
  obtain row where row: "select_row d ns cls = Some row" "e = entry_of_row row"
    using assms(2) by (auto simp: db_entry_def)
  show ?thesis
    using assms(1) row that
    by (auto simp: load_from_db_def Let_def loader_defs index_of_def AList.update_conv'
        split: option.splits)
qed

lemma unload_local_effects:
  assumes "unload_local ns cls rp = (was, rp')"
  shows "rp_policies rp' = AList.delete (policy_key ns cls) (rp_policies rp)"
    and "rp_versions rp' = AList.delete (policy_key ns cls) (rp_versions rp)"
    and "map_of (rp_index rp') (policy_key ns cls) = None"
    and "Invalidate_eval ns (eval_scope_target cls) \<in> set (rp_effects rp')"
  using assms by (auto simp: loader_defs Let_def AList.delete_conv')

lemma rehydrate_key_keeps [simp]:
  "rp_policies (rehydrate_versions_for_key io ns cls d rp) = rp_policies rp"
  "rp_index (rehydrate_versions_for_key io ns cls d rp) = rp_index rp"
  by (simp_all add: rehydrate_versions_for_key_def Let_def)

lemma load_from_db_coherent:
  assumes "coherent d rp" "plain ns" "load_from_db io ns cls d rp = (res, rp')"
  shows "coherent d rp'"
proof (cases "io_db_up io")
  case True
  show ?thesis
  proof (cases "db_entry d ns cls")
    case None
    then show ?thesis using assms load_from_db_absent [OF True None] by simp
  next
    case (Some e)
    obtain rp2 where "load_from_db io ns cls d rp = (Inr (Some e), rp2)"
      "rp_policies rp2 = AList.update (policy_key ns cls) e (rp_policies rp)"
      using load_from_db_present [OF True Some, of rp] by metis
    with assms(3) show ?thesis
      using coherent_update [OF assms(1,2) Some, of rp'] by simp
  qed
next
  case False
  then show ?thesis using assms load_from_db_down [of io] by simp
qed

lemma unload_local_coherent:
  "\<lbrakk>coherent d rp; plain ns\<rbrakk> \<Longrightarrow> coherent d (snd (unload_local ns cls rp))"
  using unload_local_effects(1) [of ns cls rp] coherent_delete [of d rp ns cls d]
  by (metis prod.collapse)

lemma coherent_same_policies:
  "\<lbrakk>coherent d rp; rp_policies rp' = rp_policies rp\<rbrakk> \<Longrightarrow> coherent d rp'"
  by (simp add: coherent_def get_entry_def)

lemma apply_remote_event_coherent:
  assumes "coherent d rp" "plain ns"
  shows "coherent d (apply_remote_event io operation ns cls d rp)"
proof -
  obtain res rp1 where load: "load_from_db io ns cls d rp = (res, rp1)" by fastforce
  note rp1 = load_from_db_coherent [OF assms load]
  have "coherent d (invalidate_eval_for_policy_scope ns cls (rehydrate_versions_for_key io ns cls d rp1))"
    by (rule coherent_same_policies [OF rp1]) (simp add: loader_defs)
  with rp1 assms show ?thesis
    using load by (auto simp: apply_remote_event_def unload_local_coherent split: sum.splits option.splits)
qed

lemma reload_one_coherent:
  assumes "coherent d rp" "plain ns" "reload_one io ns cls d rp = (res, rp')"
  shows "coherent d rp'"
proof -
  obtain r rp1 where load: "load_from_db io ns cls d rp = (r, rp1)" by fastforce
  show ?thesis
    using load_from_db_coherent [OF assms(1,2) load] assms(2,3) load
    by (auto simp: reload_one_def unload_local_coherent split: sum.splits option.splits)
qed

section \<open>Every reachable state\<close>

definition history_ok :: "policy_version list \<Rightarrow> bool" where
  "history_ok h \<longleftrightarrow> length h \<le> max_versions \<and> list_all (\<lambda>p. pv_enforcement_mode p \<noteq> '''') h"

definition modes_ok :: "replica \<Rightarrow> bool" where
  "modes_ok rp \<longleftrightarrow> (\<forall>k h. map_of (rp_versions rp) k = Some h \<longrightarrow> history_ok h)"

inductive loader_step :: "db \<times> replica \<Rightarrow> db \<times> replica \<Rightarrow> bool" where
  create: "\<lbrakk>plain ns; mode \<noteq> ''''; io_fresh io \<notin> pr_id ` set (db_policies d);
     create_policy io ns cls rego saved_by prio mode pn d rp = (res, d', rp')\<rbrakk>
   \<Longrightarrow> loader_step (d, rp) (d', rp')"
| rollback: "\<lbrakk>plain ns; io_fresh io \<notin> pr_id ` set (db_policies d);
     rollback io ns cls v d rp = (res_r, d', rp')\<rbrakk>
   \<Longrightarrow> loader_step (d, rp) (d', rp')"
| delete: "\<lbrakk>plain ns; delete_policy io ns cls d rp = (res_d, d', rp')\<rbrakk>
   \<Longrightarrow> loader_step (d, rp) (d', rp')"
| apply_new: "\<lbrakk>plain ns; mode \<noteq> ''''; io_fresh io \<notin> pr_id ` set (db_policies d);
     get_entry rp src_ns src_cls = Some src; get_current rp ns cls \<noteq> Some (en_rego src);
     apply_to_target io src_ns src_cls ns cls saved_by mode d rp = (res_a, d', rp')\<rbrakk>
   \<Longrightarrow> loader_step (d, rp) (d', rp')"
| load: "\<lbrakk>plain ns; load_from_db io ns cls d rp = (res_l, rp')\<rbrakk> \<Longrightarrow> loader_step (d, rp) (d, rp')"
| reload: "\<lbrakk>plain ns; reload_one io ns cls d rp = (res_l, rp')\<rbrakk> \<Longrightarrow> loader_step (d, rp) (d, rp')"
| remote: "plain ns \<Longrightarrow> loader_step (d, rp) (d, apply_remote_event io operation ns cls d rp)"

inductive_cases loader_stepE: "loader_step (d, rp) (d', rp')"

lemma modes_ok_update:
  assumes "modes_ok rp" "rp_versions rp' = AList.update k h (rp_versions rp)"
    and "history_ok h"
  shows "modes_ok rp'"
  using assms by (simp add: modes_ok_def AList.update_conv')

lemma modes_ok_delete:
  "\<lbrakk>modes_ok rp; rp_versions rp' = AList.delete k (rp_versions rp)\<rbrakk> \<Longrightarrow> modes_ok rp'"
  by (simp add: modes_ok_def AList.delete_conv')

lemma modes_ok_same: "\<lbrakk>modes_ok rp; rp_versions rp' = rp_versions rp\<rbrakk> \<Longrightarrow> modes_ok rp'"
  by (simp add: modes_ok_def)

lemma modes_ok_get_versions: "modes_ok rp \<Longrightarrow> history_ok (get_versions rp ns cls)"
  by (auto simp: modes_ok_def get_versions_def history_ok_def split: option.splits)

lemma last_n_subset: "set (last_n n xs) \<subseteq> set xs"
  by (simp add: last_n_def set_drop_subset)

lemma last_n_history:
  "list_all (\<lambda>p. pv_enforcement_mode p \<noteq> '''') h \<Longrightarrow> history_ok (last_n max_versions h)"
  using last_n_subset [of max_versions h]
  by (auto simp: history_ok_def list_all_iff) (simp add: last_n_def)

lemma create_modes:
  assumes "modes_ok rp" "mode \<noteq> ''''" "distinct (scopes d)"
    and run: "create_policy io ns cls rego saved_by prio mode pn d rp = (res, d', rp')"
  shows "modes_ok rp'"
proof (cases "io_db_up io")
  case True
  show ?thesis
    using modes_ok_get_versions [OF assms(1)] assms(2)
    by (intro modes_ok_update [OF assms(1) create_history [OF True assms(3) run]] last_n_history)
       (simp add: history_ok_def)
next
  case False
  then show ?thesis using assms(1) run by (simp add: create_policy_def)
qed

lemma load_from_db_modes:
  assumes "modes_ok rp" "load_from_db io ns cls d rp = (res, rp')"
  shows "modes_ok rp'"
  by (rule modes_ok_same [OF assms(1)])
     (use assms(2) in \<open>auto simp: load_from_db_def Let_def loader_defs split: option.splits if_splits\<close>)

lemma unload_local_modes: "modes_ok rp \<Longrightarrow> modes_ok (snd (unload_local ns cls rp))"
  using unload_local_effects(2) [of ns cls rp] modes_ok_delete by (metis prod.collapse)

lemma rehydrate_key_modes:
  assumes "modes_ok rp"
  shows "modes_ok (rehydrate_versions_for_key io ns cls d rp)"
proof (cases "io_aux_up io \<and> select_versions d ns cls \<noteq> []")
  case True
  then have "rp_versions (rehydrate_versions_for_key io ns cls d rp) =
      AList.update (policy_key ns cls)
        (last_n max_versions (map version_of_row (select_versions d ns cls))) (rp_versions rp)"
    by (simp add: rehydrate_versions_for_key_def)
  then show ?thesis
    by (rule modes_ok_update [OF assms _ last_n_history]) (simp add: list_all_iff version_of_row_def)
next
  case False
  then have "rehydrate_versions_for_key io ns cls d rp = rp"
    by (auto simp: rehydrate_versions_for_key_def)
  with assms show ?thesis by simp
qed

lemma apply_remote_event_modes:
  assumes "modes_ok rp"
  shows "modes_ok (apply_remote_event io operation ns cls d rp)"
proof -
  obtain res rp1 where load: "load_from_db io ns cls d rp = (res, rp1)" by fastforce
  note rp1 = load_from_db_modes [OF assms load]
  have "modes_ok (invalidate_eval_for_policy_scope ns cls (rehydrate_versions_for_key io ns cls d rp1))"
    by (rule modes_ok_same [OF rehydrate_key_modes [OF rp1]]) (simp add: loader_defs)
  with rp1 assms show ?thesis
    using load by (auto simp: apply_remote_event_def unload_local_modes split: sum.splits option.splits)
qed

lemma reload_one_modes:
  assumes "modes_ok rp" "reload_one io ns cls d rp = (res, rp')"
  shows "modes_ok rp'"
proof -
  obtain r rp1 where load: "load_from_db io ns cls d rp = (r, rp1)" by fastforce
  show ?thesis
    using load_from_db_modes [OF assms(1) load] assms(2) load
    by (auto simp: reload_one_def unload_local_modes split: sum.splits option.splits)
qed

text \<open>A rollback and an apply of new content are creates.\<close>

lemma rollback_creates:
  assumes "rollback io ns cls v d rp = (res, d', rp')"
  shows "find (\<lambda>item. pv_version item = v) (get_versions rp ns cls) = None
      \<and> d' = d \<and> rp' = rp \<and> res = Inl Version_not_found
    \<or> (\<exists>t res_c. find (\<lambda>item. pv_version item = v) (get_versions rp ns cls) = Some t
         \<and> create_policy io ns cls (pv_rego_source t) (''rollback_to_v'' @ show_int v)
             (pv_priority t) (pv_enforcement_mode t) None d rp = (res_c, d', rp')
         \<and> (res = Inr (pv_rego_source t) \<or> res_c = Inl Db_error \<and> res = Inl Db_error))"
  using assms
  by (auto simp: rollback_def create_policy_def Let_def
      split: option.splits prod.splits sum.splits if_splits)

lemma apply_creates:
  assumes "get_entry rp src_ns src_cls = Some src" "get_current rp ns cls \<noteq> Some (en_rego src)"
    and "apply_to_target io src_ns src_cls ns cls saved_by mode d rp = (res, d', rp')"
  obtains res_c where "create_policy io ns cls (en_rego src) saved_by (en_priority src) mode None d rp
      = (res_c, d', rp')"
  using assms by (auto simp: apply_to_target_def Let_def split: prod.splits sum.splits)

definition loader_inv :: "db \<times> replica \<Rightarrow> bool" where
  "loader_inv s \<longleftrightarrow> db_wf (fst s) \<and> coherent (fst s) (snd s) \<and> modes_ok (snd s)"

lemma create_inv:
  assumes "loader_inv (d, rp)" "plain ns" "mode \<noteq> ''''" "io_fresh io \<notin> pr_id ` set (db_policies d)"
    and run: "create_policy io ns cls rego saved_by prio mode pn d rp = (res, d', rp')"
  shows "loader_inv (d', rp')"
proof -
  have wf: "db_wf d" "distinct (scopes d)" "coherent d rp" "modes_ok rp"
    using assms(1) by (auto simp: loader_inv_def db_wf_def)
  have "db_wf d'"
    using create_wf [OF wf(1) assms(4) _ run] wf(1) run
    by (cases "io_db_up io") (auto simp: create_policy_def)
  then show ?thesis
    using create_coherent [OF wf(3) assms(2) wf(2) assms(3) run]
      create_modes [OF wf(4) assms(3) wf(2) run] by (simp add: loader_inv_def)
qed

lemma find_all: "\<lbrakk>find P xs = Some x; list_all Q xs\<rbrakk> \<Longrightarrow> Q x"
  by (auto simp: find_Some_iff list_all_length)

lemma loader_step_inv:
  assumes "loader_step s s'" and "loader_inv s"
  shows "loader_inv s'"
  using assms
proof (induction rule: loader_step.induct)
  case (create ns mode io d cls rego saved_by prio pn rp res d' rp')
  show ?case by (rule create_inv [OF create.prems create.hyps])
next
  case (rollback ns io d cls v rp res d' rp')
  from rollback_creates [OF rollback.hyps(3)]
  consider "(d', rp') = (d, rp)"
    | t res_c where "find (\<lambda>item. pv_version item = v) (get_versions rp ns cls) = Some t"
      "create_policy io ns cls (pv_rego_source t) (''rollback_to_v'' @ show_int v)
        (pv_priority t) (pv_enforcement_mode t) None d rp = (res_c, d', rp')"
    by blast
  then show ?case
  proof cases
    case 1
    then show ?thesis using rollback.prems by simp
  next
    case 2
    note t = 2(1) and run = 2(2)
    have "pv_enforcement_mode t \<noteq> ''''"
      using find_all [OF t, of "\<lambda>p. pv_enforcement_mode p \<noteq> ''''"]
        modes_ok_get_versions [of rp ns cls] rollback.prems
      by (simp add: loader_inv_def history_ok_def)
    then show ?thesis
      by (rule create_inv [OF rollback.prems rollback.hyps(1) _ rollback.hyps(2) run])
  qed
next
  case (delete ns io cls d rp res d' rp')
  then have "db_wf d" "coherent d rp" "modes_ok rp" by (simp_all add: loader_inv_def)
  with delete_wf [OF _ delete.hyps(2)] delete_coherent [OF _ delete.hyps]
    modes_ok_delete [OF _ delete_memory(2) [OF delete.hyps(2)]]
  show ?case by (simp add: loader_inv_def)
next
  case (apply_new ns mode io d rp src_ns src_cls src cls saved_by res d' rp')
  obtain res_c where "create_policy io ns cls (en_rego src) saved_by (en_priority src) mode None d rp
      = (res_c, d', rp')"
    using apply_creates [OF apply_new.hyps(4,5,6)] .
  then show ?case by (rule create_inv [OF apply_new.prems apply_new.hyps(1,2,3)])
next
  case (load ns io cls d rp res rp')
  then show ?case
    using load_from_db_coherent [OF _ load.hyps] load_from_db_modes [OF _ load.hyps(2)]
    by (simp add: loader_inv_def)
next
  case (reload ns io cls d rp res rp')
  then show ?case
    using reload_one_coherent [OF _ reload.hyps] reload_one_modes [OF _ reload.hyps(2)]
    by (simp add: loader_inv_def)
next
  case (remote ns d rp io operation cls)
  then show ?case
    using apply_remote_event_coherent [OF _ remote.hyps] apply_remote_event_modes
    by (simp add: loader_inv_def)
qed

definition empty_db :: db where
  "empty_db = \<lparr>db_policies = [], db_versions = []\<rparr>"

definition new_replica :: replica where
  "new_replica = \<lparr>rp_policies = [], rp_versions = [], rp_applied_at = [], rp_warmed = False,
     rp_index = [], rp_pool = True, rp_effects = []\<rparr>"

lemma reachable_inv:
  assumes "loader_step\<^sup>*\<^sup>* (empty_db, new_replica) s"
  shows "loader_inv s"
  using assms
proof (induction rule: rtranclp_induct)
  case base
  then show ?case
    by (simp add: loader_inv_def db_wf_def coherent_def modes_ok_def empty_db_def new_replica_def
        get_entry_def)
qed (rule loader_step_inv)

section \<open>Properties\<close>

text \<open>A replica on which two policies were saved, the first of them twice.\<close>

definition demo_io :: "nat \<Rightarrow> io" where
  "demo_io n = \<lparr>io_db_up = True, io_aux_up = True, io_now = of_nat n, io_clock = of_nat n,
     io_fresh = n, io_keep_count = 20, io_keep_days = 90\<rparr>"

fun demo_save :: "nat \<times> string \<times> string \<times> int \<times> string \<Rightarrow> db \<times> replica \<Rightarrow> db \<times> replica" where
  "demo_save (n, cls, rego, prio, mode) (d, rp) =
     snd (create_policy (demo_io n) ''prod'' cls rego ''alice'' prio mode None d rp)"

definition demo_saves :: "(nat \<times> string \<times> string \<times> int \<times> string) list" where
  "demo_saves = [(1, ''billing'', ''package one'', 0, ''audit''), (2, ''search'', ''package two'', 900, ''block''),
     (3, ''billing'', ''package two'', 100, ''block'')]"

definition demo_state :: "db \<times> replica" where
  "demo_state = fold demo_save demo_saves (empty_db, new_replica)"

lemma demo_save_step:
  assumes "mode \<noteq> ''''" "list_all (\<lambda>r. pr_id r \<noteq> n) (db_policies (fst s))"
  shows "loader_step s (demo_save (n, cls, rego, prio, mode) s)"
proof -
  obtain d rp where s: "s = (d, rp)" by fastforce
  obtain res d' rp' where run: "create_policy (demo_io n) ''prod'' cls rego ''alice'' prio mode None d rp
      = (res, d', rp')"
    by (metis prod_cases3)
  have "plain ''prod''" by (simp add: plain_def)
  moreover have "io_fresh (demo_io n) \<notin> pr_id ` set (db_policies d)"
    using assms(2) s by (auto simp: demo_io_def list_all_iff)
  ultimately show ?thesis
    using loader_step.create [OF _ assms(1) _ run] s run by simp
qed

lemma demo_reachable: "loader_step\<^sup>*\<^sup>* (empty_db, new_replica) demo_state"
proof -
  let ?s0 = "(empty_db, new_replica)"
  let ?s1 = "demo_save (1, ''billing'', ''package one'', 0, ''audit'') ?s0"
  let ?s2 = "demo_save (2, ''search'', ''package two'', 900, ''block'') ?s1"
  let ?s3 = "demo_save (3, ''billing'', ''package two'', 100, ''block'') ?s2"
  have "list_all (\<lambda>r. pr_id r \<noteq> 1) (db_policies (fst ?s0))"
    "list_all (\<lambda>r. pr_id r \<noteq> 2) (db_policies (fst ?s1))"
    "list_all (\<lambda>r. pr_id r \<noteq> 3) (db_policies (fst ?s2))"
    by code_simp+
  then have "loader_step ?s0 ?s1" "loader_step ?s1 ?s2" "loader_step ?s2 ?s3"
    by (simp_all add: demo_save_step del: demo_save.simps)
  then have "loader_step\<^sup>*\<^sup>* ?s0 ?s3"
    by (meson converse_rtranclp_into_rtranclp rtranclp.rtrancl_refl)
  moreover have "demo_state = ?s3"
    unfolding demo_state_def demo_saves_def by (simp del: demo_save.simps)
  ultimately show ?thesis by simp
qed





text \<open>
  C23. A delete that the database accepts reaches every layer: the row, all its versions, the memory
  and the history are gone and no later read of the tables brings the policy back. It reports whether
  anything was there, and when it was, it also clears the evaluator's index and the Redis mirror,
  invalidates the cached decisions and announces the deletion.
\<close>

theorem delete_reaches_every_layer:
  assumes "io_db_up io" and "delete_policy io ns cls d rp = (res, d', rp')" and "io_db_up io'"
  shows "select_row d' ns cls = None \<and> get_entry rp' ns cls = None \<and> get_versions rp' ns cls = []
    \<and> load_from_db io' ns cls d' q = (Inr None, q)
    \<and> res = Inr (scope_exists d ns cls \<or> get_entry rp ns cls \<noteq> None)
    \<and> list_all (\<lambda>r. row_matches ns cls r \<longrightarrow>
        list_all (\<lambda>v. vr_policy_id v \<noteq> pr_id r) (db_versions d')) (db_policies d)
    \<and> (res = Inr True \<longrightarrow> map_of (rp_index rp') (policy_key ns cls) = None
        \<and> {Mirror_delete ns cls, Invalidate_eval ns (eval_scope_target cls),
            Publish_event ''delete'' ns cls 0} \<subseteq> set (rp_effects rp'))"
proof -
  have gone: "select_row d' ns cls = None"
    using delete_select [OF assms(1,2), of ns cls] by simp
  moreover have "get_entry rp' ns cls = None" "get_versions rp' ns cls = []"
    using delete_memory [OF assms(2)] by (simp_all add: get_entry_def get_versions_def AList.delete_conv')
  moreover have "load_from_db io' ns cls d' q = (Inr None, q)"
    using assms(3) gone by (simp add: load_from_db_def)
  moreover have "res = Inr (scope_exists d ns cls \<or> get_entry rp ns cls \<noteq> None)"
    using assms(1,2)
    by (auto simp: delete_policy_def Let_def scope_exists_def get_entry_def split: if_splits)
  moreover have "list_all (\<lambda>r. row_matches ns cls r \<longrightarrow>
      list_all (\<lambda>v. vr_policy_id v \<noteq> pr_id r) (db_versions d')) (db_policies d)"
    unfolding delete_db(2) [OF assms(1,2)] by (auto simp: list_all_iff)
  moreover have "res = Inr True \<longrightarrow> map_of (rp_index rp') (policy_key ns cls) = None
      \<and> {Mirror_delete ns cls, Invalidate_eval ns (eval_scope_target cls),
          Publish_event ''delete'' ns cls 0} \<subseteq> set (rp_effects rp')"
    using assms(1,2)
    by (auto simp: delete_policy_def Let_def loader_defs AList.delete_conv' split: if_splits)
  ultimately show ?thesis by blast
qed

theorem delete_reaches_every_layer_witness:
  "fst (delete_policy (demo_io 4) ''prod'' ''billing'' (fst demo_state) (snd demo_state)) = Inr True
   \<and> select_row (fst (snd (delete_policy (demo_io 4) ''prod'' ''billing'' (fst demo_state)
       (snd demo_state)))) ''prod'' ''billing'' = None"
proof -
  obtain res d' rp' where run:
    "delete_policy (demo_io 4) ''prod'' ''billing'' (fst demo_state) (snd demo_state) = (res, d', rp')"
    by (metis prod_cases3)
  have "io_db_up (demo_io 4)" by (simp add: demo_io_def)
  moreover have "scope_exists (fst demo_state) ''prod'' ''billing''" by code_simp
  ultimately show ?thesis
    using delete_reaches_every_layer [OF _ run, of "demo_io 4"] run by simp
qed

text \<open>
  A rollback to a version of the in-memory history puts that version's own source, priority and
  mode back in force, in memory and in the tables, as a new version one above the current one.
\<close>

lemma rollback_restores_version:
  assumes "loader_step\<^sup>*\<^sup>* (empty_db, new_replica) (d, rp)" and "plain ns" and "io_db_up io"
    and "find (\<lambda>item. pv_version item = v) (get_versions rp ns cls) = Some t"
    and "rollback io ns cls v d rp = (res, d', rp')"
  defines "restored \<equiv> \<lparr>en_rego = pv_rego_source t, en_priority = pv_priority t,
    en_mode = pv_enforcement_mode t\<rparr>"
  shows "res = Inr (pv_rego_source t) \<and> get_entry rp' ns cls = Some restored
    \<and> db_entry d' ns cls = Some restored
    \<and> map_option pr_version (select_row d' ns cls) =
        Some (case select_row d ns cls of None \<Rightarrow> 1 | Some r \<Rightarrow> pr_version r + 1)"
proof -
  have inv: "distinct (scopes d)" "modes_ok rp"
    using reachable_inv [OF assms(1)] by (simp_all add: loader_inv_def db_wf_def)
  have mode: "pv_enforcement_mode t \<noteq> ''''"
    using find_all [OF assms(4), of "\<lambda>p. pv_enforcement_mode p \<noteq> ''''"]
      modes_ok_get_versions [OF inv(2)] by (simp add: history_ok_def)
  obtain res_c where run: "create_policy io ns cls (pv_rego_source t) (''rollback_to_v'' @ show_int v)
      (pv_priority t) (pv_enforcement_mode t) None d rp = (res_c, d', rp')"
    and res: "res = Inr (pv_rego_source t) \<or> res_c = Inl Db_error"
    using rollback_creates [OF assms(5)] unfolding assms(4) by auto
  have "res_c = Inr (pr_version (new_row io ns cls (pv_rego_source t) (pv_priority t)
      (pv_enforcement_mode t) None d))"
    by (rule create_result [OF assms(3) inv(1) run])
  with res have "res = Inr (pv_rego_source t)" by simp
  moreover have "get_entry rp' ns cls = Some restored"
    using get_entry_update [OF assms(2) assms(2) create_memory [OF assms(3) inv(1) run], of cls]
    by (simp add: restored_def)
  moreover have "db_entry d' ns cls = Some restored"
    unfolding restored_def by (rule create_entry [OF assms(3) inv(1) mode run])
  ultimately show ?thesis
    using create_row [OF assms(3) inv(1) run] by simp
qed

text \<open>
  A replica that handles a peer's upsert event with the database up converges, whatever it held
  before: its memory and its evaluator index then hold the tables' row for that scope, or nothing
  when there is no row; its cached decisions for the scope are invalidated; and no other scope changes.
\<close>

lemma remote_upsert_converges:
  assumes "io_db_up io" and "operation \<noteq> ''delete''" and "plain ns" and "plain ns'"
    and rp'_def: "rp' = apply_remote_event io operation ns cls d rp"
  shows "get_entry rp' ns' cls' =
      (if ns' = ns \<and> cls' = cls then db_entry d ns cls else get_entry rp ns' cls')
    \<and> map_of (rp_index rp') (policy_key ns cls) = map_option index_of (db_entry d ns cls)
    \<and> Invalidate_eval ns (eval_scope_target cls) \<in> set (rp_effects rp')"
proof (cases "db_entry d ns cls")
  case None
  have "unload_local ns cls rp = (fst (unload_local ns cls rp), rp')"
    using assms(2) load_from_db_absent [OF assms(1) None] by (simp add: rp'_def apply_remote_event_def)
  note gone = unload_local_effects [OF this]
  show ?thesis
    using None gone get_entry_delete [OF assms(3,4) gone(1)] by simp
next
  case (Some e)
  obtain rp1 where load: "load_from_db io ns cls d rp = (Inr (Some e), rp1)"
    and mem: "rp_policies rp1 = AList.update (policy_key ns cls) e (rp_policies rp)"
    and idx: "map_of (rp_index rp1) (policy_key ns cls) = Some (index_of e)"
    using load_from_db_present [OF assms(1) Some, of rp] by metis
  have rp': "rp' = invalidate_eval_for_policy_scope ns cls (rehydrate_versions_for_key io ns cls d rp1)"
    using assms(2) load by (simp add: rp'_def apply_remote_event_def)
  have "rp_policies rp' = AList.update (policy_key ns cls) e (rp_policies rp)"
    by (simp add: rp' mem loader_defs)
  with Some idx get_entry_update [OF assms(3,4)] show ?thesis
    by (simp add: rp' loader_defs)
qed

section \<open>Where memory and tables part\<close>

text \<open>
  Re-applying a policy to a scope that already enforces the same source in the same mode writes
  nothing to the tables but takes over the source policy's priority in memory, so memory and tables
  agree afterwards exactly when the two priorities were equal.
\<close>

lemma reapply_takes_source_priority:
  assumes "loader_step\<^sup>*\<^sup>* (empty_db, new_replica) (d, rp)" and "plain ns"
    and "get_entry rp src_ns src_cls = Some s" and "get_entry rp ns cls = Some e"
    and "en_rego s = en_rego e"
    and "apply_to_target io src_ns src_cls ns cls saved_by (en_mode e) d rp = (res, d', rp')"
  shows "d' = d \<and> get_entry rp' ns cls = Some (e\<lparr>en_priority := en_priority s\<rparr>)
    \<and> (db_entry d' ns cls = get_entry rp' ns cls \<longleftrightarrow> en_priority s = en_priority e)"
proof -
  have "d' = d" and mem: "rp_policies rp' = AList.update (policy_key ns cls)
      \<lparr>en_rego = en_rego s, en_priority = en_priority s, en_mode = en_mode e\<rparr> (rp_policies rp)"
    using assms(3-6) by (auto simp: apply_to_target_def Let_def get_current_def loader_defs)
  moreover have "get_entry rp' ns cls = Some (e\<lparr>en_priority := en_priority s\<rparr>)"
    using get_entry_update [OF assms(2) assms(2) mem, of cls] assms(5) by simp
  moreover have "db_entry d ns cls = Some e"
    using reachable_inv [OF assms(1)] assms(2,4) by (simp add: loader_inv_def coherent_def)
  moreover have "e = e\<lparr>en_priority := en_priority s\<rparr> \<longleftrightarrow> en_priority s = en_priority e"
    by (cases e) auto
  ultimately show ?thesis by simp
qed


text \<open>
  On a replica that holds a policy only through a lazy load, and so has no history of it, a
  mode-only apply stamps the new mode on version 1 of the history, reports version 1, and leaves the
  enforced version 2 without a stored version of the same mode.
\<close>

lemma mode_apply_after_lazy_load_hits_version_one:
  "let (_, lazy) = load_from_db (demo_io 8) ''prod'' ''billing'' (fst demo_state) new_replica;
       (res, d', _) = apply_to_target (demo_io 8) ''prod'' ''billing'' ''prod'' ''billing'' ''bob''
         ''escalate'' (fst demo_state) lazy
   in res = Inr (Some (1, False))
    \<and> map_option pr_version (select_row d' ''prod'' ''billing'') = Some 2
    \<and> map (\<lambda>v. (vr_version v, vr_enforcement_mode v)) (select_versions d' ''prod'' ''billing'') =
        [(1, Some ''escalate''), (2, Some ''block'')]
    \<and> \<not> list_all (\<lambda>r. list_ex (\<lambda>v. backs v r) (db_versions d')) (db_policies d')"
  by code_simp

end
