(* ===== verification/Decision.thy ===== *)
theory Decision
  imports Prelude
begin

text \<open>
  The decision schema of the SDK (\<open>norviq/sdk/core/decisions.py\<close>) and the tool-call event
  (\<open>norviq/sdk/core/events.py\<close>): the four verdicts with their strictness order, the immutable
  decision record, the event with its edge validation, and the fold of a refusal the enforcement
  point made itself. The locale \<open>tightening_stage\<close> is the contract the tighten-only stages of an
  evaluation share.
\<close>

section \<open>Verdicts\<close>

datatype verdict = Block | Escalate | Audit | Allow

fun decision_rank :: "verdict \<Rightarrow> nat" where
  "decision_rank Block = 0"
| "decision_rank Escalate = 1"
| "decision_rank Audit = 2"
| "decision_rank Allow = 3"

lemma decision_rank_inject [simp]: "decision_rank a = decision_rank b \<longleftrightarrow> a = b"
  by (cases a; cases b) simp_all

instantiation verdict :: linorder
begin

definition less_eq_verdict :: "verdict \<Rightarrow> verdict \<Rightarrow> bool" where
  "less_eq_verdict a b \<longleftrightarrow> decision_rank a \<le> decision_rank b"

definition less_verdict :: "verdict \<Rightarrow> verdict \<Rightarrow> bool" where
  "less_verdict a b \<longleftrightarrow> decision_rank a < decision_rank b"

instance
  by standard (auto simp: less_eq_verdict_def less_verdict_def)

end

lemmas verdict_order [verdict_simps] = less_eq_verdict_def less_verdict_def

lemma Block_least [simp]: "Block \<le> v"
  by (simp add: verdict_order)

lemma Allow_greatest [simp]: "v \<le> Allow"
  by (cases v) (simp_all add: verdict_order)

lemma le_Block [simp]: "v \<le> Block \<longleftrightarrow> v = Block"
  by (cases v) (simp_all add: verdict_order)

text \<open>The literal type of the \<open>decision\<close> field: any other text fails the model's validation.\<close>

definition verdict_of :: "string \<Rightarrow> verdict option" where
  "verdict_of s =
     (if s = ''allow'' then Some Allow
      else if s = ''block'' then Some Block
      else if s = ''escalate'' then Some Escalate
      else if s = ''audit'' then Some Audit
      else None)"

fun string_of_verdict :: "verdict \<Rightarrow> string" where
  "string_of_verdict Allow = ''allow''"
| "string_of_verdict Block = ''block''"
| "string_of_verdict Escalate = ''escalate''"
| "string_of_verdict Audit = ''audit''"

lemma verdict_of_string [simp]: "verdict_of (string_of_verdict v) = Some v"
  by (cases v) (simp_all add: verdict_of_def)

section \<open>The decision record\<close>

record policy_decision =
  pd_decision :: verdict
  pd_policy_id :: string
  pd_policy_version :: int
  pd_rule_id :: string
  pd_reason :: string
  pd_trust_score :: rat
  pd_trust_category :: string
  pd_trust_signals :: "(string \<times> rat) list"
  pd_trust_dominant_signal :: string
  pd_trust_recommendation :: string
  pd_latency_ms :: rat
  pd_event_id :: string
  pd_decided_at :: time

text \<open>The fields' defaults, for the constructors that name only some of them.\<close>

definition default_decision :: "verdict \<Rightarrow> time \<Rightarrow> policy_decision" where
  "default_decision v now =
     \<lparr>pd_decision = v, pd_policy_id = '''', pd_policy_version = 0, pd_rule_id = '''',
      pd_reason = '''', pd_trust_score = 0, pd_trust_category = '''', pd_trust_signals = [],
      pd_trust_dominant_signal = '''', pd_trust_recommendation = '''', pd_latency_ms = 0,
      pd_event_id = '''', pd_decided_at = now\<rparr>"

definition is_blocked :: "policy_decision \<Rightarrow> bool" where
  "is_blocked d \<longleftrightarrow> pd_decision d = Block"

definition is_allowed :: "policy_decision \<Rightarrow> bool" where
  "is_allowed d \<longleftrightarrow> pd_decision d \<in> {Allow, Audit}"

definition is_escalated :: "policy_decision \<Rightarrow> bool" where
  "is_escalated d \<longleftrightarrow> pd_decision d = Escalate"

section \<open>The enforcement point's own refusal\<close>

definition pep_unattributed_rule :: string where
  "pep_unattributed_rule = ''pep_refused''"

definition apply_pep_denial :: "policy_decision \<Rightarrow> string \<Rightarrow> string \<Rightarrow> string \<Rightarrow> policy_decision" where
  "apply_pep_denial d pep_decision pep_rule_id pep_reason =
     (if pep_decision \<noteq> ''block'' then d
      else if pd_decision d = Block then d
      else
        let reason = (if pep_reason \<noteq> '''' then pep_reason
              else ''the enforcement point refused this call before policy evaluation'');
            reason' = (if pd_decision d = Escalate
              then reason @ '' (policy would have escalated: ''
                @ (if pd_rule_id d \<noteq> '''' then pd_rule_id d else ''unattributed'') @ '')''
              else reason)
        in d\<lparr>pd_decision := Block,
             pd_rule_id := (if pep_rule_id \<noteq> '''' then pep_rule_id else pep_unattributed_rule),
             pd_reason := reason'\<rparr>)"

lemma apply_pep_denial_verdict:
  "pd_decision (apply_pep_denial d p r x) = (if p = ''block'' then Block else pd_decision d)"
  by (simp add: apply_pep_denial_def Let_def)

lemma apply_pep_denial_other:
  "p \<noteq> ''block'' \<Longrightarrow> apply_pep_denial d p r x = d"
  by (simp add: apply_pep_denial_def)

section \<open>Tighten-only stages\<close>

text \<open>
  Several stages of an evaluation take a decision and return it or a stricter one, for the same
  event. What such a stage promises is stated once; a client composes stages and keeps the promise.
\<close>

locale tightening_stage =
  fixes stage :: "policy_decision \<Rightarrow> policy_decision"
  assumes stage_tightens: "pd_decision (stage d) \<le> pd_decision d"
    and stage_event: "pd_event_id (stage d) = pd_event_id d"
begin

lemma stage_block: "pd_decision d = Block \<Longrightarrow> pd_decision (stage d) = Block"
  using stage_tightens [of d] by simp

lemma stage_never_opens:
  "\<not> is_allowed d \<Longrightarrow> \<not> is_allowed (stage d)"
  using stage_tightens [of d]
  by (cases "pd_decision d"; cases "pd_decision (stage d)")
    (simp_all add: is_allowed_def verdict_order)

lemma stage_twice_tightens: "pd_decision (stage (stage d)) \<le> pd_decision d"
  using stage_tightens [of d] stage_tightens [of "stage d"] by simp

end

interpretation pep: tightening_stage "\<lambda>d. apply_pep_denial d p r x" for p r x
proof
  fix d :: policy_decision
  show "pd_decision (apply_pep_denial d p r x) \<le> pd_decision d"
    by (simp add: apply_pep_denial_verdict)
  show "pd_event_id (apply_pep_denial d p r x) = pd_event_id d"
    by (simp add: apply_pep_denial_def Let_def)
qed

section \<open>Tool-call events\<close>

record agent_identity =
  ai_spiffe_id :: ucs
  ai_namespace :: string
  ai_service_account :: string
  ai_agent_class :: string
  ai_framework :: string
  ai_pod_name :: string
  ai_cluster_id :: string
  ai_workload :: string

text \<open>A JSON document: the shape of \<open>tool_params\<close> and of the MCP context.\<close>

datatype json =
    JNull
  | JBool bool
  | JInt int
  | JFloat rat
  | JStr string
  | JList "json list"
  | JObj "(string \<times> json) list"

record tool_call_event =
  ev_event_id :: string
  ev_tool_name :: string
  ev_tool_params :: "(string \<times> json) list"
  ev_agent_identity :: agent_identity
  ev_session_id :: string
  ev_framework :: string
  ev_call_depth :: int
  ev_mcp :: "(string \<times> json) list"
  ev_pep_decision :: string
  ev_pep_rule_id :: string
  ev_pep_reason :: string

definition pep_rule_id_max :: nat where
  "pep_rule_id_max = 255"

definition pep_reason_max :: nat where
  "pep_reason_max = 1024"

definition pep_decision_may_only_refuse :: "string \<Rightarrow> bool" where
  "pep_decision_may_only_refuse v \<longleftrightarrow> v \<in> {'''', ''block''}"

end
