(* ===== verification/Resolver.thy ===== *)
theory Resolver
  imports Decision
begin

text \<open>
  Resolution of the candidate policies' decisions into one winner
  (\<open>norviq/engine/evaluator.py\<close>, \<open>_resolve_with_packs\<close> and the functions it calls). A result is
  what one candidate policy decided, with its priority, its key, whether it was collected as an
  overlay and the enforcement mode it is saved in. The lemmas lead to an abstract reading of the
  resolver as the strictest of a list of layers.
\<close>

section \<open>Results and their effective strictness\<close>

record result =
  res_decision :: policy_decision
  res_priority :: int
  res_key :: string
  res_overlay :: bool
  res_mode :: string

abbreviation res_verdict :: "result \<Rightarrow> verdict" where
  "res_verdict r \<equiv> pd_decision (res_decision r)"

abbreviation observing :: "result \<Rightarrow> bool" where
  "observing r \<equiv> res_mode r = ''audit''"

definition effective_verdict :: "result \<Rightarrow> verdict" where
  "effective_verdict r =
     (if observing r \<and> res_verdict r \<in> {Block, Escalate} then Audit else res_verdict r)"

definition effective_rank :: "result \<Rightarrow> nat" where
  "effective_rank r = decision_rank (effective_verdict r)"

definition is_overlay_key :: "string \<Rightarrow> bool" where
  "is_overlay_key k \<longleftrightarrow>
     ends_with k '':__baseline__'' \<or> ends_with k '':__pack__'' \<or> ends_with k '':__guardrail__''
     \<or> ends_with k '':__pack_override__'' \<or> ends_with k '':__pack_weaken__''
     \<or> ends_with k ''__remediation__''"

definition is_weaken_key :: "string \<Rightarrow> bool" where
  "is_weaken_key k \<longleftrightarrow> ends_with k '':__pack_weaken__''"

definition is_pack_key :: "string \<Rightarrow> bool" where
  "is_pack_key k \<longleftrightarrow>
     ends_with k '':__pack__'' \<or> ends_with k '':__pack_override__'' \<or> ends_with k '':__pack_weaken__''"

section \<open>The resolver\<close>

definition by_priority :: "result list \<Rightarrow> result option" where
  "by_priority items = first_sorted (\<lambda>r. (- res_priority r, decision_rank (res_verdict r))) items"

definition resolve_precedence :: "result list \<Rightarrow> result option" where
  "resolve_precedence results =
     (let watching = filter observing results;
          enforcing = filter (\<lambda>r. \<not> observing r) results
      in if enforcing = [] then by_priority results
         else case by_priority enforcing of
             None \<Rightarrow> None
           | Some winner \<Rightarrow>
               (if watching = [] then Some winner
                else case by_priority watching of
                    None \<Rightarrow> None
                  | Some observer \<Rightarrow>
                      Some (if effective_rank observer < effective_rank winner
                            then observer else winner)))"

definition resolve_pack_family :: "result list \<Rightarrow> result option" where
  "resolve_pack_family results =
     (let weaken = filter (\<lambda>r. is_weaken_key (res_key r)) results
      in if weaken \<noteq> []
         then first_sorted (\<lambda>r. (- int (decision_rank (res_verdict r)), - res_priority r)) weaken
         else first_sorted (\<lambda>r. (decision_rank (res_verdict r), - res_priority r)) results)"

definition resolve_hard_overlay :: "result list \<Rightarrow> result option" where
  "resolve_hard_overlay results =
     first_sorted (\<lambda>r. (effective_rank r, - res_priority r)) results"

definition resolve_overlay :: "result list \<Rightarrow> result option" where
  "resolve_overlay results =
     (let pack_family = filter (\<lambda>r. is_pack_key (res_key r)) results;
          pack_keys = set (map res_key pack_family);
          hard = filter (\<lambda>r. res_key r \<notin> pack_keys) results;
          pack_winner = (if pack_family \<noteq> [] then resolve_pack_family pack_family else None);
          hard_winner = (if hard \<noteq> [] then resolve_hard_overlay hard else None)
      in case pack_winner of
           None \<Rightarrow> hard_winner
         | Some p \<Rightarrow>
             (case hard_winner of
                None \<Rightarrow> Some p
              | Some h \<Rightarrow> Some (if effective_rank p < effective_rank h then p else h)))"

definition resolve_with_packs :: "result list \<Rightarrow> result option" where
  "resolve_with_packs results =
     (let overlay = filter res_overlay results;
          base = filter (\<lambda>r. \<not> res_overlay r) results;
          base_winner = (if base \<noteq> [] then resolve_precedence base else None);
          overlay_winner = (if overlay \<noteq> [] then resolve_overlay overlay else None)
      in case base_winner of
           None \<Rightarrow> overlay_winner
         | Some b \<Rightarrow>
             (case overlay_winner of
                None \<Rightarrow> Some b
              | Some w \<Rightarrow> Some (if effective_rank w < effective_rank b then w else b)))"

lemmas [resolver_defs] =
  by_priority_def resolve_precedence_def resolve_pack_family_def resolve_hard_overlay_def
  resolve_overlay_def resolve_with_packs_def

section \<open>The strictest of several layers\<close>

definition strictest :: "verdict list \<Rightarrow> verdict option" where
  "strictest vs = (case vs of [] \<Rightarrow> None | v # us \<Rightarrow> Some (fold min us v))"

fun meet :: "verdict option \<Rightarrow> verdict option \<Rightarrow> verdict option" where
  "meet None b = b"
| "meet a None = a"
| "meet (Some a) (Some b) = Some (min a b)"

lemma meet_None_right [simp]: "meet a None = a"
  by (cases a) simp_all

lemma strictest_Nil [simp]: "strictest [] = None"
  by (simp add: strictest_def)

lemma strictest_Some: "vs \<noteq> [] \<Longrightarrow> strictest vs = Some (Min (set vs))"
  by (cases vs) (simp_all add: strictest_def Min.set_eq_fold flip: list.simps(15))

lemma strictest_append: "strictest (xs @ ys) = meet (strictest xs) (strictest ys)"
proof (cases "xs = [] \<or> ys = []")
  case True
  then show ?thesis by auto
next
  case False
  then show ?thesis by (simp add: strictest_Some Min_Un)
qed

lemma strictest_eqI:
  "\<lbrakk>v \<in> set vs; \<And>u. u \<in> set vs \<Longrightarrow> v \<le> u\<rbrakk> \<Longrightarrow> strictest vs = Some v"
  by (metis List.finite_set Min_eqI empty_iff empty_set strictest_Some)

lemma strictest_le: "strictest vs = Some v \<Longrightarrow> u \<in> set vs \<Longrightarrow> v \<le> u"
  by (cases "vs = []") (auto simp: strictest_Some)

lemma strictest_eq_None [simp]: "strictest vs = None \<longleftrightarrow> vs = []"
  by (cases "vs = []") (auto simp: strictest_Some)

text \<open>The layers the resolver combines.\<close>

definition top_priority :: "result list \<Rightarrow> result list" where
  "top_priority rs = filter (\<lambda>r. list_all (\<lambda>q. res_priority q \<le> res_priority r) rs) rs"

definition base_layers :: "result list \<Rightarrow> verdict list" where
  "base_layers rs =
     map effective_verdict (top_priority (filter (\<lambda>r. \<not> res_overlay r \<and> \<not> observing r) rs))
     @ map effective_verdict (top_priority (filter (\<lambda>r. \<not> res_overlay r \<and> observing r) rs))"

definition pack_layers :: "result list \<Rightarrow> verdict list" where
  "pack_layers rs =
     (let packs = filter (\<lambda>r. res_overlay r \<and> is_pack_key (res_key r)) rs;
          weaken = filter (\<lambda>r. is_weaken_key (res_key r)) packs
      in if weaken \<noteq> [] then [fold max (map effective_verdict weaken) Block]
         else map effective_verdict packs)"

definition floor_layers :: "result list \<Rightarrow> verdict list" where
  "floor_layers rs =
     map effective_verdict (filter (\<lambda>r. res_overlay r \<and> \<not> is_pack_key (res_key r)) rs)"

text \<open>Pack overlays are collected with no mode of their own, so they always enforce.\<close>

definition packs_enforce :: "result list \<Rightarrow> bool" where
  "packs_enforce rs \<longleftrightarrow>
     list_all (\<lambda>r. res_overlay r \<and> is_pack_key (res_key r) \<longrightarrow> \<not> observing r) rs"

section \<open>Each layer is resolved to its strictest verdict\<close>

lemma effective_verdict_enforcing [simp]: "\<not> observing r \<Longrightarrow> effective_verdict r = res_verdict r"
  by (simp add: effective_verdict_def)

lemma effective_verdict_mono:
  "\<lbrakk>observing a = observing b; res_verdict a \<le> res_verdict b\<rbrakk>
   \<Longrightarrow> effective_verdict a \<le> effective_verdict b"
  by (cases "res_verdict a"; cases "res_verdict b")
     (auto simp: effective_verdict_def verdict_order)

lemma effective_rank_less [simp]:
  "effective_rank a < effective_rank b \<longleftrightarrow> effective_verdict a < effective_verdict b"
  by (simp add: effective_rank_def verdict_order)

lemma effective_rank_le [simp]:
  "effective_rank a \<le> effective_rank b \<longleftrightarrow> effective_verdict a \<le> effective_verdict b"
  by (simp add: effective_rank_def verdict_order)

lemma stricter_choice:
  "Some (effective_verdict (if effective_verdict a < effective_verdict b then a else b)) =
   meet (Some (effective_verdict a)) (Some (effective_verdict b))"
  by (auto simp: min_def)

lemma meet_Some_commute: "meet a b = meet b a"
  by (cases a; cases b) (auto simp: min.commute)

lemma by_priority_None [simp]: "by_priority rs = None \<longleftrightarrow> rs = []"
  by (simp add: by_priority_def)

lemma by_priority_top:
  assumes "by_priority rs = Some w"
  shows "w \<in> set (top_priority rs)"
    and "r \<in> set (top_priority rs) \<Longrightarrow> res_verdict w \<le> res_verdict r"
proof -
  have in_rs: "w \<in> set rs"
    using assms unfolding by_priority_def by (rule first_sorted_in)
  have least: "(- res_priority w, decision_rank (res_verdict w))
      \<le> (- res_priority q, decision_rank (res_verdict q))" if "q \<in> set rs" for q
    using first_sorted_least [OF assms [unfolded by_priority_def] that] by simp
  show "w \<in> set (top_priority rs)"
    using in_rs least by (fastforce simp: top_priority_def list_all_iff)
  assume "r \<in> set (top_priority rs)"
  then have "r \<in> set rs" "res_priority w \<le> res_priority r"
    using in_rs by (auto simp: top_priority_def list_all_iff)
  with least [of r] show "res_verdict w \<le> res_verdict r"
    by (auto simp: verdict_order)
qed

lemma by_priority_refines:
  assumes "\<And>r. r \<in> set rs \<Longrightarrow> observing r = m"
  shows "map_option effective_verdict (by_priority rs) =
         strictest (map effective_verdict (top_priority rs))"
proof (cases "by_priority rs")
  case None
  then show ?thesis by (simp add: top_priority_def)
next
  case (Some w)
  have homogeneous: "observing r = m" if "r \<in> set (top_priority rs)" for r
    using that assms by (simp add: top_priority_def)
  have "strictest (map effective_verdict (top_priority rs)) = Some (effective_verdict w)"
    using by_priority_top [OF Some] homogeneous
    by (intro strictest_eqI) (auto intro!: effective_verdict_mono)
  with Some show ?thesis by simp
qed

lemma resolve_precedence_refines:
  "map_option effective_verdict (resolve_precedence rs) =
   meet (strictest (map effective_verdict (top_priority (filter (\<lambda>r. \<not> observing r) rs))))
        (strictest (map effective_verdict (top_priority (filter observing rs))))"
proof -
  let ?E = "filter (\<lambda>r. \<not> observing r) rs" and ?O = "filter observing rs"
  have E: "map_option effective_verdict (by_priority ?E) =
      strictest (map effective_verdict (top_priority ?E))"
    by (rule by_priority_refines [of _ False]) simp
  have O: "map_option effective_verdict (by_priority ?O) =
      strictest (map effective_verdict (top_priority ?O))"
    by (rule by_priority_refines [of _ True]) simp
  have all: "?E = [] \<Longrightarrow> ?O = rs"
    by (simp add: filter_empty_conv)
  show ?thesis
  proof (cases "?E = []")
    case True
    then show ?thesis
      using O all by (simp add: resolve_precedence_def Let_def top_priority_def)
  next
    case False
    then obtain w where w: "by_priority ?E = Some w"
      using by_priority_None by blast
    show ?thesis
      using False w E O
      by (cases "by_priority ?O")
         (auto simp: resolve_precedence_def Let_def top_priority_def stricter_choice
            meet_Some_commute simp flip: E O)
  qed
qed

lemma resolve_hard_overlay_refines:
  "map_option effective_verdict (resolve_hard_overlay rs) = strictest (map effective_verdict rs)"
proof (cases "resolve_hard_overlay rs")
  case None
  then show ?thesis by (simp add: resolve_hard_overlay_def)
next
  case (Some w)
  have "w \<in> set rs"
    using Some unfolding resolve_hard_overlay_def by (rule first_sorted_in)
  moreover have "effective_verdict w \<le> effective_verdict r" if "r \<in> set rs" for r
    using first_sorted_least [OF Some [unfolded resolve_hard_overlay_def] that]
    by (auto simp: effective_rank_def verdict_order)
  ultimately show ?thesis
    using Some by (auto intro!: strictest_eqI [symmetric])
qed

lemma most_permissive:
  assumes "v \<in> set vs" and "\<And>u. u \<in> set vs \<Longrightarrow> u \<le> v"
  shows "fold max vs Block = (v :: verdict)"
proof -
  have "fold max vs Block = Max (set (Block # vs))"
    by (simp add: Max.set_eq_fold flip: list.simps(15))
  also have "\<dots> = v"
    using assms by (intro Max_eqI) auto
  finally show ?thesis .
qed

lemma resolve_pack_family_refines:
  assumes "\<And>r. r \<in> set rs \<Longrightarrow> \<not> observing r"
  shows "map_option effective_verdict (resolve_pack_family rs) =
    strictest (let weaken = filter (\<lambda>r. is_weaken_key (res_key r)) rs
      in if weaken \<noteq> [] then [fold max (map effective_verdict weaken) Block]
         else map effective_verdict rs)"
proof (cases "filter (\<lambda>r. is_weaken_key (res_key r)) rs = []")
  case True
  let ?f = "\<lambda>r. (decision_rank (res_verdict r), - res_priority r)"
  show ?thesis
  proof (cases "first_sorted ?f rs")
    case None
    with True show ?thesis by (simp add: resolve_pack_family_def)
  next
    case (Some w)
    have "effective_verdict w \<le> effective_verdict r" if "r \<in> set rs" for r
      using first_sorted_least [OF Some that] first_sorted_in [OF Some] assms that
      by (auto simp: verdict_order)
    with True Some first_sorted_in [OF Some] show ?thesis
      by (auto simp: resolve_pack_family_def intro!: strictest_eqI [symmetric])
  qed
next
  case False
  let ?W = "filter (\<lambda>r. is_weaken_key (res_key r)) rs"
  let ?f = "\<lambda>r. (- int (decision_rank (res_verdict r)), - res_priority r)"
  obtain w where w: "first_sorted ?f ?W = Some w"
    using False by (metis first_sorted_None not_None_eq)
  have "effective_verdict r \<le> effective_verdict w" if "r \<in> set ?W" for r
    using first_sorted_least [OF w that] first_sorted_in [OF w] assms that
    by (auto simp: verdict_order)
  then have "fold max (map effective_verdict ?W) Block = effective_verdict w"
    using first_sorted_in [OF w] by (intro most_permissive) auto
  with False w show ?thesis
    by (simp add: resolve_pack_family_def Let_def strictest_def)
qed

lemma resolve_pack_family_None [simp]: "resolve_pack_family rs = None \<longleftrightarrow> rs = []"
  by (auto simp: resolve_pack_family_def Let_def)

lemma resolve_hard_overlay_None [simp]: "resolve_hard_overlay rs = None \<longleftrightarrow> rs = []"
  by (simp add: resolve_hard_overlay_def)

lemma resolve_Nil [simp]:
  "resolve_pack_family [] = None" "resolve_hard_overlay [] = None" "resolve_precedence [] = None"
  by (simp_all add: resolver_defs)

text \<open>The resolver guards each call against an empty list; the guard is the functions' own case.\<close>

lemma guard_redundant:
  "(if xs \<noteq> [] then resolve_pack_family xs else None) = resolve_pack_family xs"
  "(if xs \<noteq> [] then resolve_hard_overlay xs else None) = resolve_hard_overlay xs"
  by simp_all

lemma non_pack_keys:
  "filter (\<lambda>r. res_key r \<notin> set (map res_key (filter (\<lambda>r. is_pack_key (res_key r)) rs))) rs =
   filter (\<lambda>r. \<not> is_pack_key (res_key r)) rs"
  by (rule filter_cong) auto

lemma resolve_overlay_refines:
  assumes "\<And>r. r \<in> set rs \<Longrightarrow> res_overlay r" and "packs_enforce rs"
  shows "map_option effective_verdict (resolve_overlay rs) =
         meet (strictest (pack_layers rs)) (strictest (floor_layers rs))"
proof -
  let ?P = "filter (\<lambda>r. is_pack_key (res_key r)) rs"
  let ?H = "filter (\<lambda>r. \<not> is_pack_key (res_key r)) rs"
  have sel: "filter (\<lambda>r. res_overlay r \<and> is_pack_key (res_key r)) rs = ?P"
    "filter (\<lambda>r. res_overlay r \<and> \<not> is_pack_key (res_key r)) rs = ?H"
    using assms(1) by (auto intro: filter_cong)
  have P: "map_option effective_verdict (resolve_pack_family ?P) = strictest (pack_layers rs)"
    using assms unfolding pack_layers_def sel Let_def
    by (subst resolve_pack_family_refines) (auto simp: packs_enforce_def list_all_iff Let_def)
  have H: "map_option effective_verdict (resolve_hard_overlay ?H) = strictest (floor_layers rs)"
    unfolding floor_layers_def sel by (rule resolve_hard_overlay_refines)
  show ?thesis
    unfolding resolve_overlay_def Let_def non_pack_keys guard_redundant P [symmetric] H [symmetric]
    by (cases "resolve_pack_family ?P"; cases "resolve_hard_overlay ?H")
       (auto simp: stricter_choice)
qed

lemma resolve_overlay_None [simp]: "resolve_overlay rs = None \<longleftrightarrow> rs = []"
proof -
  have "rs = []" if "filter (\<lambda>r. is_pack_key (res_key r)) rs = []"
    "filter (\<lambda>r. \<not> is_pack_key (res_key r)) rs = []"
    using that by (cases rs) (auto split: if_splits)
  then show ?thesis
    unfolding resolve_overlay_def Let_def non_pack_keys
    by (auto split: option.splits if_splits)
qed

lemma resolve_overlay_Nil [simp]: "resolve_overlay [] = None"
  by simp

lemma resolve_precedence_None [simp]: "resolve_precedence rs = None \<longleftrightarrow> rs = []"
  by (auto simp: resolve_precedence_def Let_def split: option.splits)

lemma layers_filter:
  "pack_layers (filter res_overlay rs) = pack_layers rs"
  "floor_layers (filter res_overlay rs) = floor_layers rs"
  "packs_enforce rs \<Longrightarrow> packs_enforce (filter res_overlay rs)"
proof -
  have sel: "filter (\<lambda>r. res_overlay r \<and> P r) (filter res_overlay rs) =
      filter (\<lambda>r. res_overlay r \<and> P r) rs" for P
    unfolding filter_filter by (rule filter_cong) auto
  show "pack_layers (filter res_overlay rs) = pack_layers rs"
    "floor_layers (filter res_overlay rs) = floor_layers rs"
    unfolding pack_layers_def floor_layers_def sel by (rule refl)+
  show "packs_enforce rs \<Longrightarrow> packs_enforce (filter res_overlay rs)"
    by (auto simp: packs_enforce_def list_all_iff)
qed

lemma resolve_with_packs_layers:
  assumes "packs_enforce rs"
  shows "map_option effective_verdict (resolve_with_packs rs) =
         strictest (base_layers rs @ pack_layers rs @ floor_layers rs)"
proof -
  let ?B = "filter (\<lambda>r. \<not> res_overlay r) rs" and ?O = "filter res_overlay rs"
  have B: "map_option effective_verdict (resolve_precedence ?B) = strictest (base_layers rs)"
    by (simp add: resolve_precedence_refines base_layers_def strictest_append conj_commute)
  have O: "map_option effective_verdict (resolve_overlay ?O) =
      meet (strictest (pack_layers rs)) (strictest (floor_layers rs))"
    using resolve_overlay_refines [of ?O] layers_filter [of rs] assms by simp
  have "map_option effective_verdict (resolve_with_packs rs) =
      meet (map_option effective_verdict (resolve_precedence ?B))
        (map_option effective_verdict (resolve_overlay ?O))"
    by (cases "resolve_precedence ?B"; cases "resolve_overlay ?O")
       (auto simp: resolve_with_packs_def Let_def stricter_choice meet_Some_commute)
  then show ?thesis
    by (simp add: B O strictest_append)
qed

lemma floor_bounds_winner:
  assumes "packs_enforce rs" and "r \<in> set rs" and "res_overlay r"
    and "\<not> is_pack_key (res_key r)"
  shows "\<exists>w. resolve_with_packs rs = Some w \<and> effective_verdict w \<le> effective_verdict r"
proof -
  have floor: "effective_verdict r \<in> set (base_layers rs @ pack_layers rs @ floor_layers rs)"
    using assms by (auto simp: floor_layers_def)
  then obtain v where v: "strictest (base_layers rs @ pack_layers rs @ floor_layers rs) = Some v"
    by (cases "strictest (base_layers rs @ pack_layers rs @ floor_layers rs)") auto
  with strictest_le [OF v floor] resolve_with_packs_layers [OF assms(1)] show ?thesis
    by auto
qed

lemma strictest_antimono:
  assumes "set us \<subseteq> set vs" and "strictest us = Some u"
  shows "\<exists>v. strictest vs = Some v \<and> v \<le> u"
proof -
  have "us \<noteq> []" "vs \<noteq> []" using assms by auto
  with assms show ?thesis by (simp add: strictest_Some) (metis List.finite_set Min_antimono set_empty)
qed

lemma resolve_antimono:
  assumes "packs_enforce rs" "packs_enforce qs"
    and "set (base_layers qs @ pack_layers qs @ floor_layers qs)
       \<subseteq> set (base_layers rs @ pack_layers rs @ floor_layers rs)"
    and "resolve_with_packs qs = Some w"
  shows "\<exists>w'. resolve_with_packs rs = Some w' \<and> effective_verdict w' \<le> effective_verdict w"
  using strictest_antimono [OF assms(3), of "effective_verdict w"]
    resolve_with_packs_layers [OF assms(1)] resolve_with_packs_layers [OF assms(2)] assms(4)
  by (metis map_option_eq_Some option.simps(9))

section \<open>Properties\<close>

definition without_packs :: "result list \<Rightarrow> result list" where
  "without_packs rs = filter (\<lambda>r. \<not> (res_overlay r \<and> is_pack_key (res_key r))) rs"

definition without_observers :: "result list \<Rightarrow> result list" where
  "without_observers rs = filter (\<lambda>r. res_overlay r \<or> \<not> observing r) rs"

text \<open>
  The scenario of the witnesses: a class policy that allows at a high priority, an audit-mode class
  policy that blocks at a higher one, a sector pack that blocks, a weaken overlay that lets the
  pack's block go, and a guardrail that escalates.
\<close>

definition a_result :: "verdict \<Rightarrow> int \<Rightarrow> string \<Rightarrow> bool \<Rightarrow> string \<Rightarrow> result" where
  "a_result v prio key ov mode =
     \<lparr>res_decision = default_decision v 0, res_priority = prio, res_key = key,
      res_overlay = ov, res_mode = mode\<rparr>"

definition layered_results :: "result list" where
  "layered_results =
     [a_result Allow 200 ''prod:billing'' False ''block'',
      a_result Block 900 ''prod:billing-trial'' False ''audit'',
      a_result Block 50 ''prod:__pack__'' True ''block'',
      a_result Allow 10 ''prod:__pack_weaken__'' True ''block'',
      a_result Escalate 5 ''prod:__guardrail__'' True ''block'']"

lemma without_packs_layers:
  "base_layers (without_packs rs) = base_layers rs"
  "pack_layers (without_packs rs) = []"
  "floor_layers (without_packs rs) = floor_layers rs"
  "packs_enforce (without_packs rs)"
proof -
  have sel: "filter (\<lambda>r. \<not> res_overlay r \<and> P r) (without_packs rs) =
      filter (\<lambda>r. \<not> res_overlay r \<and> P r) rs" for P
    unfolding without_packs_def filter_filter by (rule filter_cong) auto
  show "base_layers (without_packs rs) = base_layers rs"
    unfolding base_layers_def sel by (rule refl)
  show "floor_layers (without_packs rs) = floor_layers rs"
    unfolding floor_layers_def without_packs_def filter_filter
    by (rule arg_cong [of _ _ "map effective_verdict"], rule filter_cong) auto
  have "filter (\<lambda>r. res_overlay r \<and> is_pack_key (res_key r)) (without_packs rs) = []"
    by (auto simp: without_packs_def filter_empty_conv)
  then show "pack_layers (without_packs rs) = []"
    by (simp add: pack_layers_def)
  show "packs_enforce (without_packs rs)"
    by (auto simp: packs_enforce_def without_packs_def list_all_iff)
qed

lemma without_observers_layers:
  "set (base_layers (without_observers rs)) \<subseteq> set (base_layers rs)"
  "pack_layers (without_observers rs) = pack_layers rs"
  "floor_layers (without_observers rs) = floor_layers rs"
  "packs_enforce rs \<Longrightarrow> packs_enforce (without_observers rs)"
proof -
  have sel: "filter (\<lambda>r. res_overlay r \<and> P r) (without_observers rs) =
      filter (\<lambda>r. res_overlay r \<and> P r) rs" for P
    unfolding without_observers_def filter_filter by (rule filter_cong) auto
  have base: "filter (\<lambda>r. \<not> res_overlay r \<and> \<not> observing r) (without_observers rs) =
      filter (\<lambda>r. \<not> res_overlay r \<and> \<not> observing r) rs"
    "filter (\<lambda>r. \<not> res_overlay r \<and> observing r) (without_observers rs) = []"
    unfolding without_observers_def filter_filter by (auto intro!: filter_cong simp: filter_empty_conv)
  show "set (base_layers (without_observers rs)) \<subseteq> set (base_layers rs)"
    unfolding base_layers_def base by (auto simp: top_priority_def)
  show "pack_layers (without_observers rs) = pack_layers rs"
    "floor_layers (without_observers rs) = floor_layers rs"
    unfolding pack_layers_def floor_layers_def sel by (rule refl)+
  show "packs_enforce rs \<Longrightarrow> packs_enforce (without_observers rs)"
    by (auto simp: packs_enforce_def without_observers_def list_all_iff)
qed

text \<open>
  C6. The resolver refines a layered specification: the effective verdict of the winner is the
  strictest of the top-priority enforcing base policies, the top-priority observing base policies,
  the pack family (a weaken overlay speaking for the whole family when there is one) and every hard
  floor; and there is a winner exactly when there is a layer.
\<close>

theorem resolve_with_packs_refines_layers:
  assumes "packs_enforce rs"
  shows "map_option effective_verdict (resolve_with_packs rs) =
         strictest (base_layers rs @ pack_layers rs @ floor_layers rs)"
  using assms by (rule resolve_with_packs_layers)

theorem resolve_with_packs_refines_layers_witness:
  "packs_enforce layered_results \<and>
   map_option effective_verdict (resolve_with_packs layered_results) = Some Escalate"
proof -
  have "packs_enforce layered_results" by code_simp
  moreover have "strictest (base_layers layered_results @ pack_layers layered_results
      @ floor_layers layered_results) = Some Escalate" by code_simp
  ultimately show ?thesis using resolve_with_packs_refines_layers [of layered_results] by simp
qed

text \<open>
  C7. The pack family only tightens: with the sector packs, their overrides and their weaken
  overlays present, the outcome is never looser than it is without any of them.
\<close>

theorem packs_never_loosen:
  assumes "packs_enforce rs" and "resolve_with_packs (without_packs rs) = Some w"
  shows "\<exists>w'. resolve_with_packs rs = Some w' \<and> effective_verdict w' \<le> effective_verdict w"
  using resolve_antimono [OF assms(1) without_packs_layers(4) _ assms(2)]
  by (auto simp: without_packs_layers(1,2,3))

theorem packs_never_loosen_witness:
  "\<exists>w'. resolve_with_packs layered_results = Some w' \<and> effective_verdict w' \<le> Escalate"
proof -
  let ?w = "a_result Escalate 5 ''prod:__guardrail__'' True ''block''"
  have "packs_enforce layered_results" "effective_verdict ?w = Escalate"
    "resolve_with_packs (without_packs layered_results) = Some ?w"
    by code_simp+
  then show ?thesis using packs_never_loosen [of layered_results ?w] by simp
qed

text \<open>
  A base policy saved in audit mode cannot disarm an enforcing one: with the observing base
  policies present, the outcome is never looser than it is without them.
\<close>

lemma observers_never_disarm:
  assumes "packs_enforce rs" and "resolve_with_packs (without_observers rs) = Some w"
  shows "\<exists>w'. resolve_with_packs rs = Some w' \<and> effective_verdict w' \<le> effective_verdict w"
  using resolve_antimono [OF assms(1) without_observers_layers(4) [OF assms(1)] _ assms(2)]
    without_observers_layers(1) [of rs]
  by (auto simp: without_observers_layers(2,3))

end
