(* ===== verification/Stages.thy ===== *)
theory Stages
  imports Resolver
begin

text \<open>
  The stages a decision passes between the resolver and the caller (\<open>norviq/engine/evaluator.py\<close>):
  the winning policy's own mode, the rate limiter, the trust overrides, the namespace's monitor mode
  and block attribution, with the fail-closed decisions of the error paths. A stage either only
  tightens (\<open>tightening_stage\<close>) or only softens a refusal outside the exempt rules to an audit
  (\<open>softening_stage\<close>).
\<close>

section \<open>Settings, posture and trust results\<close>

record engine_settings =
  es_enforcement_mode :: string
  es_no_policy_decision :: string
  es_monitor_exempt_rate_limit :: bool
  es_rate_limit_per_window :: int
  es_rate_limit_window_s :: int
  es_rate_limit_read_exempt :: bool
  es_rate_limit_read_prefixes :: "string list"
  es_non_cacheable_rules :: "string list"
  es_opa_mode :: string

definition default_settings :: engine_settings where
  "default_settings =
     \<lparr>es_enforcement_mode = ''block'', es_no_policy_decision = ''allow'',
      es_monitor_exempt_rate_limit = True, es_rate_limit_per_window = 60,
      es_rate_limit_window_s = 60, es_rate_limit_read_exempt = True,
      es_rate_limit_read_prefixes =
        [''get_'', ''read_'', ''list_'', ''query_'', ''fetch_'', ''describe_'', ''view_'',
         ''monitor_'', ''poll_'', ''report_'', ''search_''],
      es_non_cacheable_rules = [''rate_limit_exceeded'', ''escalate_low_trust''],
      es_opa_mode = ''server''\<rparr>"

record ns_settings =
  nss_enforcement_mode :: "string option"
  nss_trust_threshold :: "rat option"
  nss_rate_limit :: "int option"

record posture =
  po_monitor :: bool
  po_trust_threshold :: "rat option"
  po_rate_limit :: int

definition posture_of :: "engine_settings \<Rightarrow> ns_settings option \<Rightarrow> posture" where
  "posture_of st raw =
     \<lparr>po_monitor = (case raw of None \<Rightarrow> False
        | Some r \<Rightarrow> nss_enforcement_mode r = Some ''audit''),
      po_trust_threshold = (case raw of None \<Rightarrow> None | Some r \<Rightarrow> nss_trust_threshold r),
      po_rate_limit = (case raw of None \<Rightarrow> es_rate_limit_per_window st
        | Some r \<Rightarrow> (case nss_rate_limit r of None \<Rightarrow> es_rate_limit_per_window st | Some n \<Rightarrow> n))\<rparr>"

record trust_result =
  tr_score :: rat
  tr_category :: string
  tr_signals :: "(string \<times> rat) list"
  tr_weights :: "(string \<times> rat) list"
  tr_dominant_signal :: string
  tr_recommendation :: string

section \<open>Rules that monitor mode leaves hard\<close>

definition base_posture_exempt_rules :: "string list" where
  "base_posture_exempt_rules = [''trust_frozen'', ''invalid_spiffe_identity'']"

definition posture_exempt_rules :: "engine_settings \<Rightarrow> string list" where
  "posture_exempt_rules st =
     (if es_monitor_exempt_rate_limit st
      then base_posture_exempt_rules @ [''rate_limit_exceeded'']
      else base_posture_exempt_rules)"

definition monitor_would_block_prefix :: string where
  "monitor_would_block_prefix = ''monitor_would_block:''"

definition policy_audit_would_block_prefix :: string where
  "policy_audit_would_block_prefix = ''policy_audit_would_block:''"

section \<open>The stages\<close>

definition apply_policy_mode :: "engine_settings \<Rightarrow> result \<Rightarrow> policy_decision" where
  "apply_policy_mode st winner =
     (let d = res_decision winner
      in if res_mode winner \<noteq> ''audit'' then d
         else if pd_decision d \<notin> {Block, Escalate} then d
         else if pd_rule_id d \<in> set (posture_exempt_rules st) then d
         else d\<lparr>pd_decision := Audit,
                pd_rule_id := policy_audit_would_block_prefix @ pd_rule_id d\<rparr>)"

definition apply_posture :: "engine_settings \<Rightarrow> posture \<Rightarrow> policy_decision \<Rightarrow> policy_decision" where
  "apply_posture st po d =
     (if \<not> po_monitor po then d
      else if pd_decision d \<notin> {Block, Escalate} then d
      else if pd_rule_id d \<in> set (posture_exempt_rules st) then d
      else d\<lparr>pd_decision := Audit,
             pd_rule_id := monitor_would_block_prefix @ pd_rule_id d,
             pd_reason := ''Monitor mode (namespace audit): would ''
               @ string_of_verdict (pd_decision d) @ '' '' @ em_dash @ '' '' @ pd_reason d\<rparr>)"

text \<open>
  The classifier of tool names (\<open>classify_tool\<close>) is an argument: \<open>None\<close> when it raises, otherwise
  the verb's value.
\<close>

definition is_rate_limit_exempt ::
  "engine_settings \<Rightarrow> (string \<Rightarrow> string option) \<Rightarrow> string \<Rightarrow> bool" where
  "is_rate_limit_exempt st classify_tool tool_name =
     (if \<not> es_rate_limit_read_exempt st then False
      else let name = lower tool_name
        in if \<not> (ends_with name ''_status'' \<or> ends_with name ''_read''
               \<or> list_ex (starts_with name) (es_rate_limit_read_prefixes st)) then False
           else case classify_tool tool_name of
               None \<Rightarrow> False
             | Some verb \<Rightarrow> verb = ''read'')"

definition rate_limit_decision ::
  "engine_settings \<Rightarrow> tool_call_event \<Rightarrow> int \<Rightarrow> rat \<Rightarrow> time \<Rightarrow> policy_decision" where
  "rate_limit_decision st ev limit elapsed_ms now =
     (default_decision Block now)
       \<lparr>pd_rule_id := ''rate_limit_exceeded'',
        pd_reason := ''Rate limit exceeded: >'' @ show_int limit @ '' per ''
          @ show_int (es_rate_limit_window_s st) @ ''s'',
        pd_latency_ms := elapsed_ms, pd_event_id := ev_event_id ev\<rparr>"

definition apply_trust_overrides ::
  "(rat \<Rightarrow> string) \<Rightarrow> time \<Rightarrow> trust_result \<Rightarrow> policy_decision \<Rightarrow> policy_decision" where
  "apply_trust_overrides format_2f now tr d =
     (let d' = d\<lparr>pd_trust_score := tr_score tr, pd_trust_category := tr_category tr,
                 pd_trust_signals := tr_signals tr,
                 pd_trust_dominant_signal := tr_dominant_signal tr,
                 pd_trust_recommendation := tr_recommendation tr, pd_decided_at := now\<rparr>
      in if tr_category tr = ''frozen''
         then d'\<lparr>pd_decision := Block, pd_rule_id := ''trust_frozen'',
                 pd_reason := ''Agent trust frozen '' @ em_dash @ '' all tool calls blocked''\<rparr>
         else if tr_category tr = ''low'' \<and> pd_decision d' = Allow
         then d'\<lparr>pd_decision := Escalate, pd_rule_id := ''escalate_low_trust'',
                 pd_reason := ''Low trust ('' @ format_2f (tr_score tr) @ ''): ''
                   @ tr_dominant_signal tr\<rparr>
         else d')"

definition ensure_block_attribution :: "policy_decision \<Rightarrow> policy_decision" where
  "ensure_block_attribution d =
     (if pd_decision d = Block \<and> pd_rule_id d \<in> {'''', ''default_allow''}
      then d\<lparr>pd_rule_id := ''unattributed_block'',
             pd_reason := (if pd_reason d \<noteq> '''' then pd_reason d
               else ''Blocked (attribution unavailable)'')\<rparr>
      else d)"

section \<open>Fail-closed decisions of the error paths\<close>

definition fail_closed ::
  "string \<Rightarrow> string \<Rightarrow> tool_call_event \<Rightarrow> rat \<Rightarrow> time \<Rightarrow> policy_decision" where
  "fail_closed rule reason ev elapsed_ms now =
     (default_decision Block now)
       \<lparr>pd_rule_id := rule, pd_reason := reason, pd_latency_ms := elapsed_ms,
        pd_event_id := ev_event_id ev\<rparr>"

definition fallback_decision :: "tool_call_event \<Rightarrow> rat \<Rightarrow> time \<Rightarrow> policy_decision" where
  "fallback_decision = fail_closed ''evaluator_fallback'' ''Evaluation failed, fallback=block''"

definition invalid_identity_decision :: "tool_call_event \<Rightarrow> rat \<Rightarrow> time \<Rightarrow> policy_decision" where
  "invalid_identity_decision = fail_closed ''invalid_spiffe_identity''
     (''Agent SPIFFE identity failed validation '' @ em_dash @ '' fail-closed block'')"

definition timeout_decision :: "tool_call_event \<Rightarrow> rat \<Rightarrow> time \<Rightarrow> policy_decision" where
  "timeout_decision = fail_closed ''evaluator_timeout'' ''Evaluation timed out, fallback=block''"

lemmas [stage_defs] =
  apply_policy_mode_def apply_posture_def apply_trust_overrides_def ensure_block_attribution_def
  rate_limit_decision_def fallback_decision_def invalid_identity_decision_def timeout_decision_def
  fail_closed_def default_decision_def

lemmas exempt_defs = posture_exempt_rules_def base_posture_exempt_rules_def

section \<open>Tighten-only stages\<close>

interpretation overrides: tightening_stage "apply_trust_overrides f now tr" for f now tr
proof
  fix d :: policy_decision
  show "pd_decision (apply_trust_overrides f now tr d) \<le> pd_decision d"
    by (simp add: apply_trust_overrides_def Let_def)
  show "pd_event_id (apply_trust_overrides f now tr d) = pd_event_id d"
    by (simp add: apply_trust_overrides_def Let_def)
qed

lemma ensure_block_attribution_verdict [simp]:
  "pd_decision (ensure_block_attribution d) = pd_decision d"
  by (simp add: ensure_block_attribution_def)

interpretation attribution: tightening_stage ensure_block_attribution
  by unfold_locales (simp_all add: ensure_block_attribution_def)

lemma ensure_block_attribution_rule:
  "pd_decision d = Block \<Longrightarrow> pd_rule_id (ensure_block_attribution d) \<notin> {'''', ''default_allow''}"
  by (simp add: ensure_block_attribution_def)

section \<open>Soften-only stages\<close>

text \<open>
  A softening stage keeps a decision as it is, or turns a block or escalation by a rule that is not
  exempt into an audit whose rule still names the original one.
\<close>

locale softening_stage =
  fixes stage :: "policy_decision \<Rightarrow> policy_decision" and exempt :: "string set"
  assumes stage_cases: "stage d = d \<or>
      (pd_decision d \<in> {Block, Escalate} \<and> pd_rule_id d \<notin> exempt
       \<and> pd_decision (stage d) = Audit \<and> ends_with (pd_rule_id (stage d)) (pd_rule_id d)
       \<and> pd_event_id (stage d) = pd_event_id d)"
begin

lemma soften_exempt: "pd_rule_id d \<in> exempt \<Longrightarrow> stage d = d"
  using stage_cases [of d] by blast

lemma soften_allowed: "is_allowed d \<Longrightarrow> stage d = d"
  using stage_cases [of d] by (auto simp: is_allowed_def)

lemma soften_at_most_audit: "pd_decision (stage d) \<in> {pd_decision d, Audit}"
  using stage_cases [of d] by auto

lemma soften_never_allows: "pd_decision (stage d) = Allow \<longleftrightarrow> pd_decision d = Allow"
  using stage_cases [of d] by auto

lemma soften_block: "pd_decision (stage d) = Block \<Longrightarrow> stage d = d"
  using stage_cases [of d] by auto

lemma soften_event: "pd_event_id (stage d) = pd_event_id d"
  using stage_cases [of d] by auto

end

interpretation monitor: softening_stage "apply_posture st po" "set (posture_exempt_rules st)" for st po
  by unfold_locales (auto simp: apply_posture_def)

text \<open>The policy's own mode is the same contract, for a result with everything but the decision fixed.\<close>

interpretation policy_mode: softening_stage
  "\<lambda>d. apply_policy_mode st (w\<lparr>res_decision := d\<rparr>)" "set (posture_exempt_rules st)" for st w
  by unfold_locales (auto simp: apply_policy_mode_def)

lemma apply_policy_mode_effective:
  "pd_decision (apply_policy_mode st w) \<le> effective_verdict w"
  by (auto simp: apply_policy_mode_def effective_verdict_def Let_def verdict_order)

lemma apply_posture_off [simp]: "\<not> po_monitor po \<Longrightarrow> apply_posture st po d = d"
  by (simp add: apply_posture_def)

lemma apply_posture_monitor:
  "\<lbrakk>po_monitor po; pd_rule_id d \<notin> set (posture_exempt_rules st)\<rbrakk>
   \<Longrightarrow> is_allowed (apply_posture st po d)"
  by (cases "pd_decision d") (simp_all add: apply_posture_def is_allowed_def)

lemma frozen_rule_exempt [simp]: "''trust_frozen'' \<in> set (posture_exempt_rules st)"
  by (simp add: exempt_defs)

lemma apply_trust_overrides_frozen:
  assumes "tr_category tr = ''frozen''"
  shows "pd_decision (apply_trust_overrides f now tr d) = Block"
    and "pd_rule_id (apply_trust_overrides f now tr d) = ''trust_frozen''"
  using assms by (simp_all add: apply_trust_overrides_def Let_def)

end
