(* ===== verification/Opa.thy ===== *)
theory Opa
  imports Stages Loader
begin

text \<open>
  Evaluation of one policy source by OPA (\<open>norviq/engine/opa_client.py\<close> and the \<open>_evaluate_opa\<close>
  family of \<open>norviq/engine/evaluator.py\<close>): module names, the package rewrite, the digest guard that
  pushes a module once, the bounded store of dry-run modules, the two evaluation modes, the reading of
  OPA's answer and the single retry. OPA itself, the digests and the rewrite of old empty literals are
  a record of functions over an abstract server state.
\<close>

section \<open>The interface\<close>

text \<open>
  A call may meet the evaluation deadline, which cancels it and is not an error its callers catch, or
  fail otherwise.
\<close>

datatype opa_error = Deadline | Opa_failed

record 'w opa_api =
  oa_push :: "string \<Rightarrow> string \<Rightarrow> 'w \<Rightarrow> (opa_error, unit) res \<times> 'w"
  oa_post :: "string \<Rightarrow> json \<Rightarrow> 'w \<Rightarrow> (opa_error, json) res \<times> 'w"
  oa_delete :: "string \<Rightarrow> 'w \<Rightarrow> (opa_error, unit) res \<times> 'w"
  oa_fork :: "string \<Rightarrow> string \<Rightarrow> json \<Rightarrow> 'w \<Rightarrow> (opa_error, json) res \<times> 'w"
  oa_sha256 :: "string \<Rightarrow> string"
  oa_sha1 :: "string \<Rightarrow> string"
  oa_upgrade :: "string \<Rightarrow> string"
  oa_repr :: "json \<Rightarrow> string"

record 'w opa_state =
  ox_server :: 'w
  ox_pushed :: "(string \<times> string) list"
  ox_dryrun :: "string list"
  ox_errors :: nat

section \<open>Module names and packages\<close>

definition is_alnum :: "char \<Rightarrow> bool" where
  "is_alnum c = (let n = of_char c :: nat in
     48 \<le> n \<and> n \<le> 57 \<or> 65 \<le> n \<and> n \<le> 90 \<or> 97 \<le> n \<and> n \<le> 122)"

fun sub_runs :: "bool \<Rightarrow> string \<Rightarrow> string" where
  "sub_runs inside [] = []"
| "sub_runs inside (c # s) =
     (if is_alnum c then c # sub_runs False s
      else if inside then sub_runs True s else CHR ''_'' # sub_runs True s)"

definition strip_underscores :: "string \<Rightarrow> string" where
  "strip_underscores s =
     rev (dropWhile (\<lambda>c. c = CHR ''_'') (rev (dropWhile (\<lambda>c. c = CHR ''_'') s)))"

definition sanitize_key :: "(string \<Rightarrow> string) \<Rightarrow> string \<Rightarrow> string" where
  "sanitize_key sha1 key =
     (let cleaned = strip_underscores (sub_runs False key)
      in (if cleaned = '''' then ''default'' else cleaned) @ ''_'' @ take 8 (sha1 key))"

definition managed_package :: "(string \<Rightarrow> string) \<Rightarrow> string \<Rightarrow> string" where
  "managed_package sha1 key = ''norviq.managed.'' @ sanitize_key sha1 key"

text \<open>
  What follows a package declaration at the start of \<open>s\<close>: the pattern's last blanks run to the end of
  the text or to the last line end among them.
\<close>

definition package_tail :: "string \<Rightarrow> string" where
  "package_tail s =
     (let s4 = dropWhile is_ident_char (dropWhile is_space (drop 7 (dropWhile is_space s)));
          blanks = takeWhile is_space s4;
          rest = dropWhile is_space s4
      in if rest = [] then []
         else rev (takeWhile (\<lambda>c. c \<noteq> CHR 0x0A) (rev blanks) @ [CHR 0x0A]) @ rest)"

function rewrite_first :: "string \<Rightarrow> string \<Rightarrow> string option" where
  "rewrite_first decl s =
     (case package_at s of
        Some _ \<Rightarrow> Some (decl @ package_tail s)
      | None \<Rightarrow>
          (case dropWhile (\<lambda>c. c \<noteq> CHR 0x0A) s of
             [] \<Rightarrow> None
           | nl # rest \<Rightarrow>
               map_option (\<lambda>r. takeWhile (\<lambda>c. c \<noteq> CHR 0x0A) s @ nl # r) (rewrite_first decl rest)))"
  by pat_completeness auto
termination
  by (relation "measure (length \<circ> snd)") (simp_all add: dropWhile_Cons_length)

declare rewrite_first.simps [simp del]

definition rewrite_package :: "string \<Rightarrow> string \<Rightarrow> string" where
  "rewrite_package rego package =
     (case rewrite_first (''package '' @ package) rego of
        Some s \<Rightarrow> s
      | None \<Rightarrow> ''package '' @ package @ [CHR 0x0A] @ rego)"

section \<open>Pushing modules\<close>

definition opa_source :: "'w opa_api \<Rightarrow> string \<Rightarrow> string" where
  "opa_source api rego = oa_upgrade api rego"

definition module_source :: "'w opa_api \<Rightarrow> string \<Rightarrow> string \<Rightarrow> string" where
  "module_source api key rego = rewrite_package (opa_source api rego) (managed_package (oa_sha1 api) key)"

definition push_module ::
  "'w opa_api \<Rightarrow> string \<Rightarrow> string \<Rightarrow> 'w opa_state \<Rightarrow> (opa_error, unit) res \<times> 'w opa_state" where
  "push_module api key rego s =
     (case oa_push api (sanitize_key (oa_sha1 api) key) (module_source api key rego) (ox_server s) of
        (r, w) \<Rightarrow> (r, s\<lparr>ox_server := w\<rparr>))"

definition max_dryrun_modules :: nat where
  "max_dryrun_modules = 256"

text \<open>A failed deletion is ignored; the deadline still cancels the eviction there.\<close>

function evict_dryrun ::
  "'w opa_api \<Rightarrow> 'w opa_state \<Rightarrow> (opa_error, unit) res \<times> 'w opa_state" where
  "evict_dryrun api s =
     (case ox_dryrun s of
        [] \<Rightarrow> (Inr (), s)
      | old # rest \<Rightarrow>
          if length (ox_dryrun s) \<le> max_dryrun_modules then (Inr (), s)
          else
            let s1 = s\<lparr>ox_dryrun := rest, ox_pushed := AList.delete old (ox_pushed s)\<rparr>
            in case oa_delete api (sanitize_key (oa_sha1 api) old) (ox_server s1) of
                 (Inl Deadline, w) \<Rightarrow> (Inl Deadline, s1\<lparr>ox_server := w\<rparr>)
               | (_, w) \<Rightarrow> evict_dryrun api (s1\<lparr>ox_server := w\<rparr>))"
  by pat_completeness auto
termination
  by (relation "measure (length \<circ> ox_dryrun \<circ> snd)") auto

declare evict_dryrun.simps [simp del]

definition track_dryrun_module ::
  "'w opa_api \<Rightarrow> string \<Rightarrow> 'w opa_state \<Rightarrow> (opa_error, unit) res \<times> 'w opa_state" where
  "track_dryrun_module api key s =
     evict_dryrun api (s\<lparr>ox_dryrun := filter (\<lambda>k. k \<noteq> key) (ox_dryrun s) @ [key]\<rparr>)"

definition ensure_module_pushed ::
  "'w opa_api \<Rightarrow> engine_settings \<Rightarrow> string \<Rightarrow> string \<Rightarrow> 'w opa_state
   \<Rightarrow> (opa_error, unit) res \<times> 'w opa_state" where
  "ensure_module_pushed api st key rego s =
     (if es_opa_mode st \<noteq> ''server'' then (Inr (), s)
      else let digest = oa_sha256 api rego
        in if map_of (ox_pushed s) key = Some digest then (Inr (), s)
           else (case push_module api key rego s of
               (Inl e, s1) \<Rightarrow> (Inl e, s1)
             | (Inr _, s1) \<Rightarrow>
                 let s2 = s1\<lparr>ox_pushed := AList.update key digest (ox_pushed s1)\<rparr>
                 in if starts_with key ''dryrun:'' then track_dryrun_module api key s2 else (Inr (), s2)))"

definition warm_module ::
  "'w opa_api \<Rightarrow> engine_settings \<Rightarrow> string \<Rightarrow> string \<Rightarrow> 'w opa_state \<Rightarrow> 'w opa_state" where
  "warm_module api st key rego s = snd (ensure_module_pushed api st key rego s)"

section \<open>Reading an answer\<close>

text \<open>The result dictionary of the evaluation functions.\<close>

record opa_answer =
  an_decision :: string
  an_rule_id :: string
  an_reason :: string

definition json_truthy :: "json \<Rightarrow> bool" where
  "json_truthy j =
     (case j of JNull \<Rightarrow> False | JBool b \<Rightarrow> b | JInt i \<Rightarrow> i \<noteq> 0 | JFloat x \<Rightarrow> x \<noteq> 0
      | JStr s \<Rightarrow> s \<noteq> [] | JList xs \<Rightarrow> xs \<noteq> [] | JObj ps \<Rightarrow> ps \<noteq> [])"

text \<open>\<open>str(value)\<close> of a JSON value; the text of numbers and collections is an argument.\<close>

definition py_str :: "(json \<Rightarrow> string) \<Rightarrow> json \<Rightarrow> string" where
  "py_str repr j =
     (case j of JStr s \<Rightarrow> s | JNull \<Rightarrow> ''None'' | JBool b \<Rightarrow> (if b then ''True'' else ''False'')
      | _ \<Rightarrow> repr j)"

definition field_truthy :: "(string \<times> json) list \<Rightarrow> string \<Rightarrow> bool" where
  "field_truthy obj k = (case map_of obj k of None \<Rightarrow> False | Some j \<Rightarrow> json_truthy j)"

definition fired_without_decision :: "(string \<times> json) list \<Rightarrow> bool" where
  "fired_without_decision obj \<longleftrightarrow>
     map_of obj ''decision'' = None
     \<and> (field_truthy obj ''blocks'' \<or> field_truthy obj ''escalates'' \<or> field_truthy obj ''audits'')"

definition field_str :: "(json \<Rightarrow> string) \<Rightarrow> (string \<times> json) list \<Rightarrow> string \<Rightarrow> string \<Rightarrow> string" where
  "field_str repr obj k fallback = (case map_of obj k of None \<Rightarrow> fallback | Some j \<Rightarrow> py_str repr j)"

definition invalid_payload :: "string \<Rightarrow> opa_answer" where
  "invalid_payload reason =
     \<lparr>an_decision = ''block'', an_rule_id = ''evaluator_invalid_payload'', an_reason = reason\<rparr>"

definition read_object :: "(json \<Rightarrow> string) \<Rightarrow> (string \<times> json) list \<Rightarrow> opa_answer" where
  "read_object repr obj =
     (if fired_without_decision obj
      then invalid_payload ''policy produced no decision (partial-set rule fired without a resolver)''
      else \<lparr>an_decision = field_str repr obj ''decision'' ''allow'',
            an_rule_id = field_str repr obj ''rule_id'' '''',
            an_reason = field_str repr obj ''reason'' ''''\<rparr>)"

text \<open>\<open>payload["result"][0]["expressions"][0]["value"]\<close>; a missing key or index yields nothing.\<close>

definition jfield :: "string \<Rightarrow> json \<Rightarrow> json option" where
  "jfield k j = (case j of JObj ps \<Rightarrow> map_of ps k | _ \<Rightarrow> None)"

definition jfirst :: "json \<Rightarrow> json option" where
  "jfirst j = (case j of JList (x # _) \<Rightarrow> Some x | _ \<Rightarrow> None)"

definition extract_opa_value :: "json \<Rightarrow> json option" where
  "extract_opa_value payload =
     Option.bind (jfield ''result'' payload) (\<lambda>a. Option.bind (jfirst a) (\<lambda>b.
     Option.bind (jfield ''expressions'' b) (\<lambda>c. Option.bind (jfirst c) (jfield ''value''))))"

section \<open>Evaluating a source\<close>

text \<open>The Data API: a body without a result, or with a null one, counts as undefined.\<close>

definition data_path :: "string \<Rightarrow> string" where
  "data_path package = map (\<lambda>c. if c = CHR ''.'' then CHR ''/'' else c) package"

definition opa_query ::
  "'w opa_api \<Rightarrow> string \<Rightarrow> json \<Rightarrow> 'w opa_state \<Rightarrow> (opa_error, json option) res \<times> 'w opa_state" where
  "opa_query api package input s =
     (case oa_post api (data_path package) input (ox_server s) of
        (Inl e, w) \<Rightarrow> (Inl e, s\<lparr>ox_server := w\<rparr>)
      | (Inr body, w) \<Rightarrow>
          (Inr (case jfield ''result'' body of Some JNull \<Rightarrow> None | r \<Rightarrow> r), s\<lparr>ox_server := w\<rparr>))"

definition server_answer :: "(json \<Rightarrow> string) \<Rightarrow> json option \<Rightarrow> opa_answer" where
  "server_answer repr r =
     (case r of Some (JObj obj) \<Rightarrow> read_object repr obj | _ \<Rightarrow> invalid_payload ''No policy decision produced'')"

text \<open>An undefined answer means that OPA lost the module: it is pushed again, once.\<close>

definition evaluate_opa_server ::
  "'w opa_api \<Rightarrow> engine_settings \<Rightarrow> string \<Rightarrow> string \<Rightarrow> json \<Rightarrow> 'w opa_state
   \<Rightarrow> (opa_error, opa_answer) res \<times> 'w opa_state" where
  "evaluate_opa_server api st key rego input s0 =
     (let package = managed_package (oa_sha1 api) key
      in then_do (ensure_module_pushed api st key rego s0) (\<lambda>_ s1.
         then_do (opa_query api package input s1) (\<lambda>result s2.
           case result of
             Some _ \<Rightarrow> (Inr (server_answer (oa_repr api) result), s2)
           | None \<Rightarrow>
               then_do (push_module api key rego s2) (\<lambda>_ s3.
               then_do (opa_query api package input
                  (s3\<lparr>ox_pushed := AList.update key (oa_sha256 api rego) (ox_pushed s3)\<rparr>)) (\<lambda>again s4.
                 (Inr (server_answer (oa_repr api) again), s4))))))"

definition opa_query_for_package :: "string option \<Rightarrow> string" where
  "opa_query_for_package package =
     (case package of None \<Rightarrow> ''data.norviq.strict''
      | Some p \<Rightarrow> if p = '''' then ''data.norviq.strict'' else ''data.'' @ p)"

definition subprocess_answer :: "(json \<Rightarrow> string) \<Rightarrow> json \<Rightarrow> opa_answer" where
  "subprocess_answer repr output =
     (case extract_opa_value output of
        None \<Rightarrow> invalid_payload ''No policy decision produced''
      | Some JNull \<Rightarrow> invalid_payload ''No policy decision produced''
      | Some (JObj obj) \<Rightarrow> read_object repr obj
      | Some _ \<Rightarrow> invalid_payload ''Invalid policy decision payload'')"

definition evaluate_opa_subprocess ::
  "'w opa_api \<Rightarrow> json \<Rightarrow> string \<Rightarrow> string option \<Rightarrow> 'w opa_state
   \<Rightarrow> (opa_error, opa_answer) res \<times> 'w opa_state" where
  "evaluate_opa_subprocess api input rego package_name s =
     (let package = (case package_name of None \<Rightarrow> extract_package_name rego | Some p \<Rightarrow> Some p)
      in case oa_fork api (opa_source api rego) (opa_query_for_package package) input (ox_server s) of
           (Inl e, w) \<Rightarrow> (Inl e, s\<lparr>ox_server := w\<rparr>)
         | (Inr output, w) \<Rightarrow> (Inr (subprocess_answer (oa_repr api) output), s\<lparr>ox_server := w\<rparr>))"

definition no_policy_decision :: "engine_settings \<Rightarrow> bool \<Rightarrow> opa_answer" where
  "no_policy_decision st warmed =
     (if \<not> warmed
      then \<lparr>an_decision = ''block'', an_rule_id = ''policy_load_pending'',
            an_reason = ''Policy subsystem not ready''\<rparr>
      else if es_enforcement_mode st = ''block'' \<and> lower (es_no_policy_decision st) = ''deny''
      then \<lparr>an_decision = ''block'', an_rule_id = ''no_policy_loaded'',
            an_reason = ''No policy loaded for namespace (default-deny)''\<rparr>
      else \<lparr>an_decision = ''allow'', an_rule_id = ''default_allow'', an_reason = ''No policy matched''\<rparr>)"

text \<open>
  A blank source is looked up in the evaluator's own index. An entry without a package carries Python's
  \<open>None\<close>, whose text is a package name to what follows.
\<close>

definition evaluate_opa ::
  "'w opa_api \<Rightarrow> engine_settings \<Rightarrow> replica \<Rightarrow> string \<Rightarrow> json \<Rightarrow> string \<Rightarrow> 'w opa_state
   \<Rightarrow> (opa_error, opa_answer) res \<times> 'w opa_state" where
  "evaluate_opa api st rp key input rego_source s =
     (let (rego, package_name) =
          (if strip rego_source \<noteq> '''' then (rego_source, None)
           else case map_of (rp_index rp) key of
               None \<Rightarrow> (rego_source, None)
             | Some e \<Rightarrow>
                 (ix_rego e, case ix_package_name e of None \<Rightarrow> Some ''None''
                    | Some p \<Rightarrow> if strip p = '''' then None else Some (strip p)))
      in if strip rego = '''' then (Inr (no_policy_decision st (rp_warmed rp)), s)
         else if es_opa_mode st = ''server'' then evaluate_opa_server api st key rego input s
         else evaluate_opa_subprocess api input rego package_name s)"

section \<open>One candidate\<close>

definition build_decision ::
  "opa_answer \<Rightarrow> tool_call_event \<Rightarrow> trust_result \<Rightarrow> rat \<Rightarrow> time \<Rightarrow> policy_decision option" where
  "build_decision a ev tr elapsed_ms now =
     map_option (\<lambda>v. (default_decision v now)
         \<lparr>pd_rule_id := an_rule_id a, pd_reason := an_reason a, pd_trust_score := tr_score tr,
          pd_trust_category := tr_category tr, pd_trust_signals := tr_signals tr,
          pd_trust_dominant_signal := tr_dominant_signal tr,
          pd_trust_recommendation := tr_recommendation tr, pd_latency_ms := elapsed_ms,
          pd_event_id := ev_event_id ev\<rparr>)
       (verdict_of (an_decision a))"

definition engine_error_answer :: opa_answer where
  "engine_error_answer =
     \<lparr>an_decision = ''block'', an_rule_id = ''evaluator_error'',
      an_reason = ''OPA evaluation failed (engine error, fail-closed) '' @ em_dash @ '' not a policy decision''\<rparr>"

text \<open>
  One attempt: an answer whose decision is none of the four verdicts fails the model's validation and
  counts as an error, as does an event whose input document cannot be built (\<open>None\<close>).
\<close>

definition attempt_single ::
  "'w opa_api \<Rightarrow> engine_settings \<Rightarrow> replica \<Rightarrow> tool_call_event \<Rightarrow> trust_result \<Rightarrow> time \<Rightarrow> json option
   \<Rightarrow> string \<Rightarrow> string \<Rightarrow> 'w opa_state \<Rightarrow> (opa_error, policy_decision) res \<times> 'w opa_state" where
  "attempt_single api st rp ev tr now input key rego s =
     (case input of
        None \<Rightarrow> (Inl Opa_failed, s)
      | Some doc \<Rightarrow>
          then_do (evaluate_opa api st rp key doc rego s) (\<lambda>a s'.
            case build_decision a ev tr 0 now of
              None \<Rightarrow> (Inl Opa_failed, s')
            | Some d \<Rightarrow> (Inr d, s')))"

definition evaluate_single ::
  "'w opa_api \<Rightarrow> engine_settings \<Rightarrow> replica \<Rightarrow> tool_call_event \<Rightarrow> trust_result \<Rightarrow> time \<Rightarrow> json option
   \<Rightarrow> string \<Rightarrow> string \<Rightarrow> 'w opa_state \<Rightarrow> (opa_error, policy_decision) res \<times> 'w opa_state" where
  "evaluate_single api st rp ev tr now input key rego s =
     (case attempt_single api st rp ev tr now input key rego s of
        (Inl Opa_failed, s1) \<Rightarrow>
          (case attempt_single api st rp ev tr now input key rego s1 of
             (Inl Opa_failed, s2) \<Rightarrow>
               (Inr (the (build_decision engine_error_answer ev tr 0 now)), s2\<lparr>ox_errors := ox_errors s2 + 1\<rparr>)
           | r \<Rightarrow> r)
      | r \<Rightarrow> r)"

end
