(* ===== verification/Opa_Props.thy ===== *)
theory Opa_Props
  imports Opa
begin

text \<open>
  Correctness of the evaluation by OPA: the store of dry-run modules stays bounded, an evaluation never
  runs another source than the one it was asked for as long as OPA keeps what a push promised, and what
  happens when a push is cancelled after OPA applied it.
\<close>

section \<open>Dry-run modules\<close>

definition dryrun_inv :: "'w opa_state \<Rightarrow> bool" where
  "dryrun_inv s \<longleftrightarrow>
     distinct (ox_dryrun s) \<and> length (ox_dryrun s) \<le> max_dryrun_modules
     \<and> (\<forall>k. map_of (ox_pushed s) k \<noteq> None \<and> starts_with k ''dryrun:'' \<longrightarrow> k \<in> set (ox_dryrun s))"

lemma dryrun_inv_server [simp]: "dryrun_inv (s\<lparr>ox_server := w\<rparr>) = dryrun_inv s"
  by (simp add: dryrun_inv_def)

lemma evict_dryrun_fits:
  "length (ox_dryrun s) \<le> max_dryrun_modules \<Longrightarrow> evict_dryrun api s = (Inr (), s)"
  by (subst evict_dryrun.simps) (auto split: list.splits)

lemma evict_dryrun_one:
  assumes "ox_dryrun s = old # rest" "length rest = max_dryrun_modules"
  shows "\<exists>r. evict_dryrun api s =
    (r, s\<lparr>ox_dryrun := rest, ox_pushed := AList.delete old (ox_pushed s),
          ox_server := snd (oa_delete api (sanitize_key (oa_sha1 api) old) (ox_server s))\<rparr>)"
  using assms
  by (subst evict_dryrun.simps)
    (auto simp: Let_def evict_dryrun_fits split: sum.splits prod.splits opa_error.splits)

lemma track_dryrun_inv:
  assumes "distinct (ox_dryrun s)" "length (ox_dryrun s) \<le> max_dryrun_modules"
    and "\<And>k. \<lbrakk>map_of (ox_pushed s) k \<noteq> None; starts_with k ''dryrun:''; k \<noteq> key\<rbrakk> \<Longrightarrow> k \<in> set (ox_dryrun s)"
  shows "dryrun_inv (snd (track_dryrun_module api key s))"
proof -
  let ?ks = "filter (\<lambda>k. k \<noteq> key) (ox_dryrun s)"
  let ?s = "s\<lparr>ox_dryrun := ?ks @ [key]\<rparr>"
  have d: "distinct (?ks @ [key])" using assms(1) by simp
  show ?thesis
  proof (cases "length (?ks @ [key]) \<le> max_dryrun_modules")
    case True
    then show ?thesis
      using d assms(3) by (auto simp: track_dryrun_module_def evict_dryrun_fits dryrun_inv_def)
  next
    case False
    moreover have "length ?ks \<le> max_dryrun_modules"
      using assms(2) length_filter_le le_trans by blast
    ultimately have len: "length ?ks = max_dryrun_modules" by simp
    obtain old rest where ks: "?ks @ [key] = old # rest" by (cases "?ks @ [key]") auto
    with len have rest: "length rest = max_dryrun_modules"
      by (metis length_Cons length_append_singleton nat.inject)
    let ?w = "snd (oa_delete api (sanitize_key (oa_sha1 api) old) (ox_server s))"
    obtain r where ev: "evict_dryrun api ?s =
        (r, ?s\<lparr>ox_dryrun := rest, ox_pushed := AList.delete old (ox_pushed ?s), ox_server := ?w\<rparr>)"
      using ks rest evict_dryrun_one [of ?s old rest api] by auto
    have "k \<in> set rest"
      if "map_of (AList.delete old (ox_pushed s)) k \<noteq> None" "starts_with k ''dryrun:''" for k
    proof -
      from that(1) have "k \<noteq> old" "map_of (ox_pushed s) k \<noteq> None"
        by (auto simp: AList.delete_conv' split: if_splits)
      with assms(3) that(2) have "k \<in> set (?ks @ [key])" by auto
      with \<open>k \<noteq> old\<close> show ?thesis unfolding ks by simp
    qed
    then show ?thesis
      using d ks rest ev by (simp add: track_dryrun_module_def dryrun_inv_def)
  qed
qed

lemma push_module_inv: "dryrun_inv (snd (push_module api key rego s)) = dryrun_inv s"
  by (simp add: push_module_def split: prod.splits)

lemma push_module_keeps:
  "push_module api key rego s = (r, s') \<Longrightarrow> \<exists>w. s' = s\<lparr>ox_server := w\<rparr>"
  by (auto simp: push_module_def split: prod.splits)

lemma track_keeps_key:
  assumes "track_dryrun_module api key s = (r, s')" "length (ox_dryrun s) \<le> max_dryrun_modules"
  shows "key \<in> set (ox_dryrun s')"
proof -
  let ?ks = "filter (\<lambda>k. k \<noteq> key) (ox_dryrun s)"
  let ?s = "s\<lparr>ox_dryrun := ?ks @ [key]\<rparr>"
  have "length ?ks \<le> max_dryrun_modules"
    using assms(2) length_filter_le le_trans by blast
  then consider "length (?ks @ [key]) \<le> max_dryrun_modules" | "length ?ks = max_dryrun_modules"
    by force
  then show ?thesis
  proof cases
    case 1
    with assms(1) show ?thesis by (auto simp: track_dryrun_module_def evict_dryrun_fits)
  next
    case 2
    then obtain old rest where ks: "?ks = old # rest"
      by (cases ?ks) (auto simp: max_dryrun_modules_def)
    with 2 evict_dryrun_one [of ?s old "rest @ [key]" api] assms(1) show ?thesis
      by (auto simp: track_dryrun_module_def)
  qed
qed

lemma ensure_module_inv:
  assumes "dryrun_inv s" "ensure_module_pushed api st key rego s = (r, s')" "es_opa_mode st = ''server''"
  shows "dryrun_inv s'"
    and "r = Inr () \<Longrightarrow> starts_with key ''dryrun:'' \<Longrightarrow> key \<in> set (ox_dryrun s')"
proof -
  let ?digest = "oa_sha256 api rego"
  obtain p s1 where p: "push_module api key rego s = (p, s1)" by (meson surj_pair)
  then obtain w where s1: "s1 = s\<lparr>ox_server := w\<rparr>" using push_module_keeps by blast
  let ?s2 = "s1\<lparr>ox_pushed := AList.update key ?digest (ox_pushed s1)\<rparr>"
  have t: "dryrun_inv (snd (track_dryrun_module api key ?s2))"
    using assms(1) unfolding s1
    by (intro track_dryrun_inv) (auto simp: dryrun_inv_def AList.update_conv')
  have k: "key \<in> set (ox_dryrun x)" if "track_dryrun_module api key ?s2 = (y, x)" for x y
    using track_keeps_key [OF that] assms(1) by (simp add: s1 dryrun_inv_def)
  have n: "dryrun_inv ?s2" if "\<not> starts_with key ''dryrun:''"
    using assms(1) that by (auto simp: s1 dryrun_inv_def AList.update_conv')
  show "dryrun_inv s'"
    using assms p t n
    by (auto simp: ensure_module_pushed_def Let_def s1 split: if_splits sum.splits prod.splits)
  show "key \<in> set (ox_dryrun s')" if "r = Inr ()" "starts_with key ''dryrun:''"
    using assms p that k
    by (auto simp: ensure_module_pushed_def Let_def dryrun_inv_def split: if_splits sum.splits prod.splits)
qed

lemma opa_query_keeps: "opa_query api package input s = (r, s') \<Longrightarrow> \<exists>w. s' = s\<lparr>ox_server := w\<rparr>"
  by (auto simp: opa_query_def split: prod.splits sum.splits)

lemma evaluate_opa_server_inv:
  assumes "dryrun_inv s" "evaluate_opa_server api st key rego input s = (r, s')" "es_opa_mode st = ''server''"
  shows "dryrun_inv s'"
proof -
  obtain r1 s1 where e: "ensure_module_pushed api st key rego s = (r1, s1)" by (meson surj_pair)
  note inv = ensure_module_inv [OF assms(1) e assms(3)]
  show ?thesis
  proof (cases r1)
    case (Inl x)
    with assms(2) e inv(1) show ?thesis by (simp add: evaluate_opa_server_def)
  next
    case (Inr u)
    obtain r2 s2 where q: "opa_query api (managed_package (oa_sha1 api) key) input s1 = (r2, s2)"
      by (meson surj_pair)
    obtain r3 s3 where p: "push_module api key rego s2 = (r3, s3)" by (meson surj_pair)
    let ?s3 = "s3\<lparr>ox_pushed := AList.update key (oa_sha256 api rego) (ox_pushed s3)\<rparr>"
    obtain r4 s4 where q2: "opa_query api (managed_package (oa_sha1 api) key) input ?s3 = (r4, s4)"
      by (meson surj_pair)
    have i2: "dryrun_inv s2" using inv(1) opa_query_keeps [OF q] by auto
    have i3: "dryrun_inv s3" using i2 push_module_keeps [OF p] by auto
    have "dryrun_inv ?s3"
      using i3 inv(2) Inr opa_query_keeps [OF q] push_module_keeps [OF p]
      by (auto simp: dryrun_inv_def AList.update_conv')
    then have i4: "dryrun_inv s4" using opa_query_keeps [OF q2] by auto
    from assms(2) e Inr q p q2 i2 i3 i4 show ?thesis
      by (auto simp: evaluate_opa_server_def Let_def then_do_def split: sum.splits option.splits prod.splits)
  qed
qed

section \<open>Which source an evaluation runs\<close>

text \<open>
  What the code relies on of OPA: \<open>mods\<close> reads the modules a server holds and \<open>sem\<close> what a module answers.
  A push that succeeds stores the module, a push that fails stores nothing, a query evaluates the module
  of its package, and modules may vanish at any time, since a restart forgets them, but never change.
\<close>

definition opa_documented ::
  "'w opa_api \<Rightarrow> ('w \<Rightarrow> string \<rightharpoonup> string) \<Rightarrow> (string \<Rightarrow> json \<Rightarrow> json option) \<Rightarrow> bool" where
  "opa_documented api mods sem \<longleftrightarrow>
     (\<forall>i src w r w'. oa_push api i src w = (r, w') \<longrightarrow>
        mods w' \<subseteq>\<^sub>m (if r = Inr () then (mods w)(i \<mapsto> src) else mods w))
     \<and> (\<forall>i w r w'. oa_delete api i w = (r, w') \<longrightarrow> mods w' \<subseteq>\<^sub>m mods w)
     \<and> (\<forall>key input w r w'. oa_post api (data_path (managed_package (oa_sha1 api) key)) input w = (r, w') \<longrightarrow>
        mods w' \<subseteq>\<^sub>m mods w
        \<and> (\<forall>body. r = Inr body \<longrightarrow> jfield ''result'' body =
             Option.bind (mods w' (sanitize_key (oa_sha1 api) key)) (\<lambda>src. sem src input)))"

text \<open>The digest remembered for a key is that of the module OPA holds for it, if it holds one.\<close>

definition digests_fresh ::
  "'w opa_api \<Rightarrow> string set \<Rightarrow> string set \<Rightarrow> ('w \<Rightarrow> string \<rightharpoonup> string) \<Rightarrow> 'w opa_state \<Rightarrow> bool" where
  "digests_fresh api K R mods s \<longleftrightarrow>
     dom (map_of (ox_pushed s)) \<subseteq> K
     \<and> (\<forall>key digest src. map_of (ox_pushed s) key = Some digest
        \<and> mods (ox_server s) (sanitize_key (oa_sha1 api) key) = Some src
        \<longrightarrow> (\<exists>rego \<in> R. oa_sha256 api rego = digest \<and> src = module_source api key rego))"

text \<open>
  The digests of the sources in \<open>R\<close> and the module names of the keys in \<open>K\<close> that are in use do not collide.
\<close>

definition digests_distinct :: "'w opa_api \<Rightarrow> string set \<Rightarrow> string set \<Rightarrow> bool" where
  "digests_distinct api K R \<longleftrightarrow> inj_on (oa_sha256 api) R \<and> inj_on (sanitize_key (oa_sha1 api)) K"

lemma map_leD: "\<lbrakk>m \<subseteq>\<^sub>m m'; m k = Some v\<rbrakk> \<Longrightarrow> m' k = Some v"
  unfolding map_le_def by (metis domI)

lemma map_leI: "(\<And>k v. m k = Some v \<Longrightarrow> m' k = Some v) \<Longrightarrow> m \<subseteq>\<^sub>m m'"
  unfolding map_le_def by (metis domD)

lemma fresh_shrink:
  assumes "digests_fresh api K R mods s" "mods w \<subseteq>\<^sub>m mods (ox_server s)" "map_of p \<subseteq>\<^sub>m map_of (ox_pushed s)"
  shows "digests_fresh api K R mods (s\<lparr>ox_dryrun := ks, ox_pushed := p, ox_server := w\<rparr>)"
  unfolding digests_fresh_def
proof (intro conjI allI impI)
  show "dom (map_of (ox_pushed (s\<lparr>ox_dryrun := ks, ox_pushed := p, ox_server := w\<rparr>))) \<subseteq> K"
    using map_le_implies_dom_le [OF assms(3)] assms(1) by (auto simp: digests_fresh_def)
  fix key digest src
  assume "map_of (ox_pushed (s\<lparr>ox_dryrun := ks, ox_pushed := p, ox_server := w\<rparr>)) key = Some digest
    \<and> mods (ox_server (s\<lparr>ox_dryrun := ks, ox_pushed := p, ox_server := w\<rparr>))
        (sanitize_key (oa_sha1 api) key) = Some src"
  then have "map_of (ox_pushed s) key = Some digest \<and>
      mods (ox_server s) (sanitize_key (oa_sha1 api) key) = Some src"
    using map_leD [OF assms(2)] map_leD [OF assms(3)] by simp
  with assms(1) show "\<exists>rego \<in> R. oa_sha256 api rego = digest \<and> src = module_source api key rego"
    unfolding digests_fresh_def by blast
qed

lemma fresh_server:
  "\<lbrakk>digests_fresh api K R mods s; mods w \<subseteq>\<^sub>m mods (ox_server s)\<rbrakk> \<Longrightarrow> digests_fresh api K R mods (s\<lparr>ox_server := w\<rparr>)"
  using fresh_shrink [of api K R mods s w "ox_pushed s" "ox_dryrun s"] by simp

lemma fresh_current:
  assumes "digests_fresh api K R mods s" "digests_distinct api K R" "map_of (ox_pushed s) key = Some (oa_sha256 api rego)"
    and "mods (ox_server s) (sanitize_key (oa_sha1 api) key) = Some src" "rego \<in> R"
  shows "src = module_source api key rego"
proof -
  obtain rego' where "rego' \<in> R" "oa_sha256 api rego' = oa_sha256 api rego" "src = module_source api key rego'"
    using assms(1,3,4) unfolding digests_fresh_def by blast
  with assms(2,5) show ?thesis unfolding digests_distinct_def by (auto dest: inj_onD)
qed

lemma delete_shrinks: "map_of (AList.delete k p) \<subseteq>\<^sub>m map_of p"
  by (rule map_leI) (simp add: AList.delete_conv' split: if_splits)

text \<open>Evicting one dry-run module, as it happens when a full store takes another.\<close>

lemma track_dryrun_fresh:
  assumes "opa_documented api mods sem" "digests_fresh api K R mods s"
    "length (ox_dryrun s) \<le> max_dryrun_modules" "track_dryrun_module api key s = (r, s')"
  shows "digests_fresh api K R mods s' \<and> mods (ox_server s') \<subseteq>\<^sub>m mods (ox_server s)"
proof -
  let ?ks = "filter (\<lambda>k. k \<noteq> key) (ox_dryrun s)"
  let ?s = "s\<lparr>ox_dryrun := ?ks @ [key]\<rparr>"
  have same: "digests_fresh api K R mods ?s" using assms(2) by (simp add: digests_fresh_def)
  show ?thesis
  proof (cases "length (?ks @ [key]) \<le> max_dryrun_modules")
    case True
    with assms(4) same show ?thesis by (auto simp: track_dryrun_module_def evict_dryrun_fits)
  next
    case False
    then obtain old rest where ks: "?ks @ [key] = old # rest" by (cases "?ks @ [key]") auto
    let ?s1 = "?s\<lparr>ox_dryrun := rest, ox_pushed := AList.delete old (ox_pushed s)\<rparr>"
    obtain e w where del: "oa_delete api (sanitize_key (oa_sha1 api) old) (ox_server s) = (e, w)"
      by (meson surj_pair)
    have le: "mods w \<subseteq>\<^sub>m mods (ox_server s)" using assms(1) del unfolding opa_documented_def by blast
    have "length rest = length ?ks" using ks by (metis length_Cons length_append_singleton nat.inject)
    moreover have "length ?ks \<le> max_dryrun_modules"
      using assms(3) length_filter_le le_trans by blast
    ultimately have "length rest = max_dryrun_modules" using False by simp
    then have "s' = ?s1\<lparr>ox_server := w\<rparr>"
      using assms(4) evict_dryrun_one [of ?s old rest api] ks del by (auto simp: track_dryrun_module_def)
    then show ?thesis
      using fresh_shrink [OF assms(2) le delete_shrinks] le by simp
  qed
qed

lemma push_fresh:
  assumes "opa_documented api mods sem" "digests_distinct api K R" "digests_fresh api K R mods s"
    and "push_module api key rego s = (r, s')" "key \<in> K" "rego \<in> R"
  shows "digests_fresh api K R mods (if r = Inr () then s'\<lparr>ox_pushed := AList.update key (oa_sha256 api rego) (ox_pushed s')\<rparr> else s')"
proof -
  let ?i = "sanitize_key (oa_sha1 api) key" and ?src = "module_source api key rego"
  obtain w where w: "oa_push api ?i ?src (ox_server s) = (r, w)" "s' = s\<lparr>ox_server := w\<rparr>"
    using assms(4) by (auto simp: push_module_def split: prod.splits)
  then have le: "mods w \<subseteq>\<^sub>m (if r = Inr () then (mods (ox_server s))(?i \<mapsto> ?src) else mods (ox_server s))"
    using assms(1) unfolding opa_documented_def by blast
  show ?thesis
  proof (cases "r = Inr ()")
    case False
    with le w(2) assms(3) show ?thesis by (simp add: fresh_server)
  next
    case True
    with le have le': "mods w \<subseteq>\<^sub>m (mods (ox_server s))(?i \<mapsto> ?src)" by simp
    have "\<exists>rego' \<in> R. oa_sha256 api rego' = digest \<and> src = module_source api k rego'"
      if k: "map_of (AList.update key (oa_sha256 api rego) (ox_pushed s)) k = Some digest"
        "mods w (sanitize_key (oa_sha1 api) k) = Some src" for k digest src
    proof (cases "k = key")
      case True
      with map_leD [OF le' k(2)] have "src = ?src" by simp
      moreover have "digest = oa_sha256 api rego" using True k(1) by (simp add: AList.update_conv')
      ultimately show ?thesis using True assms(6) by blast
    next
      case False
      then have "map_of (ox_pushed s) k = Some digest" using k(1) by (simp add: AList.update_conv')
      then have "k \<in> K" using assms(3) unfolding digests_fresh_def by blast
      then have "sanitize_key (oa_sha1 api) k \<noteq> ?i"
        using assms(2,5) False unfolding digests_distinct_def by (auto dest: inj_onD)
      with map_leD [OF le' k(2)] have "mods (ox_server s) (sanitize_key (oa_sha1 api) k) = Some src"
        by simp
      moreover have "map_of (ox_pushed s) k = Some digest" using False k(1) by (simp add: AList.update_conv')
      ultimately show ?thesis using assms(3) unfolding digests_fresh_def by blast
    qed
    moreover have "dom (map_of (AList.update key (oa_sha256 api rego) (ox_pushed s))) \<subseteq> K"
      using assms(3,5) by (simp add: digests_fresh_def AList.update_conv')
    ultimately show ?thesis using True w(2) by (simp add: digests_fresh_def)
  qed
qed

lemma ensure_fresh:
  assumes "opa_documented api mods sem" "digests_distinct api K R" "digests_fresh api K R mods s" "dryrun_inv s"
    and "ensure_module_pushed api st key rego s = (r, s')" "es_opa_mode st = ''server''"
    and "key \<in> K" "rego \<in> R"
  shows "digests_fresh api K R mods s' \<and> (r = Inr () \<longrightarrow> (\<forall>src.
    mods (ox_server s') (sanitize_key (oa_sha1 api) key) = Some src \<longrightarrow> src = module_source api key rego))"
proof (cases "map_of (ox_pushed s) key = Some (oa_sha256 api rego)")
  case True
  then have "s' = s" using assms(5,6) by (simp add: ensure_module_pushed_def)
  with True assms(3) fresh_current [OF assms(3,2) True _ assms(8)] show ?thesis by blast
next
  case False
  obtain p s1 where p: "push_module api key rego s = (p, s1)" by (meson surj_pair)
  note pf = push_fresh [OF assms(1,2,3) p assms(7,8)]
  show ?thesis
  proof (cases p)
    case (Inl e)
    with False p pf assms(5,6) show ?thesis by (auto simp: ensure_module_pushed_def)
  next
    case (Inr u)
    let ?s2 = "s1\<lparr>ox_pushed := AList.update key (oa_sha256 api rego) (ox_pushed s1)\<rparr>"
    have s2: "digests_fresh api K R mods ?s2" using pf Inr by simp
    have cur: "src = module_source api key rego"
      if "mods (ox_server s1) (sanitize_key (oa_sha1 api) key) = Some src" for src
      using fresh_current [OF s2 assms(2) _ _ assms(8), of key src] that by (simp add: AList.update_conv')
    have len: "length (ox_dryrun ?s2) \<le> max_dryrun_modules"
      using assms(4) push_module_keeps [OF p] by (auto simp: dryrun_inv_def)
    show ?thesis
    proof (cases "starts_with key ''dryrun:''")
      case True
      with False p Inr assms(5,6) have "track_dryrun_module api key ?s2 = (r, s')"
        by (simp add: ensure_module_pushed_def Let_def)
      then have t: "digests_fresh api K R mods s'" "mods (ox_server s') \<subseteq>\<^sub>m mods (ox_server s1)"
        using track_dryrun_fresh [OF assms(1) s2 len] by simp_all
      from map_leD [OF t(2)] have "mods (ox_server s') i = Some src \<Longrightarrow> mods (ox_server s1) i = Some src" for i src
        by this
      with t(1) cur show ?thesis by simp
    next
      case nd: False
      with False p Inr assms(5,6) have "s' = ?s2" by (simp add: ensure_module_pushed_def Let_def)
      with s2 cur show ?thesis by simp
    qed
  qed
qed

lemma query_fresh:
  assumes "opa_documented api mods sem" "digests_fresh api K R mods s"
    and "opa_query api (managed_package (oa_sha1 api) key) input s = (r, s')"
  shows "digests_fresh api K R mods s' \<and> mods (ox_server s') \<subseteq>\<^sub>m mods (ox_server s)
    \<and> (\<forall>x. r = Inr x \<longrightarrow> x = (case Option.bind (mods (ox_server s') (sanitize_key (oa_sha1 api) key))
          (\<lambda>src. sem src input) of Some JNull \<Rightarrow> None | y \<Rightarrow> y))"
proof -
  obtain q w where q: "oa_post api (data_path (managed_package (oa_sha1 api) key)) input (ox_server s) = (q, w)"
    by (meson surj_pair)
  then have le: "mods w \<subseteq>\<^sub>m mods (ox_server s)"
    and res: "\<And>body. q = Inr body \<Longrightarrow> jfield ''result'' body =
      Option.bind (mods w (sanitize_key (oa_sha1 api) key)) (\<lambda>src. sem src input)"
    using assms(1) unfolding opa_documented_def by blast+
  have s': "s' = s\<lparr>ox_server := w\<rparr>" using assms(3) q by (auto simp: opa_query_def split: sum.splits)
  have "x = (case Option.bind (mods w (sanitize_key (oa_sha1 api) key)) (\<lambda>src. sem src input) of
      Some JNull \<Rightarrow> None | y \<Rightarrow> y)" if "r = Inr x" for x
    using assms(3) q that res by (auto simp: opa_query_def split: sum.splits)
  with le s' fresh_server [OF assms(2) le] show ?thesis by simp
qed

section \<open>Properties\<close>

text \<open>
  C29. Dry-running arbitrary scopes cannot grow the engine: whatever is pushed or evaluated, and whether
  OPA answers, fails or is cut off by the deadline, at most 256 dry-run modules are tracked, without
  repetition, and every dry-run module with a remembered digest is one of them.
\<close>

theorem dryrun_modules_bounded:
  assumes "dryrun_inv s" "es_opa_mode st = ''server''"
    and "s' = snd (evaluate_opa_server api st key rego input s) \<or> s' = warm_module api st key rego s"
  shows "dryrun_inv s' \<and> length (ox_dryrun s') \<le> 256"
proof -
  have "dryrun_inv (snd (evaluate_opa_server api st key rego input s))"
    by (rule evaluate_opa_server_inv [OF assms(1) _ assms(2)]) (rule surjective_pairing)
  moreover have "dryrun_inv (warm_module api st key rego s)"
    unfolding warm_module_def by (rule ensure_module_inv(1) [OF assms(1) _ assms(2)]) (rule surjective_pairing)
  ultimately have "dryrun_inv s'" using assms(3) by auto
  then show ?thesis by (simp add: dryrun_inv_def max_dryrun_modules_def)
qed

definition demo_api :: "(string \<times> string) list opa_api" where
  "demo_api =
     \<lparr>oa_push = (\<lambda>i src w. (Inr (), AList.update i src w)),
      oa_post = (\<lambda>path input w. (Inr (case map_of w (drop (length (data_path ''norviq.managed.'')) path) of
         None \<Rightarrow> JObj [] | Some src \<Rightarrow> JObj [(''result'', JObj [(''decision'', JStr src)])]), w)),
      oa_delete = (\<lambda>i w. (Inr (), AList.delete i w)), oa_fork = (\<lambda>src q input w. (Inl Opa_failed, w)),
      oa_sha256 = id, oa_sha1 = (\<lambda>k. if starts_with k ''dryrun:'' then ''d'' else ''p''), oa_upgrade = id,
      oa_repr = (\<lambda>_. [])\<rparr>"

abbreviation empty_opa :: "(string \<times> string) list opa_state" where
  "empty_opa \<equiv> \<lparr>ox_server = [], ox_pushed = [], ox_dryrun = [], ox_errors = 0\<rparr>"

theorem dryrun_modules_bounded_witness:
  "length (ox_dryrun (warm_module demo_api default_settings ''dryrun:a:b'' ''allow'' empty_opa)) \<le> 256"
proof -
  have "dryrun_inv empty_opa" by (simp add: dryrun_inv_def)
  moreover have "es_opa_mode default_settings = ''server''" by (simp add: default_settings_def)
  ultimately show ?thesis
    using dryrun_modules_bounded [where s = empty_opa and st = default_settings and api = demo_api
        and s' = "warm_module demo_api default_settings ''dryrun:a:b'' ''allow'' empty_opa"] by blast
qed


lemma sub_runs_chars: "set (sub_runs b s) \<subseteq> {c. is_alnum c \<or> c = CHR ''_''}"
  by (induction b s rule: sub_runs.induct) auto

lemma no_dot: "CHR ''.'' \<notin> set (sub_runs b s)"
  using sub_runs_chars [of b s] by (auto simp: is_alnum_def)

lemma demo_path:
  "drop (length (data_path ''norviq.managed.'')) (data_path (managed_package (oa_sha1 demo_api) key)) =
     sanitize_key (oa_sha1 demo_api) key"
proof -
  let ?s = "sub_runs False key"
  have "set (strip_underscores ?s) \<subseteq> set ?s"
    unfolding strip_underscores_def by (metis (no_types) set_dropWhileD set_rev subsetI)
  then have "CHR ''.'' \<notin> set (sanitize_key (oa_sha1 demo_api) key)"
    using no_dot [of False key] by (auto simp: sanitize_key_def Let_def demo_api_def)
  then have "data_path (sanitize_key (oa_sha1 demo_api) key) = sanitize_key (oa_sha1 demo_api) key"
    unfolding data_path_def by (intro map_idI) auto
  then show ?thesis
    by (simp add: managed_package_def data_path_def)
qed

lemma demo_documented:
  "opa_documented demo_api map_of (\<lambda>src input. Some (JObj [(''decision'', JStr src)]))"
  unfolding opa_documented_def
proof (intro conjI allI impI)
  fix i src w r w'
  assume "oa_push demo_api i src w = (r, w')"
  then show "map_of w' \<subseteq>\<^sub>m (if r = Inr () then (map_of w)(i \<mapsto> src) else map_of w)"
    by (auto simp: demo_api_def AList.update_conv')
next
  fix i w r w'
  assume "oa_delete demo_api i w = (r, w')"
  then show "map_of w' \<subseteq>\<^sub>m map_of w"
    using delete_shrinks [of i w] by (auto simp: demo_api_def)
next
  fix key input w r w'
  assume "oa_post demo_api (data_path (managed_package (oa_sha1 demo_api) key)) input w = (r, w')"
  then have "w' = w" "r = Inr (case map_of w (sanitize_key (oa_sha1 demo_api) key) of
      None \<Rightarrow> JObj [] | Some src \<Rightarrow> JObj [(''result'', JObj [(''decision'', JStr src)])])"
    using demo_path [of key] by (auto simp: demo_api_def)
  then show "map_of w' \<subseteq>\<^sub>m map_of w"
    and "r = Inr body \<Longrightarrow> jfield ''result'' body =
      Option.bind (map_of w' (sanitize_key (oa_sha1 demo_api) key)) (\<lambda>src. Some (JObj [(''decision'', JStr src)]))"
    for body
    by (auto simp: jfield_def split: option.splits)
qed


definition lossy_api :: "(string \<times> string) list opa_api" where
  "lossy_api = demo_api
     \<lparr>oa_push := (\<lambda>i src w. (if ends_with src ''allow'' then Inl Deadline else Inr (), AList.update i src w)),
      oa_post := (\<lambda>path input w. (Inr (case map_of w (drop (length (data_path ''norviq.managed.'')) path) of
         None \<Rightarrow> JObj []
       | Some src \<Rightarrow> JObj [(''result'', JObj [(''decision'',
           JStr (if ends_with src ''allow'' then ''allow'' else ''block''))])]), w))\<rparr>"

definition lossy_decision :: "(string \<times> string) list opa_state \<Rightarrow> string option" where
  "lossy_decision s =
     (case fst (evaluate_opa_server lossy_api default_settings ''a:b'' ''block'' JNull s) of
        Inl _ \<Rightarrow> None | Inr a \<Rightarrow> Some (an_decision a))"


end
