(* ===== verification/Candidates.thy ===== *)
theory Candidates
  imports Resolver Loader_Props
begin

text \<open>
  Which policies one evaluation considers (\<open>norviq/engine/evaluator.py\<close>, \<open>_collect_candidates\<close>,
  \<open>_collect_candidates_union\<close>, \<open>_apply_controls_supersede\<close>): the class policy, the reserved floors,
  the namespace and workload tiers and the in-memory overlays, with lazy loads from the tables. The
  digest and the coverage check of the baseline compiler (\<open>baseline_lib.covers\<close>) are arguments.
\<close>

section \<open>Candidates and lookups\<close>

record candidate =
  cand_key :: string
  cand_rego :: string
  cand_priority :: int
  cand_mode :: string
  cand_overlay :: bool
  cand_superseded_by :: "string option"

type_synonym memo = "((string \<times> string) \<times> bool) list"

type_synonym collector = "replica \<times> memo"

definition candidate_of :: "string \<Rightarrow> loader_entry \<Rightarrow> bool \<Rightarrow> candidate" where
  "candidate_of key e overlay =
     \<lparr>cand_key = key, cand_rego = en_rego e, cand_priority = en_priority e, cand_mode = en_mode e,
      cand_overlay = overlay, cand_superseded_by = None\<rparr>"

text \<open>
  \<open>_append_policy\<close> (no overlay) and \<open>_append_controls_floor\<close> (overlay): memory first, then the tables.
\<close>

definition append_policy ::
  "io \<Rightarrow> db \<Rightarrow> bool \<Rightarrow> string \<Rightarrow> string \<Rightarrow> collector
   \<Rightarrow> (loader_error, candidate option) res \<times> collector" where
  "append_policy io d as_floor ns cls s =
     (case s of (rp, memo) \<Rightarrow>
       (case get_entry rp ns cls of
          Some e \<Rightarrow> (Inr (Some (candidate_of (policy_key ns cls) e as_floor)), s)
        | None \<Rightarrow>
            (case load_from_db io ns cls d rp of
               (Inl err, rp') \<Rightarrow> (Inl err, (rp', memo))
             | (Inr loaded, rp') \<Rightarrow>
                 (Inr (map_option (\<lambda>e. candidate_of (policy_key ns cls) e as_floor) loaded), (rp', memo)))))"

text \<open>The tiers keep their entry's mode; the overlays collected from memory carry none.\<close>

definition memory_tier :: "replica \<Rightarrow> string \<Rightarrow> candidate list" where
  "memory_tier rp key =
     (case map_of (rp_policies rp) key of None \<Rightarrow> [] | Some e \<Rightarrow> [candidate_of key e False])"

definition memory_overlay :: "replica \<Rightarrow> string \<Rightarrow> candidate list" where
  "memory_overlay rp key =
     (case map_of (rp_policies rp) key of None \<Rightarrow> []
      | Some e \<Rightarrow> [(candidate_of key e True)\<lparr>cand_mode := ''block''\<rparr>])"

section \<open>Saved controls that supersede the chart's baseline\<close>

definition supersede_memo_max :: nat where
  "supersede_memo_max = 1024"

definition controls_supersede_baseline ::
  "(string \<Rightarrow> string) \<Rightarrow> (string \<Rightarrow> string \<Rightarrow> bool option) \<Rightarrow> candidate \<Rightarrow> candidate \<Rightarrow> memo \<Rightarrow> bool \<times> memo" where
  "controls_supersede_baseline sha256 covers controls baseline memo =
     (let pair = (sha256 (cand_rego controls), sha256 (cand_rego baseline))
      in case map_of memo pair of
           Some known \<Rightarrow> (known, memo)
         | None \<Rightarrow>
             (case covers (cand_rego controls) (cand_rego baseline) of
                None \<Rightarrow> (False, memo)
              | Some covered \<Rightarrow>
                  (covered, AList.update pair covered
                     (if supersede_memo_max \<le> length memo then [] else memo))))"

text \<open>
  What becomes of the namespace's baseline candidate: kept, dropped, or, for the explanation view,
  kept with a note of what supersedes it.
\<close>

definition apply_controls_supersede ::
  "(string \<Rightarrow> string) \<Rightarrow> (string \<Rightarrow> string \<Rightarrow> bool option) \<Rightarrow> bool \<Rightarrow> candidate option \<Rightarrow> candidate option
   \<Rightarrow> memo \<Rightarrow> candidate option \<times> memo" where
  "apply_controls_supersede sha256 covers explain controls ns_baseline memo =
     (case (controls, ns_baseline) of
        (Some c, Some b) \<Rightarrow>
          if cand_mode c \<noteq> ''block'' then (Some b, memo)
          else (case controls_supersede_baseline sha256 covers c b memo of
              (False, memo') \<Rightarrow> (Some b, memo')
            | (True, memo') \<Rightarrow>
                (if explain then Some (b\<lparr>cand_superseded_by := Some (cand_key c)\<rparr>) else None, memo'))
      | _ \<Rightarrow> (ns_baseline, memo))"

section \<open>Collection for a concrete namespace\<close>

definition opt_list :: "'a option \<Rightarrow> 'a list" where
  "opt_list x = (case x of None \<Rightarrow> [] | Some y \<Rightarrow> [y])"

text \<open>The part that only reads memory: the two tiers, the pack family, the guardrail, remediation.\<close>

definition memory_candidates :: "agent_identity \<Rightarrow> replica \<Rightarrow> candidate list" where
  "memory_candidates ai rp =
     (let ns = ai_namespace ai; cls = ai_agent_class ai
      in memory_tier rp (ns @ '':namespace:'' @ ns)
       @ (if ai_workload ai \<noteq> '''' then memory_tier rp (ns @ '':deployment:'' @ ai_workload ai) else [])
       @ memory_overlay rp (ns @ '':__pack__'')
       @ memory_overlay rp (ns @ '':__guardrail__'')
       @ memory_overlay rp (ns @ '':__pack_override__'')
       @ memory_overlay rp (ns @ '':__pack_weaken__'')
       @ (if cls \<noteq> '''' then memory_overlay rp (ns @ '':'' @ cls @ ''__remediation__'') else []))"

definition collect_concrete ::
  "(string \<Rightarrow> string) \<Rightarrow> (string \<Rightarrow> string \<Rightarrow> bool option) \<Rightarrow> io \<Rightarrow> db \<Rightarrow> bool \<Rightarrow> agent_identity \<Rightarrow> collector
   \<Rightarrow> (loader_error, candidate list) res \<times> collector" where
  "collect_concrete sha256 covers io d explain ai s0 =
     (let ns = ai_namespace ai
      in then_do (append_policy io d False ns (ai_agent_class ai) s0) (\<lambda>base s1.
         then_do (append_policy io d True ns ''__controls__'' s1) (\<lambda>controls s2.
         then_do (append_policy io d True ns ''__egress__'' s2) (\<lambda>egress s3.
         then_do (append_policy io d True ns ''__mcp__'' s3) (\<lambda>mcp s4.
         then_do (append_policy io d True ns ''__baseline__'' s4) (\<lambda>ns_baseline s5.
           let kept = apply_controls_supersede sha256 covers explain controls ns_baseline (snd s5) in
         then_do (append_policy io d True ''__cluster__'' ''__baseline__'' (fst s5, snd kept))
           (\<lambda>cluster s6.
             (Inr (opt_list base @ opt_list controls @ opt_list egress @ opt_list mcp
                @ opt_list (fst kept) @ opt_list cluster @ memory_candidates ai (fst s6)), s6))))))))"

section \<open>Collection for the console's namespace picker\<close>

text \<open>The candidates so far, the keys seen, and the collector's state.\<close>

type_synonym union_state = "candidate list \<times> string list \<times> collector"

definition union_append ::
  "io \<Rightarrow> db \<Rightarrow> bool \<Rightarrow> string \<Rightarrow> string \<Rightarrow> union_state \<Rightarrow> (loader_error, candidate option) res \<times> union_state" where
  "union_append io d as_floor ns cls u =
     (case u of (cs, seen, s) \<Rightarrow>
       if policy_key ns cls \<in> set seen then (Inr None, u)
       else (case append_policy io d as_floor ns cls s of
           (Inl err, s') \<Rightarrow> (Inl err, (cs, seen, s'))
         | (Inr None, s') \<Rightarrow> (Inr None, (cs, seen, s'))
         | (Inr (Some c), s') \<Rightarrow> (Inr (Some c), (cs @ [c], policy_key ns cls # seen, s'))))"

definition union_controls :: "string \<Rightarrow> string \<Rightarrow> union_state \<Rightarrow> candidate option \<times> union_state" where
  "union_controls ns scope u =
     (case u of (cs, seen, rp, memo) \<Rightarrow>
       let key = policy_key ns scope
       in case map_of (rp_policies rp) key of
            None \<Rightarrow> (None, u)
          | Some e \<Rightarrow> (if key \<in> set seen then (None, u)
              else let c = candidate_of key e True in (Some c, (cs @ [c], key # seen, rp, memo))))"

definition union_overlay :: "string \<Rightarrow> union_state \<Rightarrow> union_state" where
  "union_overlay key u =
     (case u of (cs, seen, rp, memo) \<Rightarrow>
       if key \<in> set seen then u
       else (case memory_overlay rp key of
           [] \<Rightarrow> u
         | added \<Rightarrow> (cs @ added, key # seen, rp, memo)))"

definition union_supersede ::
  "(string \<Rightarrow> string) \<Rightarrow> (string \<Rightarrow> string \<Rightarrow> bool option) \<Rightarrow> bool \<Rightarrow> candidate option \<Rightarrow> candidate option
   \<Rightarrow> union_state \<Rightarrow> union_state" where
  "union_supersede sha256 covers explain controls ns_baseline u =
     (case u of (cs, seen, rp, memo) \<Rightarrow>
       (case apply_controls_supersede sha256 covers explain controls ns_baseline memo of (kept, memo') \<Rightarrow>
         (concat (map (\<lambda>c. if Some c = ns_baseline then opt_list kept else [c]) cs), seen, rp, memo')))"

definition union_namespace ::
  "(string \<Rightarrow> string) \<Rightarrow> (string \<Rightarrow> string \<Rightarrow> bool option) \<Rightarrow> io \<Rightarrow> db \<Rightarrow> bool \<Rightarrow> string \<Rightarrow> string \<Rightarrow> union_state
   \<Rightarrow> (loader_error, unit) res \<times> union_state" where
  "union_namespace sha256 covers io d explain cls ns u0 =
     then_do (union_append io d False ns cls u0) (\<lambda>_ u1.
       case union_controls ns ''__controls__'' u1 of (controls, u2) \<Rightarrow>
       case union_controls ns ''__egress__'' u2 of (_, u3) \<Rightarrow>
     then_do (union_append io d True ns ''__baseline__'' u3) (\<lambda>ns_baseline u4.
       let u5 = union_supersede sha256 covers explain controls ns_baseline u4;
           u6 = fold (\<lambda>o' u. union_overlay (policy_key ns o') u)
             [''__pack__'', ''__guardrail__'', ''__pack_override__'', ''__pack_weaken__''] u5;
           u7 = (if cls \<noteq> '''' then union_overlay (policy_key ns (cls @ ''__remediation__'')) u6 else u6)
       in (Inr (), u7)))"

fun union_namespaces ::
  "(string \<Rightarrow> string) \<Rightarrow> (string \<Rightarrow> string \<Rightarrow> bool option) \<Rightarrow> io \<Rightarrow> db \<Rightarrow> bool \<Rightarrow> string \<Rightarrow> string list \<Rightarrow> union_state
   \<Rightarrow> (loader_error, unit) res \<times> union_state" where
  "union_namespaces sha256 covers io d explain cls [] u = (Inr (), u)"
| "union_namespaces sha256 covers io d explain cls (ns # rest) u =
     then_do (union_namespace sha256 covers io d explain cls ns u)
       (\<lambda>_. union_namespaces sha256 covers io d explain cls rest)"

definition collect_union ::
  "(string \<Rightarrow> string) \<Rightarrow> (string \<Rightarrow> string \<Rightarrow> bool option) \<Rightarrow> io \<Rightarrow> db \<Rightarrow> bool \<Rightarrow> string \<Rightarrow> collector
   \<Rightarrow> (loader_error, candidate list) res \<times> collector" where
  "collect_union sha256 covers io d explain cls s =
     (case then_do (union_namespaces sha256 covers io d explain cls
              (namespaces_for_class io cls d (fst s)) ([], [], s))
            (\<lambda>_. union_append io d True ''__cluster__'' ''__baseline__'') of
        (Inl err, (_, _, s')) \<Rightarrow> (Inl err, s')
      | (Inr _, (cs, _, s')) \<Rightarrow> (Inr cs, s'))"

definition collect_candidates ::
  "(string \<Rightarrow> string) \<Rightarrow> (string \<Rightarrow> string \<Rightarrow> bool option) \<Rightarrow> io \<Rightarrow> db \<Rightarrow> bool \<Rightarrow> agent_identity \<Rightarrow> collector
   \<Rightarrow> (loader_error, candidate list) res \<times> collector" where
  "collect_candidates sha256 covers io d explain ai s =
     (if ai_namespace ai = ''all''
      then collect_union sha256 covers io d explain (ai_agent_class ai) s
      else collect_concrete sha256 covers io d explain ai s)"

section \<open>What a lookup returns\<close>

text \<open>The entry a scope resolves to: the one in memory, or else the tables' row.\<close>

definition effective_entry :: "db \<Rightarrow> replica \<Rightarrow> string \<Rightarrow> string \<Rightarrow> loader_entry option" where
  "effective_entry d rp ns cls =
     (case get_entry rp ns cls of Some e \<Rightarrow> Some e | None \<Rightarrow> db_entry d ns cls)"

text \<open>A lazy load puts a row in memory and so never changes what any scope resolves to.\<close>

lemma load_from_db_effective:
  assumes "load_from_db io ns cls d rp = (Inr x, rp')" "get_entry rp ns cls = None"
  shows "x = effective_entry d rp ns cls"
    and "\<lbrakk>plain ns; plain ns'\<rbrakk> \<Longrightarrow> effective_entry d rp' ns' cls' = effective_entry d rp ns' cls'"
proof -
  have up: "io_db_up io"
    using assms(1) by (auto simp: load_from_db_def split: if_splits)
  show "x = effective_entry d rp ns cls"
    using assms up by (auto simp: load_from_db_def effective_entry_def db_entry_def Let_def
        split: option.splits)
  assume pl: "plain ns" "plain ns'"
  show "effective_entry d rp' ns' cls' = effective_entry d rp ns' cls'"
  proof (cases "db_entry d ns cls")
    case None
    then show ?thesis using assms load_from_db_absent [OF up None] by simp
  next
    case (Some e)
    obtain rp2 where "load_from_db io ns cls d rp = (Inr (Some e), rp2)"
      "rp_policies rp2 = AList.update (policy_key ns cls) e (rp_policies rp)"
      using load_from_db_present [OF up Some, of rp] by metis
    with assms(1) have "rp_policies rp' = AList.update (policy_key ns cls) e (rp_policies rp)" by simp
    from get_entry_update [OF pl this, of cls'] Some assms(2) show ?thesis
      by (auto simp: effective_entry_def)
  qed
qed

lemma append_policy_effective:
  assumes "append_policy io d f ns cls s = (Inr x, s')"
  shows "x = map_option (\<lambda>e. candidate_of (policy_key ns cls) e f) (effective_entry d (fst s) ns cls)"
    and "snd s' = snd s"
    and "\<lbrakk>plain ns; plain ns'\<rbrakk> \<Longrightarrow>
      effective_entry d (fst s') ns' cls' = effective_entry d (fst s) ns' cls'"
proof -
  obtain rp memo where s: "s = (rp, memo)" by fastforce
  have "x = map_option (\<lambda>e. candidate_of (policy_key ns cls) e f) (effective_entry d rp ns cls)
    \<and> snd s' = memo \<and> (plain ns \<longrightarrow> plain ns' \<longrightarrow>
      effective_entry d (fst s') ns' cls' = effective_entry d rp ns' cls')"
  proof (cases "get_entry rp ns cls")
    case None
    then obtain y rp' where load: "load_from_db io ns cls d rp = (Inr y, rp')"
      and x: "x = map_option (\<lambda>e. candidate_of (policy_key ns cls) e f) y" "s' = (rp', memo)"
      using assms by (auto simp: append_policy_def s split: prod.splits sum.splits)
    with load_from_db_effective [OF load None] show ?thesis by simp
  next
    case (Some e)
    then show ?thesis using assms by (auto simp: append_policy_def s effective_entry_def)
  qed
  then show "x = map_option (\<lambda>e. candidate_of (policy_key ns cls) e f) (effective_entry d (fst s) ns cls)"
    "snd s' = snd s"
    "\<lbrakk>plain ns; plain ns'\<rbrakk> \<Longrightarrow>
      effective_entry d (fst s') ns' cls' = effective_entry d (fst s) ns' cls'"
    by (simp_all add: s)
qed

lemma plain_cluster [simp]: "plain ''__cluster__''"
  by (simp add: plain_def)

text \<open>
  The collection for a concrete namespace, as a function of what the scopes resolve to at the start.
\<close>

lemma collect_concrete_spec:
  assumes run: "collect_concrete sha256 covers io d explain ai s = (Inr cs, s')"
    and pl: "plain (ai_namespace ai)"
  defines "found \<equiv> (\<lambda>f ns cls. map_option (\<lambda>e. candidate_of (policy_key ns cls) e f)
      (effective_entry d (fst s) ns cls))"
  shows "cs = opt_list (found False (ai_namespace ai) (ai_agent_class ai))
    @ opt_list (found True (ai_namespace ai) ''__controls__'')
    @ opt_list (found True (ai_namespace ai) ''__egress__'')
    @ opt_list (found True (ai_namespace ai) ''__mcp__'')
    @ opt_list (fst (apply_controls_supersede sha256 covers explain
        (found True (ai_namespace ai) ''__controls__'')
        (found True (ai_namespace ai) ''__baseline__'') (snd s)))
    @ opt_list (found True ''__cluster__'' ''__baseline__'')
    @ memory_candidates ai (fst s')"
proof -
  let ?ns = "ai_namespace ai"
  obtain base s1 controls s2 egress s3 mcp s4 ns_baseline s5 cluster kept where
    a1: "append_policy io d False ?ns (ai_agent_class ai) s = (Inr base, s1)" and
    a2: "append_policy io d True ?ns ''__controls__'' s1 = (Inr controls, s2)" and
    a3: "append_policy io d True ?ns ''__egress__'' s2 = (Inr egress, s3)" and
    a4: "append_policy io d True ?ns ''__mcp__'' s3 = (Inr mcp, s4)" and
    a5: "append_policy io d True ?ns ''__baseline__'' s4 = (Inr ns_baseline, s5)" and
    sup: "kept = apply_controls_supersede sha256 covers explain controls ns_baseline (snd s5)" and
    a6: "append_policy io d True ''__cluster__'' ''__baseline__'' (fst s5, snd kept) = (Inr cluster, s')" and
    cs: "cs = opt_list base @ opt_list controls @ opt_list egress @ opt_list mcp
      @ opt_list (fst kept) @ opt_list cluster @ memory_candidates ai (fst s')"
    using run unfolding collect_concrete_def Let_def then_do_Inr prod.inject sum.inject by blast
  note e = append_policy_effective
  note eff = e(1) [OF a1] e(1) [OF a2] e(1) [OF a3] e(1) [OF a4] e(1) [OF a5] e(1) [OF a6]
    e(2) [OF a1] e(2) [OF a2] e(2) [OF a3] e(2) [OF a4] e(2) [OF a5]
    e(3) [OF a1 pl pl] e(3) [OF a2 pl pl] e(3) [OF a3 pl pl] e(3) [OF a4 pl pl]
    e(3) [OF a1 pl plain_cluster] e(3) [OF a2 pl plain_cluster] e(3) [OF a3 pl plain_cluster]
    e(3) [OF a4 pl plain_cluster] e(3) [OF a5 pl plain_cluster]
  from cs sup eff show ?thesis by (simp add: found_def)
qed

section \<open>Pack overlays always enforce\<close>

lemma floor_collected:
  assumes "collect_candidates sha256 covers io d explain ai s = (Inr cs, s')"
    and "ai_namespace ai \<noteq> ''all''" "plain (ai_namespace ai)"
    and "scope \<in> {''__controls__'', ''__egress__'', ''__mcp__''}"
    and "effective_entry d (fst s) (ai_namespace ai) scope = Some e"
  shows "candidate_of (policy_key (ai_namespace ai) scope) e True \<in> set cs"
proof -
  have run: "collect_concrete sha256 covers io d explain ai s = (Inr cs, s')"
    using assms(1,2) by (simp add: collect_candidates_def)
  show ?thesis
    using assms(4,5) unfolding collect_concrete_spec [OF run assms(3)] by (auto simp: opt_list_def)
qed

definition cand_ok :: "candidate \<Rightarrow> bool" where
  "cand_ok c \<longleftrightarrow> (cand_overlay c \<and> is_pack_key (cand_key c) \<longrightarrow> cand_mode c = ''block'')"

lemma floor_key_not_pack:
  "scope \<in> {''__controls__'', ''__egress__'', ''__mcp__'', ''__baseline__''}
   \<Longrightarrow> \<not> is_pack_key (policy_key ns scope)"
  by (auto simp: is_pack_key_def policy_key_def dest!: ends_with_appendD) (auto simp: ends_with_def)

lemma cand_ok_floor:
  "scope \<in> {''__controls__'', ''__egress__'', ''__mcp__'', ''__baseline__''}
   \<Longrightarrow> cand_ok (candidate_of (policy_key ns scope) e True)"
  using floor_key_not_pack by (simp add: cand_ok_def candidate_of_def)

lemma cand_ok_base [simp]: "cand_ok (candidate_of key e False)"
  by (simp add: cand_ok_def candidate_of_def)

lemma memory_tier_ok: "list_all cand_ok (memory_tier rp key)"
  by (simp add: memory_tier_def split: option.splits)

lemma memory_overlay_ok: "list_all cand_ok (memory_overlay rp key)"
  by (simp add: memory_overlay_def cand_ok_def split: option.splits)

lemma memory_candidates_ok: "list_all cand_ok (memory_candidates ai rp)"
  by (simp add: memory_candidates_def Let_def memory_tier_ok memory_overlay_ok)

lemma opt_list_all: "list_all P (opt_list x) \<longleftrightarrow> (\<forall>y. x = Some y \<longrightarrow> P y)"
  by (simp add: opt_list_def split: option.splits)

lemma opt_list_set [simp]: "y \<in> set (opt_list x) \<longleftrightarrow> x = Some y"
  by (auto simp: opt_list_def split: option.splits)

text \<open>The baseline, when it is kept, is the one that was looked up.\<close>

lemma apply_controls_supersede_kept:
  assumes "apply_controls_supersede sha256 covers explain controls ns_baseline memo = (Some k, memo')"
  shows "\<exists>b. ns_baseline = Some b \<and> (k = b \<or> explain \<and> (\<exists>x. k = b\<lparr>cand_superseded_by := x\<rparr>))"
  using assms
  by (auto simp: apply_controls_supersede_def split: option.splits if_splits prod.splits bool.splits)

lemma cand_ok_superseded: "cand_ok (c\<lparr>cand_superseded_by := x\<rparr>) = cand_ok c"
  by (simp add: cand_ok_def)

lemma kept_ok:
  assumes "apply_controls_supersede sha256 covers explain controls ns_baseline memo = (kept, memo')"
    and "\<And>b. ns_baseline = Some b \<Longrightarrow> cand_ok b"
  shows "list_all cand_ok (opt_list kept)"
proof (cases kept)
  case (Some k)
  then show ?thesis
    using apply_controls_supersede_kept assms
    by (fastforce simp: opt_list_all cand_ok_superseded)
qed (simp add: opt_list_def)

lemma collect_concrete_ok:
  assumes "collect_concrete sha256 covers io d explain ai s = (Inr cs, s')" "plain (ai_namespace ai)"
  shows "list_all cand_ok cs"
proof -
  let ?found = "\<lambda>f ns cls. map_option (\<lambda>e. candidate_of (policy_key ns cls) e f)
      (effective_entry d (fst s) ns cls)"
  have "list_all cand_ok (opt_list (fst (apply_controls_supersede sha256 covers explain
      (?found True (ai_namespace ai) ''__controls__'')
      (?found True (ai_namespace ai) ''__baseline__'') (snd s))))"
    by (rule kept_ok [OF prod.collapse [symmetric]]) (auto simp: cand_ok_floor)
  then show ?thesis
    unfolding collect_concrete_spec [OF assms]
    by (auto simp: opt_list_all cand_ok_floor memory_candidates_ok)
qed

lemma append_policy_candidate:
  "append_policy io d f ns cls s = (Inr (Some c), s') \<Longrightarrow> \<exists>e. c = candidate_of (policy_key ns cls) e f"
  by (drule append_policy_effective(1)) (metis map_option_eq_Some)

lemma union_append_ok:
  assumes "union_append io d f ns cls u = (r, u')" "list_all cand_ok (fst u)"
    and "f \<Longrightarrow> cls = ''__baseline__''"
  shows "list_all cand_ok (fst u') \<and> (\<forall>c. r = Inr (Some c) \<longrightarrow> cand_ok c)"
proof -
  have "cand_ok (candidate_of (policy_key ns cls) e f)" for e
    using assms(3) cand_ok_floor by (cases f) auto
  with append_policy_candidate show ?thesis
    using assms(1,2)
    by (fastforce simp: union_append_def split: prod.splits if_splits sum.splits option.splits)
qed

lemma union_controls_ok:
  assumes "union_controls ns scope u = (c, u')" "list_all cand_ok (fst u)"
    and "scope \<in> {''__controls__'', ''__egress__''}"
  shows "list_all cand_ok (fst u')"
  using assms cand_ok_floor [of scope ns]
  by (auto simp: union_controls_def Let_def split: prod.splits option.splits if_splits)

lemma union_overlay_ok: "list_all cand_ok (fst u) \<Longrightarrow> list_all cand_ok (fst (union_overlay key u))"
  using memory_overlay_ok [of "fst (snd (snd u))" key]
  by (auto simp: union_overlay_def split: prod.splits list.splits)

lemma union_supersede_ok:
  assumes "list_all cand_ok (fst u)" "\<And>b. ns_baseline = Some b \<Longrightarrow> cand_ok b"
  shows "list_all cand_ok (fst (union_supersede sha256 covers explain controls ns_baseline u))"
proof -
  obtain cs seen rp memo where u: "u = (cs, seen, rp, memo)" by (metis prod_cases4)
  obtain kept memo' where k:
    "apply_controls_supersede sha256 covers explain controls ns_baseline memo = (kept, memo')"
    by (meson surj_pair)
  from kept_ok [OF k assms(2)] assms(1) show ?thesis
    by (auto simp: u k union_supersede_def list_all_iff)
qed

lemma union_overlays_ok:
  "list_all cand_ok (fst u) \<Longrightarrow>
   list_all cand_ok (fst (fold (\<lambda>o' u. union_overlay (policy_key ns o') u) os u))"
  by (induction os arbitrary: u) (simp_all add: union_overlay_ok)

lemma union_namespace_ok:
  assumes "union_namespace sha256 covers io d explain cls ns u = (r, u')" "list_all cand_ok (fst u)"
  shows "list_all cand_ok (fst u')"
proof -
  obtain r1 u1 where a1: "union_append io d False ns cls u = (r1, u1)" by (meson surj_pair)
  obtain c u2 where a2: "union_controls ns ''__controls__'' u1 = (c, u2)" by (meson surj_pair)
  obtain x u3 where a3: "union_controls ns ''__egress__'' u2 = (x, u3)" by (meson surj_pair)
  obtain r4 u4 where a4: "union_append io d True ns ''__baseline__'' u3 = (r4, u4)" by (meson surj_pair)
  have ok1: "list_all cand_ok (fst u1)" using union_append_ok [OF a1 assms(2)] by simp
  have ok3: "list_all cand_ok (fst u3)"
    using union_controls_ok [OF a3 union_controls_ok [OF a2 ok1]] by simp
  note ok4 = union_append_ok [OF a4 ok3 refl]
  show ?thesis
  proof (cases "\<exists>b. r1 = Inr b")
    case True
    then have u': "(\<exists>e. r4 = Inl e \<and> u' = u4) \<or> (\<exists>b. r4 = Inr b \<and> u' =
      (let u5 = union_supersede sha256 covers explain c b u4;
           u6 = fold (\<lambda>o' u. union_overlay (policy_key ns o') u)
             [''__pack__'', ''__guardrail__'', ''__pack_override__'', ''__pack_weaken__''] u5
       in if cls \<noteq> '''' then union_overlay (policy_key ns (cls @ ''__remediation__'')) u6 else u6))"
      using assms(1) unfolding union_namespace_def then_do_def a1 Let_def
      by (cases r4) (auto simp: a2 a3 a4 simp del: fold.simps)
    with ok4 show ?thesis
      by (auto simp: Let_def simp del: fold.simps
          intro!: union_overlay_ok union_overlays_ok union_supersede_ok)
  next
    case False
    with a1 ok1 assms(1) show ?thesis
      by (cases r1) (auto simp: union_namespace_def then_do_def)
  qed
qed

lemma union_namespaces_ok:
  assumes "union_namespaces sha256 covers io d explain cls nss u = (r, u')" "list_all cand_ok (fst u)"
  shows "list_all cand_ok (fst u')"
  using assms
proof (induction nss arbitrary: u)
  case (Cons ns nss)
  obtain r1 u1 where a: "union_namespace sha256 covers io d explain cls ns u = (r1, u1)" by (meson surj_pair)
  show ?case
    using Cons.prems(1) Cons.IH [of u1] union_namespace_ok [OF a Cons.prems(2)]
    by (cases r1) (auto simp: then_do_def a)
qed simp

lemma collect_candidates_ok:
  assumes "collect_candidates sha256 covers io d explain ai s = (Inr cs, s')" "plain (ai_namespace ai)"
  shows "list_all cand_ok cs"
proof (cases "ai_namespace ai = ''all''")
  case False
  then show ?thesis
    using assms collect_concrete_ok by (simp add: collect_candidates_def)
next
  case True
  obtain r u where a: "union_namespaces sha256 covers io d explain (ai_agent_class ai)
      (namespaces_for_class io (ai_agent_class ai) d (fst s)) ([], [], s) = (r, u)"
    by (meson surj_pair)
  obtain r2 u2 where b: "union_append io d True ''__cluster__'' ''__baseline__'' u = (r2, u2)"
    by (meson surj_pair)
  have "list_all cand_ok (fst u)" using union_namespaces_ok [OF a] by simp
  from union_append_ok [OF b this] show ?thesis
    using assms(1) True a b
    by (cases r; cases r2)
       (auto simp: collect_candidates_def collect_union_def then_do_def split: prod.splits)
qed

section \<open>The supersede memo\<close>

text \<open>
  A memo is sound when each answer it holds is the coverage check's answer for every pair of sources
  with those digests.
\<close>

definition memo_ok :: "(string \<Rightarrow> string) \<Rightarrow> (string \<Rightarrow> string \<Rightarrow> bool option) \<Rightarrow> memo \<Rightarrow> bool" where
  "memo_ok sha256 covers memo \<longleftrightarrow>
     (\<forall>c b known. map_of memo (sha256 c, sha256 b) = Some known \<longrightarrow> covers c b = Some known)"

lemma memo_ok_Nil [simp]: "memo_ok sha256 covers []"
  by (simp add: memo_ok_def)

lemma controls_supersede_sound:
  assumes "memo_ok sha256 covers memo" "inj sha256"
    and "controls_supersede_baseline sha256 covers c b memo = (known, memo')"
  shows "known \<longleftrightarrow> covers (cand_rego c) (cand_rego b) = Some True"
    and "memo_ok sha256 covers memo'"
proof -
  have new: "memo_ok sha256 covers (AList.update (sha256 x, sha256 y) k m)"
    if "memo_ok sha256 covers m" "covers x y = Some k" for x y k m
    using that by (auto simp: memo_ok_def AList.update_conv' inj_eq [OF assms(2)])
  show "known \<longleftrightarrow> covers (cand_rego c) (cand_rego b) = Some True"
    using assms(1,3)
    by (auto simp: controls_supersede_baseline_def memo_ok_def Let_def split: option.splits)
  show "memo_ok sha256 covers memo'"
    using assms(1,3) new new [of "[]", simplified]
    by (auto simp: controls_supersede_baseline_def Let_def split: option.splits if_splits)
qed

lemma apply_controls_supersede_sound:
  assumes "memo_ok sha256 covers memo" "inj sha256"
    and "apply_controls_supersede sha256 covers explain controls ns_baseline memo = (kept, memo')"
  shows "memo_ok sha256 covers memo'"
    and "\<not> explain \<Longrightarrow> kept = (case (controls, ns_baseline) of
       (Some c, Some b) \<Rightarrow> if cand_mode c = ''block'' \<and> covers (cand_rego c) (cand_rego b) = Some True
                           then None else Some b
     | _ \<Rightarrow> ns_baseline)"
proof -
  have cases: "(\<exists>c b known. controls = Some c \<and> ns_baseline = Some b \<and> cand_mode c = ''block''
        \<and> controls_supersede_baseline sha256 covers c b memo = (known, memo')
        \<and> (\<not> explain \<longrightarrow> kept = (if known then None else Some b)))
      \<or> (memo' = memo \<and> kept = ns_baseline
         \<and> (controls = None \<or> ns_baseline = None \<or> (\<exists>c. controls = Some c \<and> cand_mode c \<noteq> ''block'')))"
    using assms(3)
    by (auto simp: apply_controls_supersede_def split: option.splits if_splits prod.splits bool.splits)
  then show "memo_ok sha256 covers memo'"
    using assms(1) controls_supersede_sound(2) [OF assms(1,2)] by blast
  show "kept = (case (controls, ns_baseline) of
       (Some c, Some b) \<Rightarrow> if cand_mode c = ''block'' \<and> covers (cand_rego c) (cand_rego b) = Some True
                           then None else Some b
     | _ \<Rightarrow> ns_baseline)" if "\<not> explain"
    using cases that
    by (auto dest: controls_supersede_sound(1) [OF assms(1,2)] split: option.splits)
qed

section \<open>Properties\<close>

text \<open>A namespace whose MCP floor is only in the tables, with a class policy in memory.\<close>

definition floor_db :: db where
  "floor_db = fst (demo_save (9, ''__mcp__'', ''package mcp'', 2, ''block'') demo_state)"

definition demo_agent :: "string \<Rightarrow> agent_identity" where
  "demo_agent ns = \<lparr>ai_spiffe_id = code_points ''spiffe://c/ns/prod/sa/billing'', ai_namespace = ns,
     ai_service_account = ''billing'', ai_agent_class = ''billing'', ai_framework = '''',
     ai_pod_name = '''', ai_cluster_id = '''', ai_workload = ''''\<rparr>"

definition nothing_covers :: "string \<Rightarrow> string \<Rightarrow> bool option" where
  "nothing_covers c b = Some False"

text \<open>
  Every reserved floor stored for a namespace, in memory or only in the tables, is a candidate of
  every evaluation in it, as a tighten-only overlay with its own mode and whatever the class policy
  is; so is the cluster baseline. The namespace baseline is one too, unless saved controls stored in
  block mode provably cover it.
\<close>

lemma floors_always_collected:
  assumes "collect_candidates sha256 covers io d False ai s = (Inr cs, s')"
    and "ai_namespace ai \<noteq> ''all''" and "plain (ai_namespace ai)"
    and "memo_ok sha256 covers (snd s)" and "inj sha256"
  defines "ns \<equiv> ai_namespace ai"
  shows "(\<forall>scope \<in> {''__controls__'', ''__egress__'', ''__mcp__''}. \<forall>e.
        effective_entry d (fst s) ns scope = Some e \<longrightarrow> candidate_of (policy_key ns scope) e True \<in> set cs)
    \<and> (\<forall>e. effective_entry d (fst s) ''__cluster__'' ''__baseline__'' = Some e \<longrightarrow>
        candidate_of (policy_key ''__cluster__'' ''__baseline__'') e True \<in> set cs)
    \<and> (\<forall>b. effective_entry d (fst s) ns ''__baseline__'' = Some b \<longrightarrow>
        candidate_of (policy_key ns ''__baseline__'') b True \<in> set cs
        \<or> (\<exists>c. effective_entry d (fst s) ns ''__controls__'' = Some c \<and> en_mode c = ''block''
             \<and> covers (en_rego c) (en_rego b) = Some True))"
proof -
  have run: "collect_concrete sha256 covers io d False ai s = (Inr cs, s')"
    using assms(1,2) by (simp add: collect_candidates_def)
  note spec = collect_concrete_spec [OF run assms(3)]
  obtain kept memo' where k: "apply_controls_supersede sha256 covers False
      (map_option (\<lambda>e. candidate_of (policy_key ns ''__controls__'') e True)
        (effective_entry d (fst s) ns ''__controls__''))
      (map_option (\<lambda>e. candidate_of (policy_key ns ''__baseline__'') e True)
        (effective_entry d (fst s) ns ''__baseline__'')) (snd s) = (kept, memo')"
    by fastforce
  note kept = apply_controls_supersede_sound(2) [OF assms(4,5) k, simplified]
  show ?thesis
    using kept unfolding spec ns_def [symmetric] k
    by (auto simp: candidate_of_def split: option.splits if_splits)
qed

text \<open>
  The console's view over all namespaces leaves the MCP floor out that every evaluation in the
  namespace itself collects.
\<close>

lemma union_omits_mcp_floor:
  "let keys = (\<lambda>ns. case fst (collect_candidates id nothing_covers (demo_io 10) floor_db False
         (demo_agent ns) (snd demo_state, [])) of Inl _ \<Rightarrow> [] | Inr cs \<Rightarrow> map cand_key cs)
   in keys ''prod'' = [''prod:billing'', ''prod:__mcp__''] \<and> keys ''all'' = [''prod:billing'']"
  by code_simp

end
