(* ===== verification/Ttl_Cache.thy ===== *)
theory Ttl_Cache
  imports Prelude
begin

text \<open>
  The per-pod in-process cache (\<open>norviq/engine/inproc_cache.py\<close>, class \<open>TTLCache\<close>) that fronts the
  evaluator's posture, trust and decision reads. The ordered dictionary is an association list in
  insertion order; the monotonic clock is an argument. The locale \<open>expiring_store\<close> is what the
  evaluator relies on: a lookup only ever returns the latest unexpired store of that key.
\<close>

section \<open>The cache\<close>

record ('k, 'v) ttl_cache =
  tc_ttl :: rat
  tc_max :: nat
  tc_data :: "('k \<times> (time \<times> 'v)) list"

definition ttl_new :: "rat \<Rightarrow> int \<Rightarrow> ('k, 'v) ttl_cache" where
  "ttl_new ttl_s max_entries =
     \<lparr>tc_ttl = ttl_s, tc_max = nat (max 1 max_entries), tc_data = []\<rparr>"

definition ttl_enabled :: "('k, 'v) ttl_cache \<Rightarrow> bool" where
  "ttl_enabled c \<longleftrightarrow> 0 < tc_ttl c"

definition pop_key :: "'k \<Rightarrow> ('k \<times> 'a) list \<Rightarrow> ('k \<times> 'a) list" where
  "pop_key k d = filter (\<lambda>e. fst e \<noteq> k) d"

text \<open>The sentinel for a miss is \<open>None\<close>; a cached Python \<open>None\<close> is a value of type \<open>'v\<close>.\<close>

definition ttl_get :: "('k, 'v) ttl_cache \<Rightarrow> time \<Rightarrow> 'k \<Rightarrow> 'v option \<times> ('k, 'v) ttl_cache" where
  "ttl_get c now k =
     (if tc_ttl c \<le> 0 then (None, c)
      else case map_of (tc_data c) k of
          None \<Rightarrow> (None, c)
        | Some (expires_at, v) \<Rightarrow>
            if expires_at \<le> now then (None, c\<lparr>tc_data := pop_key k (tc_data c)\<rparr>)
            else (Some v, c))"

fun evict_oldest :: "nat \<Rightarrow> 'a list \<Rightarrow> 'a list" where
  "evict_oldest m [] = []"
| "evict_oldest m (x # xs) = (if m < length (x # xs) then evict_oldest m xs else x # xs)"

definition ttl_set :: "('k, 'v) ttl_cache \<Rightarrow> time \<Rightarrow> 'k \<Rightarrow> 'v \<Rightarrow> ('k, 'v) ttl_cache" where
  "ttl_set c now k v =
     (if tc_ttl c \<le> 0 then c
      else c\<lparr>tc_data := evict_oldest (tc_max c)
               (pop_key k (tc_data c) @ [(k, (now + tc_ttl c, v))])\<rparr>)"

definition ttl_invalidate :: "('k, 'v) ttl_cache \<Rightarrow> 'k \<Rightarrow> ('k, 'v) ttl_cache" where
  "ttl_invalidate c k = c\<lparr>tc_data := pop_key k (tc_data c)\<rparr>"

definition ttl_clear :: "('k, 'v) ttl_cache \<Rightarrow> ('k, 'v) ttl_cache" where
  "ttl_clear c = c\<lparr>tc_data := []\<rparr>"

definition ttl_len :: "('k, 'v) ttl_cache \<Rightarrow> nat" where
  "ttl_len c = length (tc_data c)"

lemmas [cache_defs] =
  ttl_new_def ttl_enabled_def ttl_get_def ttl_set_def ttl_invalidate_def ttl_clear_def ttl_len_def

section \<open>Well-formed caches\<close>

definition ttl_inv :: "('k, 'v) ttl_cache \<Rightarrow> bool" where
  "ttl_inv c \<longleftrightarrow> 1 \<le> tc_max c \<and> distinct (map fst (tc_data c)) \<and> ttl_len c \<le> tc_max c"

lemma evict_oldest_drop: "evict_oldest m xs = drop (length xs - m) xs"
proof (induction xs)
  case (Cons x xs)
  then show ?case by (cases "m < length (x # xs)") (auto simp: Suc_diff_le)
qed simp

lemma evict_oldest_snoc: "1 \<le> m \<Longrightarrow> \<exists>ys. evict_oldest m (xs @ [x]) = ys @ [x] \<and> set ys \<subseteq> set xs"
  by (auto simp: evict_oldest_drop intro: in_set_dropD)

lemma pop_key_map_of: "map_of (pop_key k d) k' = (if k' = k then None else map_of d k')"
  by (induction d) (auto simp: pop_key_def)

lemma pop_key_distinct: "distinct (map fst d) \<Longrightarrow> distinct (map fst (pop_key k d))"
  by (induction d) (auto simp: pop_key_def)

lemma pop_key_length: "length (pop_key k d) \<le> length d"
  by (simp add: pop_key_def)

lemma pop_key_notin [simp]: "k \<notin> fst ` set (pop_key k d)"
  by (auto simp: pop_key_def)

lemma map_of_drop:
  assumes "distinct (map fst d)" and "map_of (drop n d) k = Some v"
  shows "map_of d k = Some v"
  using assms by (metis in_set_dropD map_of_eq_Some_iff distinct_drop drop_map)

lemma ttl_new_inv [simp]: "ttl_inv (ttl_new t m)"
  by (simp add: ttl_inv_def ttl_new_def ttl_len_def)

lemma ttl_get_inv: "ttl_inv c \<Longrightarrow> ttl_inv (snd (ttl_get c now k))"
  using pop_key_length [of k "tc_data c"]
  by (auto simp: ttl_inv_def ttl_get_def ttl_len_def pop_key_distinct split: option.splits)

lemma pop_key_snoc_distinct:
  "distinct (map fst d) \<Longrightarrow> distinct (map fst (pop_key k d @ [(k, x)]))"
  by (simp add: pop_key_distinct)

lemma ttl_set_inv: "ttl_inv c \<Longrightarrow> ttl_inv (ttl_set c now k v)"
  using distinct_drop [OF pop_key_snoc_distinct [of "tc_data c" k "(now + tc_ttl c, v)"]]
  unfolding drop_map
  by (cases "tc_ttl c \<le> 0")
     (simp_all add: ttl_inv_def ttl_set_def ttl_len_def evict_oldest_drop del: drop_append)

lemma ttl_invalidate_inv: "ttl_inv c \<Longrightarrow> ttl_inv (ttl_invalidate c k)"
  using pop_key_length [of k "tc_data c"]
  by (auto simp: ttl_inv_def ttl_invalidate_def ttl_len_def pop_key_distinct)

lemma ttl_clear_inv: "ttl_inv c \<Longrightarrow> ttl_inv (ttl_clear c)"
  by (simp add: ttl_inv_def ttl_clear_def ttl_len_def)

lemmas ttl_inv_preserved = ttl_get_inv ttl_set_inv ttl_invalidate_inv ttl_clear_inv

section \<open>Histories of cache operations\<close>

datatype ('k, 'v) cache_op =
    Op_get time 'k
  | Op_set time 'k 'v
  | Op_invalidate 'k
  | Op_clear

fun supersedes :: "('k, 'v) cache_op \<Rightarrow> 'k \<Rightarrow> bool" where
  "supersedes (Op_get _ _) k = False"
| "supersedes (Op_set _ k' _) k = (k' = k)"
| "supersedes (Op_invalidate k') k = (k' = k)"
| "supersedes Op_clear k = True"

text \<open>What the evaluator relies on, of any store that runs these operations.\<close>

locale expiring_store =
  fixes lookup :: "'c \<Rightarrow> time \<Rightarrow> 'k \<Rightarrow> 'v option"
    and step :: "'c \<Rightarrow> ('k, 'v) cache_op \<Rightarrow> 'c"
    and ok :: "'c \<Rightarrow> bool"
    and ttl :: "'c \<Rightarrow> rat"
  assumes ok_step: "ok c \<Longrightarrow> ok (step c op)"
    and ttl_step: "ttl (step c op) = ttl c"
    and lookup_step: "\<lbrakk>ok c; lookup (step c op) now k = Some v\<rbrakk> \<Longrightarrow>
      (\<exists>t. op = Op_set t k v \<and> now < t + ttl c) \<or> (lookup c now k = Some v \<and> \<not> supersedes op k)"
begin

lemma ok_run: "ok c \<Longrightarrow> ok (foldl step c ops)"
  by (induction ops arbitrary: c) (simp_all add: ok_step)

lemma ttl_run: "ttl (foldl step c ops) = ttl c"
  by (induction ops arbitrary: c) (simp_all add: ttl_step)

lemma lookup_run:
  assumes "ok c" and "\<And>t k'. lookup c t k' = None" and "lookup (foldl step c ops) now k = Some v"
  shows "\<exists>pre t post. ops = pre @ Op_set t k v # post \<and> now < t + ttl c
    \<and> (\<forall>op \<in> set post. \<not> supersedes op k)"
  using assms(3)
proof (induction ops rule: rev_induct)
  case Nil
  then show ?case using assms(2) by simp
next
  case (snoc op ops)
  have "ok (foldl step c ops)" using assms(1) by (rule ok_run)
  with lookup_step [of "foldl step c ops" op now k v] snoc.prems
  consider t where "op = Op_set t k v" "now < t + ttl c"
    | "lookup (foldl step c ops) now k = Some v" "\<not> supersedes op k"
    by (auto simp: ttl_run)
  then show ?case
  proof cases
    case 1
    then show ?thesis
      by (intro exI [of _ ops] exI [of _ t] exI [of _ "[]"]) simp
  next
    case 2
    then obtain pre t post where "ops = pre @ Op_set t k v # post" "now < t + ttl c"
      "\<forall>o' \<in> set post. \<not> supersedes o' k"
      using snoc.IH by blast
    with 2 show ?thesis
      by (intro exI [of _ pre] exI [of _ t] exI [of _ "post @ [op]"]) auto
  qed
qed

end

fun ttl_step :: "('k, 'v) ttl_cache \<Rightarrow> ('k, 'v) cache_op \<Rightarrow> ('k, 'v) ttl_cache" where
  "ttl_step c (Op_get t k) = snd (ttl_get c t k)"
| "ttl_step c (Op_set t k v) = ttl_set c t k v"
| "ttl_step c (Op_invalidate k) = ttl_invalidate c k"
| "ttl_step c Op_clear = ttl_clear c"

definition ttl_run :: "('k, 'v) ttl_cache \<Rightarrow> ('k, 'v) cache_op list \<Rightarrow> ('k, 'v) ttl_cache" where
  "ttl_run = foldl ttl_step"

abbreviation ttl_lookup :: "('k, 'v) ttl_cache \<Rightarrow> time \<Rightarrow> 'k \<Rightarrow> 'v option" where
  "ttl_lookup c now k \<equiv> fst (ttl_get c now k)"

lemma ttl_lookup_Some:
  "ttl_lookup c now k = Some v \<longleftrightarrow>
   0 < tc_ttl c \<and> (\<exists>e. map_of (tc_data c) k = Some (e, v) \<and> now < e)"
  by (auto simp: ttl_get_def not_le split: option.splits)

lemma ttl_set_data:
  assumes "ttl_inv c" and "map_of (tc_data (ttl_set c t k v)) k' = Some e" and "0 < tc_ttl c"
  shows "if k' = k then e = (t + tc_ttl c, v) else map_of (tc_data c) k' = Some e"
proof -
  let ?d = "pop_key k (tc_data c) @ [(k, (t + tc_ttl c, v))]"
  have "distinct (map fst ?d)"
    using assms(1) by (simp add: ttl_inv_def pop_key_distinct)
  then have "map_of ?d k' = Some e"
    using assms(2,3) map_of_drop [of ?d _ k' e]
    by (simp add: ttl_set_def evict_oldest_drop del: drop_append map_of_append)
  then show ?thesis
    by (auto simp: map_add_def pop_key_map_of split: option.splits if_splits)
qed

interpretation inproc: expiring_store ttl_lookup ttl_step ttl_inv tc_ttl
proof
  fix c :: "('k, 'v) ttl_cache" and op now k v
  show "ttl_inv c \<Longrightarrow> ttl_inv (ttl_step c op)"
    by (cases op) (simp_all add: ttl_inv_preserved)
  show "tc_ttl (ttl_step c op) = tc_ttl c"
    by (cases op) (auto simp: cache_defs split: option.splits)
  assume inv: "ttl_inv c" and hit: "ttl_lookup (ttl_step c op) now k = Some v"
  show "(\<exists>t. op = Op_set t k v \<and> now < t + tc_ttl c) \<or>
      (ttl_lookup c now k = Some v \<and> \<not> supersedes op k)"
  proof (cases op)
    case (Op_set t k' u)
    then show ?thesis
      using hit ttl_set_data [OF inv, of t k' u k] \<open>tc_ttl (ttl_step c op) = tc_ttl c\<close>
      by (auto simp: ttl_lookup_Some split: if_splits)
  qed (use hit in \<open>auto simp: ttl_lookup_Some ttl_get_def ttl_invalidate_def ttl_clear_def
        pop_key_map_of split: option.splits if_splits\<close>)
qed

section \<open>Properties\<close>

lemma ttl_set_newest:
  assumes "ttl_inv c" and "0 < tc_ttl c"
  shows "map_of (tc_data (ttl_set c t k v)) k = Some (t + tc_ttl c, v)"
proof -
  let ?x = "(k, (t + tc_ttl c, v))"
  obtain ys where ys: "evict_oldest (tc_max c) (pop_key k (tc_data c) @ [?x]) = ys @ [?x]"
    "set ys \<subseteq> set (pop_key k (tc_data c))"
    using evict_oldest_snoc [of "tc_max c" "pop_key k (tc_data c)" ?x] assms(1)
    unfolding ttl_inv_def by blast
  then have "k \<notin> fst ` set ys"
    using pop_key_notin [of k "tc_data c"] by (metis image_mono subsetD)
  then have "map_of ys k = None"
    by (simp add: map_of_eq_None_iff)
  with ys assms(2) show ?thesis
    by (simp add: ttl_set_def map_add_def)
qed

text \<open>
  Every history of operations on a fresh cache keeps its keys distinct and its size at most
  the configured maximum, which is at least one entry.
\<close>

lemma ttl_cache_bounded:
  "distinct (map fst (tc_data (ttl_run (ttl_new ttl_s max_entries) ops)))
   \<and> ttl_len (ttl_run (ttl_new ttl_s max_entries) ops) \<le> nat (max 1 max_entries)"
proof -
  let ?c = "ttl_run (ttl_new ttl_s max_entries) ops"
  have "ttl_inv ?c"
    unfolding ttl_run_def by (rule inproc.ok_run) simp
  moreover have "tc_max (ttl_step c op) = tc_max c" for c :: "('a, 'b) ttl_cache" and op
    by (cases op) (auto simp: cache_defs split: option.splits)
  then have "tc_max (foldl ttl_step c ops) = tc_max c" for c :: "('a, 'b) ttl_cache"
    by (induction ops arbitrary: c) simp_all
  ultimately show ?thesis
    by (simp add: ttl_inv_def ttl_run_def ttl_new_def)
qed

text \<open>
  A hit is never stale and never resurrected: whatever a cache returns for a key after any
  history was stored under that key less than the TTL ago, and no operation after that store
  replaced, invalidated or cleared it.
\<close>

lemma ttl_hit_is_latest_unexpired_store:
  assumes "ttl_lookup (ttl_run (ttl_new ttl_s max_entries) ops) now k = Some v"
  shows "\<exists>pre t post. ops = pre @ Op_set t k v # post \<and> now < t + ttl_s
    \<and> list_all (\<lambda>op. \<not> supersedes op k) post"
  using inproc.lookup_run [of "ttl_new ttl_s max_entries" ops now k v] assms
  by (auto simp: ttl_run_def list_all_iff) (auto simp: ttl_new_def ttl_get_def)

definition posture_history :: "(string, nat) cache_op list" where
  "posture_history = [Op_set 0 ''prod'' 1, Op_set 1 ''dev'' 2, Op_set 2 ''prod'' 3,
     Op_get 4 ''dev'', Op_invalidate ''dev'']"

text \<open>
  Reading back what was just stored: it is returned exactly until its TTL has passed, and a
  cache with a TTL of zero or less never returns anything.
\<close>

lemma ttl_get_after_set:
  assumes "ttl_inv c"
  shows "ttl_lookup (ttl_set c t k v) now k =
    (if 0 < tc_ttl c \<and> now < t + tc_ttl c then Some v else None)"
proof (cases "0 < tc_ttl c")
  case True
  then have "tc_ttl (ttl_set c t k v) = tc_ttl c" by (simp add: ttl_set_def)
  with ttl_set_newest [OF assms True, of t k v] True show ?thesis
    by (simp add: ttl_get_def)
qed (simp add: ttl_get_def ttl_set_def)

end
