(* ===== verification/Trust.thy ===== *)
theory Trust
  imports Stages Ttl_Cache "HOL-Library.AList" "HOL-Library.List_Lexorder" "HOL-Library.Char_ord"
begin

text \<open>
  The behavioural trust score (\<open>norviq/engine/trust/\<close>): the seven signals, the weighted sum with the
  cap a sustained violation rate imposes, the admin's tighten-only cap and the tiers, with the error
  paths of the reads they rest on. Scores are exact rationals: the signals are multiples of one tenth
  and the weights of one hundredth, so that rounding to four decimals only removes binary noise. The
  Shannon entropy of the parameters is an argument, as are the square root and the four-decimal
  formatting of the profile's update script.
\<close>

section \<open>History entries\<close>

datatype stamp = Stamp_missing | Stamp_malformed | Stamp time

record history_entry =
  he_decision :: string
  he_tool_name :: string
  he_param_hash :: string
  he_timestamp_unix :: "rat option"
  he_timestamp :: stamp

text \<open>An absent name or hash is the empty text, which the code treats alike.\<close>

definition refusal_key :: "history_entry \<Rightarrow> (string \<times> string) option" where
  "refusal_key e =
     (if he_decision e = ''block'' \<and> he_tool_name e \<noteq> '''' \<and> he_param_hash e \<noteq> ''''
      then Some (he_tool_name e, he_param_hash e) else None)"

definition entry_time :: "history_entry \<Rightarrow> rat" where
  "entry_time e = (case he_timestamp_unix e of None \<Rightarrow> 0 | Some t \<Rightarrow> t)"

fun drop_repeats :: "(string \<times> string) list \<Rightarrow> history_entry list \<Rightarrow> history_entry list" where
  "drop_repeats seen [] = []"
| "drop_repeats seen (e # es) =
     (case refusal_key e of
        None \<Rightarrow> e # drop_repeats seen es
      | Some k \<Rightarrow> if k \<in> set seen then drop_repeats seen es else e # drop_repeats (k # seen) es)"

definition collapse_repeated_refusals :: "history_entry list \<Rightarrow> history_entry list" where
  "collapse_repeated_refusals h = drop_repeats [] (sort_key entry_time h)"

section \<open>Profiles and the input\<close>

record entropy_stat =
  st_mean :: rat
  st_std :: rat
  st_count :: nat
  st_variance :: rat

record profile =
  pf_known_tools :: "string list"
  pf_allowed_tools :: "string list"
  pf_blocked_tools :: "string list"
  pf_baseline_rpm :: rat
  pf_entropy_baseline :: "(string \<times> entropy_stat) list"

record trust_input =
  ti_tool_name :: string
  ti_chain_depth :: int
  ti_timestamp :: time
  ti_now :: time
  ti_entropy :: rat

section \<open>The seven signals\<close>

definition blocked_count :: "history_entry list \<Rightarrow> nat" where
  "blocked_count h = length (filter (\<lambda>e. he_decision e = ''block'') h)"

definition violation_rate :: "history_entry list \<Rightarrow> rat option" where
  "violation_rate history =
     (let h = collapse_repeated_refusals history
      in if h = [] then Some 1
         else let rate = (of_nat (blocked_count h) :: rat) / of_nat (length h)
           in Some (if rate = 0 then 1 else if rate \<le> 2/100 then 8/10 else if rate \<le> 5/100 then 6/10
                    else if rate \<le> 10/100 then 4/10 else if rate \<le> 20/100 then 2/10 else 0))"

definition tool_novelty :: "trust_input \<Rightarrow> history_entry list \<Rightarrow> profile \<Rightarrow> rat option" where
  "tool_novelty ti history pf =
     (if pf_known_tools pf = [] then Some (5/10)
      else let known = set (pf_known_tools pf);
               recent = map he_tool_name (drop (length history - 20) history);
               extra = (if ti_tool_name ti \<in> known then 0 else 1);
               novel = length (filter (\<lambda>n. n \<notin> known) recent) + extra;
               rate = (of_nat novel :: rat) / of_nat (max 1 (length recent + extra))
        in Some (if ti_tool_name ti \<in> known
                 then (if rate \<le> 10/100 then 1 else if rate \<le> 30/100 then 7/10 else 5/10)
                 else (if rate \<le> 10/100 then 7/10 else if rate \<le> 30/100 then 4/10 else 2/10)))"

definition scope_drift :: "trust_input \<Rightarrow> profile \<Rightarrow> rat option" where
  "scope_drift ti pf =
     Some (if pf_allowed_tools pf = [] \<and> pf_blocked_tools pf = [] then 7/10
           else if ti_tool_name ti \<in> set (pf_blocked_tools pf) then 0
           else if ti_tool_name ti \<in> set (pf_allowed_tools pf) then 1 else 5/10)"

definition param_entropy :: "trust_input \<Rightarrow> profile \<Rightarrow> rat option" where
  "param_entropy ti pf =
     (let (mean, std) = (case map_of (pf_entropy_baseline pf) (ti_tool_name ti) of
            None \<Rightarrow> (4, 1)
          | Some s \<Rightarrow> (st_mean s, if st_std s = 0 then 1 else st_std s));
          z_score = (ti_entropy ti - mean) / std
      in Some (if z_score \<le> 1 then 1 else if z_score \<le> 2 then 7/10 else if z_score \<le> 3 then 4/10 else 2/10))"

text \<open>A malformed timestamp makes the signal raise.\<close>

definition stamp_time :: "time \<Rightarrow> history_entry \<Rightarrow> time option" where
  "stamp_time now e =
     (case he_timestamp e of Stamp_missing \<Rightarrow> Some now | Stamp_malformed \<Rightarrow> None | Stamp t \<Rightarrow> Some t)"

definition time_decay :: "trust_input \<Rightarrow> history_entry list \<Rightarrow> rat option" where
  "time_decay ti history =
     (let blocked = filter (\<lambda>e. he_decision e = ''block'') (collapse_repeated_refusals history);
          stamps = map (stamp_time (ti_now ti)) blocked
      in if blocked = [] then Some 1
         else if None \<in> set stamps then None
         else let ts = map the stamps;
                  latest = fold max (tl ts) (hd ts);
                  age_hours = (ti_now ti - latest) / 3600
           in Some (if 24 \<le> age_hours then 1 else if 12 \<le> age_hours then 8/10
                    else if 6 \<le> age_hours then 6/10 else if 1 \<le> age_hours then 4/10
                    else if 10/60 \<le> age_hours then 2/10 else 1/10))"

definition chain_depth :: "trust_input \<Rightarrow> rat option" where
  "chain_depth ti =
     Some (if ti_chain_depth ti \<le> 0 then 1 else if ti_chain_depth ti = 1 then 8/10
           else if ti_chain_depth ti = 2 then 6/10 else if ti_chain_depth ti = 3 then 4/10 else 2/10)"

definition in_window :: "time \<Rightarrow> history_entry \<Rightarrow> bool option" where
  "in_window start e =
     (case he_timestamp e of Stamp_missing \<Rightarrow> Some True | Stamp_malformed \<Rightarrow> None
      | Stamp t \<Rightarrow> Some (start \<le> t))"

definition session_velocity :: "trust_input \<Rightarrow> history_entry list \<Rightarrow> profile \<Rightarrow> rat option" where
  "session_velocity ti history pf =
     (let baseline = (if pf_baseline_rpm pf = 0 then 10 else pf_baseline_rpm pf);
          flags = map (in_window (ti_timestamp ti - 60)) history
      in if None \<in> set flags then None
         else let ratio = (of_nat (length (filter (\<lambda>f. f = Some True) flags)) + 1) / baseline
           in Some (if ratio \<le> 1 then 1 else if ratio \<le> 2 then 8/10 else if ratio \<le> 3 then 5/10 else 3/10))"

definition clamp_unit :: "rat \<Rightarrow> rat" where
  "clamp_unit v = max 0 (min 1 v)"

text \<open>A signal that raises counts as one half.\<close>

definition safe_signal :: "rat option \<Rightarrow> rat" where
  "safe_signal v = (case v of None \<Rightarrow> 5/10 | Some x \<Rightarrow> clamp_unit x)"

definition compute_signals ::
  "trust_input \<Rightarrow> history_entry list \<Rightarrow> profile \<Rightarrow> (string \<times> rat) list" where
  "compute_signals ti history pf =
     [(''violation_rate'', safe_signal (violation_rate history)),
      (''tool_novelty'', safe_signal (tool_novelty ti history pf)),
      (''scope_drift'', safe_signal (scope_drift ti pf)),
      (''param_entropy'', safe_signal (param_entropy ti pf)),
      (''time_decay'', safe_signal (time_decay ti history)),
      (''chain_depth'', safe_signal (chain_depth ti)),
      (''session_velocity'', safe_signal (session_velocity ti history pf))]"

section \<open>The score\<close>

definition trust_weights :: "(string \<times> rat) list" where
  "trust_weights =
     [(''violation_rate'', 25/100), (''tool_novelty'', 20/100), (''scope_drift'', 15/100),
      (''param_entropy'', 15/100), (''time_decay'', 10/100), (''chain_depth'', 10/100),
      (''session_velocity'', 5/100)]"

definition min_observations_for_cap :: nat where
  "min_observations_for_cap = 20"

definition lookup_or :: "'v \<Rightarrow> ('k \<times> 'v) list \<Rightarrow> 'k \<Rightarrow> 'v" where
  "lookup_or v m k = (case map_of m k of None \<Rightarrow> v | Some x \<Rightarrow> x)"

definition violation_cap :: "(string \<times> rat) list \<Rightarrow> nat \<Rightarrow> rat" where
  "violation_cap signals sample_size =
     (if sample_size < min_observations_for_cap then 1
      else let v = lookup_or 1 signals ''violation_rate''
        in if 8/10 \<le> v then 1 else if v \<le> 0 then 30/100 else if v \<le> 2/10 then 45/100
           else if v \<le> 4/10 then 60/100 else 1)"

text \<open>Rounding to four decimals, a tie going to the even neighbour.\<close>

definition half_even :: "rat \<Rightarrow> int" where
  "half_even x =
     (let f = \<lfloor>x\<rfloor>; r = x - of_int f
      in if r < 1/2 then f else if 1/2 < r then f + 1 else if even f then f else f + 1)"

definition round4 :: "rat \<Rightarrow> rat" where
  "round4 x = of_int (half_even (x * 10000)) / 10000"

definition weighted_sum :: "(string \<times> rat) list \<Rightarrow> nat \<Rightarrow> rat" where
  "weighted_sum signals sample_size =
     round4 (min (sum_list (map (\<lambda>(n, w). w * lookup_or 0 signals n) trust_weights))
       (violation_cap signals sample_size))"

definition tiers :: "rat option \<Rightarrow> (rat \<times> rat) option" where
  "tiers threshold =
     map_option (\<lambda>t. let high = clamp_unit t in (high, clamp_unit (round4 (high * (4/10 / (7/10)))))) threshold"

definition categorize :: "rat \<Rightarrow> bool \<Rightarrow> (rat \<times> rat) option \<Rightarrow> string" where
  "categorize score is_manually_frozen thr =
     (if is_manually_frozen then ''frozen''
      else if score = 0 then ''low''
      else let (high, low) = (case thr of None \<Rightarrow> (7/10, 4/10) | Some t \<Rightarrow> t)
        in if high \<le> score then ''high'' else if low \<le> score then ''medium'' else ''low'')"

definition distrust :: "(string \<times> rat) \<Rightarrow> rat" where
  "distrust nv = (case nv of (n, v) \<Rightarrow> lookup_or 0 trust_weights n * (1 - v))"

fun first_max :: "('a \<Rightarrow> 'b::linorder) \<Rightarrow> 'a \<Rightarrow> 'a list \<Rightarrow> 'a" where
  "first_max f best [] = best"
| "first_max f best (x # xs) = first_max f (if f best < f x then x else best) xs"

definition find_dominant_signal :: "(string \<times> rat) list \<Rightarrow> string" where
  "find_dominant_signal signals =
     (case signals of
        [] \<Rightarrow> ''''
      | x # xs \<Rightarrow> let m = first_max distrust x xs in if 0 < distrust m then fst m else '''')"

definition recommend :: "rat \<Rightarrow> string \<Rightarrow> string" where
  "recommend score category =
     (if category = ''frozen'' then ''freeze'' else if score < 4/10 then ''escalate'' else ''allow'')"

definition calculate ::
  "trust_input \<Rightarrow> history_entry list \<Rightarrow> profile \<Rightarrow> bool \<Rightarrow> rat option \<Rightarrow> rat option \<Rightarrow> trust_result" where
  "calculate ti history pf is_frozen override threshold =
     (let signals = compute_signals ti history pf;
          observed = length (collapse_repeated_refusals history);
          computed = (if is_frozen then 0 else weighted_sum signals observed);
          capped = (case override of None \<Rightarrow> False | Some c \<Rightarrow> c < computed \<and> \<not> is_frozen);
          score = (if capped then round4 (min computed (the override)) else computed);
          category = categorize score is_frozen (tiers threshold);
          dominant = (if capped \<and> category \<noteq> ''high'' then ''manual_override''
                      else find_dominant_signal signals)
      in \<lparr>tr_score = score, tr_category = category, tr_signals = signals, tr_weights = trust_weights,
          tr_dominant_signal = dominant, tr_recommendation = recommend score category\<rparr>)"

section \<open>The reads behind a calculation\<close>

text \<open>
  Each read of Redis is a result: \<open>None\<close> when it raises. An unreadable history counts as twenty
  refusals, an unreadable profile is replaced by a conservative one, an unreadable freeze flag means
  frozen, and an unreadable cap means no cap.
\<close>

definition safe_history :: "time \<Rightarrow> history_entry list option \<Rightarrow> history_entry list" where
  "safe_history now read =
     (case read of
        Some h \<Rightarrow> h
      | None \<Rightarrow> replicate 20 \<lparr>he_decision = ''block'', he_tool_name = '''', he_param_hash = '''',
          he_timestamp_unix = None, he_timestamp = Stamp now\<rparr>)"

definition conservative_profile :: "string \<Rightarrow> profile" where
  "conservative_profile tool =
     \<lparr>pf_known_tools = [], pf_allowed_tools = [], pf_blocked_tools = [tool], pf_baseline_rpm = 1,
      pf_entropy_baseline = [(tool, \<lparr>st_mean = 1, st_std = 2/10, st_count = 0, st_variance = 0\<rparr>)]\<rparr>"

definition safe_frozen_only :: "bool option \<Rightarrow> bool" where
  "safe_frozen_only read = (case read of None \<Rightarrow> True | Some b \<Rightarrow> b)"

definition safe_override_only :: "rat option option \<Rightarrow> rat option" where
  "safe_override_only read = (case read of None \<Rightarrow> None | Some c \<Rightarrow> c)"

text \<open>
  The profile and the freeze flag come in one round trip; when it fails, the flag is read again alone.
\<close>

definition safe_profile_and_frozen ::
  "string \<Rightarrow> (profile \<times> bool) option \<Rightarrow> bool option \<Rightarrow> profile \<times> bool" where
  "safe_profile_and_frozen tool read frozen_read =
     (case read of
        Some pf \<Rightarrow> pf
      | None \<Rightarrow> (conservative_profile tool, safe_frozen_only frozen_read))"

record trust_reads =
  rd_history :: "history_entry list option"
  rd_profile :: "(profile \<times> bool) option"
  rd_frozen :: "bool option"
  rd_override :: "rat option option"

record trust_caches =
  cc_history :: "(ucs, history_entry list) ttl_cache"
  cc_profile :: "(ucs \<times> string, profile) ttl_cache"

definition history_cached ::
  "time \<Rightarrow> time \<Rightarrow> ucs \<Rightarrow> trust_reads \<Rightarrow> trust_caches \<Rightarrow> history_entry list \<times> trust_caches" where
  "history_cached mclock now spiffe rd cc =
     (case ttl_get (cc_history cc) mclock spiffe of
        (Some h, c) \<Rightarrow> (h, cc\<lparr>cc_history := c\<rparr>)
      | (None, c) \<Rightarrow>
          let h = safe_history now (rd_history rd)
          in (h, cc\<lparr>cc_history := ttl_set c mclock spiffe h\<rparr>))"

definition profile_cached ::
  "time \<Rightarrow> ucs \<Rightarrow> string \<Rightarrow> string \<Rightarrow> trust_reads \<Rightarrow> trust_caches \<Rightarrow> profile \<times> trust_caches" where
  "profile_cached mclock spiffe cls tool rd cc =
     (case ttl_get (cc_profile cc) mclock (spiffe, cls) of
        (Some p, c) \<Rightarrow> (p, cc\<lparr>cc_profile := c\<rparr>)
      | (None, c) \<Rightarrow>
          let p = fst (safe_profile_and_frozen tool (rd_profile rd) (rd_frozen rd))
          in (p, cc\<lparr>cc_profile := ttl_set c mclock (spiffe, cls) p\<rparr>))"

text \<open>
  \<open>TrustCalculator.calculate\<close> with its reads: through the caches when they are enabled, but always
  with a fresh freeze flag and cap, which the caller may have read already.
\<close>

definition calculate_trust ::
  "time \<Rightarrow> ucs \<Rightarrow> string \<Rightarrow> trust_input \<Rightarrow> trust_reads \<Rightarrow> (bool \<times> rat option) option \<Rightarrow> rat option
   \<Rightarrow> trust_caches \<Rightarrow> trust_result \<times> trust_caches" where
  "calculate_trust mclock spiffe cls ti rd prefetched threshold cc =
     (if ttl_enabled (cc_history cc) then
        let (h, cc1) = history_cached mclock (ti_now ti) spiffe rd cc;
            (p, cc2) = profile_cached mclock spiffe cls (ti_tool_name ti) rd cc1;
            (frozen, override) = (case prefetched of
                Some fo \<Rightarrow> fo
              | None \<Rightarrow> (safe_frozen_only (rd_frozen rd), safe_override_only (rd_override rd)))
        in (calculate ti h p frozen override threshold, cc2)
      else
        let (p, frozen) = safe_profile_and_frozen (ti_tool_name ti) (rd_profile rd) (rd_frozen rd)
        in (calculate ti (safe_history (ti_now ti) (rd_history rd)) p frozen
              (safe_override_only (rd_override rd)) threshold, cc))"

section \<open>The rolling history\<close>

definition history_window :: rat where
  "history_window = 3600"

definition history_max_entries :: nat where
  "history_max_entries = 500"

text \<open>
  The Redis sorted set as a list in ascending order of score and then of payload, with distinct
  payloads. Storing a payload again moves it to its new score.
\<close>

type_synonym zset = "(rat \<times> string) list"

definition zadd :: "string \<Rightarrow> rat \<Rightarrow> zset \<Rightarrow> zset" where
  "zadd payload score z = insort (score, payload) (filter (\<lambda>(_, p). p \<noteq> payload) z)"

definition zremrangebyscore :: "rat \<Rightarrow> rat \<Rightarrow> zset \<Rightarrow> zset" where
  "zremrangebyscore lo hi z = filter (\<lambda>(s, _). \<not> (lo \<le> s \<and> s \<le> hi)) z"

definition history_record :: "string \<Rightarrow> rat \<Rightarrow> zset \<Rightarrow> zset" where
  "history_record payload score z =
     (let z1 = zremrangebyscore 0 (score - history_window) (zadd payload score z)
      in drop (length z1 - history_max_entries) z1)"

definition get_history :: "(string \<Rightarrow> history_entry option) \<Rightarrow> rat \<Rightarrow> zset \<Rightarrow> history_entry list" where
  "get_history parse now z =
     List.map_filter (parse \<circ> snd) (filter (\<lambda>(s, _). now - history_window \<le> s \<and> s \<le> now) z)"

section \<open>The behavioural profile\<close>

record agent_profile =
  ap_known_tools :: "string list"
  ap_entropy_baseline :: "(string \<times> entropy_stat) list"
  ap_seen :: "(string \<times> nat) list"
  ap_rpm :: rat

definition empty_agent_profile :: agent_profile where
  "empty_agent_profile =
     \<lparr>ap_known_tools = [], ap_entropy_baseline = [], ap_seen = [], ap_rpm = 10\<rparr>"

definition next_stat :: "(rat \<Rightarrow> rat) \<Rightarrow> (rat \<Rightarrow> rat) \<Rightarrow> rat \<Rightarrow> entropy_stat \<Rightarrow> entropy_stat" where
  "next_stat sqrt_of fmt4 entropy s =
     (let count = st_count s + 1;
          delta = entropy - st_mean s;
          mean0 = st_mean s + delta / of_nat count;
          mean1 = (if st_mean s + 25/100 < mean0 then st_mean s + 25/100 else mean0);
          mean = (if mean1 < st_mean s - 10/100 then st_mean s - 10/100 else mean1);
          delta2 = entropy - mean;
          variance = (if 1 < count
            then (st_variance s * of_nat (count - 1) + delta * delta2) / of_nat count
            else st_variance s)
      in \<lparr>st_mean = fmt4 mean, st_std = fmt4 (min (max (sqrt_of variance) (2/10)) 3),
          st_count = count, st_variance = fmt4 variance\<rparr>)"

definition profile_update ::
  "(rat \<Rightarrow> rat) \<Rightarrow> (rat \<Rightarrow> rat) \<Rightarrow> string \<Rightarrow> rat \<Rightarrow> rat \<Rightarrow> agent_profile \<Rightarrow> agent_profile" where
  "profile_update sqrt_of fmt4 tool entropy observed_rpm p =
     (let seen = lookup_or 0 (ap_seen p) tool + 1;
          known = (if 3 \<le> seen
            then sort (if tool \<notin> set (ap_known_tools p) \<and> length (ap_known_tools p) < 256
                       then ap_known_tools p @ [tool] else ap_known_tools p)
            else ap_known_tools p);
          stat = lookup_or \<lparr>st_mean = 4, st_std = 1, st_count = 0, st_variance = 1\<rparr>
            (ap_entropy_baseline p) tool;
          rpm0 = ap_rpm p * (95/100) + observed_rpm * (5/100);
          rpm1 = (if ap_rpm p * (105/100) < rpm0 then ap_rpm p * (105/100) else rpm0);
          rpm2 = (if rpm1 < ap_rpm p * (99/100) then ap_rpm p * (99/100) else rpm1)
      in \<lparr>ap_known_tools = known,
          ap_entropy_baseline = AList.update tool (next_stat sqrt_of fmt4 entropy stat) (ap_entropy_baseline p),
          ap_seen = AList.update tool seen (ap_seen p),
          ap_rpm = fmt4 (max rpm2 10)\<rparr>)"

definition update_profile ::
  "(rat \<Rightarrow> rat) \<Rightarrow> (rat \<Rightarrow> rat) \<Rightarrow> string \<Rightarrow> rat \<Rightarrow> rat \<Rightarrow> verdict \<Rightarrow> agent_profile \<Rightarrow> agent_profile" where
  "update_profile sqrt_of fmt4 tool entropy observed_rpm v p =
     (if v \<notin> {Allow, Audit} then p else profile_update sqrt_of fmt4 tool entropy observed_rpm p)"

end
