(* ===== verification/Identity.thy ===== *)
theory Identity
  imports Decision "HOL-Library.AList"
begin

text \<open>
  Workload identities (\<open>norviq/engine/identity.py\<close>): which identities the engine decides for, the
  shape of an identity of the trust domain, and the resolver that turns an attested SVID, or the
  environment in mock mode, into an identity and caches it. The identity document of the Workload API
  and the environment variables are arguments; an identity is a list of code points, and the other
  fields are its UTF-8 slices.
\<close>

section \<open>Controllable identities\<close>

definition spiffe_id_max_len :: nat where
  "spiffe_id_max_len = 512"

definition spiffe_scheme :: ucs where
  "spiffe_scheme = code_points ''spiffe://''"

text \<open>The code points \<open>str.strip\<close> removes.\<close>

definition ucs_space :: "nat \<Rightarrow> bool" where
  "ucs_space c \<longleftrightarrow> 9 \<le> c \<and> c \<le> 13 \<or> 28 \<le> c \<and> c \<le> 32
     \<or> c \<in> {0x85, 0xA0, 0x1680, 0x2028, 0x2029, 0x202F, 0x205F, 0x3000} \<or> 0x2000 \<le> c \<and> c \<le> 0x200A"

definition ucs_strip :: "ucs \<Rightarrow> ucs" where
  "ucs_strip s = rev (dropWhile ucs_space (rev (dropWhile ucs_space s)))"

definition storable :: "ucs \<Rightarrow> bool" where
  "storable s \<longleftrightarrow> 0 \<notin> set s \<and> \<not> list_ex (\<lambda>c. 0xD800 \<le> c \<and> c \<le> 0xDFFF) s"

definition is_controllable_spiffe_id :: "ucs \<Rightarrow> bool" where
  "is_controllable_spiffe_id s \<longleftrightarrow>
     starts_with s spiffe_scheme \<and> ucs_strip (drop (length spiffe_scheme) s) \<noteq> []
     \<and> length s \<le> spiffe_id_max_len \<and> storable s"

section \<open>Identities of the trust domain\<close>

text \<open>\<open>str.split("/")\<close>.\<close>

fun split_at :: "'a \<Rightarrow> 'a list \<Rightarrow> 'a list list" where
  "split_at sep [] = [[]]"
| "split_at sep (c # s) =
     (if c = sep then [] # split_at sep s
      else (case split_at sep s of [] \<Rightarrow> [[c]] | w # ws \<Rightarrow> (c # w) # ws))"

abbreviation slash :: nat where
  "slash \<equiv> 47"

definition trust_domain_prefix :: ucs where
  "trust_domain_prefix = code_points ''spiffe://norviq/''"

definition parse_norviq_spiffe_id :: "ucs \<Rightarrow> (ucs \<times> ucs) option" where
  "parse_norviq_spiffe_id s =
     (if \<not> starts_with s trust_domain_prefix then None
      else case split_at slash (drop (length trust_domain_prefix) s) of
          [a, b, c, d] \<Rightarrow>
            (if a = code_points ''ns'' \<and> c = code_points ''sa'' \<and> b \<noteq> [] \<and> d \<noteq> [] then Some (b, d) else None)
        | _ \<Rightarrow> None)"

definition norviq_spiffe_id :: "ucs \<Rightarrow> ucs \<Rightarrow> ucs" where
  "norviq_spiffe_id ns sa = code_points ''spiffe://norviq/ns/'' @ ns @ code_points ''/sa/'' @ sa"

section \<open>The resolver\<close>

definition utf8_point :: "nat \<Rightarrow> string" where
  "utf8_point c =
     (if c < 0x80 then [char_of c]
      else if c < 0x800 then [char_of (0xC0 + c div 64), char_of (0x80 + c mod 64)]
      else if c < 0x10000
      then [char_of (0xE0 + c div 4096), char_of (0x80 + c div 64 mod 64), char_of (0x80 + c mod 64)]
      else [char_of (0xF0 + c div 262144), char_of (0x80 + c div 4096 mod 64),
            char_of (0x80 + c div 64 mod 64), char_of (0x80 + c mod 64)])"

definition utf8 :: "ucs \<Rightarrow> string" where
  "utf8 s = concat (map utf8_point s)"

text \<open>The environment variables of the workload; \<open>None\<close> when a variable is not set.\<close>

record workload_env =
  we_namespace :: "ucs option"
  we_service_account :: "ucs option"
  we_hostname :: "ucs option"
  we_agent_class :: "ucs option"
  we_workload :: "ucs option"

definition env_or :: "ucs option \<Rightarrow> string \<Rightarrow> ucs" where
  "env_or v fallback = (case v of None \<Rightarrow> code_points fallback | Some s \<Rightarrow> s)"

definition env_identity :: "workload_env \<Rightarrow> ucs \<Rightarrow> ucs \<Rightarrow> ucs \<Rightarrow> agent_identity" where
  "env_identity env spiffe_id ns sa =
     \<lparr>ai_spiffe_id = spiffe_id, ai_namespace = utf8 ns, ai_service_account = utf8 sa,
      ai_agent_class = utf8 (env_or (we_agent_class env) ''default''), ai_framework = '''',
      ai_pod_name = utf8 (env_or (we_hostname env) ''unknown-pod''), ai_cluster_id = '''',
      ai_workload = utf8 (env_or (we_workload env) '''')\<rparr>"

definition mock_resolve :: "workload_env \<Rightarrow> agent_identity" where
  "mock_resolve env =
     (let ns = env_or (we_namespace env) ''default''; sa = env_or (we_service_account env) ''default''
      in env_identity env (norviq_spiffe_id ns sa) ns sa)"

definition fallback_identity :: agent_identity where
  "fallback_identity =
     \<lparr>ai_spiffe_id = code_points ''spiffe://norviq/ns/unknown/sa/unknown'', ai_namespace = ''unknown'',
      ai_service_account = '''', ai_agent_class = '''', ai_framework = '''', ai_pod_name = '''',
      ai_cluster_id = '''', ai_workload = ''''\<rparr>"

datatype resolution_error = Workload_api_unreachable | Svid_not_in_trust_domain

text \<open>The SVID is \<open>None\<close> when the Workload API cannot be reached or has no document.\<close>

definition resolve_workload_api ::
  "workload_env \<Rightarrow> ucs option \<Rightarrow> (resolution_error, agent_identity) res" where
  "resolve_workload_api env svid =
     (case svid of
        None \<Rightarrow> Inl Workload_api_unreachable
      | Some spiffe_id \<Rightarrow>
          (case parse_norviq_spiffe_id spiffe_id of
             None \<Rightarrow> Inl Svid_not_in_trust_domain
           | Some (ns, sa) \<Rightarrow> Inr (env_identity env spiffe_id ns sa)))"

text \<open>
  In mock mode an identity the model refuses (an environment that is not valid text) is replaced by the
  fallback; \<open>mock_ok\<close> says whether the construction succeeds.
\<close>

definition resolve_from_socket ::
  "string \<Rightarrow> workload_env \<Rightarrow> bool \<Rightarrow> ucs option \<Rightarrow> (resolution_error, agent_identity) res" where
  "resolve_from_socket mode env mock_ok svid =
     (if mode = ''workload-api'' then resolve_workload_api env svid
      else Inr (if mock_ok then mock_resolve env else fallback_identity))"

definition max_cache_ttl :: int where
  "max_cache_ttl = 300"

text \<open>A configured value of zero falls back to the value read when the module was loaded.\<close>

definition cache_ttl :: "int \<Rightarrow> int \<Rightarrow> int" where
  "cache_ttl setting import_ttl =
     (let configured = (if setting = 0 then import_ttl else setting)
      in if max_cache_ttl < configured then max_cache_ttl else max 0 configured)"

type_synonym identity_cache = "(ucs \<times> agent_identity \<times> time) list"

definition get_cached :: "int \<Rightarrow> time \<Rightarrow> identity_cache \<Rightarrow> agent_identity option \<times> identity_cache" where
  "get_cached ttl now c =
     (let live = filter (\<lambda>(_, _, ts). \<not> of_int ttl \<le> now - ts) c
      in (case live of [(_, identity, _)] \<Rightarrow> Some identity | _ \<Rightarrow> None, live))"

definition resolve_identity ::
  "int \<Rightarrow> time \<Rightarrow> string \<Rightarrow> workload_env \<Rightarrow> bool \<Rightarrow> ucs option \<Rightarrow> identity_cache
   \<Rightarrow> (resolution_error, agent_identity) res \<times> identity_cache" where
  "resolve_identity ttl now mode env mock_ok svid c =
     (case get_cached ttl now c of
        (Some identity, c') \<Rightarrow> (Inr identity, c')
      | (None, c') \<Rightarrow>
          (case resolve_from_socket mode env mock_ok svid of
             Inl e \<Rightarrow> (Inl e, c')
           | Inr identity \<Rightarrow> (Inr identity, AList.update (ai_spiffe_id identity) (identity, now) c')))"

section \<open>Splitting\<close>

lemma split_at_ne [simp]: "split_at sep s \<noteq> []"
  by (induction s) (auto split: list.splits)

lemma split_at_word: "sep \<notin> set w \<Longrightarrow> split_at sep w = [w]"
  by (induction w) auto

lemma split_at_append: "sep \<notin> set w \<Longrightarrow> split_at sep (w @ sep # s) = w # split_at sep s"
  by (induction w) auto

fun join_with :: "'a \<Rightarrow> 'a list list \<Rightarrow> 'a list" where
  "join_with sep [] = []"
| "join_with sep [w] = w"
| "join_with sep (w # ws) = w @ sep # join_with sep ws"

lemma join_split: "join_with sep (split_at sep s) = s"
proof (induction s)
  case (Cons c s)
  obtain w ws where ws: "split_at sep s = w # ws" by (cases "split_at sep s") auto
  with Cons show ?case by (cases ws) auto
qed simp

lemma split_at_words: "w \<in> set (split_at sep s) \<Longrightarrow> sep \<notin> set w"
  by (induction s arbitrary: w) (auto split: if_splits list.splits)

lemma parse_sound:
  assumes "parse_norviq_spiffe_id s = Some (ns, sa)"
  shows "s = norviq_spiffe_id ns sa \<and> ns \<noteq> [] \<and> sa \<noteq> [] \<and> slash \<notin> set ns \<and> slash \<notin> set sa"
proof -
  from assms obtain r where s: "s = trust_domain_prefix @ r"
    and r: "split_at slash r = [code_points ''ns'', ns, code_points ''sa'', sa]" "ns \<noteq> []" "sa \<noteq> []"
    by (auto simp: parse_norviq_spiffe_id_def starts_with_iff split: if_splits list.splits)
  then have "r = code_points ''ns'' @ slash # ns @ slash # code_points ''sa'' @ slash # sa"
    using join_split [of slash r] by simp
  moreover have "slash \<notin> set ns" "slash \<notin> set sa"
    using r(1) split_at_words [of _ slash r] by auto
  ultimately show ?thesis
    using s r(2,3) by (simp add: norviq_spiffe_id_def trust_domain_prefix_def)
qed

section \<open>Properties\<close>

text \<open>
  C27. The parser of trust-domain identities accepts exactly the identities the resolver mints: an id
  yields a namespace and a service account if and only if it is
  \<open>spiffe://norviq/ns/<namespace>/sa/<account>\<close> for these two, neither of them empty or with a slash
  in it. In particular the two are recovered from a minted id, and no two pairs share an id.
\<close>

theorem parse_norviq_spiffe_id_exact:
  "parse_norviq_spiffe_id s = Some (ns, sa) \<longleftrightarrow>
     s = norviq_spiffe_id ns sa \<and> ns \<noteq> [] \<and> sa \<noteq> [] \<and> slash \<notin> set ns \<and> slash \<notin> set sa"
proof
  assume "parse_norviq_spiffe_id s = Some (ns, sa)"
  then show "s = norviq_spiffe_id ns sa \<and> ns \<noteq> [] \<and> sa \<noteq> [] \<and> slash \<notin> set ns \<and> slash \<notin> set sa"
    by (rule parse_sound)
next
  let ?r = "code_points ''ns'' @ slash # ns @ slash # code_points ''sa'' @ slash # sa"
  assume a: "s = norviq_spiffe_id ns sa \<and> ns \<noteq> [] \<and> sa \<noteq> [] \<and> slash \<notin> set ns \<and> slash \<notin> set sa"
  then have s: "s = trust_domain_prefix @ ?r"
    by (simp add: norviq_spiffe_id_def trust_domain_prefix_def)
  have "split_at slash ?r = [code_points ''ns'', ns, code_points ''sa'', sa]"
    using a by (simp add: split_at_append split_at_word)
  moreover have "ns \<noteq> [] \<and> sa \<noteq> []" using a by blast
  ultimately show "parse_norviq_spiffe_id s = Some (ns, sa)"
    by (simp add: s parse_norviq_spiffe_id_def)
qed


definition demo_env :: workload_env where
  "demo_env = \<lparr>we_namespace = Some (code_points ''spoofed''), we_service_account = None, we_hostname = None,
     we_agent_class = None, we_workload = None\<rparr>"

definition demo_cache :: identity_cache where
  "demo_cache = [(code_points ''spiffe://norviq/ns/a/sa/b'', mock_resolve demo_env, 600)]"


end
