(* ===== verification/Evaluate.thy ===== *)
theory Evaluate
  imports Candidates Trust Identity Opa
begin

text \<open>
  One evaluation of a tool call (\<open>OPAEvaluator.evaluate\<close> of \<open>norviq/engine/evaluator.py\<close>): identity
  check, namespace posture, trust, the two decision caches, the candidate policies with OPA and the
  resolver, the cache write, the rate limiter, the trust overrides, monitor mode, block attribution,
  the enforcement point's own refusal, the recorded behaviour and the three exception handlers. What
  Redis answers during the call is an argument (\<open>call_reads\<close>), with failures as values; the state of
  the process is a record, and what it sends to other stores is a list of effects. The clocks are read
  once per call.
\<close>

section \<open>Environment, reads and state\<close>

record 'w eval_env =
  vv_api :: "'w opa_api"
  vv_settings :: engine_settings
  vv_skeleton :: "string \<Rightarrow> string"
  vv_derived :: "tool_call_event \<Rightarrow> json option"
  vv_classify :: "string \<Rightarrow> string option"
  vv_format_2f :: "rat \<Rightarrow> string"
  vv_digest :: "json \<Rightarrow> string"
  vv_entropy :: "(string \<times> json) list \<Rightarrow> rat"
  vv_sha256 :: "string \<Rightarrow> string"
  vv_covers :: "string \<Rightarrow> string \<Rightarrow> bool option"
  vv_io :: io
  vv_db :: db

text \<open>A namespace's settings: the mirror cannot be read, a row or none, or a row of the wrong types.\<close>

datatype ns_read = Ns_unavailable | Ns_row "ns_settings option" | Ns_malformed

record call_reads =
  cr_now :: time
  cr_clock :: time
  cr_elapsed_ms :: rat
  cr_ns_settings :: ns_read
  cr_trust :: "rat option option"
  cr_trust_write :: bool
  cr_flags :: "(bool \<times> rat option) option"
  cr_eval :: "policy_decision option option"
  cr_eval_write :: bool
  cr_count :: "int option"
  cr_trust_reads :: trust_reads

datatype eval_effect =
    Init_trust ucs
  | Set_trust ucs rat string
  | Set_eval string string string policy_decision
  | Incr_call_count ucs
  | Register_agent ucs string string rat string bool
  | Record_graph ucs string verdict string rat
  | Record_history ucs string verdict string int time
  | Update_profile ucs string verdict
  | Emit_audit policy_decision

record 'w evaluator =
  el_posture_cache :: "(string, posture) ttl_cache"
  el_trust_score_cache :: "(ucs, rat) ttl_cache"
  el_eval_cache :: "(string \<times> string \<times> string, policy_decision) ttl_cache"
  el_trust_caches :: trust_caches
  el_collector :: collector
  el_opa :: "'w opa_state"
  el_effects :: "eval_effect list"

datatype eval_failure = Timed_out | Invalid_identity | Engine_fault

abbreviation emit :: "eval_effect list \<Rightarrow> 'w evaluator \<Rightarrow> 'w evaluator" where
  "emit es s \<equiv> s\<lparr>el_effects := el_effects s @ es\<rparr>"

section \<open>The input document\<close>

text \<open>Characters of a text given by its UTF-8 bytes.\<close>

definition char_count :: "string \<Rightarrow> nat" where
  "char_count s = length (filter (\<lambda>c. (of_char c :: nat) div 64 \<noteq> 2) s)"

definition normalize_max_chars :: int where
  "normalize_max_chars = 4 * 1024 * 1024"

text \<open>String values are folded in document order until the budget of characters is used up.\<close>

fun norm_json :: "(string \<Rightarrow> string) \<Rightarrow> json \<Rightarrow> int \<Rightarrow> json \<times> int"
  and norm_list :: "(string \<Rightarrow> string) \<Rightarrow> json list \<Rightarrow> int \<Rightarrow> json list \<times> int"
  and norm_fields :: "(string \<Rightarrow> string) \<Rightarrow> (string \<times> json) list \<Rightarrow> int \<Rightarrow> (string \<times> json) list \<times> int"
where
  "norm_json skel (JStr s) b = (if b \<le> 0 then (JStr s, b) else (JStr (skel s), b - int (char_count s)))"
| "norm_json skel (JList xs) b = (case norm_list skel xs b of (ys, b') \<Rightarrow> (JList ys, b'))"
| "norm_json skel (JObj fs) b = (case norm_fields skel fs b of (gs, b') \<Rightarrow> (JObj gs, b'))"
| "norm_json skel j b = (j, b)"
| "norm_list skel [] b = ([], b)"
| "norm_list skel (x # xs) b =
     (case norm_json skel x b of (y, b') \<Rightarrow> (case norm_list skel xs b' of (ys, b'') \<Rightarrow> (y # ys, b'')))"
| "norm_fields skel [] b = ([], b)"
| "norm_fields skel ((k, v) # fs) b =
     (case norm_json skel v b of (w, b') \<Rightarrow> (case norm_fields skel fs b' of (gs, b'') \<Rightarrow> ((k, w) # gs, b'')))"

definition normalize_for_match :: "(string \<Rightarrow> string) \<Rightarrow> (string \<times> json) list \<Rightarrow> json" where
  "normalize_for_match skel params = fst (norm_json skel (JObj params) normalize_max_chars)"

text \<open>
  An identity inside the document is a list of code points, as everywhere in the model.
\<close>

definition build_input :: "'w eval_env \<Rightarrow> tool_call_event \<Rightarrow> trust_result \<Rightarrow> json option" where
  "build_input env ev tr =
     map_option (\<lambda>derived. JObj
       [(''tool_name'', JStr (ev_tool_name ev)),
        (''tool_name_normalized'', JStr (vv_skeleton env (ev_tool_name ev))),
        (''tool_params'', JObj (ev_tool_params ev)),
        (''tool_params_normalized'', normalize_for_match (vv_skeleton env) (ev_tool_params ev)),
        (''agent'', JObj
          [(''spiffe_id'', JList (map (\<lambda>c. JInt (int c)) (ai_spiffe_id (ev_agent_identity ev)))),
           (''namespace'', JStr (ai_namespace (ev_agent_identity ev))),
           (''agent_class'', JStr (ai_agent_class (ev_agent_identity ev)))]),
        (''trust_score'', JFloat (tr_score tr)),
        (''trust_category'', JStr (tr_category tr)),
        (''session_id'', JStr (ev_session_id ev)),
        (''call_depth'', JInt (ev_call_depth ev)),
        (''derived'', derived),
        (''mcp'', JObj (ev_mcp ev)),
        (''direction'', case map_of (ev_mcp ev) ''direction'' of None \<Rightarrow> JStr ''call'' | Some j \<Rightarrow> j)])
       (vv_derived env ev)"

section \<open>The key of a cached decision\<close>

definition params_digest :: "(json \<Rightarrow> string) \<Rightarrow> tool_call_event \<Rightarrow> string" where
  "params_digest digest ev = digest (JObj (ev_tool_params ev))"

definition cache_tool_key :: "(json \<Rightarrow> string) \<Rightarrow> tool_call_event \<Rightarrow> string" where
  "cache_tool_key digest ev =
     (let key = ev_tool_name ev @ '':'' @ params_digest digest ev @ '':d'' @ show_int (ev_call_depth ev)
            @ '':w'' @ ai_workload (ev_agent_identity ev)
      in if ev_mcp ev \<noteq> [] then key @ '':m'' @ digest (JObj (ev_mcp ev)) else key)"

definition cache_scope :: "'w eval_env \<Rightarrow> tool_call_event \<Rightarrow> string \<times> string \<times> string" where
  "cache_scope env ev =
     (ai_namespace (ev_agent_identity ev), ai_agent_class (ev_agent_identity ev),
      cache_tool_key (vv_digest env) ev)"

fun contains :: "string \<Rightarrow> string \<Rightarrow> bool" where
  "contains [] p = (p = [])"
| "contains (c # s) p = (starts_with (c # s) p \<or> contains s p)"

definition per_identity_facts :: "string list" where
  "per_identity_facts = [''input.trust_score'', ''input.trust_category'', ''input.agent.spiffe_id'']"

definition depends_on_per_identity_facts :: "candidate list \<Rightarrow> bool" where
  "depends_on_per_identity_facts cs = list_ex (\<lambda>c. list_ex (contains (cand_rego c)) per_identity_facts) cs"

section \<open>Reads at the start of an evaluation\<close>

definition validate_spiffe :: "ucs \<Rightarrow> (eval_failure, unit) res" where
  "validate_spiffe spiffe_id =
     (if is_controllable_spiffe_id spiffe_id then Inr () else Inl Invalid_identity)"

definition resolve_posture ::
  "'w eval_env \<Rightarrow> call_reads \<Rightarrow> string \<Rightarrow> 'w evaluator \<Rightarrow> (eval_failure, posture) res \<times> 'w evaluator" where
  "resolve_posture env r ns s =
     (case ttl_get (el_posture_cache s) (cr_clock r) ns of
        (Some po, c) \<Rightarrow> (Inr po, s\<lparr>el_posture_cache := c\<rparr>)
      | (None, c) \<Rightarrow>
          (case cr_ns_settings r of
             Ns_malformed \<Rightarrow> (Inl Engine_fault, s\<lparr>el_posture_cache := c\<rparr>)
           | read \<Rightarrow>
               let po = posture_of (vv_settings env) (case read of Ns_row row \<Rightarrow> row | _ \<Rightarrow> None)
               in (Inr po, s\<lparr>el_posture_cache := ttl_set c (cr_clock r) ns po\<rparr>)))"

text \<open>The stored score, kept for display; the score of an absent one is the schema's default.\<close>

definition stored_trust ::
  "call_reads \<Rightarrow> ucs \<Rightarrow> 'w evaluator \<Rightarrow> (eval_failure, rat) res \<times> 'w evaluator" where
  "stored_trust r spiffe s =
     (case ttl_get (el_trust_score_cache s) (cr_clock r) spiffe of
        (Some t, c) \<Rightarrow> (Inr t, s\<lparr>el_trust_score_cache := c\<rparr>)
      | (None, c) \<Rightarrow>
          let s1 = s\<lparr>el_trust_score_cache := c\<rparr>;
              keep = (\<lambda>t s. (Inr t, s\<lparr>el_trust_score_cache := ttl_set c (cr_clock r) spiffe t\<rparr>))
          in case cr_trust r of
               None \<Rightarrow> (Inl Engine_fault, s1)
             | Some (Some t) \<Rightarrow> keep t s1
             | Some None \<Rightarrow>
                 if cr_trust_write r then keep (8/10) (emit [Init_trust spiffe] s1)
                 else (Inl Engine_fault, s1))"

definition get_agent_flags :: "call_reads \<Rightarrow> bool \<times> rat option" where
  "get_agent_flags r = (case cr_flags r of None \<Rightarrow> (True, None) | Some f \<Rightarrow> f)"

text \<open>One round trip for the decision and the flags: any failure leaves no decision and a freeze.\<close>

definition get_eval_and_agent_flags :: "call_reads \<Rightarrow> policy_decision option \<times> bool \<times> rat option" where
  "get_eval_and_agent_flags r =
     (case (cr_eval r, cr_flags r) of
        (Some d, Some f) \<Rightarrow> (d, f)
      | _ \<Rightarrow> (None, True, None))"

definition compute_trust ::
  "'w eval_env \<Rightarrow> call_reads \<Rightarrow> tool_call_event \<Rightarrow> rat option \<Rightarrow> (bool \<times> rat option) option \<Rightarrow> 'w evaluator
   \<Rightarrow> trust_result \<times> 'w evaluator" where
  "compute_trust env r ev threshold prefetched s =
     (let ai = ev_agent_identity ev;
          ti = \<lparr>ti_tool_name = ev_tool_name ev, ti_chain_depth = ev_call_depth ev, ti_timestamp = cr_now r,
                ti_now = cr_now r, ti_entropy = vv_entropy env (ev_tool_params ev)\<rparr>
      in case calculate_trust (cr_clock r) (ai_spiffe_id ai) (ai_agent_class ai) ti (cr_trust_reads r)
                prefetched threshold (el_trust_caches s) of
           (tr, cc) \<Rightarrow> (tr, s\<lparr>el_trust_caches := cc\<rparr>))"

text \<open>
  The cached decision and the trust of the call. With the local cache on, freeze and cap come with the
  same round trip as the decision; otherwise the calculator reads them itself, before the decision.
\<close>

definition cached_and_trust ::
  "'w eval_env \<Rightarrow> call_reads \<Rightarrow> tool_call_event \<Rightarrow> posture \<Rightarrow> 'w evaluator
   \<Rightarrow> (eval_failure, policy_decision option \<times> trust_result) res \<times> 'w evaluator" where
  "cached_and_trust env r ev po s =
     (if ttl_enabled (el_eval_cache s) then
        (case ttl_get (el_eval_cache s) (cr_clock r) (cache_scope env ev) of
           (Some d, c) \<Rightarrow>
             (case compute_trust env r ev (po_trust_threshold po) (Some (get_agent_flags r))
                     (s\<lparr>el_eval_cache := c\<rparr>) of
                (tr, s') \<Rightarrow> (Inr (Some d, tr), s'))
         | (None, c) \<Rightarrow>
             (case get_eval_and_agent_flags r of (cached, flags) \<Rightarrow>
               let c' = (case cached of None \<Rightarrow> c | Some d \<Rightarrow> ttl_set c (cr_clock r) (cache_scope env ev) d)
               in case compute_trust env r ev (po_trust_threshold po) (Some flags) (s\<lparr>el_eval_cache := c'\<rparr>) of
                    (tr, s') \<Rightarrow> (Inr (cached, tr), s')))
      else
        (case compute_trust env r ev (po_trust_threshold po) None s of (tr, s') \<Rightarrow>
          (case cr_eval r of None \<Rightarrow> (Inl Engine_fault, s') | Some cached \<Rightarrow> (Inr (cached, tr), s'))))"

section \<open>A fresh decision\<close>

definition opa_failure :: "opa_error \<Rightarrow> eval_failure" where
  "opa_failure e = (case e of Deadline \<Rightarrow> Timed_out | Opa_failed \<Rightarrow> Engine_fault)"

definition result_of :: "candidate \<Rightarrow> policy_decision \<Rightarrow> result" where
  "result_of c d =
     \<lparr>res_decision = d, res_priority = cand_priority c, res_key = cand_key c,
      res_overlay = cand_overlay c, res_mode = cand_mode c\<rparr>"

fun evaluate_candidates ::
  "'w eval_env \<Rightarrow> call_reads \<Rightarrow> tool_call_event \<Rightarrow> trust_result \<Rightarrow> replica \<Rightarrow> candidate list \<Rightarrow> 'w opa_state
   \<Rightarrow> (eval_failure, result list) res \<times> 'w opa_state" where
  "evaluate_candidates env r ev tr rp [] o' = (Inr [], o')"
| "evaluate_candidates env r ev tr rp (c # cs) o' =
     (case evaluate_single (vv_api env) (vv_settings env) rp ev tr (cr_now r) (build_input env ev tr)
             (cand_key c) (cand_rego c)
             (warm_module (vv_api env) (vv_settings env) (cand_key c) (cand_rego c) o') of
        (Inl e, o1) \<Rightarrow> (Inl (opa_failure e), o1)
      | (Inr d, o1) \<Rightarrow>
          then_do (evaluate_candidates env r ev tr rp cs o1) (\<lambda>rs o2. (Inr (result_of c d # rs), o2)))"

text \<open>Without a candidate the evaluator's own index is asked, which has no fallback of its own.\<close>

definition evaluate_without_candidates ::
  "'w eval_env \<Rightarrow> call_reads \<Rightarrow> tool_call_event \<Rightarrow> trust_result \<Rightarrow> replica \<Rightarrow> 'w opa_state
   \<Rightarrow> (eval_failure, policy_decision) res \<times> 'w opa_state" where
  "evaluate_without_candidates env r ev tr rp o0 =
     (let key = policy_key (ai_namespace (ev_agent_identity ev)) (ai_agent_class (ev_agent_identity ev));
          o1 = (case map_of (rp_index rp) key of
             None \<Rightarrow> o0
           | Some e \<Rightarrow> warm_module (vv_api env) (vv_settings env) key (ix_rego e) o0)
      in case build_input env ev tr of
           None \<Rightarrow> (Inl Engine_fault, o1)
         | Some doc \<Rightarrow>
             (case evaluate_opa (vv_api env) (vv_settings env) rp key doc '''' o1 of
                (Inl e, o2) \<Rightarrow> (Inl (opa_failure e), o2)
              | (Inr a, o2) \<Rightarrow>
                  (case build_decision a ev tr (cr_elapsed_ms r) (cr_now r) of
                     None \<Rightarrow> (Inl Engine_fault, o2)
                   | Some d \<Rightarrow> (Inr d, o2))))"

definition resolve_candidates ::
  "'w eval_env \<Rightarrow> call_reads \<Rightarrow> tool_call_event \<Rightarrow> trust_result \<Rightarrow> candidate list \<Rightarrow> 'w evaluator
   \<Rightarrow> (eval_failure, policy_decision) res \<times> 'w evaluator" where
  "resolve_candidates env r ev tr cs s =
     (let rp = fst (el_collector s) in
      if cs = [] then
        (case evaluate_without_candidates env r ev tr rp (el_opa s) of (d, o') \<Rightarrow> (d, s\<lparr>el_opa := o'\<rparr>))
      else
        (case evaluate_candidates env r ev tr rp cs (el_opa s) of
           (Inl f, o') \<Rightarrow> (Inl f, s\<lparr>el_opa := o'\<rparr>)
         | (Inr rs, o') \<Rightarrow>
             (case resolve_with_packs rs of
                None \<Rightarrow> (Inl Engine_fault, s\<lparr>el_opa := o'\<rparr>)
              | Some w \<Rightarrow> (Inr (apply_policy_mode (vv_settings env) w), s\<lparr>el_opa := o'\<rparr>))))"

definition store_decision ::
  "'w eval_env \<Rightarrow> call_reads \<Rightarrow> tool_call_event \<Rightarrow> candidate list \<Rightarrow> policy_decision \<Rightarrow> 'w evaluator
   \<Rightarrow> (eval_failure, unit) res \<times> 'w evaluator" where
  "store_decision env r ev cs base s =
     (if pd_rule_id base \<in> set (es_non_cacheable_rules (vv_settings env)) \<or> depends_on_per_identity_facts cs
      then (Inr (), s)
      else if \<not> cr_eval_write r then (Inl Engine_fault, s)
      else case cache_scope env ev of (ns, cls, tool) \<Rightarrow>
        let s1 = emit [Set_eval ns cls tool base] s
        in (Inr (), if ttl_enabled (el_eval_cache s1)
              then s1\<lparr>el_eval_cache := ttl_set (el_eval_cache s1) (cr_clock r) (ns, cls, tool) base\<rparr>
              else s1))"

definition base_decision ::
  "'w eval_env \<Rightarrow> call_reads \<Rightarrow> tool_call_event \<Rightarrow> trust_result \<Rightarrow> 'w evaluator
   \<Rightarrow> (eval_failure, policy_decision) res \<times> 'w evaluator" where
  "base_decision env r ev tr s =
     (case collect_candidates (vv_sha256 env) (vv_covers env) (vv_io env) (vv_db env) False
             (ev_agent_identity ev) (el_collector s) of
        (Inl _, co) \<Rightarrow> (Inl Engine_fault, s\<lparr>el_collector := co\<rparr>)
      | (Inr cs, co) \<Rightarrow>
          then_do (resolve_candidates env r ev tr cs (s\<lparr>el_collector := co\<rparr>)) (\<lambda>base s1.
          then_do (store_decision env r ev cs base s1) (\<lambda>_ s2. (Inr base, s2))))"

section \<open>From a decision to the caller\<close>

definition is_rate_limited :: "call_reads \<Rightarrow> ucs \<Rightarrow> int \<Rightarrow> 'w evaluator \<Rightarrow> (eval_failure, bool) res \<times> 'w evaluator" where
  "is_rate_limited r spiffe limit s =
     (case cr_count r of
        None \<Rightarrow> (Inl Engine_fault, s)
      | Some n \<Rightarrow> (Inr (limit < n), emit [Incr_call_count spiffe] s))"

definition maybe_rate_limit ::
  "'w eval_env \<Rightarrow> call_reads \<Rightarrow> tool_call_event \<Rightarrow> policy_decision \<Rightarrow> posture \<Rightarrow> 'w evaluator
   \<Rightarrow> (eval_failure, policy_decision option) res \<times> 'w evaluator" where
  "maybe_rate_limit env r ev base po s =
     (if pd_decision base = Allow \<and> \<not> is_rate_limit_exempt (vv_settings env) (vv_classify env) (ev_tool_name ev)
      then then_do (is_rate_limited r (ai_spiffe_id (ev_agent_identity ev)) (po_rate_limit po) s)
        (\<lambda>limited s1. (Inr (if limited
            then Some (apply_posture (vv_settings env) po
              (rate_limit_decision (vv_settings env) ev (po_rate_limit po) (cr_elapsed_ms r) (cr_now r)))
            else None), s1))
      else (Inr None, s))"

definition handle_cache_hit ::
  "'w eval_env \<Rightarrow> call_reads \<Rightarrow> tool_call_event \<Rightarrow> policy_decision \<Rightarrow> trust_result \<Rightarrow> posture \<Rightarrow> 'w evaluator
   \<Rightarrow> (eval_failure, policy_decision) res \<times> 'w evaluator" where
  "handle_cache_hit env r ev cached tr po s =
     then_do (maybe_rate_limit env r ev cached po s) (\<lambda>throttled s1.
       (Inr (case throttled of
           Some d \<Rightarrow> d
         | None \<Rightarrow> ensure_block_attribution (apply_posture (vv_settings env) po
             (apply_trust_overrides (vv_format_2f env) (cr_now r) tr cached))), s1))"

text \<open>Traffic the product generates about itself.\<close>

definition is_synthetic_framework :: "string \<Rightarrow> bool" where
  "is_synthetic_framework f \<longleftrightarrow> lower (strip f) \<in> {''redteam'', ''red-team'', ''policy-tester'', ''probe''}"

definition upper_char :: "char \<Rightarrow> char" where
  "upper_char c = (let n = of_char c :: nat in if 97 \<le> n \<and> n \<le> 122 then char_of (n - 32) else c)"

text \<open>\<open>str.title\<close> of a single lower-case word.\<close>

definition title :: "string \<Rightarrow> string" where
  "title s = (case s of [] \<Rightarrow> [] | c # cs \<Rightarrow> upper_char c # cs)"

definition or_default :: "string \<Rightarrow> string" where
  "or_default ns = (if ns = '''' then ''default'' else ns)"

definition register_agent :: "tool_call_event \<Rightarrow> rat \<Rightarrow> string \<Rightarrow> policy_decision \<Rightarrow> eval_effect" where
  "register_agent ev score category d =
     (let ai = ev_agent_identity ev
      in Register_agent (ai_spiffe_id ai) (or_default (ai_namespace ai)) (ai_agent_class ai) score (title category)
           (pd_decision d \<in> {Block, Escalate} \<and> \<not> is_synthetic_framework (ev_framework ev)))"

definition persist_behavior ::
  "'w eval_env \<Rightarrow> tool_call_event \<Rightarrow> policy_decision \<Rightarrow> trust_result \<Rightarrow> eval_effect list" where
  "persist_behavior env ev d tr =
     (let ai = ev_agent_identity ev; spiffe = ai_spiffe_id ai; synthetic = is_synthetic_framework (ev_framework ev)
      in [Set_trust spiffe (tr_score tr) (title (tr_category tr)),
          register_agent ev (tr_score tr) (tr_category tr) d,
          Record_graph spiffe (ev_tool_name ev) (pd_decision d) (or_default (ai_namespace ai)) (pd_trust_score d)]
         @ (if synthetic then []
            else [Record_history spiffe (ev_tool_name ev) (pd_decision d) (params_digest (vv_digest env) ev)
                    (ev_call_depth ev) (pd_decided_at d)])
         @ (if pd_decision d \<in> {Allow, Audit} \<and> \<not> synthetic
            then [Update_profile spiffe (ev_tool_name ev) (pd_decision d)] else [])
         @ [Emit_audit d])"

section \<open>The evaluation\<close>

definition pep_and_latency :: "call_reads \<Rightarrow> tool_call_event \<Rightarrow> policy_decision \<Rightarrow> policy_decision" where
  "pep_and_latency r ev d =
     (apply_pep_denial d (ev_pep_decision ev) (ev_pep_rule_id ev) (ev_pep_reason ev))
       \<lparr>pd_latency_ms := cr_elapsed_ms r\<rparr>"

definition evaluate_try ::
  "'w eval_env \<Rightarrow> call_reads \<Rightarrow> tool_call_event \<Rightarrow> 'w evaluator
   \<Rightarrow> (eval_failure, policy_decision) res \<times> 'w evaluator" where
  "evaluate_try env r ev s0 =
     (let ai = ev_agent_identity ev in
      then_do (validate_spiffe (ai_spiffe_id ai), s0) (\<lambda>_ s0.
      then_do (resolve_posture env r (ai_namespace ai) s0) (\<lambda>po s1.
      then_do (stored_trust r (ai_spiffe_id ai) s1) (\<lambda>_ s2.
      then_do (cached_and_trust env r ev po s2) (\<lambda>(cached, tr) s3.
        case cached of
          Some hit \<Rightarrow>
            then_do (handle_cache_hit env r ev hit tr po s3) (\<lambda>d s4.
              let d' = pep_and_latency r ev d in (Inr d', emit (persist_behavior env ev d' tr) s4))
        | None \<Rightarrow>
            then_do (base_decision env r ev tr s3) (\<lambda>base s4.
            then_do (maybe_rate_limit env r ev base po s4) (\<lambda>throttled s5.
              let d = (case throttled of
                    Some t \<Rightarrow> t
                  | None \<Rightarrow>
                      let d1 = apply_trust_overrides (vv_format_2f env) (cr_now r) tr base;
                          d2 = apply_posture (vv_settings env) po d1
                      in ensure_block_attribution d2);
                  d' = pep_and_latency r ev d
              in (Inr d', emit (persist_behavior env ev d' tr) s5))))))))"

definition soften_failure_for_posture ::
  "'w eval_env \<Rightarrow> call_reads \<Rightarrow> tool_call_event \<Rightarrow> policy_decision \<Rightarrow> 'w evaluator
   \<Rightarrow> policy_decision \<times> 'w evaluator" where
  "soften_failure_for_posture env r ev d s =
     (case resolve_posture env r (ai_namespace (ev_agent_identity ev)) s of
        (Inl _, s') \<Rightarrow> (d, s')
      | (Inr po, s') \<Rightarrow> (apply_posture (vv_settings env) po d, s'))"

definition register_fail_closed :: "tool_call_event \<Rightarrow> policy_decision \<Rightarrow> eval_effect list" where
  "register_fail_closed ev d =
     (if is_controllable_spiffe_id (ai_spiffe_id (ev_agent_identity ev))
      then [register_agent ev 0 ''low'' d] else [])"

definition failure_decision :: "eval_failure \<Rightarrow> call_reads \<Rightarrow> tool_call_event \<Rightarrow> policy_decision" where
  "failure_decision f r ev =
     (case f of
        Timed_out \<Rightarrow> timeout_decision ev (cr_elapsed_ms r) (cr_now r)
      | Invalid_identity \<Rightarrow> invalid_identity_decision ev (cr_elapsed_ms r) (cr_now r)
      | Engine_fault \<Rightarrow> ensure_block_attribution (fallback_decision ev (cr_elapsed_ms r) (cr_now r)))"

definition evaluate ::
  "'w eval_env \<Rightarrow> call_reads \<Rightarrow> tool_call_event \<Rightarrow> 'w evaluator \<Rightarrow> policy_decision \<times> 'w evaluator" where
  "evaluate env r ev s =
     (case evaluate_try env r ev s of
        (Inr d, s') \<Rightarrow> (d, s')
      | (Inl f, s') \<Rightarrow>
          (case soften_failure_for_posture env r ev (failure_decision f r ev) s' of
             (d, s'') \<Rightarrow> (d, emit (register_fail_closed ev d) s'')))"

end
