(* ===== verification/Trust_Props.thy ===== *)
theory Trust_Props
  imports Trust "HOL-Library.Multiset"
begin

text \<open>
  Correctness of the trust score: its bounds, the tighten-only caps, that computed scores never
  freeze, that retries of one refused call count once, the bounds of the stored history and profile,
  and that the freeze flag is always the fresh one.
\<close>

section \<open>Rounding\<close>

lemma half_even_mono:
  assumes "x \<le> y"
  shows "half_even x \<le> half_even y"
proof (cases "\<lfloor>x\<rfloor> = \<lfloor>y\<rfloor>")
  case True
  then show ?thesis using assms by (auto simp: half_even_def Let_def)
next
  case False
  then have "\<lfloor>x\<rfloor> + 1 \<le> \<lfloor>y\<rfloor>" using floor_mono [OF assms] by simp
  moreover have "half_even x \<le> \<lfloor>x\<rfloor> + 1" "\<lfloor>y\<rfloor> \<le> half_even y"
    by (auto simp: half_even_def Let_def)
  ultimately show ?thesis by linarith
qed

lemma half_even_of_int [simp]: "half_even (of_int n) = n"
  by (simp add: half_even_def)

lemma round4_mono: "x \<le> y \<Longrightarrow> round4 x \<le> round4 y"
  by (simp add: round4_def divide_right_mono half_even_mono)

lemma round4_exact: "round4 (of_int n / 10000) = of_int n / 10000"
  by (simp add: round4_def)

lemma round4_fixed [simp]:
  "round4 0 = 0" "round4 1 = 1" "round4 (3/10) = 3/10" "round4 (9/20) = 9/20" "round4 (3/5) = 3/5"
  "round4 (2/5) = 2/5" "round4 (30/100) = 30/100"
  using round4_exact [of 0] round4_exact [of 10000] round4_exact [of 3000] round4_exact [of 4500]
    round4_exact [of 6000] round4_exact [of 4000]
  by simp_all

lemma round4_le: "\<lbrakk>x \<le> c; round4 c = c\<rbrakk> \<Longrightarrow> round4 x \<le> c"
  using round4_mono [of x c] by simp

lemma round4_ge: "\<lbrakk>c \<le> x; round4 c = c\<rbrakk> \<Longrightarrow> c \<le> round4 x"
  using round4_mono [of c x] by simp

section \<open>The weighted sum\<close>

lemma safe_signal_unit: "0 \<le> safe_signal v" "safe_signal v \<le> 1"
  by (auto simp: safe_signal_def clamp_unit_def split: option.splits)

definition raw_sum :: "(string \<times> rat) list \<Rightarrow> rat" where
  "raw_sum signals = sum_list (map (\<lambda>(n, w). w * lookup_or 0 signals n) trust_weights)"

lemma raw_sum_unit:
  assumes "\<And>n. 0 \<le> lookup_or 0 signals n" "\<And>n. lookup_or 0 signals n \<le> 1"
  shows "0 \<le> raw_sum signals \<and> raw_sum signals \<le> 1"
proof -
  let ?l = "lookup_or 0 signals"
  have "raw_sum signals = 25/100 * ?l ''violation_rate'' + (20/100 * ?l ''tool_novelty''
      + (15/100 * ?l ''scope_drift'' + (15/100 * ?l ''param_entropy'' + (10/100 * ?l ''time_decay''
      + (10/100 * ?l ''chain_depth'' + 5/100 * ?l ''session_velocity'')))))"
    by (simp add: raw_sum_def trust_weights_def)
  with assms [of "''violation_rate''"] assms [of "''tool_novelty''"] assms [of "''scope_drift''"]
    assms [of "''param_entropy''"] assms [of "''time_decay''"] assms [of "''chain_depth''"]
    assms [of "''session_velocity''"]
  show ?thesis by linarith
qed

lemma signals_unit:
  "0 \<le> lookup_or 0 (compute_signals ti h p) n \<and> lookup_or 0 (compute_signals ti h p) n \<le> 1"
  using safe_signal_unit by (auto simp: lookup_or_def compute_signals_def)

lemma violation_cap_range: "30/100 \<le> violation_cap s n" "violation_cap s n \<le> 1"
  by (auto simp: violation_cap_def Let_def)

lemma weighted_sum_alt: "weighted_sum s n = round4 (min (raw_sum s) (violation_cap s n))"
  by (simp add: weighted_sum_def raw_sum_def)

lemma weighted_sum_unit:
  "0 \<le> weighted_sum (compute_signals ti h p) n \<and> weighted_sum (compute_signals ti h p) n \<le> 1"
proof -
  have r: "0 \<le> raw_sum (compute_signals ti h p) \<and> raw_sum (compute_signals ti h p) \<le> 1"
    by (rule raw_sum_unit) (use signals_unit in blast)+
  with violation_cap_range [of "compute_signals ti h p" n]
  show ?thesis
    unfolding weighted_sum_alt by (auto intro!: round4_le round4_ge simp: min_le_iff_disj)
qed

section \<open>The result of a calculation\<close>

abbreviation capped_by :: "rat option \<Rightarrow> rat \<Rightarrow> bool \<Rightarrow> bool" where
  "capped_by override computed is_frozen \<equiv>
     (case override of None \<Rightarrow> False | Some c \<Rightarrow> c < computed \<and> \<not> is_frozen)"

definition computed_score :: "trust_input \<Rightarrow> history_entry list \<Rightarrow> profile \<Rightarrow> bool \<Rightarrow> rat" where
  "computed_score ti h p is_frozen =
     (if is_frozen then 0
      else weighted_sum (compute_signals ti h p) (length (collapse_repeated_refusals h)))"

lemma calculate_score:
  "tr_score (calculate ti h p fr override thr) =
     (if capped_by override (computed_score ti h p fr) fr then round4 (the override)
      else computed_score ti h p fr)"
  by (auto simp: calculate_def Let_def computed_score_def split: option.splits)

lemma calculate_category:
  "tr_category (calculate ti h p fr override thr) =
     categorize (tr_score (calculate ti h p fr override thr)) fr (tiers thr)"
  by (simp add: calculate_def Let_def)

lemma computed_score_unit: "0 \<le> computed_score ti h p fr \<and> computed_score ti h p fr \<le> 1"
  using weighted_sum_unit by (simp add: computed_score_def)

lemma round4_round4 [simp]: "round4 (round4 x) = round4 x"
  unfolding round4_def [of x] by (rule round4_exact)

lemma computed_score_round4: "round4 (computed_score ti h p fr) = computed_score ti h p fr"
  by (simp add: computed_score_def weighted_sum_def)

lemma categorize_frozen [simp]: "categorize s fr thr = ''frozen'' \<longleftrightarrow> fr"
  by (auto simp: categorize_def split: option.splits)

fun category_rank :: "string \<Rightarrow> nat" where
  "category_rank c = (if c = ''frozen'' then 0 else if c = ''low'' then 1 else if c = ''medium'' then 2 else 3)"

declare category_rank.simps [simp del]

lemma categorize_mono:
  "\<lbrakk>0 \<le> s; s \<le> s'\<rbrakk> \<Longrightarrow> category_rank (categorize s fr thr) \<le> category_rank (categorize s' fr thr)"
  by (auto simp: categorize_def category_rank.simps split: option.splits)

section \<open>Retries of one refused call\<close>

lemma sort_key_snoc:
  assumes "\<And>x. x \<in> set xs \<Longrightarrow> f x \<le> f e"
  shows "sort_key f (xs @ [e]) = sort_key f xs @ [e]"
proof (rule properties_for_sort_key)
  show "mset (sort_key f xs @ [e]) = mset (xs @ [e])" by simp
  show "sorted (map f (sort_key f xs @ [e]))"
    using assms by (auto simp: sorted_append)
  show "filter (\<lambda>x. f k = f x) (sort_key f xs @ [e]) = filter (\<lambda>x. f k = f x) (xs @ [e])"
    if "k \<in> set (sort_key f xs @ [e])" for k
    using sort_key_stable [of f "f k" xs] by (simp add: eq_commute)
qed

lemma drop_repeats_snoc:
  assumes "refusal_key e = Some k" "k \<in> set seen \<or> (\<exists>x \<in> set xs. refusal_key x = Some k)"
  shows "drop_repeats seen (xs @ [e]) = drop_repeats seen xs"
  using assms(2)
proof (induction xs arbitrary: seen)
  case Nil
  then show ?case using assms(1) by simp
next
  case (Cons x xs)
  then show ?case by (cases "refusal_key x") auto
qed

lemma collapse_retry:
  assumes "refusal_key e = Some k" "x \<in> set h" "refusal_key x = Some k"
    and "\<And>y. y \<in> set h \<Longrightarrow> entry_time y \<le> entry_time e"
  shows "collapse_repeated_refusals (h @ [e]) = collapse_repeated_refusals h"
proof -
  have "sort_key entry_time (h @ [e]) = sort_key entry_time h @ [e]"
    by (rule sort_key_snoc) (rule assms(4))
  then show ?thesis
    using drop_repeats_snoc [OF assms(1), of "[]" "sort_key entry_time h"] assms(2,3)
    by (auto simp: collapse_repeated_refusals_def)
qed

lemma collapse_set: "set (collapse_repeated_refusals h) \<subseteq> set h"
proof -
  have "set (drop_repeats seen es) \<subseteq> set es" for seen es
    by (induction es arbitrary: seen) (auto split: option.splits)
  then show ?thesis unfolding collapse_repeated_refusals_def by (metis set_sort)
qed

section \<open>Sustained refusals\<close>

lemma sustained_refusals_cap:
  assumes "20 \<le> length (collapse_repeated_refusals h)"
    and "length (collapse_repeated_refusals h) < 5 * blocked_count (collapse_repeated_refusals h)"
  shows "computed_score ti h p fr \<le> 30/100"
proof -
  let ?h = "collapse_repeated_refusals h" and ?s = "compute_signals ti h p"
  have ne: "?h \<noteq> []" using assms(1) by auto
  have "(of_nat (length ?h) :: rat) < of_nat (5 * blocked_count ?h)"
    unfolding of_nat_less_iff by (rule assms(2))
  with ne have "(20/100 :: rat) < of_nat (blocked_count ?h) / of_nat (length ?h)"
    by (simp add: pos_less_divide_eq)
  with ne have "violation_rate h = Some 0"
    by (auto simp: violation_rate_def Let_def)
  then have "violation_cap ?s (length ?h) = 30/100"
    using assms(1)
    by (simp add: violation_cap_def min_observations_for_cap_def lookup_or_def compute_signals_def
        safe_signal_def clamp_unit_def)
  then have "weighted_sum ?s (length ?h) = round4 (min (raw_sum ?s) (30/100))"
    by (simp only: weighted_sum_alt)
  also have "\<dots> \<le> 30/100"
    by (rule round4_le) simp_all
  finally show ?thesis
    by (simp add: computed_score_def)
qed

lemma calculate_score_le:
  assumes "computed_score ti h p fr \<le> c" "round4 c = c"
  shows "tr_score (calculate ti h p fr override thr) \<le> c"
proof -
  have "round4 x \<le> c" if "x < computed_score ti h p fr" for x
    using that assms by (intro round4_le) simp_all
  then show ?thesis
    using assms(1) by (auto simp: calculate_score split: option.splits)
qed

lemma low_category:
  assumes "tr_score (calculate ti h p False override None) \<le> 30/100"
  shows "tr_category (calculate ti h p False override None) = ''low''"
  using assms by (simp add: calculate_category [of ti h p False override None] categorize_def tiers_def)

lemma unreadable_history:
  "collapse_repeated_refusals (safe_history now None) = safe_history now None"
  "length (safe_history now None) = 20" "blocked_count (safe_history now None) = 20"
proof -
  have rep: "sort_key f (replicate n x) = replicate n x" for f :: "history_entry \<Rightarrow> rat" and n x
    by (rule properties_for_sort_key) (auto simp: sorted_replicate)
  have "drop_repeats [] (replicate n x) = replicate n x" if "refusal_key x = None" for n x
    using that by (induction n) auto
  then show "collapse_repeated_refusals (safe_history now None) = safe_history now None"
    by (simp add: collapse_repeated_refusals_def safe_history_def rep refusal_key_def)
qed (simp_all add: safe_history_def blocked_count_def)

lemma calculate_trust_shape:
  assumes "r = fst (calculate_trust mclock spiffe cls ti rd prefetched thr cc)"
    and "flag = (if ttl_enabled (cc_history cc)
      then (case prefetched of Some fo \<Rightarrow> fst fo | None \<Rightarrow> rd_frozen rd \<noteq> Some False)
      else (case rd_profile rd of Some pf \<Rightarrow> snd pf | None \<Rightarrow> rd_frozen rd \<noteq> Some False))"
  obtains h p override where "r = calculate ti h p flag override thr"
    and "rd_history rd = None \<and> fst (ttl_get (cc_history cc) mclock spiffe) = None
      \<longrightarrow> h = safe_history (ti_now ti) None"
proof (cases "ttl_enabled (cc_history cc)")
  case True
  let ?h = "fst (history_cached mclock (ti_now ti) spiffe rd cc)"
  have f: "safe_frozen_only (rd_frozen rd) \<longleftrightarrow> rd_frozen rd \<noteq> Some False"
    by (auto simp: safe_frozen_only_def split: option.splits)
  have "\<exists>p override. r = calculate ti ?h p flag override thr"
    using True assms f by (auto simp: calculate_trust_def split: prod.splits option.splits)
  then obtain p override where r: "r = calculate ti ?h p flag override thr" by blast
  have "?h = safe_history (ti_now ti) None"
    if "rd_history rd = None" "fst (ttl_get (cc_history cc) mclock spiffe) = None"
    using that by (auto simp: history_cached_def Let_def split: prod.splits option.splits)
  with r show ?thesis by (intro that [of ?h p override]) blast+
next
  case False
  have "r = calculate ti (safe_history (ti_now ti) (rd_history rd))
      (fst (safe_profile_and_frozen (ti_tool_name ti) (rd_profile rd) (rd_frozen rd))) flag
      (safe_override_only (rd_override rd)) thr"
    using False assms
    by (auto simp: calculate_trust_def safe_profile_and_frozen_def safe_frozen_only_def
        split: prod.splits option.splits)
  then show ?thesis using that by auto
qed

section \<open>Properties\<close>

definition demo_input :: trust_input where
  "demo_input = \<lparr>ti_tool_name = ''run_query'', ti_chain_depth = 0, ti_timestamp = 10000,
     ti_now = 10000, ti_entropy = 3\<rparr>"

definition demo_profile :: profile where
  "demo_profile = \<lparr>pf_known_tools = [''run_query''], pf_allowed_tools = [''run_query''],
     pf_blocked_tools = [], pf_baseline_rpm = 10, pf_entropy_baseline = []\<rparr>"

definition refusal :: "string \<Rightarrow> rat \<Rightarrow> history_entry" where
  "refusal hash t = \<lparr>he_decision = ''block'', he_tool_name = ''run_query'', he_param_hash = hash,
     he_timestamp_unix = Some t, he_timestamp = Stamp t\<rparr>"

text \<open>
  C25. A trust score lies between zero and one, is rounded to four decimals, and its category is
  frozen exactly when an admin froze the agent: no computed score ever freezes.
\<close>

theorem trust_score_in_range:
  assumes "case override of None \<Rightarrow> True | Some c \<Rightarrow> 0 \<le> c"
    and r_def: "r = calculate ti h p is_frozen override threshold"
  shows "0 \<le> tr_score r \<and> tr_score r \<le> 1 \<and> round4 (tr_score r) = tr_score r
    \<and> (tr_category r = ''frozen'' \<longleftrightarrow> is_frozen)"
proof -
  have "round4 c \<le> 1" if "c < computed_score ti h p is_frozen" for c
    using computed_score_unit [of ti h p is_frozen] that by (intro round4_le) simp_all
  moreover have "0 \<le> c \<Longrightarrow> 0 \<le> round4 c" for c
    by (rule round4_ge) simp_all
  ultimately show ?thesis
    using assms(1) computed_score_unit [of ti h p is_frozen]
    by (auto simp: r_def calculate_score calculate_category computed_score_round4 split: option.splits)
qed

theorem trust_score_in_range_witness:
  "tr_score (calculate demo_input [refusal ''a'' 9000] demo_profile False (Some (1/3)) None) \<le> 1"
  using trust_score_in_range [OF _ refl, of "Some (1/3)" demo_input "[refusal ''a'' 9000]" demo_profile False None]
  by simp

text \<open>
  The admin's trust cap only tightens: with a cap the score is at most the cap rounded to four
  decimals and never above the score without it, and the category is never a more trusted one.
\<close>

lemma admin_cap_only_tightens:
  assumes "0 \<le> c"
    and r_def: "r = calculate ti h p is_frozen (Some c) threshold"
    and q_def: "q = calculate ti h p is_frozen None threshold"
  shows "tr_score r \<le> tr_score q \<and> (\<not> is_frozen \<longrightarrow> tr_score r \<le> round4 c)
    \<and> category_rank (tr_category r) \<le> category_rank (tr_category q)"
proof -
  let ?s = "computed_score ti h p is_frozen"
  have le: "round4 c \<le> ?s" if "c < ?s"
    using round4_mono [of c ?s] that computed_score_round4 [of ti h p is_frozen] by simp
  have ge: "?s \<le> round4 c" if "\<not> c < ?s"
    using round4_mono [of ?s c] that computed_score_round4 [of ti h p is_frozen] by simp
  have s: "tr_score r \<le> tr_score q"
    using le by (cases is_frozen) (simp_all add: r_def q_def calculate_score)
  have "0 \<le> tr_score r"
    using computed_score_unit [of ti h p is_frozen] round4_ge [of 0 c] assms(1)
    by (simp add: r_def calculate_score)
  with s have "category_rank (tr_category r) \<le> category_rank (tr_category q)"
    unfolding r_def q_def calculate_category [of ti h p is_frozen "Some c"]
      calculate_category [of ti h p is_frozen None]
    by (rule categorize_mono [rotated])
  moreover have "\<not> is_frozen \<longrightarrow> tr_score r \<le> round4 c"
    using ge by (cases is_frozen) (simp_all add: r_def calculate_score)
  ultimately show ?thesis using s by blast
qed



text \<open>
  Retrying a call that was already refused adds no evidence: as long as the first refusal of that
  tool and those parameters is in the history, another one changes neither the rate of violations nor
  the time since the last one nor the number of attempts the cap looks at.
\<close>

lemma retry_adds_no_evidence:
  assumes "refusal_key e = Some k" "x \<in> set h" "refusal_key x = Some k"
    and "\<And>y. y \<in> set h \<Longrightarrow> entry_time y \<le> entry_time e"
  shows "violation_rate (h @ [e]) = violation_rate h \<and> time_decay ti (h @ [e]) = time_decay ti h
    \<and> length (collapse_repeated_refusals (h @ [e])) = length (collapse_repeated_refusals h)"
  using collapse_retry [OF assms] by (simp add: violation_rate_def time_decay_def)

text \<open>
  The reads behind a score fail closed. Whatever the caches hold, the category is frozen exactly
  when the freeze flag of this very request says so or could not be read; and with an unreadable
  history an agent that is not frozen scores at most 0.3 and is low, even with a spotless profile.
\<close>

lemma trust_reads_fail_closed:
  assumes "r = fst (calculate_trust mclock spiffe cls ti rd prefetched None cc)"
    and "flag = (if ttl_enabled (cc_history cc)
      then (case prefetched of Some fo \<Rightarrow> fst fo | None \<Rightarrow> rd_frozen rd \<noteq> Some False)
      else (case rd_profile rd of Some pf \<Rightarrow> snd pf | None \<Rightarrow> rd_frozen rd \<noteq> Some False))"
  shows "(tr_category r = ''frozen'' \<longleftrightarrow> flag)
    \<and> (rd_history rd = None \<and> \<not> flag \<and> fst (ttl_get (cc_history cc) mclock spiffe) = None
       \<longrightarrow> tr_score r \<le> 30/100 \<and> tr_category r = ''low'')"
proof -
  obtain h p override where r: "r = calculate ti h p flag override None"
    and h: "rd_history rd = None \<and> fst (ttl_get (cc_history cc) mclock spiffe) = None
      \<longrightarrow> h = safe_history (ti_now ti) None"
    by (rule calculate_trust_shape [OF assms])
  have "tr_score r \<le> 30/100 \<and> tr_category r = ''low''"
    if "rd_history rd = None \<and> \<not> flag \<and> fst (ttl_get (cc_history cc) mclock spiffe) = None"
  proof -
    have "tr_score r \<le> 30/100"
      unfolding r using h that
      by (intro calculate_score_le sustained_refusals_cap) (simp_all add: unreadable_history)
    with low_category [of ti h p override] that show ?thesis by (simp add: r)
  qed
  then show ?thesis by (simp add: r calculate_category [of ti h p flag override None])
qed

definition demo_caches :: trust_caches where
  "demo_caches = \<lparr>cc_history = ttl_new 5 10, cc_profile = ttl_new 5 10\<rparr>"

definition demo_reads :: trust_reads where
  "demo_reads = \<lparr>rd_history = None, rd_profile = Some (demo_profile, False), rd_frozen = Some False,
     rd_override = Some None\<rparr>"

definition zset_ok :: "zset \<Rightarrow> bool" where
  "zset_ok z \<longleftrightarrow> sorted z \<and> distinct (map snd z)"

lemma distinct_map_filter_snd:
  "distinct (map snd z) \<Longrightarrow> distinct (map snd (filter P z))"
  by (induction z) auto

lemma insort_snd_distinct:
  "\<lbrakk>distinct (map snd z); p \<notin> snd ` set z\<rbrakk> \<Longrightarrow> distinct (map snd (insort (s, p) z))"
  by (induction z) (auto simp: set_insort_key)

lemma zadd_ok: "zset_ok z \<Longrightarrow> zset_ok (zadd payload score z)"
  unfolding zset_ok_def zadd_def
  by (auto intro!: insort_snd_distinct distinct_map_filter_snd sorted_insort_key [where f = id, simplified]
      simp: sorted_wrt_filter sorted_insort)

lemma zadd_set: "set (zadd payload score z) = insert (score, payload) {x \<in> set z. snd x \<noteq> payload}"
  by (auto simp: zadd_def set_insort_key)

lemma sorted_last_ge: "\<lbrakk>sorted xs; x \<in> set xs\<rbrakk> \<Longrightarrow> x \<le> last xs"
  by (induction xs) auto

lemma sorted_take_le_drop:
  "\<lbrakk>sorted xs; x \<in> set xs; x \<notin> set (drop n xs); y \<in> set (drop n xs)\<rbrakk> \<Longrightarrow> x \<le> y"
  using sorted_append [of "take n xs" "drop n xs"] set_append [of "take n xs" "drop n xs"]
  by (metis Un_iff append_take_drop_id)

text \<open>
  Recording an event keeps the rolling history a sorted set of at most five hundred distinct
  entries, none of them older than the window; the new event is in it; and what falls off the end is
  older than everything that stays.
\<close>

lemma history_record_bounded:
  assumes "zset_ok z" "\<And>x. x \<in> set z \<Longrightarrow> 0 \<le> fst x \<and> (fst x < score \<or> snd x = payload)" "0 \<le> score"
    and z': "z' = history_record payload score z"
  shows "zset_ok z' \<and> length z' \<le> 500 \<and> (score, payload) \<in> set z'
    \<and> (\<forall>x \<in> set z'. score - 3600 < fst x \<and> x \<in> insert (score, payload) (set z))
    \<and> (\<forall>x \<in> set z. \<forall>y \<in> set z'. x \<notin> set z' \<and> snd x \<noteq> payload \<longrightarrow> x \<le> y)"
proof -
  define z1 where "z1 = zremrangebyscore 0 (score - history_window) (zadd payload score z)"
  have z1_set: "set z1 = {x \<in> insert (score, payload) {x \<in> set z. snd x \<noteq> payload}. score - 3600 < fst x}"
    using assms(2,3) unfolding z1_def zremrangebyscore_def zadd_set
    by (auto simp: zadd_set history_window_def not_le) (meson leD)+
  have ok: "zset_ok z1"
    using zadd_ok [OF assms(1)] unfolding z1_def zremrangebyscore_def zset_ok_def
    by (auto simp: sorted_wrt_filter distinct_map_filter_snd)
  have le: "x \<le> (score, payload)" if "x \<in> set z1" for x
    using that assms(2) [of x] unfolding z1_set by (cases x) (auto simp: less_eq_prod_def)
  have z'_eq: "z' = drop (length z1 - 500) z1"
    by (simp add: z' history_record_def Let_def z1_def history_max_entries_def)
  have mem: "(score, payload) \<in> set z1" unfolding z1_set by simp
  then have "z1 \<noteq> []" by auto
  then have "last z1 \<in> set z'" unfolding z'_eq
    by (metis diff_less drop_eq_Nil last_drop last_in_set length_greater_0_conv not_le zero_less_numeral)
  moreover have "last z1 = (score, payload)"
    using ok mem le [of "last z1"] \<open>z1 \<noteq> []\<close> sorted_last_ge [of z1 "(score, payload)"]
    by (simp add: zset_ok_def)
  moreover have "x \<le> y" if "x \<in> set z" "snd x \<noteq> payload" "x \<notin> set z'" "y \<in> set z'" for x y
  proof (cases "x \<in> set z1")
    case True
    with that(3,4) ok show ?thesis
      unfolding z'_eq zset_ok_def using sorted_take_le_drop by blast
  next
    case False
    with that(1,2) have "fst x \<le> score - 3600" by (simp add: z1_set)
    moreover have "score - 3600 < fst y"
      using that(4) set_drop_subset unfolding z'_eq by (fastforce simp: z1_set)
    ultimately show ?thesis by (simp add: less_eq_prod_def)
  qed
  moreover have "zset_ok z' \<and> length z' \<le> 500"
    using ok unfolding z'_eq by (auto simp: zset_ok_def sorted_wrt_drop drop_map [symmetric])
  moreover have "\<forall>x \<in> set z'. score - 3600 < fst x \<and> x \<in> insert (score, payload) (set z)"
    using set_drop_subset unfolding z'_eq by (fastforce simp: z1_set)
  ultimately show ?thesis by auto
qed

type_synonym profile_call = "string \<times> rat \<times> rat \<times> verdict"

definition update_profile_all ::
  "(rat \<Rightarrow> rat) \<Rightarrow> (rat \<Rightarrow> rat) \<Rightarrow> profile_call list \<Rightarrow> agent_profile" where
  "update_profile_all sqrt_of fmt4 calls =
     fold (\<lambda>(t, e, r, v). update_profile sqrt_of fmt4 t e r v) calls empty_agent_profile"

definition accepted_calls :: "string \<Rightarrow> profile_call list \<Rightarrow> nat" where
  "accepted_calls t calls = length (filter (\<lambda>(t', _, _, v). t' = t \<and> v \<in> {Allow, Audit}) calls)"

lemma update_profile_all_snoc:
  "update_profile_all sq f4 (calls @ [(t, e, r, v)]) =
     update_profile sq f4 t e r v (update_profile_all sq f4 calls)"
  by (simp add: update_profile_all_def)

lemma seen_counts_accepted:
  "lookup_or 0 (ap_seen (update_profile_all sq f4 calls)) t = accepted_calls t calls"
proof (induction calls rule: rev_induct)
  case Nil
  then show ?case
    by (simp add: update_profile_all_def empty_agent_profile_def lookup_or_def accepted_calls_def)
next
  case (snoc c calls)
  obtain t' e r v where c: "c = (t', e, r, v)" by (metis surj_pair)
  from snoc show ?case
    unfolding c update_profile_all_snoc
    by (auto simp: update_profile_def profile_update_def Let_def accepted_calls_def lookup_or_def
        AList.update_conv' split: option.splits)
qed

lemma known_tools_step:
  assumes "t \<in> set (ap_known_tools (update_profile sq f4 t' e r v p))"
  shows "t \<in> set (ap_known_tools p) \<or>
    t = t' \<and> v \<in> {Allow, Audit} \<and> 3 \<le> lookup_or 0 (ap_seen p) t + 1"
  using assms
  by (auto simp: update_profile_def profile_update_def Let_def split: if_splits)

text \<open>
  Whatever an agent calls, at most 256 tools count as known to it, and each of them had at least
  three calls that were allowed or audited. A refused call leaves the profile as it was, so that an
  agent cannot make a tool familiar by having it refused.
\<close>

lemma known_needs_three_accepted_calls:
  assumes "p = update_profile_all sqrt_of fmt4 calls"
  shows "length (ap_known_tools p) \<le> 256
    \<and> (\<forall>t \<in> set (ap_known_tools p). 3 \<le> accepted_calls t calls)
    \<and> (v \<notin> {Allow, Audit} \<longrightarrow> update_profile sqrt_of fmt4 tool entropy rpm v p = p)"
proof -
  have "length (ap_known_tools p) \<le> 256" unfolding assms
  proof (induction calls rule: rev_induct)
    case (snoc c calls)
    obtain t' e r v where c: "c = (t', e, r, v)" by (metis surj_pair)
    from snoc show ?case
      unfolding c update_profile_all_snoc by (auto simp: update_profile_def profile_update_def Let_def)
  qed (simp add: update_profile_all_def empty_agent_profile_def)
  moreover have "3 \<le> accepted_calls t calls" if "t \<in> set (ap_known_tools p)" for t
    using that unfolding assms
  proof (induction calls rule: rev_induct)
    case (snoc c calls)
    obtain t' e r v where c: "c = (t', e, r, v)" by (metis surj_pair)
    from snoc.prems have "t \<in> set (ap_known_tools (update_profile_all sqrt_of fmt4 calls))
        \<or> t = t' \<and> v \<in> {Allow, Audit} \<and> 3 \<le> accepted_calls t calls + 1"
      unfolding c update_profile_all_snoc
      by (drule_tac known_tools_step) (simp add: seen_counts_accepted)
    with snoc.IH show ?case by (auto simp: c accepted_calls_def)
  qed (simp add: update_profile_all_def empty_agent_profile_def)
  ultimately show ?thesis by (simp add: update_profile_def)
qed

text \<open>
  A namespace that sets the default threshold 0.7 explicitly gets exactly the default tiers.
  The recommendation, in contrast, never looks at the namespace's tiers: under a threshold of 1 a
  score of one half is of category low while the recommendation stays allow.
\<close>

lemma default_threshold_is_default_tiers:
  "categorize score fr (tiers (Some (7/10))) = categorize score fr (tiers None)
   \<and> categorize (1/2) False (tiers (Some 1)) = ''low'' \<and> recommend (1/2) ''low'' = ''allow''"
proof -
  have "round4 (7/10 * (4/10 / (7/10))) = 2/5" by simp
  moreover have "\<lfloor>40000 / 7 :: rat\<rfloor> = 5714" by (simp add: floor_eq_iff)
  then have "round4 (1 * (4/10 / (7/10))) = 5714/10000"
    by (simp add: round4_def half_even_def)
  ultimately show ?thesis
    by (simp add: categorize_def tiers_def clamp_unit_def Let_def recommend_def)
qed

end
