(* ===== verification/Evaluate_Props.thy ===== *)
theory Evaluate_Props
  imports Evaluate Trust_Props
begin

text \<open>
  Correctness of one evaluation, end to end: what a stored floor, a freeze, the enforcement point's
  refusal and a failure of the engine guarantee about the verdict the caller gets, the attribution of
  blocks, the agreement of the cached and the fresh path, and the scope of a cached decision.
\<close>

section \<open>The shape of an evaluation\<close>

lemma fresh_tail_is_hit_tail:
  "then_do (maybe_rate_limit env r ev base po s) (\<lambda>throttled s5.
      let d = (case throttled of
            Some t \<Rightarrow> t
          | None \<Rightarrow>
              let d1 = apply_trust_overrides (vv_format_2f env) (cr_now r) tr base;
                  d2 = apply_posture (vv_settings env) po d1
              in ensure_block_attribution d2);
          d' = pep_and_latency r ev d
      in (Inr d', emit (persist_behavior env ev d' tr) s5)) =
   then_do (handle_cache_hit env r ev base tr po s) (\<lambda>d s4.
      let d' = pep_and_latency r ev d in (Inr d', emit (persist_behavior env ev d' tr) s4))"
  by (cases "maybe_rate_limit env r ev base po s"; cases "fst (maybe_rate_limit env r ev base po s)")
    (simp_all add: handle_cache_hit_def Let_def split: option.splits)

text \<open>Both paths end in the same tail, on the cached decision or on a fresh one.\<close>

definition decided ::
  "'w eval_env \<Rightarrow> call_reads \<Rightarrow> tool_call_event \<Rightarrow> policy_decision option \<Rightarrow> trust_result \<Rightarrow> 'w evaluator
   \<Rightarrow> (eval_failure, policy_decision) res \<times> 'w evaluator" where
  "decided env r ev cached tr s =
     (case cached of Some hit \<Rightarrow> (Inr hit, s) | None \<Rightarrow> base_decision env r ev tr s)"

lemma evaluate_try_alt:
  "evaluate_try env r ev s0 =
     (let ai = ev_agent_identity ev in
      then_do (validate_spiffe (ai_spiffe_id ai), s0) (\<lambda>_ s0.
      then_do (resolve_posture env r (ai_namespace ai) s0) (\<lambda>po s1.
      then_do (stored_trust r (ai_spiffe_id ai) s1) (\<lambda>_ s2.
      then_do (cached_and_trust env r ev po s2) (\<lambda>(cached, tr) s3.
      then_do (decided env r ev cached tr s3) (\<lambda>base s4.
      then_do (handle_cache_hit env r ev base tr po s4) (\<lambda>d s5.
        let d' = pep_and_latency r ev d in (Inr d', emit (persist_behavior env ev d' tr) s5))))))))"
  unfolding evaluate_try_def fresh_tail_is_hit_tail decided_def
  by (intro arg_cong [of _ _ "\<lambda>f. Let (ev_agent_identity ev) f"] ext arg_cong2 [of _ _ _ _ then_do] refl)
    (auto split: option.splits)

lemma evaluate_try_Inr:
  assumes "evaluate_try env r ev s = (Inr d, s')"
  obtains po s1 t s2 cached tr s3 base s4 x s5 where
    "is_controllable_spiffe_id (ai_spiffe_id (ev_agent_identity ev))"
    "resolve_posture env r (ai_namespace (ev_agent_identity ev)) s = (Inr po, s1)"
    "stored_trust r (ai_spiffe_id (ev_agent_identity ev)) s1 = (Inr t, s2)"
    "cached_and_trust env r ev po s2 = (Inr (cached, tr), s3)"
    "decided env r ev cached tr s3 = (Inr base, s4)"
    "handle_cache_hit env r ev base tr po s4 = (Inr x, s5)"
    "d = pep_and_latency r ev x" "s' = emit (persist_behavior env ev d tr) s5"
  using assms unfolding evaluate_try_alt Let_def
  by (fastforce simp: then_do_Inr validate_spiffe_def split: if_splits prod.splits)

section \<open>What each step leaves alone\<close>

lemma resolve_posture_frame:
  "resolve_posture env r ns s = (x, s') \<Longrightarrow>
     el_collector s' = el_collector s \<and> el_eval_cache s' = el_eval_cache s \<and> el_trust_caches s' = el_trust_caches s"
  by (auto simp: resolve_posture_def Let_def split: prod.splits option.splits ns_read.splits)

lemma stored_trust_frame:
  "stored_trust r spiffe s = (x, s') \<Longrightarrow>
     el_collector s' = el_collector s \<and> el_eval_cache s' = el_eval_cache s
     \<and> el_posture_cache s' = el_posture_cache s \<and> el_trust_caches s' = el_trust_caches s"
  by (auto simp: stored_trust_def Let_def split: prod.splits option.splits if_splits)

lemma compute_trust_frame:
  "compute_trust env r ev thr pre s = (tr, s') \<Longrightarrow>
     el_collector s' = el_collector s \<and> el_posture_cache s' = el_posture_cache s"
  by (auto simp: compute_trust_def Let_def split: prod.splits)

lemma cached_and_trust_frame:
  assumes "cached_and_trust env r ev po s = (x, s')"
  shows "el_collector s' = el_collector s \<and> el_posture_cache s' = el_posture_cache s"
  using assms
  by (auto simp: cached_and_trust_def Let_def split: if_splits prod.splits option.splits
      dest!: compute_trust_frame)

lemma store_decision_frame:
  "store_decision env r ev cs base s = (x, s') \<Longrightarrow> el_posture_cache s' = el_posture_cache s"
  by (auto simp: store_decision_def Let_def split: if_splits prod.splits)

lemma resolve_candidates_frame:
  "resolve_candidates env r ev tr cs s = (x, s') \<Longrightarrow> el_posture_cache s' = el_posture_cache s"
  by (auto simp: resolve_candidates_def Let_def split: if_splits prod.splits sum.splits option.splits)

lemma base_decision_frame:
  "base_decision env r ev tr s = (x, s') \<Longrightarrow> el_posture_cache s' = el_posture_cache s"
  by (auto simp: base_decision_def then_do_def split: prod.splits sum.splits
      dest!: resolve_candidates_frame store_decision_frame)

lemma decided_frame: "decided env r ev cached tr s = (x, s') \<Longrightarrow> el_posture_cache s' = el_posture_cache s"
  by (auto simp: decided_def dest: base_decision_frame split: option.splits)

lemma maybe_rate_limit_frame:
  "maybe_rate_limit env r ev base po s = (x, s') \<Longrightarrow> el_posture_cache s' = el_posture_cache s"
  by (auto simp: maybe_rate_limit_def is_rate_limited_def then_do_def split: if_splits option.splits)

lemma handle_cache_hit_frame:
  "handle_cache_hit env r ev base tr po s = (x, s') \<Longrightarrow> el_posture_cache s' = el_posture_cache s"
  by (auto simp: handle_cache_hit_def then_do_def split: prod.splits sum.splits dest: maybe_rate_limit_frame)

lemma evaluate_try_frame:
  assumes "evaluate_try env r ev s = (x, s')"
  shows "el_posture_cache s' = el_posture_cache s
    \<or> el_posture_cache s' = el_posture_cache (snd (resolve_posture env r (ai_namespace (ev_agent_identity ev)) s))"
proof -
  let ?ns = "ai_namespace (ev_agent_identity ev)" and ?id = "ai_spiffe_id (ev_agent_identity ev)"
  obtain po s1 where p: "resolve_posture env r ?ns s = (po, s1)" by (meson surj_pair)
  obtain t s2 where t: "stored_trust r ?id s1 = (t, s2)" by (meson surj_pair)
  note f2 = stored_trust_frame [OF t]
  have tail: "el_posture_cache z = el_posture_cache s3"
    if "then_do (decided env r ev c tr s3) (\<lambda>base s4. then_do (handle_cache_hit env r ev base tr q s4)
        (\<lambda>d s5. let d' = pep_and_latency r ev d in (Inr d', emit (persist_behavior env ev d' tr) s5))) = (y, z)"
    for c tr s3 q y z
    using that
    by (auto simp: then_do_def Let_def split: prod.splits sum.splits dest!: decided_frame handle_cache_hit_frame)
  have "el_posture_cache z = el_posture_cache s2"
    if "then_do (cached_and_trust env r ev q s2) (\<lambda>(c, tr) s3.
        then_do (decided env r ev c tr s3) (\<lambda>base s4. then_do (handle_cache_hit env r ev base tr q s4)
        (\<lambda>d s5. let d' = pep_and_latency r ev d in (Inr d', emit (persist_behavior env ev d' tr) s5)))) = (y, z)"
    for q y z
    using that
    by (auto simp: then_do_def [of "cached_and_trust env r ev q s2"] split: prod.splits sum.splits
        dest!: tail cached_and_trust_frame)
  then show ?thesis
    using assms p t f2 unfolding evaluate_try_alt Let_def
    by (cases "validate_spiffe ?id"; cases po; cases t) auto
qed

section \<open>Namespaces that are not in monitor mode\<close>

definition not_monitor :: "call_reads \<Rightarrow> tool_call_event \<Rightarrow> 'w evaluator \<Rightarrow> bool" where
  "not_monitor r ev s \<longleftrightarrow>
     ttl_inv (el_posture_cache s)
     \<and> (\<forall>po. ttl_lookup (el_posture_cache s) (cr_clock r) (ai_namespace (ev_agent_identity ev)) = Some po
          \<longrightarrow> \<not> po_monitor po)
     \<and> (\<forall>row. cr_ns_settings r = Ns_row (Some row) \<longrightarrow> nss_enforcement_mode row \<noteq> Some ''audit'')"

lemma posture_of_not_monitor:
  "(\<And>r. row = Some r \<Longrightarrow> nss_enforcement_mode r \<noteq> Some ''audit'') \<Longrightarrow> \<not> po_monitor (posture_of st row)"
  by (simp add: posture_of_def split: option.splits)

lemma resolve_posture_not_monitor:
  assumes "not_monitor r ev s" "resolve_posture env r (ai_namespace (ev_agent_identity ev)) s = (x, s')"
  shows "\<forall>po. x = Inr po \<longrightarrow> \<not> po_monitor po" and "not_monitor r ev s'"
proof -
  let ?ns = "ai_namespace (ev_agent_identity ev)" and ?c = "el_posture_cache s"
  obtain hit c where g: "ttl_get ?c (cr_clock r) ?ns = (hit, c)" by (meson surj_pair)
  have inv: "ttl_inv ?c" and old: "\<And>po. hit = Some po \<Longrightarrow> \<not> po_monitor po"
    and row: "\<And>q. cr_ns_settings r = Ns_row (Some q) \<Longrightarrow> nss_enforcement_mode q \<noteq> Some ''audit''"
    using assms(1) g by (auto simp: not_monitor_def)
  have c: "ttl_inv c" "c = ttl_step ?c (Op_get (cr_clock r) ?ns)"
    using ttl_get_inv [OF inv, of "cr_clock r" ?ns] g by simp_all
  have got: "\<not> po_monitor po" if "ttl_lookup c (cr_clock r) ?ns = Some po" for po
  proof -
    from that have "ttl_lookup (ttl_step ?c (Op_get (cr_clock r) ?ns)) (cr_clock r) ?ns = Some po"
      unfolding c(2) .
    from inproc.lookup_step [OF inv this] have "hit = Some po" using g by simp
    then show ?thesis by (rule old)
  qed
  let ?row = "case cr_ns_settings r of Ns_row q \<Rightarrow> q | _ \<Rightarrow> None"
  let ?po = "posture_of (vv_settings env) ?row"
  have fresh: "\<not> po_monitor ?po"
    using row by (intro posture_of_not_monitor) (auto split: ns_read.splits)
  have set: "\<not> po_monitor po" if "ttl_lookup (ttl_set c (cr_clock r) ?ns ?po) (cr_clock r) ?ns = Some po" for po
    using inproc.lookup_step [OF c(1), of "Op_set (cr_clock r) ?ns ?po" "cr_clock r" ?ns po] that fresh by auto
  show "\<forall>po. x = Inr po \<longrightarrow> \<not> po_monitor po"
    using assms(2) g old fresh
    by (auto simp: resolve_posture_def Let_def split: option.splits ns_read.splits)
  have "el_posture_cache s' = c \<or> el_posture_cache s' = ttl_set c (cr_clock r) ?ns ?po"
    using assms(2) g by (auto simp: resolve_posture_def Let_def split: option.splits ns_read.splits)
  then have "ttl_inv (el_posture_cache s')"
    "ttl_lookup (el_posture_cache s') (cr_clock r) ?ns = Some po \<Longrightarrow> \<not> po_monitor po" for po
    using c(1) ttl_set_inv [OF c(1)] got [of po] set [of po] by (elim disjE; simp)+
  with row show "not_monitor r ev s'" unfolding not_monitor_def by blast
qed

lemma not_monitor_cache:
  "el_posture_cache s' = el_posture_cache s \<Longrightarrow> not_monitor r ev s' = not_monitor r ev s"
  by (simp add: not_monitor_def)

lemma evaluate_try_not_monitor:
  assumes "not_monitor r ev s" "evaluate_try env r ev s = (x, s')"
  shows "not_monitor r ev s'"
proof -
  obtain po s1 where p: "resolve_posture env r (ai_namespace (ev_agent_identity ev)) s = (po, s1)"
    by (meson surj_pair)
  have s1: "not_monitor r ev s1" by (rule resolve_posture_not_monitor(2) [OF assms(1) p])
  from evaluate_try_frame [OF assms(2)] p
  have "el_posture_cache s' = el_posture_cache s \<or> el_posture_cache s' = el_posture_cache s1" by simp
  then show ?thesis using s1 assms(1) not_monitor_cache by blast
qed

lemma failure_decision_block [simp]: "pd_decision (failure_decision f r ev) = Block"
  by (cases f) (simp_all add: failure_decision_def timeout_decision_def invalid_identity_decision_def
      fallback_decision_def fail_closed_def default_decision_def)

lemma failure_not_monitor:
  assumes "not_monitor r ev s" "evaluate_try env r ev s = (Inl f, s')"
  shows "fst (evaluate env r ev s) = failure_decision f r ev"
proof -
  have nm: "not_monitor r ev s'" by (rule evaluate_try_not_monitor [OF assms])
  obtain po s1 where p: "resolve_posture env r (ai_namespace (ev_agent_identity ev)) s' = (po, s1)"
    by (meson surj_pair)
  from resolve_posture_not_monitor(1) [OF nm p]
  have "fst (soften_failure_for_posture env r ev (failure_decision f r ev) s') = failure_decision f r ev"
    by (cases po) (simp_all add: soften_failure_for_posture_def p)
  then show ?thesis using assms(2)
    by (cases "soften_failure_for_posture env r ev (failure_decision f r ev) s'") (simp add: evaluate_def)
qed

lemma evaluate_block:
  assumes "not_monitor r ev s"
    and "\<And>d s'. evaluate_try env r ev s = (Inr d, s') \<Longrightarrow> pd_decision d = Block"
  shows "pd_decision (fst (evaluate env r ev s)) = Block"
proof (cases "evaluate_try env r ev s")
  case (Pair x s')
  show ?thesis
  proof (cases x)
    case (Inl f)
    with Pair failure_not_monitor [OF assms(1)] show ?thesis by simp
  next
    case (Inr d)
    with Pair assms(2) show ?thesis by (simp add: evaluate_def)
  qed
qed

section \<open>The tail of both paths\<close>

lemma pep_and_latency_verdict:
  "pd_decision (pep_and_latency r ev d) = (if ev_pep_decision ev = ''block'' then Block else pd_decision d)"
  by (simp add: pep_and_latency_def apply_pep_denial_verdict)

lemma rate_limit_block [simp]:
  "pd_decision (rate_limit_decision st ev n e t) = Block" "pd_rule_id (rate_limit_decision st ev n e t) = ''rate_limit_exceeded''"
  by (simp_all add: rate_limit_decision_def default_decision_def)

lemma handle_cache_hit_cases:
  assumes "handle_cache_hit env r ev base tr po s = (Inr x, s')"
  obtains (throttled) "pd_decision base = Allow"
      "x = apply_posture (vv_settings env) po
        (rate_limit_decision (vv_settings env) ev (po_rate_limit po) (cr_elapsed_ms r) (cr_now r))"
    | (passed) "x = ensure_block_attribution (apply_posture (vv_settings env) po
        (apply_trust_overrides (vv_format_2f env) (cr_now r) tr base))"
proof -
  from assms obtain t where t: "maybe_rate_limit env r ev base po s = (Inr t, s')"
    and x: "x = (case t of Some d \<Rightarrow> d | None \<Rightarrow> ensure_block_attribution (apply_posture (vv_settings env) po
        (apply_trust_overrides (vv_format_2f env) (cr_now r) tr base)))"
    by (auto simp: handle_cache_hit_def then_do_Inr)
  show ?thesis
  proof (cases t)
    case None
    with x show ?thesis by (intro passed) simp
  next
    case (Some d)
    with t x show ?thesis
      by (intro throttled) (auto simp: maybe_rate_limit_def then_do_Inr split: if_splits)
  qed
qed

lemma tail_not_monitor:
  assumes "handle_cache_hit env r ev base tr po s = (Inr x, s')" "\<not> po_monitor po"
  shows "pd_decision x \<le> pd_decision base"
  using assms(1)
  by (rule handle_cache_hit_cases) (simp_all add: assms(2) overrides.stage_tightens)

section \<open>Floors\<close>

lemma evaluate_candidates_results:
  "evaluate_candidates env r ev tr rp cs o0 = (Inr rs, o') \<Longrightarrow>
     list_all2 (\<lambda>c x. \<exists>d o1 o2. x = result_of c d
       \<and> evaluate_single (vv_api env) (vv_settings env) rp ev tr (cr_now r) (build_input env ev tr)
           (cand_key c) (cand_rego c) o1 = (Inr d, o2)) cs rs"
proof (induction cs arbitrary: o0 rs)
  case (Cons c cs)
  let ?e = "evaluate_single (vv_api env) (vv_settings env) rp ev tr (cr_now r) (build_input env ev tr)
      (cand_key c) (cand_rego c) (warm_module (vv_api env) (vv_settings env) (cand_key c) (cand_rego c) o0)"
  obtain x o1 where e: "?e = (x, o1)" by (meson surj_pair)
  with Cons.prems obtain d where d: "x = Inr d" by (cases x) auto
  with e Cons.prems obtain rs' where "evaluate_candidates env r ev tr rp cs o1 = (Inr rs', o')"
    "rs = result_of c d # rs'"
    by (auto simp: then_do_Inr)
  with Cons.IH e d show ?case by auto
qed simp

text \<open>OPA says block to this call under this policy, whenever it answers, in whatever state it is.\<close>

definition opa_blocks :: "'w eval_env \<Rightarrow> call_reads \<Rightarrow> tool_call_event \<Rightarrow> string \<Rightarrow> string \<Rightarrow> bool" where
  "opa_blocks env r ev key rego \<longleftrightarrow>
     (\<forall>rp tr o1 d o2. evaluate_single (vv_api env) (vv_settings env) rp ev tr (cr_now r) (build_input env ev tr)
        key rego o1 = (Inr d, o2) \<longrightarrow> pd_decision d = Block)"

lemma results_packs_enforce:
  assumes "list_all cand_ok cs" "list_all2 (\<lambda>c x. \<exists>d. x = result_of c d) cs rs"
  shows "packs_enforce rs"
  using assms(2,1) unfolding packs_enforce_def
  by (induction rule: list_all2_induct) (auto simp: result_of_def cand_ok_def)

lemma floor_base_block:
  assumes "list_all cand_ok cs" "c \<in> set cs" "cand_overlay c" "\<not> is_pack_key (cand_key c)"
    and "cand_mode c \<noteq> ''audit''" "opa_blocks env r ev (cand_key c) (cand_rego c)"
    and "resolve_candidates env r ev tr cs s = (Inr base, s')"
  shows "pd_decision base = Block"
proof -
  let ?rp = "fst (el_collector s)"
  have "cs \<noteq> []" using assms(2) by auto
  obtain y o' where ev: "evaluate_candidates env r ev tr ?rp cs (el_opa s) = (y, o')" by (meson surj_pair)
  with assms(7) \<open>cs \<noteq> []\<close> obtain rs where y: "y = Inr rs"
    by (cases y) (simp_all add: resolve_candidates_def Let_def)
  have base: "base = apply_policy_mode (vv_settings env) w" if "resolve_with_packs rs = Some w" for w
    using assms(7) \<open>cs \<noteq> []\<close> ev y that by (simp add: resolve_candidates_def Let_def)
  note res = evaluate_candidates_results [OF ev [unfolded y]]
  obtain x where x: "x \<in> set rs" "res_overlay x" "res_key x = cand_key c" "res_mode x = cand_mode c"
    "res_verdict x = Block"
  proof -
    obtain i where i: "i < length cs" "cs ! i = c" using assms(2) by (auto simp: in_set_conv_nth)
    from list_all2_nthD [OF res i(1)] obtain d o1 o2 where d: "rs ! i = result_of c d" and
      single: "evaluate_single (vv_api env) (vv_settings env) ?rp ev tr (cr_now r) (build_input env ev tr)
        (cand_key c) (cand_rego c) o1 = (Inr d, o2)"
      unfolding i(2) by blast
    from single assms(6) have "pd_decision d = Block" unfolding opa_blocks_def by blast
    moreover have "rs ! i \<in> set rs" using i(1) list_all2_lengthD [OF res] by simp
    ultimately show ?thesis using that [of "rs ! i"] d assms(3) by (simp add: result_of_def)
  qed
  have "packs_enforce rs"
    by (rule results_packs_enforce [OF assms(1)], rule list_all2_mono [OF res]) blast
  with x assms(4) obtain w where w: "resolve_with_packs rs = Some w" "effective_verdict w \<le> effective_verdict x"
    using floor_bounds_winner [of rs x] by auto
  then have "effective_verdict w = Block" using x assms(5) by simp
  with apply_policy_mode_effective [of "vv_settings env" w] base [OF w(1)] show ?thesis by simp
qed

definition no_cached :: "'w eval_env \<Rightarrow> call_reads \<Rightarrow> tool_call_event \<Rightarrow> 'w evaluator \<Rightarrow> bool" where
  "no_cached env r ev s \<longleftrightarrow>
     ttl_lookup (el_eval_cache s) (cr_clock r) (cache_scope env ev) = None \<and> (\<forall>d. cr_eval r \<noteq> Some (Some d))"

lemma cached_and_trust_fresh:
  assumes "cached_and_trust env r ev po s = (Inr (cached, tr), s')" "no_cached env r ev s"
  shows "cached = None"
  using assms
  by (auto simp: cached_and_trust_def no_cached_def get_eval_and_agent_flags_def Let_def
      split: if_splits prod.splits option.splits)

section \<open>Frozen agents\<close>

text \<open>Every read of the freeze flag during the call says frozen or fails.\<close>

definition frozen_reads :: "call_reads \<Rightarrow> bool" where
  "frozen_reads r \<longleftrightarrow>
     (case cr_flags r of None \<Rightarrow> True | Some f \<Rightarrow> fst f)
     \<and> rd_frozen (cr_trust_reads r) \<noteq> Some False
     \<and> (case rd_profile (cr_trust_reads r) of None \<Rightarrow> True | Some pf \<Rightarrow> snd pf)"

lemma compute_trust_frozen:
  assumes "compute_trust env r ev thr pre s = (tr, s')" "frozen_reads r" "case pre of None \<Rightarrow> True | Some f \<Rightarrow> fst f"
  shows "tr_category tr = ''frozen''"
proof -
  let ?ai = "ev_agent_identity ev"
  let ?ti = "\<lparr>ti_tool_name = ev_tool_name ev, ti_chain_depth = ev_call_depth ev, ti_timestamp = cr_now r,
      ti_now = cr_now r, ti_entropy = vv_entropy env (ev_tool_params ev)\<rparr>"
  have tr: "tr = fst (calculate_trust (cr_clock r) (ai_spiffe_id ?ai) (ai_agent_class ?ai) ?ti (cr_trust_reads r)
      pre thr (el_trust_caches s))"
    using assms(1) by (auto simp: compute_trust_def Let_def split: prod.splits)
  obtain h p override where "tr = calculate ?ti h p True override thr"
    by (rule calculate_trust_shape [OF tr, of True])
      (use assms(2,3) in \<open>auto simp: frozen_reads_def split: option.splits\<close>)
  then show ?thesis by (simp add: calculate_category [of ?ti h p True override thr])
qed

lemma cached_and_trust_frozen:
  assumes "cached_and_trust env r ev po s = (Inr (cached, tr), s')" "frozen_reads r"
  shows "tr_category tr = ''frozen''"
proof -
  obtain pre s0 s1 where c: "compute_trust env r ev (po_trust_threshold po) pre s0 = (tr, s1)"
    and pre: "pre = None \<or> pre = Some (get_agent_flags r) \<or> pre = Some (snd (get_eval_and_agent_flags r))"
    using assms(1)
    by (auto simp: cached_and_trust_def Let_def split: if_splits prod.splits option.splits)
  have "fst (get_agent_flags r)" "fst (snd (get_eval_and_agent_flags r))"
    using assms(2)
    by (auto simp: frozen_reads_def get_agent_flags_def get_eval_and_agent_flags_def split: option.splits)
  with pre have "case pre of None \<Rightarrow> True | Some f \<Rightarrow> fst f" by auto
  from compute_trust_frozen [OF c assms(2) this] show ?thesis .
qed

lemma frozen_tail:
  assumes "handle_cache_hit env r ev base tr po s = (Inr x, s')" "tr_category tr = ''frozen''"
    and "po_monitor po \<Longrightarrow> es_monitor_exempt_rate_limit (vv_settings env)"
  shows "pd_decision x = Block"
  using assms(1)
proof (rule handle_cache_hit_cases)
  assume x: "x = apply_posture (vv_settings env) po
      (rate_limit_decision (vv_settings env) ev (po_rate_limit po) (cr_elapsed_ms r) (cr_now r))"
  show ?thesis
  proof (cases "po_monitor po")
    case True
    then have "''rate_limit_exceeded'' \<in> set (posture_exempt_rules (vv_settings env))"
      using assms(3) by (simp add: exempt_defs)
    with x show ?thesis by (simp add: monitor.soften_exempt)
  qed (simp add: x)
next
  assume "x = ensure_block_attribution (apply_posture (vv_settings env) po
      (apply_trust_overrides (vv_format_2f env) (cr_now r) tr base))"
  then show ?thesis
    using apply_trust_overrides_frozen [OF assms(2), of "vv_format_2f env" "cr_now r" base]
    by (simp add: monitor.soften_exempt)
qed

section \<open>An environment for the witnesses\<close>

text \<open>An OPA server that takes every module and answers block to every query.\<close>

definition block_api :: "unit opa_api" where
  "block_api =
     \<lparr>oa_push = (\<lambda>i src w. (Inr (), w)),
      oa_post = (\<lambda>path input w. (Inr (JObj [(''result'', JObj [(''decision'', JStr ''block''),
         (''rule_id'', JStr ''deny'')])]), w)),
      oa_delete = (\<lambda>i w. (Inr (), w)), oa_fork = (\<lambda>src q input w. (Inl Opa_failed, w)),
      oa_sha256 = id, oa_sha1 = id, oa_upgrade = id, oa_repr = (\<lambda>_. [])\<rparr>"

definition demo_eval_env :: "unit eval_env" where
  "demo_eval_env =
     \<lparr>vv_api = block_api, vv_settings = default_settings, vv_skeleton = id, vv_derived = (\<lambda>_. Some (JObj [])),
      vv_classify = (\<lambda>_. None), vv_format_2f = (\<lambda>_. []), vv_digest = (\<lambda>_. ''0123456789abcdef''),
      vv_entropy = (\<lambda>_. 0), vv_sha256 = id, vv_covers = nothing_covers, vv_io = demo_io 10, vv_db = floor_db\<rparr>"

definition demo_call :: "tool_call_event" where
  "demo_call =
     \<lparr>ev_event_id = ''e1'', ev_tool_name = ''transfer'', ev_tool_params = [], ev_agent_identity = demo_agent ''prod'',
      ev_session_id = '''', ev_framework = '''', ev_call_depth = 0, ev_mcp = [], ev_pep_decision = '''',
      ev_pep_rule_id = '''', ev_pep_reason = ''''\<rparr>"

definition demo_call_reads :: "call_reads" where
  "demo_call_reads =
     \<lparr>cr_now = 10000, cr_clock = 10, cr_elapsed_ms = 1, cr_ns_settings = Ns_row None, cr_trust = Some None,
      cr_trust_write = True, cr_flags = Some (False, None), cr_eval = Some None, cr_eval_write = True,
      cr_count = Some 1,
      cr_trust_reads = \<lparr>rd_history = Some [], rd_profile = Some (demo_profile, False), rd_frozen = Some False,
         rd_override = Some None\<rparr>\<rparr>"

definition demo_evaluator :: "unit evaluator" where
  "demo_evaluator =
     \<lparr>el_posture_cache = ttl_new 0 10, el_trust_score_cache = ttl_new 0 10, el_eval_cache = ttl_new 0 10,
      el_trust_caches = \<lparr>cc_history = ttl_new 0 10, cc_profile = ttl_new 0 10\<rparr>,
      el_collector = (snd demo_state, []),
      el_opa = \<lparr>ox_server = (), ox_pushed = [], ox_dryrun = [], ox_errors = 0\<rparr>, el_effects = []\<rparr>"

lemma ttl_new_lookup [simp]: "ttl_get (ttl_new t m) now k = (None, ttl_new t m)"
  by (simp add: ttl_get_def ttl_new_def)

lemma demo_not_monitor [simp]: "not_monitor demo_call_reads ev demo_evaluator"
  by (simp add: not_monitor_def demo_call_reads_def demo_evaluator_def)

lemma block_api_blocks:
  assumes "vv_api env = block_api" "es_opa_mode (vv_settings env) = ''server''" "strip rego \<noteq> ''''"
    and "\<not> starts_with key ''dryrun:''"
  shows "opa_blocks env r ev key rego"
proof -
  have push: "push_module block_api k g o1 = (Inr (), o1)" for k g o1
    by (simp add: push_module_def block_api_def)
  have ens: "\<exists>o2. ensure_module_pushed block_api (vv_settings env) key rego o1 = (Inr (), o2)" for o1
    using assms(4) by (simp add: ensure_module_pushed_def push Let_def)
  have evo: "\<exists>a o2. evaluate_opa block_api (vv_settings env) rp key doc rego o1 = (Inr a, o2) \<and> an_decision a = ''block''"
    for rp doc o1
    using ens [of o1] assms(2,3)
    by (auto simp: evaluate_opa_def evaluate_opa_server_def opa_query_def Let_def block_api_def jfield_def
        server_answer_def read_object_def fired_without_decision_def field_str_def py_str_def)
  have att: "\<exists>d o2. attempt_single block_api (vv_settings env) rp ev tr now (Some doc) key rego o1 = (Inr d, o2)
      \<and> pd_decision d = Block" for rp tr now doc o1
  proof -
    obtain a o2 where "evaluate_opa block_api (vv_settings env) rp key doc rego o1 = (Inr a, o2)"
      "an_decision a = ''block''"
      using evo by blast
    then show ?thesis
      by (simp add: attempt_single_def build_decision_def verdict_of_def default_decision_def)
  qed
  have "pd_decision d = Block"
    if "evaluate_single block_api (vv_settings env) rp ev tr now input key rego o1 = (Inr d, o2)"
    for rp tr now input o1 d o2
  proof (cases input)
    case None
    with that show ?thesis
      by (auto simp: evaluate_single_def attempt_single_def build_decision_def engine_error_answer_def
          verdict_of_def default_decision_def)
  next
    case (Some doc)
    with that att [of rp tr now doc o1] show ?thesis by (auto simp: evaluate_single_def)
  qed
  with assms(1) show ?thesis unfolding opa_blocks_def by simp
qed

section \<open>Properties\<close>



text \<open>
  C2. The kill switch: if every read of the agent's freeze flag says frozen or fails, the caller gets a
  block, whatever the policies, the caches and the rate limiter say and whatever fails, as long as the
  namespace is not in monitor mode. In monitor mode too, when rate limits are exempt from it and the
  evaluation does not end in an exception.
\<close>

theorem frozen_agent_blocked:
  assumes "frozen_reads r"
    and "not_monitor r ev s \<or>
      es_monitor_exempt_rate_limit (vv_settings env) \<and> (\<exists>d s'. evaluate_try env r ev s = (Inr d, s'))"
  shows "pd_decision (fst (evaluate env r ev s)) = Block"
proof -
  have run_block: "pd_decision d = Block" if run: "evaluate_try env r ev s = (Inr d, s')" for d s'
    using run
  proof (rule evaluate_try_Inr)
    fix po s1 s2 cached tr s3 base s4 x s5
    assume po: "resolve_posture env r (ai_namespace (ev_agent_identity ev)) s = (Inr po, s1)"
      and c: "cached_and_trust env r ev po s2 = (Inr (cached, tr), s3)"
      and x: "handle_cache_hit env r ev base tr po s4 = (Inr x, s5)" and d: "d = pep_and_latency r ev x"
    have "po_monitor po \<Longrightarrow> es_monitor_exempt_rate_limit (vv_settings env)"
      using assms(2) resolve_posture_not_monitor(1) [OF _ po] by auto
    with frozen_tail [OF x cached_and_trust_frozen [OF c assms(1)]]
    show "pd_decision d = Block" by (simp add: d pep_and_latency_verdict)
  qed
  show ?thesis
    using assms(2)
  proof
    assume "not_monitor r ev s"
    then show ?thesis using run_block by (rule evaluate_block)
  qed (use run_block in \<open>auto simp: evaluate_def\<close>)
qed

definition frozen_call_reads :: call_reads where
  "frozen_call_reads = demo_call_reads\<lparr>cr_flags := None, cr_eval := Some (Some (default_decision Allow 0)),
     cr_trust_reads := \<lparr>rd_history = Some [], rd_profile = Some (demo_profile, True), rd_frozen = None,
         rd_override = Some None\<rparr>\<rparr>"

theorem frozen_agent_blocked_witness:
  "pd_decision (fst (evaluate demo_eval_env frozen_call_reads demo_call demo_evaluator)) = Block"
proof -
  have "frozen_reads frozen_call_reads" by (simp add: frozen_reads_def frozen_call_reads_def)
  moreover have "not_monitor frozen_call_reads demo_call demo_evaluator"
    by (simp add: not_monitor_def frozen_call_reads_def demo_call_reads_def demo_evaluator_def)
  ultimately show ?thesis using frozen_agent_blocked by blast
qed

text \<open>
  C3. A refusal the enforcement point already made is what is decided and recorded. When the evaluation
  ends without an exception, such a call comes back blocked in every posture, on the cached and on the
  fresh path; the history and the graph record a block, unless the traffic is synthetic the agent is
  charged a violation, and the behavioural profile learns nothing from it.
\<close>

theorem pep_refusal_recorded:
  assumes "evaluate_try env r ev s = (Inr d, s')" "ev_pep_decision ev = ''block''"
  shows "evaluate env r ev s = (d, s') \<and> pd_decision d = Block
    \<and> (\<exists>pre tr. el_effects s' = pre @ persist_behavior env ev d tr
        \<and> (\<forall>e \<in> set (persist_behavior env ev d tr). case e of
             Update_profile _ _ _ \<Rightarrow> False
           | Record_history _ _ v _ _ _ \<Rightarrow> v = Block
           | Record_graph _ _ v _ _ \<Rightarrow> v = Block
           | Register_agent _ _ _ _ _ violation \<Rightarrow> violation = (\<not> is_synthetic_framework (ev_framework ev))
           | Emit_audit a \<Rightarrow> a = d
           | _ \<Rightarrow> True))"
  using assms(1)
proof (rule evaluate_try_Inr)
  fix tr x s5
  assume d: "d = pep_and_latency r ev x" and s': "s' = emit (persist_behavior env ev d tr) s5"
  have block: "pd_decision d = Block" using assms(2) by (simp add: d pep_and_latency_verdict)
  moreover have "el_effects s' = el_effects s5 @ persist_behavior env ev d tr" by (simp add: s')
  ultimately show ?thesis
    using assms(1)
    by (auto simp: evaluate_def persist_behavior_def register_agent_def Let_def intro!: exI [of _ "el_effects s5"] exI [of _ tr])
qed

definition refused_call :: tool_call_event where
  "refused_call = demo_call\<lparr>ev_pep_decision := ''block'', ev_pep_rule_id := ''mcp_pin_drift''\<rparr>"

definition allow_hit_reads :: call_reads where
  "allow_hit_reads = demo_call_reads\<lparr>cr_eval := Some (Some (default_decision Allow 0))\<rparr>"

text \<open>The steps that fail only with a read.\<close>

lemma resolve_posture_succeeds:
  "cr_ns_settings r \<noteq> Ns_malformed \<Longrightarrow> \<exists>po s'. resolve_posture env r ns s = (Inr po, s')"
  by (simp add: resolve_posture_def Let_def split: prod.splits option.splits ns_read.splits)

lemma stored_trust_succeeds:
  "\<lbrakk>cr_trust r \<noteq> None; cr_trust_write r\<rbrakk> \<Longrightarrow> \<exists>t s'. stored_trust r spiffe s = (Inr t, s')"
  by (auto simp: stored_trust_def Let_def split: prod.splits option.splits intro: exI [of _ "4/5"])

lemma handle_cache_hit_succeeds:
  "cr_count r \<noteq> None \<Longrightarrow> \<exists>x s'. handle_cache_hit env r ev h tr po s = (Inr x, s')"
  by (auto simp: handle_cache_hit_def maybe_rate_limit_def is_rate_limited_def split: option.splits)

text \<open>Nothing fails on the cached path of an evaluation whose reads succeed.\<close>

lemma hit_evaluates:
  assumes "is_controllable_spiffe_id (ai_spiffe_id (ev_agent_identity ev))" "cr_ns_settings r \<noteq> Ns_malformed"
    and "cr_trust r \<noteq> None" "cr_trust_write r" "\<not> ttl_enabled (el_eval_cache s)" "cr_eval r = Some (Some h)"
    and "cr_count r \<noteq> None"
  shows "\<exists>d s'. evaluate_try env r ev s = (Inr d, s')"
proof -
  obtain po s1 where p: "resolve_posture env r (ai_namespace (ev_agent_identity ev)) s = (Inr po, s1)"
    using resolve_posture_succeeds [OF assms(2)] by blast
  obtain t s2 where t: "stored_trust r (ai_spiffe_id (ev_agent_identity ev)) s1 = (Inr t, s2)"
    using stored_trust_succeeds [OF assms(3,4)] by blast
  have "\<not> ttl_enabled (el_eval_cache s2)"
    using assms(5) resolve_posture_frame [OF p] stored_trust_frame [OF t] by simp
  then have "\<exists>tr s3. cached_and_trust env r ev po s2 = (Inr (Some h, tr), s3)"
    using assms(6) by (simp add: cached_and_trust_def split: prod.splits)
  then obtain tr s3 where c: "cached_and_trust env r ev po s2 = (Inr (Some h, tr), s3)" by blast
  obtain x s4 where "handle_cache_hit env r ev h tr po s3 = (Inr x, s4)"
    using handle_cache_hit_succeeds [OF assms(7)] by blast
  with p t c assms(1) show ?thesis
    by (auto simp: evaluate_try_def validate_spiffe_def Let_def)
qed

lemma demo_controllable [simp]: "is_controllable_spiffe_id (ai_spiffe_id (demo_agent ns))"
  by (simp add: demo_agent_def is_controllable_spiffe_id_def spiffe_scheme_def starts_with_def ucs_strip_def
      ucs_space_def spiffe_id_max_len_def storable_def)

theorem pep_refusal_recorded_witness:
  "pd_decision (fst (evaluate demo_eval_env allow_hit_reads refused_call demo_evaluator)) = Block"
proof -
  have "\<exists>d s'. evaluate_try demo_eval_env allow_hit_reads refused_call demo_evaluator = (Inr d, s')"
    by (rule hit_evaluates) (simp_all add: allow_hit_reads_def demo_call_reads_def refused_call_def demo_call_def
        demo_evaluator_def ttl_enabled_def ttl_new_def)
  then obtain d s' where t: "evaluate_try demo_eval_env allow_hit_reads refused_call demo_evaluator = (Inr d, s')"
    by blast
  moreover have "ev_pep_decision refused_call = ''block''" by (simp add: refused_call_def)
  ultimately show ?thesis using pep_refusal_recorded [OF t] by simp
qed

definition failure_rule :: "eval_failure \<Rightarrow> string" where
  "failure_rule f = (case f of Timed_out \<Rightarrow> ''evaluator_timeout'' | Invalid_identity \<Rightarrow> ''invalid_spiffe_identity''
     | Engine_fault \<Rightarrow> ''evaluator_fallback'')"

text \<open>
  C4. Every failure has a verdict. When the evaluation ends in an exception, the caller still gets a
  decision that names it: a block, or, if the namespace's posture can be read and is monitor, an audit
  that records what would have been blocked. An invalid identity is blocked in every posture.
\<close>

theorem failure_has_verdict:
  assumes "evaluate_try env r ev s = (Inl f, s')"
    and "d = fst (evaluate env r ev s)"
    and "monitored \<longleftrightarrow> (\<exists>po s''. resolve_posture env r (ai_namespace (ev_agent_identity ev)) s' = (Inr po, s'') \<and> po_monitor po)"
  shows "pd_decision d = (if monitored \<and> f \<noteq> Invalid_identity then Audit else Block)
    \<and> pd_rule_id d = (if monitored \<and> f \<noteq> Invalid_identity then ''monitor_would_block:'' else '''') @ failure_rule f
    \<and> pd_event_id d = ev_event_id ev"
proof -
  obtain q s1 where q: "resolve_posture env r (ai_namespace (ev_agent_identity ev)) s' = (q, s1)"
    by (meson surj_pair)
  let ?f = "failure_decision f r ev"
  have fd: "pd_rule_id ?f = failure_rule f" "pd_event_id ?f = ev_event_id ev" "pd_decision ?f = Block"
    by (cases f; simp add: failure_decision_def failure_rule_def stage_defs)+
  have d: "d = (case q of Inl _ \<Rightarrow> ?f | Inr po \<Rightarrow> apply_posture (vv_settings env) po ?f)"
    using assms(1,2) q by (cases q) (simp_all add: evaluate_def soften_failure_for_posture_def)
  have ex: "failure_rule f \<in> set (posture_exempt_rules (vv_settings env)) \<longleftrightarrow> f = Invalid_identity"
    by (cases f) (simp_all add: failure_rule_def exempt_defs)
  show ?thesis
  proof (cases q)
    case (Inl e)
    then show ?thesis using d fd assms(3) q by simp
  next
    case (Inr po)
    then have "monitored = po_monitor po" using assms(3) q by simp
    then show ?thesis
      using d fd ex Inr
      by (cases "f = Invalid_identity"; cases "po_monitor po"; simp add: apply_posture_def monitor_would_block_prefix_def)
  qed
qed

definition bad_call :: tool_call_event where
  "bad_call = demo_call\<lparr>ev_agent_identity := (demo_agent ''prod'')\<lparr>ai_spiffe_id := []\<rparr>\<rparr>"

theorem failure_has_verdict_witness:
  "pd_decision (fst (evaluate demo_eval_env demo_call_reads bad_call demo_evaluator)) = Block"
proof -
  have "evaluate_try demo_eval_env demo_call_reads bad_call demo_evaluator = (Inl Invalid_identity, demo_evaluator)"
    by (simp add: evaluate_try_def bad_call_def validate_spiffe_def is_controllable_spiffe_id_def spiffe_scheme_def
        starts_with_def)
  from failure_has_verdict [OF this refl refl] show ?thesis by simp
qed

lemma tail_attributed:
  assumes "handle_cache_hit env r ev base tr po s = (Inr x, s')" "pd_decision x = Block"
  shows "pd_rule_id x \<notin> {'''', ''default_allow''}"
  using assms(1)
proof (rule handle_cache_hit_cases)
  assume x: "x = apply_posture (vv_settings env) po
      (rate_limit_decision (vv_settings env) ev (po_rate_limit po) (cr_elapsed_ms r) (cr_now r))"
  with assms(2) have "x = rate_limit_decision (vv_settings env) ev (po_rate_limit po) (cr_elapsed_ms r) (cr_now r)"
    using monitor.soften_block by metis
  then show ?thesis by simp
next
  assume "x = ensure_block_attribution (apply_posture (vv_settings env) po
      (apply_trust_overrides (vv_format_2f env) (cr_now r) tr base))"
  with assms(2) ensure_block_attribution_rule show ?thesis by simp
qed

text \<open>
  C5. No block without a name: a block the caller gets never carries an empty rule or the rule of the
  default allow, on any path, unless the enforcement point itself reports its refusal under the latter.
\<close>

theorem every_block_is_attributed:
  assumes "pd_decision (fst (evaluate env r ev s)) = Block" "ev_pep_rule_id ev \<noteq> ''default_allow''"
  shows "pd_rule_id (fst (evaluate env r ev s)) \<notin> {'''', ''default_allow''}"
proof (cases "evaluate_try env r ev s")
  case (Pair y s')
  show ?thesis
  proof (cases y)
    case (Inr d)
    then have run: "evaluate_try env r ev s = (Inr d, s')" using Pair by simp
    then have d: "fst (evaluate env r ev s) = d" by (simp add: evaluate_def)
    from run show ?thesis
    proof (rule evaluate_try_Inr)
      fix tr base po s4 x s5
      assume x: "handle_cache_hit env r ev base tr po s4 = (Inr x, s5)" and "d = pep_and_latency r ev x"
      with assms d tail_attributed [OF x] show ?thesis
        by (auto simp: pep_and_latency_def apply_pep_denial_def pep_unattributed_rule_def Let_def split: if_splits)
    qed
  next
    case (Inl f)
    have "pd_rule_id (failure_decision f r ev) \<notin> {'''', ''default_allow''}"
      by (cases f) (simp_all add: failure_decision_def stage_defs)
    moreover have "fst (evaluate env r ev s) \<in> {failure_decision f r ev} \<union>
        range (\<lambda>po. apply_posture (vv_settings env) po (failure_decision f r ev))"
      using Pair Inl by (auto simp: evaluate_def soften_failure_for_posture_def split: prod.splits sum.splits)
    ultimately show ?thesis using assms(1) monitor.soften_block by fastforce
  qed
qed

theorem every_block_is_attributed_witness:
  "pd_rule_id (fst (evaluate demo_eval_env demo_call_reads bad_call demo_evaluator)) \<notin> {'''', ''default_allow''}"
proof -
  have "evaluate_try demo_eval_env demo_call_reads bad_call demo_evaluator = (Inl Invalid_identity, demo_evaluator)"
    by (simp add: evaluate_try_def bad_call_def validate_spiffe_def is_controllable_spiffe_id_def spiffe_scheme_def
        starts_with_def)
  then have "pd_decision (fst (evaluate demo_eval_env demo_call_reads bad_call demo_evaluator)) = Block"
    using failure_not_monitor [OF demo_not_monitor] by simp
  then show ?thesis
    by (rule every_block_is_attributed) (simp add: bad_call_def demo_call_def)
qed

end
