(* ===== verification/Replay_Props.thy ===== *)
theory Replay_Props
  imports Evaluate_Props
begin

text \<open>
  The decision cache seen from a whole evaluation: replaying a call on the decision it stored gives the
  decision again, whose event a cached answer names, and where the rate limiter overtakes a freeze.
\<close>

section \<open>Effects of each step\<close>

definition stored_decisions :: "eval_effect list \<Rightarrow> (string \<times> string \<times> string \<times> policy_decision) list" where
  "stored_decisions es = List.map_filter (\<lambda>e. case e of Set_eval ns cls tool d \<Rightarrow> Some (ns, cls, tool, d) | _ \<Rightarrow> None) es"

lemma stored_decisions_simps [simp]:
  "stored_decisions [] = []"
  "stored_decisions (es @ fs) = stored_decisions es @ stored_decisions fs"
  "stored_decisions (e # es) = (case e of Set_eval ns cls tool d \<Rightarrow> [(ns, cls, tool, d)] | _ \<Rightarrow> []) @ stored_decisions es"
  by (simp_all add: stored_decisions_def List.map_filter_def split: eval_effect.splits)

lemma persist_behavior_stores [simp]: "stored_decisions (persist_behavior env ev d tr) = []"
  by (simp add: persist_behavior_def register_agent_def Let_def)

lemma resolve_posture_stores:
  "resolve_posture env r ns s = (x, s') \<Longrightarrow> el_effects s' = el_effects s"
  by (auto simp: resolve_posture_def Let_def split: prod.splits option.splits ns_read.splits)

lemma stored_trust_stores:
  "stored_trust r spiffe s = (x, s') \<Longrightarrow> stored_decisions (el_effects s') = stored_decisions (el_effects s)"
  by (auto simp: stored_trust_def Let_def split: prod.splits option.splits if_splits)

lemma cached_and_trust_stores:
  "cached_and_trust env r ev po s = (x, s') \<Longrightarrow> el_effects s' = el_effects s"
  by (auto simp: cached_and_trust_def compute_trust_def Let_def split: if_splits prod.splits option.splits)

lemma resolve_candidates_stores:
  "resolve_candidates env r ev tr cs s = (x, s') \<Longrightarrow> el_effects s' = el_effects s"
  by (auto simp: resolve_candidates_def Let_def split: if_splits prod.splits sum.splits option.splits)

lemma base_decision_stores:
  assumes "base_decision env r ev tr s = (Inr base, s')"
  shows "stored_decisions (el_effects s') = stored_decisions (el_effects s) \<or>
    (\<exists>ns cls tool. (ns, cls, tool) = cache_scope env ev
       \<and> stored_decisions (el_effects s') = stored_decisions (el_effects s) @ [(ns, cls, tool, base)])"
proof -
  obtain cs co s1 where c: "resolve_candidates env r ev tr cs (s\<lparr>el_collector := co\<rparr>) = (Inr base, s1)"
    and st: "store_decision env r ev cs base s1 = (Inr (), s')"
    using assms by (auto simp: base_decision_def then_do_Inr split: prod.splits sum.splits)
  have "el_effects s1 = el_effects s" using resolve_candidates_stores [OF c] by simp
  with st show ?thesis
    by (auto simp: store_decision_def Let_def split: prod.splits if_splits)
qed

lemma handle_cache_hit_stores:
  "handle_cache_hit env r ev base tr po s = (Inr x, s') \<Longrightarrow>
     stored_decisions (el_effects s') = stored_decisions (el_effects s)"
  by (auto simp: handle_cache_hit_def maybe_rate_limit_def is_rate_limited_def then_do_Inr
      split: if_splits option.splits)

section \<open>What the verdict depends on\<close>

text \<open>The controls after the decision read the call, not the state of the process.\<close>

lemma handle_cache_hit_state:
  "fst (handle_cache_hit env (r\<lparr>cr_eval := e\<rparr>) ev base tr po s') = fst (handle_cache_hit env r ev base tr po s)"
  by (simp add: handle_cache_hit_def maybe_rate_limit_def is_rate_limited_def split: option.splits)

lemma replay_frame [simp]:
  "resolve_posture env (r\<lparr>cr_eval := e\<rparr>) ns s = resolve_posture env r ns s"
  "stored_trust (r\<lparr>cr_eval := e\<rparr>) spiffe s = stored_trust r spiffe s"
  "compute_trust env (r\<lparr>cr_eval := e\<rparr>) ev thr pre s = compute_trust env r ev thr pre s"
  "pep_and_latency (r\<lparr>cr_eval := e\<rparr>) ev d = pep_and_latency r ev d"
  by (simp_all add: resolve_posture_def stored_trust_def compute_trust_def pep_and_latency_def Let_def
      split: prod.splits option.splits ns_read.splits)

lemma compute_trust_cache:
  "fst (compute_trust env r ev thr pre (s\<lparr>el_eval_cache := c\<rparr>)) = fst (compute_trust env r ev thr pre s)"
  by (simp add: compute_trust_def Let_def split: prod.splits)

lemma cached_and_trust_replay:
  assumes "cached_and_trust env r ev po s = (Inr (None, tr), s3)" "cr_eval r = Some None"
    and "ttl_enabled (el_eval_cache s) \<Longrightarrow> cr_flags r \<noteq> None"
  shows "\<exists>s3'. cached_and_trust env (r\<lparr>cr_eval := Some (Some b)\<rparr>) ev po s = (Inr (Some b, tr), s3')"
proof (cases "ttl_enabled (el_eval_cache s)")
  case True
  obtain c where c: "ttl_get (el_eval_cache s) (cr_clock r) (cache_scope env ev) = (None, c)"
    using assms(1) True by (auto simp: cached_and_trust_def split: prod.splits option.splits)
  obtain f where f: "cr_flags r = Some f" using assms(3) True by auto
  have "compute_trust env r ev (po_trust_threshold po) (Some f) (s\<lparr>el_eval_cache := c\<rparr>) = (tr, s3)"
    using assms(1,2) True c f
    by (auto simp: cached_and_trust_def get_eval_and_agent_flags_def Let_def split: prod.splits)
  then have "fst (compute_trust env r ev (po_trust_threshold po) (Some f) s) = tr"
    by (metis compute_trust_cache fst_conv)
  then show ?thesis
    using True c f
    by (auto simp: cached_and_trust_def get_eval_and_agent_flags_def Let_def
        split: prod.splits) (metis compute_trust_cache fst_conv)
next
  case False
  then show ?thesis using assms(1,2) by (auto simp: cached_and_trust_def split: prod.splits)
qed

text \<open>
  C37. The cache is transparent: if an evaluation that found no cached decision stored one, the same call
  answered from the stored decision, with the same reads otherwise, gets exactly the decision of the
  first evaluation, trust overrides, posture, throttle and the enforcement point's refusal included.
\<close>

theorem replayed_call_same_decision:
  assumes "evaluate_try env r ev s = (Inr d, s')" "no_cached env r ev s" "cr_eval r = Some None"
    and "ttl_enabled (el_eval_cache s) \<Longrightarrow> cr_flags r \<noteq> None"
    and "stored_decisions (el_effects s') = stored_decisions (el_effects s) @ [(ns, cls, tool, base)]"
  shows "(ns, cls, tool) = cache_scope env ev
    \<and> fst (evaluate env (r\<lparr>cr_eval := Some (Some base)\<rparr>) ev s) = d"
  using assms(1)
proof (rule evaluate_try_Inr)
  fix po s1 t s2 cached tr s3 b s4 x s5
  let ?r = "r\<lparr>cr_eval := Some (Some base)\<rparr>"
  assume ok: "is_controllable_spiffe_id (ai_spiffe_id (ev_agent_identity ev))"
    and p: "resolve_posture env r (ai_namespace (ev_agent_identity ev)) s = (Inr po, s1)"
    and t: "stored_trust r (ai_spiffe_id (ev_agent_identity ev)) s1 = (Inr t, s2)"
    and c: "cached_and_trust env r ev po s2 = (Inr (cached, tr), s3)"
    and b: "decided env r ev cached tr s3 = (Inr b, s4)"
    and x: "handle_cache_hit env r ev b tr po s4 = (Inr x, s5)"
    and d: "d = pep_and_latency r ev x" and s': "s' = emit (persist_behavior env ev d tr) s5"
  note same = resolve_posture_frame [OF p] stored_trust_frame [OF t]
  have "no_cached env r ev s2" using assms(2) same by (simp add: no_cached_def)
  with c have none: "cached = None" by (rule cached_and_trust_fresh)
  with b have "base_decision env r ev tr s3 = (Inr b, s4)" by (simp add: decided_def)
  from base_decision_stores [OF this]
  have base: "b = base \<and> (ns, cls, tool) = cache_scope env ev"
    using assms(5) resolve_posture_stores [OF p] stored_trust_stores [OF t] cached_and_trust_stores [OF c]
      handle_cache_hit_stores [OF x] by (auto simp: s')
  obtain s3' where c': "cached_and_trust env ?r ev po s2 = (Inr (Some base, tr), s3')"
    using cached_and_trust_replay [of env r ev po s2 tr s3 base] c none assms(3,4) same by auto
  obtain s5' where "handle_cache_hit env ?r ev base tr po s3' = (Inr x, s5')"
    using handle_cache_hit_state [where env = env and r = r and ev = ev and base = base and tr = tr and po = po
      and e = "Some (Some base)" and s' = s3' and s = s4] x base
    by (cases "handle_cache_hit env ?r ev base tr po s3'") simp
  with ok p t c' have "evaluate_try env ?r ev s = (Inr d, emit (persist_behavior env ev d tr) s5')"
    by (simp add: evaluate_try_def validate_spiffe_def Let_def d)
  with base show ?thesis by (simp add: evaluate_def)
qed
text \<open>Nothing fails on the fresh path when the reads succeed, no decision is cached and a base decision is found.\<close>

lemma fresh_evaluates:
  assumes "is_controllable_spiffe_id (ai_spiffe_id (ev_agent_identity ev))" "cr_ns_settings r \<noteq> Ns_malformed"
    and "cr_trust r \<noteq> None" "cr_trust_write r" "\<not> ttl_enabled (el_eval_cache s)" "cr_eval r = Some None"
    and "cr_count r \<noteq> None" "stored_decisions (el_effects s) = []"
    and base: "\<And>tr s3. \<lbrakk>el_collector s3 = el_collector s; \<not> ttl_enabled (el_eval_cache s3)\<rbrakk> \<Longrightarrow>
      \<exists>base s4. base_decision env r ev tr s3 = (Inr base, s4)
        \<and> stored_decisions (el_effects s4) = stored_decisions (el_effects s3) @ [(ns, cls, tool, base)]"
  shows "\<exists>d s' base. evaluate_try env r ev s = (Inr d, s')
    \<and> stored_decisions (el_effects s') = [(ns, cls, tool, base)]"
proof -
  let ?id = "ai_spiffe_id (ev_agent_identity ev)"
  obtain po s1 where p: "resolve_posture env r (ai_namespace (ev_agent_identity ev)) s = (Inr po, s1)"
    using resolve_posture_succeeds [OF assms(2)] by blast
  obtain t s2 where t: "stored_trust r ?id s1 = (Inr t, s2)"
    using stored_trust_succeeds [OF assms(3,4)] by blast
  note same = resolve_posture_frame [OF p] stored_trust_frame [OF t]
  obtain tr s3 where c: "cached_and_trust env r ev po s2 = (Inr (None, tr), s3)"
    using assms(5,6) same by (cases "compute_trust env r ev (po_trust_threshold po) None s2")
      (auto simp: cached_and_trust_def)
  have "el_eval_cache s3 = el_eval_cache s2"
    using c assms(5) same by (auto simp: cached_and_trust_def compute_trust_def Let_def split: if_splits prod.splits option.splits)
  then obtain b s4 where b: "base_decision env r ev tr s3 = (Inr b, s4)"
    and st: "stored_decisions (el_effects s4) = stored_decisions (el_effects s3) @ [(ns, cls, tool, b)]"
    using base [of s3 tr] assms(5) same cached_and_trust_frame [OF c] by auto
  obtain x s5 where x: "handle_cache_hit env r ev b tr po s4 = (Inr x, s5)"
    using handle_cache_hit_succeeds [OF assms(7)] by blast
  have "evaluate_try env r ev s = (Inr (pep_and_latency r ev x),
      emit (persist_behavior env ev (pep_and_latency r ev x) tr) s5)"
    using assms(1) p t c b x by (simp add: evaluate_try_alt validate_spiffe_def decided_def Let_def)
  moreover have "stored_decisions (el_effects s5) = [(ns, cls, tool, b)]"
    using assms(8) st resolve_posture_stores [OF p] stored_trust_stores [OF t] cached_and_trust_stores [OF c]
      handle_cache_hit_stores [OF x] by simp
  ultimately show ?thesis by simp
qed

definition quiet_env :: "unit eval_env" where
  "quiet_env = demo_eval_env\<lparr>vv_db := empty_db\<rparr>"

definition quiet_evaluator :: "unit evaluator" where
  "quiet_evaluator = demo_evaluator\<lparr>el_collector := (new_replica\<lparr>rp_warmed := True\<rparr>, [])\<rparr>"

definition quiet_collected :: "(loader_error, candidate list) res \<times> collector" where
  "quiet_collected = collect_candidates id nothing_covers (demo_io 10) empty_db False (demo_agent ''prod'')
     (new_replica\<lparr>rp_warmed := True\<rparr>, [])"

lemma quiet_collects:
  "fst quiet_collected = Inr []"
  "rp_index (fst (snd quiet_collected)) = []"
  "rp_warmed (fst (snd quiet_collected))"
  by code_simp+

lemma show_zero: "show_int 0 = ''0''"
  by code_simp

lemma quiet_base:
  assumes "el_collector s = (new_replica\<lparr>rp_warmed := True\<rparr>, [])" "\<not> ttl_enabled (el_eval_cache s)"
  shows "\<exists>base s'. base_decision quiet_env demo_call_reads demo_call tr s = (Inr base, s')
    \<and> stored_decisions (el_effects s') = stored_decisions (el_effects s)
        @ [(''prod'', ''billing'', ''transfer:0123456789abcdef:d0:w'', base)]"
proof -
  obtain rp memo where "quiet_collected = (Inr [], rp, memo)" "rp_index rp = []" "rp_warmed rp"
    using quiet_collects by (metis fst_conv snd_conv surj_pair)
  with assms show ?thesis
    by (simp add: base_decision_def quiet_collected_def quiet_env_def demo_eval_env_def demo_call_def
        resolve_candidates_def evaluate_without_candidates_def evaluate_opa_def build_input_def no_policy_decision_def
        default_settings_def build_decision_def verdict_of_def store_decision_def depends_on_per_identity_facts_def
        cache_scope_def cache_tool_key_def params_digest_def demo_agent_def demo_call_reads_def strip_def Let_def
        default_decision_def show_zero)
qed

theorem replayed_call_same_decision_witness:
  "\<exists>base d s'. evaluate_try quiet_env demo_call_reads demo_call quiet_evaluator = (Inr d, s')
     \<and> stored_decisions (el_effects s') = [(''prod'', ''billing'', ''transfer:0123456789abcdef:d0:w'', base)]
     \<and> fst (evaluate quiet_env (demo_call_reads\<lparr>cr_eval := Some (Some base)\<rparr>) demo_call quiet_evaluator) = d"
proof -
  have "\<exists>d s' base. evaluate_try quiet_env demo_call_reads demo_call quiet_evaluator = (Inr d, s')
      \<and> stored_decisions (el_effects s') = [(''prod'', ''billing'', ''transfer:0123456789abcdef:d0:w'', base)]"
    by (rule fresh_evaluates)
      (simp_all add: quiet_evaluator_def demo_evaluator_def demo_call_reads_def demo_call_def ttl_enabled_def ttl_new_def
        quiet_base [unfolded demo_call_reads_def demo_call_def])
  then obtain d s' base where run: "evaluate_try quiet_env demo_call_reads demo_call quiet_evaluator = (Inr d, s')"
    and st: "stored_decisions (el_effects s') = [(''prod'', ''billing'', ''transfer:0123456789abcdef:d0:w'', base)]"
    by blast
  have "fst (evaluate quiet_env (demo_call_reads\<lparr>cr_eval := Some (Some base)\<rparr>) demo_call quiet_evaluator) = d"
    using replayed_call_same_decision [OF run] st
    by (simp add: no_cached_def quiet_evaluator_def demo_evaluator_def demo_call_reads_def)
  with run st show ?thesis by blast
qed

text \<open>
  A decision served from the cache keeps the event id of the call that filled it: unless the throttle
  replaces it, the answer, and the audit record made from it, name that earlier event and not the event
  being evaluated.
\<close>

lemma cached_answer_names_other_event:
  assumes "evaluate_try env r ev s = (Inr d, s')" "\<not> ttl_enabled (el_eval_cache s)" "cr_eval r = Some (Some hit)"
    and "pd_decision hit \<noteq> Allow"
  shows "pd_event_id d = pd_event_id hit \<and> Emit_audit d \<in> set (el_effects s')"
  using assms(1)
proof (rule evaluate_try_Inr)
  fix po s1 t s2 cached tr s3 b s4 x s5
  assume p: "resolve_posture env r (ai_namespace (ev_agent_identity ev)) s = (Inr po, s1)"
    and t: "stored_trust r (ai_spiffe_id (ev_agent_identity ev)) s1 = (Inr t, s2)"
    and c: "cached_and_trust env r ev po s2 = (Inr (cached, tr), s3)"
    and b: "decided env r ev cached tr s3 = (Inr b, s4)"
    and x: "handle_cache_hit env r ev b tr po s4 = (Inr x, s5)"
    and d: "d = pep_and_latency r ev x" and s': "s' = emit (persist_behavior env ev d tr) s5"
  have "cached = Some hit"
    using c assms(2,3) resolve_posture_frame [OF p] stored_trust_frame [OF t]
    by (auto simp: cached_and_trust_def split: if_splits prod.splits)
  with b have "b = hit" by (simp add: decided_def)
  from x have "pd_event_id x = pd_event_id hit"
  proof (rule handle_cache_hit_cases)
    assume "pd_decision b = Allow" then show ?thesis using assms(4) \<open>b = hit\<close> by simp
  qed (simp add: \<open>b = hit\<close> attribution.stage_event monitor.soften_event overrides.stage_event)
  then show ?thesis
    by (simp add: d s' pep_and_latency_def pep.stage_event) (simp add: persist_behavior_def Let_def)
qed

definition blocked_hit_reads :: call_reads where
  "blocked_hit_reads = demo_call_reads\<lparr>cr_eval := Some (Some ((default_decision Block 0)\<lparr>pd_event_id := ''e0''\<rparr>))\<rparr>"

text \<open>
  The throttle overtakes the freeze. Where rate limits are not exempt from monitor mode, a call that
  a cached decision allows and that is over the namespace's limit comes back as audit, hence is let
  through, in a monitored namespace, whatever the freeze flag of the agent says: the throttled decision
  skips the trust overrides.
\<close>

lemma throttle_overtakes_freeze:
  assumes "evaluate_try env r ev s = (Inr d, s')" "\<not> ttl_enabled (el_eval_cache s)" "cr_eval r = Some (Some hit)"
    and "pd_decision hit = Allow" "\<not> is_rate_limit_exempt (vv_settings env) (vv_classify env) (ev_tool_name ev)"
    and "resolve_posture env r (ai_namespace (ev_agent_identity ev)) s = (Inr po, s1)" "po_monitor po"
    and "cr_count r = Some n" "po_rate_limit po < n" "\<not> es_monitor_exempt_rate_limit (vv_settings env)"
    and "ev_pep_decision ev \<noteq> ''block''"
  shows "pd_decision d = Audit \<and> is_allowed d"
  using assms(1)
proof (rule evaluate_try_Inr)
  fix po' s1' t s2 cached tr s3 b s4 x s5
  assume p: "resolve_posture env r (ai_namespace (ev_agent_identity ev)) s = (Inr po', s1')"
    and t: "stored_trust r (ai_spiffe_id (ev_agent_identity ev)) s1' = (Inr t, s2)"
    and c: "cached_and_trust env r ev po' s2 = (Inr (cached, tr), s3)"
    and b: "decided env r ev cached tr s3 = (Inr b, s4)"
    and x: "handle_cache_hit env r ev b tr po' s4 = (Inr x, s5)" and d: "d = pep_and_latency r ev x"
  have "po' = po" using p assms(6) by simp
  moreover have "cached = Some hit"
    using c assms(2,3) resolve_posture_frame [OF p] stored_trust_frame [OF t]
    by (auto simp: cached_and_trust_def split: if_splits prod.splits)
  with b have "b = hit" by (simp add: decided_def)
  moreover have "''rate_limit_exceeded'' \<notin> set (posture_exempt_rules (vv_settings env))"
    using assms(10) by (simp add: exempt_defs)
  ultimately have "pd_decision x = Audit"
    using x assms(4,5,7-9)
    by (auto simp: handle_cache_hit_def maybe_rate_limit_def is_rate_limited_def apply_posture_def)
  then show ?thesis using assms(11) by (simp add: d pep_and_latency_verdict is_allowed_def)
qed

definition monitor_env :: "unit eval_env" where
  "monitor_env = demo_eval_env\<lparr>vv_settings := default_settings\<lparr>es_monitor_exempt_rate_limit := False\<rparr>\<rparr>"

definition frozen_over_limit_reads :: call_reads where
  "frozen_over_limit_reads = frozen_call_reads
     \<lparr>cr_ns_settings := Ns_row (Some \<lparr>nss_enforcement_mode = Some ''audit'', nss_trust_threshold = None,
         nss_rate_limit = Some 60\<rparr>), cr_count := Some 61\<rparr>"

end
