(* ===== verification/Digits.thy ===== *)
theory Digits
  imports Prelude
begin

text \<open>
  Decimal numerals as text: what Python's \<open>str\<close> writes for an integer, how a string of digits is read
  back, and the comparison of two numerals by length and then by text that the scripts of
  \<open>norviq/engine/cache.py\<close> use so that no value ever becomes a floating-point number.
\<close>

definition is_digit :: "char \<Rightarrow> bool" where
  "is_digit c \<longleftrightarrow> (48::nat) \<le> of_char c \<and> of_char c \<le> (57::nat)"

definition digit_value :: "char \<Rightarrow> nat" where
  "digit_value c = of_char c - 48"

definition read_nat :: "string \<Rightarrow> nat" where
  "read_nat s = foldl (\<lambda>n c. 10 * n + digit_value c) 0 s"

text \<open>A nonempty string of digits.\<close>

definition numeric :: "string \<Rightarrow> bool" where
  "numeric s \<longleftrightarrow> s \<noteq> [] \<and> list_all is_digit s"

section \<open>Writing and reading\<close>

lemma digit_char [simp]: "is_digit (digit_char n)" "digit_value (digit_char n) = n mod 10"
proof -
  have "n mod 10 < 10" by simp
  then show "is_digit (digit_char n)" "digit_value (digit_char n) = n mod 10"
    by (simp_all add: is_digit_def digit_value_def digit_char_def del: mod_less_divisor)
qed

lemma digit_value_less: "is_digit c \<Longrightarrow> digit_value c < 10"
  unfolding is_digit_def digit_value_def by linarith

lemma digit_value_inject: "\<lbrakk>is_digit c; is_digit d; digit_value c = digit_value d\<rbrakk> \<Longrightarrow> c = d"
  by (simp add: is_digit_def digit_value_def) (metis le_add_diff_inverse2 of_char_eq_iff)

lemma read_nat_simps [simp]:
  "read_nat [] = 0" "read_nat (s @ [c]) = 10 * read_nat s + digit_value c"
  by (simp_all add: read_nat_def)

lemma show_nat_numeric [simp]: "numeric (show_nat n)"
  by (induction n rule: show_nat.induct) (subst show_nat.simps, auto simp: numeric_def)

lemma show_nat_digits: "list_all is_digit (show_nat n)" "show_nat n \<noteq> []"
  using show_nat_numeric [of n] by (simp_all add: numeric_def)

lemma read_show_nat [simp]: "read_nat (show_nat n) = n"
proof (induction n rule: show_nat.induct)
  case (1 n)
  show ?case
  proof (cases "n < 10")
    case True
    then show ?thesis by (subst show_nat.simps) (use read_nat_simps(2) [of "[]"] in simp)
  next
    case False
    with 1 show ?thesis by (subst show_nat.simps) simp
  qed
qed

lemma show_nat_inject [simp]: "show_nat m = show_nat n \<longleftrightarrow> m = n"
  by (metis read_show_nat)

lemma numeric_free:
  assumes "list_all is_digit s" "\<not> is_digit c"
  shows "c \<notin> set s"
  using assms by (auto simp: list_all_iff)

lemma show_int_inject [simp]: "show_int i = show_int j \<longleftrightarrow> i = j"
proof -
  have "show_nat n \<noteq> ''-'' @ show_nat m" for m n
    using show_nat_digits(1) [of n] by (auto simp: is_digit_def)
  then show ?thesis by (auto simp: show_int_def nat_eq_iff2 split: if_splits) metis+
qed

lemma show_int_colon [simp]: "CHR '':'' \<notin> set (show_int i)"
  using numeric_free [OF show_nat_digits(1)] by (simp add: show_int_def is_digit_def)

section \<open>Comparing numerals as text\<close>

fun text_less :: "string \<Rightarrow> string \<Rightarrow> bool" where
  "text_less _ [] = False"
| "text_less [] (_ # _) = True"
| "text_less (a # as) (b # bs) =
     ((of_char a :: nat) < of_char b \<or> (a = b \<and> text_less as bs))"

definition canon :: "string \<Rightarrow> string" where
  "canon d = (let d' = dropWhile (\<lambda>c. c = CHR ''0'') d in if d' = '''' then ''0'' else d')"

definition older :: "string \<Rightarrow> string \<Rightarrow> bool" where
  "older a b = (if length a \<noteq> length b then length a < length b else text_less a b)"

text \<open>A numeral without a leading zero, other than zero itself.\<close>

definition canonical :: "string \<Rightarrow> bool" where
  "canonical s \<longleftrightarrow> numeric s \<and> (s = ''0'' \<or> hd s \<noteq> CHR ''0'')"

lemma read_nat_cons: "read_nat (c # s) = digit_value c * 10 ^ length s + read_nat s"
proof (induction s rule: rev_induct)
  case Nil
  then show ?case by (simp add: read_nat_def)
next
  case (snoc d s)
  have "read_nat (c # s @ [d]) = 10 * read_nat (c # s) + digit_value d"
    using read_nat_simps(2) [of "c # s" d] by simp
  then show ?case by (simp add: snoc algebra_simps)
qed

lemma read_nat_less: "list_all is_digit s \<Longrightarrow> read_nat s < 10 ^ length s"
proof (induction s)
  case (Cons c s)
  then have "digit_value c + 1 \<le> 10" "read_nat s < 10 ^ length s"
    using digit_value_less [of c] by auto
  then have "digit_value c * 10 ^ length s + read_nat s < (digit_value c + 1) * 10 ^ length s" by simp
  also have "\<dots> \<le> 10 * 10 ^ length s" using \<open>digit_value c + 1 \<le> 10\<close> by (rule mult_right_mono) simp
  finally show ?case by (simp add: read_nat_cons)
qed simp

lemma text_less_read:
  assumes "list_all is_digit a" "list_all is_digit b" "length a = length b"
  shows "text_less a b \<longleftrightarrow> read_nat a < read_nat b"
  using assms(3,1,2)
proof (induction a b rule: list_induct2)
  case (Cons x xs y ys)
  have lt: "read_nat (u # us) < read_nat (v # vs)"
    if "digit_value u < digit_value v" "length us = length vs" "list_all is_digit us" for u us v vs
  proof -
    have "read_nat (u # us) < (digit_value u + 1) * 10 ^ length us"
      using read_nat_less [OF that(3)] by (simp add: read_nat_cons)
    also have "\<dots> \<le> digit_value v * 10 ^ length vs"
      unfolding that(2) using that(1) by (intro mult_right_mono) simp_all
    also have "\<dots> \<le> read_nat (v # vs)" by (simp add: read_nat_cons)
    finally show ?thesis .
  qed
  have xy: "(of_char x :: nat) < of_char y \<longleftrightarrow> digit_value x < digit_value y"
    using Cons.prems by (auto simp: is_digit_def digit_value_def)
  consider "digit_value x < digit_value y" | "x = y" | "digit_value y < digit_value x"
    using Cons.prems digit_value_inject [of x y] by fastforce
  then show ?case
  proof cases
    case 1
    with lt [of x y xs ys] Cons show ?thesis by (simp add: xy)
  next
    case 2
    with Cons show ?thesis by (simp add: read_nat_cons)
  next
    case 3
    with lt [of y x ys xs] Cons have "read_nat (y # ys) < read_nat (x # xs)" by simp
    with 3 show ?thesis using xy by auto
  qed
qed simp

lemma canonical_lower:
  assumes "canonical s" "s \<noteq> ''0''"
  shows "10 ^ (length s - 1) \<le> read_nat s"
proof -
  obtain c r where s: "s = c # r" using assms by (cases s) (auto simp: canonical_def numeric_def)
  with assms have "is_digit c" "c \<noteq> CHR ''0''" by (auto simp: canonical_def numeric_def)
  then have "digit_value c \<noteq> digit_value CHR ''0''"
    using digit_value_inject [of c "CHR ''0''"] by (auto simp: is_digit_def)
  then have "1 \<le> digit_value c" by (simp add: digit_value_def)
  then have "1 * 10 ^ length r \<le> digit_value c * 10 ^ length r" by (rule mult_right_mono) simp
  also have "\<dots> \<le> read_nat s" by (simp add: s read_nat_cons)
  finally show ?thesis by (simp add: s)
qed

text \<open>On canonical numerals the comparison by length and text is the comparison of the numbers.\<close>

lemma older_read:
  assumes "canonical a" "canonical b"
  shows "older a b \<longleftrightarrow> read_nat a < read_nat b"
proof -
  have short: "read_nat x < read_nat y" if "length x < length y" "canonical x" "canonical y" for x y
  proof -
    have "y \<noteq> ''0''" using that by (auto simp: canonical_def numeric_def)
    have "read_nat x < 10 ^ length x" using that(2) by (simp add: canonical_def numeric_def read_nat_less)
    also have "(10::nat) ^ length x \<le> 10 ^ (length y - 1)" using that(1) by (simp add: power_increasing)
    also have "\<dots> \<le> read_nat y" by (rule canonical_lower [OF that(3) \<open>y \<noteq> ''0''\<close>])
    finally show ?thesis .
  qed
  show ?thesis
  proof (cases "length a = length b")
    case True
    then show ?thesis using assms by (simp add: older_def canonical_def numeric_def text_less_read)
  next
    case False
    then consider "length a < length b" | "length b < length a" by linarith
    then show ?thesis
      by cases (use short [of a b] short [of b a] assms in \<open>auto simp: older_def\<close>)
  qed
qed

lemma text_less_linear: "length a = length b \<Longrightarrow> text_less a b \<or> a = b \<or> text_less b a"
proof (induction a b rule: list_induct2)
  case (Cons x xs y ys)
  have "x = y \<or> (of_char x :: nat) < of_char y \<or> (of_char y :: nat) < of_char x"
    using linorder_less_linear of_char_eq_iff by metis
  with Cons.IH show ?case by auto
qed simp

lemma canonical_inject:
  assumes "canonical a" "canonical b" "read_nat a = read_nat b"
  shows "a = b"
proof -
  have "\<not> older a b" "\<not> older b a" using assms by (simp_all add: older_read)
  then show ?thesis using text_less_linear [of a b] by (auto simp: older_def split: if_splits)
qed

lemma canon_canonical:
  assumes "list_all is_digit d"
  shows "canonical (canon d)" "read_nat (canon d) = read_nat d"
proof -
  define d' where "d' = dropWhile (\<lambda>c. c = CHR ''0'') d"
  have c: "canon d = (if d' = [] then ''0'' else d')" by (simp add: canon_def d'_def)
  have "list_all is_digit d'" using assms set_dropWhileD by (fastforce simp: list_all_iff d'_def)
  moreover have "d' \<noteq> [] \<Longrightarrow> hd d' \<noteq> CHR ''0''"
    using hd_dropWhile [of "\<lambda>c. c = CHR ''0''" d] by (simp add: d'_def)
  ultimately show "canonical (canon d)"
    unfolding c canonical_def numeric_def by (simp add: is_digit_def)
  have "read_nat d' = read_nat d"
    unfolding d'_def by (induction d) (simp_all add: read_nat_cons digit_value_def)
  moreover have "read_nat ''0'' = 0" by (simp add: read_nat_def digit_value_def)
  ultimately show "read_nat (canon d) = read_nat d" unfolding c by (cases "d' = []") simp_all
qed

lemma show_nat_canonical: "canonical (show_nat n)"
proof (induction n rule: show_nat.induct)
  case (1 n)
  show ?case
  proof (cases "n < 10")
    case True
    have "digit_char 0 = CHR ''0''" by code_simp
    then have "digit_char n = CHR ''0''" if "n = 0" using that by simp
    moreover have "digit_char n \<noteq> CHR ''0''" if "n \<noteq> 0"
    proof
      assume "digit_char n = CHR ''0''"
      then have "digit_value (digit_char n) = 0" by (simp add: digit_value_def)
      with that True show False by simp
    qed
    ultimately show ?thesis using True by (subst show_nat.simps) (auto simp: canonical_def numeric_def)
  next
    case False
    have "show_nat (n div 10) \<noteq> ''0''"
    proof
      assume "show_nat (n div 10) = ''0''"
      then have "n div 10 = read_nat ''0''" by (metis read_show_nat)
      with False show False by (simp add: read_nat_def digit_value_def)
    qed
    moreover have "canonical (show_nat (n div 10))" using 1 False by simp
    ultimately have "hd (show_nat (n div 10)) \<noteq> CHR ''0''" by (simp add: canonical_def)
    with False show ?thesis
      by (subst show_nat.simps) (simp add: canonical_def numeric_def show_nat_digits)
  qed
qed

lemma canon_show_nat [simp]: "canon (show_nat n) = show_nat n"
  using canonical_inject canon_canonical [OF show_nat_digits(1)] show_nat_canonical by simp

end
