(* ===== verification/Admin_Control.thy ===== *)
theory Admin_Control
  imports Digits Identity Trust
begin

text \<open>
  An administrator's control of one agent, its freeze and its trust cap: the fence scripts of
  \<open>norviq/engine/cache.py\<close> that the API's writers share in Redis, and the endpoints of
  \<open>norviq/api/routers/agents.py\<close> that write the registry row and, through the fence, the live state.
  The scripts are executed atomically by Redis; here they act on the four keys of the agent. Expiry of
  the owner key is a loss of that key. Commands of other writers, late ones included, are lists of
  commands that land before a store call of the request or while its registry commit runs, and each
  store call is answered, applied without an answer, or cut off before it is applied.
\<close>

section \<open>The agent's keys\<close>

record control_store =
  cs_owner :: "string option"
  cs_frozen :: "string option"
  cs_override :: "string option"
  cs_trust :: "string option"

text \<open>\<open>_CLAIM_LUA\<close>: an owner value is \<open>L\<close> or \<open>L:S\<close>, both strings of digits.\<close>

definition match_stolen :: "string \<Rightarrow> (string \<times> string) option" where
  "match_stolen cur =
     (let l = takeWhile is_digit cur in
      case dropWhile is_digit cur of
        c # s \<Rightarrow> if c = CHR '':'' \<and> l \<noteq> [] \<and> numeric s then Some (l, s) else None
      | [] \<Rightarrow> None)"

definition owner_state :: "string option \<Rightarrow> string \<times> nat" where
  "owner_state cur =
     (case cur of
        None \<Rightarrow> (''0'', 0)
      | Some c \<Rightarrow>
          (case match_stolen c of
             Some (l, s) \<Rightarrow> if length s \<le> 9 then (canon l, read_nat s) else (''0'', 0)
           | None \<Rightarrow> if numeric c then (canon c, 0) else (''0'', 0)))"

definition claim_lua :: "string \<Rightarrow> control_store \<Rightarrow> string option \<times> control_store" where
  "claim_lua token st =
     (let (last, stolen) = owner_state (cs_owner st);
          take = (\<lambda>v. (Some v, st\<lparr>cs_owner := Some v\<rparr>))
      in if token = '''' then take (last @ '':'' @ show_nat (stolen + 1))
         else if numeric token then
           (let t = canon token
            in if older t last \<or> (t = last \<and> 0 < stolen) then (None, st) else take t)
         else take token)"

definition fence_applied :: int where "fence_applied = 1"
definition fence_lost :: int where "fence_lost = 0"
definition fence_missing :: int where "fence_missing = - 1"

definition fenced_control_lua ::
  "string \<Rightarrow> string \<Rightarrow> string \<Rightarrow> string \<Rightarrow> control_store \<Rightarrow> int \<times> control_store" where
  "fenced_control_lua token frozen cap display st =
     (case cs_owner st of
        None \<Rightarrow> (- 1, st)
      | Some owner \<Rightarrow>
          if owner \<noteq> token then (0, st)
          else (1, st\<lparr>cs_frozen := if frozen = ''1'' then Some ''1'' else None,
                     cs_override := if cap \<noteq> '''' then Some cap else None,
                     cs_trust := if display \<noteq> '''' then Some display else cs_trust st\<rparr>))"

definition fenced_warm_lua :: "string \<Rightarrow> string \<Rightarrow> string \<Rightarrow> control_store \<Rightarrow> int \<times> control_store" where
  "fenced_warm_lua token frozen cap st =
     (case cs_owner st of
        None \<Rightarrow> (- 1, st)
      | Some owner \<Rightarrow>
          if owner \<noteq> token then (0, st)
          else if frozen = ''1'' then (1, st\<lparr>cs_frozen := Some ''1''\<rparr>)
          else if cap \<noteq> '''' then (1, st\<lparr>cs_override := Some cap\<rparr>)
          else (1, st))"

text \<open>How the cache calls them: Python's text of a float, and the displayed score as JSON, are arguments.\<close>

definition claim_admin_trust_owner :: "nat option \<Rightarrow> control_store \<Rightarrow> string option \<times> control_store" where
  "claim_admin_trust_owner token = claim_lua (case token of None \<Rightarrow> '''' | Some t \<Rightarrow> show_nat t)"

definition frozen_arg :: "bool \<Rightarrow> string" where
  "frozen_arg frozen = (if frozen then ''1'' else ''0'')"

definition cap_arg :: "(rat \<Rightarrow> string) \<Rightarrow> rat option \<Rightarrow> string" where
  "cap_arg show_float cap = (case cap of None \<Rightarrow> '''' | Some c \<Rightarrow> show_float c)"

definition apply_admin_trust_control_if_owner ::
  "(rat \<Rightarrow> string) \<Rightarrow> string \<Rightarrow> bool \<Rightarrow> rat option \<Rightarrow> string \<Rightarrow> control_store \<Rightarrow> int \<times> control_store" where
  "apply_admin_trust_control_if_owner show_float token frozen cap display =
     fenced_control_lua token (frozen_arg frozen) (cap_arg show_float cap) display"

text \<open>
  The boot warm of a batch: every pending agent is claimed, then every pending agent's freeze or cap is
  added through the fence, for at most \<open>rounds\<close> rounds.
\<close>

type_synonym control_stores = "ucs \<Rightarrow> control_store"

definition on_agent :: "ucs \<Rightarrow> (control_store \<Rightarrow> 'a \<times> control_store) \<Rightarrow> control_stores \<Rightarrow> 'a \<times> control_stores" where
  "on_agent i f sts = (case f (sts i) of (x, st) \<Rightarrow> (x, sts(i := st)))"

definition warm_claims :: "nat \<Rightarrow> (ucs \<times> bool \<times> rat option) list \<Rightarrow> control_stores \<Rightarrow> control_stores" where
  "warm_claims token es sts = fold (\<lambda>(i, _) s. snd (on_agent i (claim_admin_trust_owner (Some token)) s)) es sts"

fun warm_adds ::
  "(rat \<Rightarrow> string) \<Rightarrow> nat \<Rightarrow> (ucs \<times> bool \<times> rat option) list \<Rightarrow> control_stores \<Rightarrow> int list \<times> control_stores" where
  "warm_adds show_float token [] sts = ([], sts)"
| "warm_adds show_float token ((i, frozen, cap) # es) sts =
     (case on_agent i (fenced_warm_lua (show_nat token) (frozen_arg frozen) (cap_arg show_float cap)) sts of
        (r, sts1) \<Rightarrow> (case warm_adds show_float token es sts1 of (rs, sts2) \<Rightarrow> (r # rs, sts2)))"

fun merge_outcomes :: "int list \<Rightarrow> int list \<Rightarrow> int list" where
  "merge_outcomes [] _ = []"
| "merge_outcomes (x # xs) rs =
     (if x = fence_applied then x # merge_outcomes xs rs
      else case rs of [] \<Rightarrow> x # merge_outcomes xs [] | r # rs' \<Rightarrow> r # merge_outcomes xs rs')"

fun warm_rounds ::
  "(rat \<Rightarrow> string) \<Rightarrow> nat \<Rightarrow> nat \<Rightarrow> (ucs \<times> bool \<times> rat option) list \<Rightarrow> int list \<Rightarrow> control_stores
   \<Rightarrow> int list \<times> control_stores" where
  "warm_rounds show_float token 0 es outcomes sts = (outcomes, sts)"
| "warm_rounds show_float token (Suc n) es outcomes sts =
     (let pending = map fst (filter (\<lambda>(_, x). x \<noteq> fence_applied) (zip es outcomes))
      in if pending = [] then (outcomes, sts)
         else case warm_adds show_float token pending (warm_claims token pending sts) of
           (rs, sts') \<Rightarrow> warm_rounds show_float token n es (merge_outcomes outcomes rs) sts')"

definition warm_admin_trust_controls ::
  "(rat \<Rightarrow> string) \<Rightarrow> nat \<Rightarrow> (ucs \<times> bool \<times> rat option) list \<Rightarrow> control_stores \<Rightarrow> int list \<times> control_stores" where
  "warm_admin_trust_controls show_float token es sts =
     warm_rounds show_float token 3 es (replicate (length es) fence_lost) sts"

section \<open>The registry row\<close>

record registry_row =
  rr_namespace :: ucs
  rr_agent_class :: ucs
  rr_trust_score :: rat
  rr_trust_category :: string
  rr_violation_count :: int
  rr_last_seen :: time
  rr_frozen :: bool
  rr_trust_cap :: "rat option"

fun after_segment :: "ucs \<Rightarrow> ucs list \<Rightarrow> ucs option" where
  "after_segment k (x # y # ys) = (if x = k then Some y else after_segment k (y # ys))"
| "after_segment k _ = None"

definition namespace_from_spiffe :: "ucs \<Rightarrow> ucs option" where
  "namespace_from_spiffe s = after_segment (code_points ''ns'') (split_at slash s)"

definition class_from_spiffe :: "ucs \<Rightarrow> ucs option" where
  "class_from_spiffe s =
     (case after_segment (code_points ''sa'') (split_at slash s) of
        Some p \<Rightarrow> if p \<noteq> [] then Some p else None
      | None \<Rightarrow> None)"

definition registry_control :: "registry_row option \<Rightarrow> bool \<times> rat option" where
  "registry_control row = (case row of None \<Rightarrow> (False, None) | Some r \<Rightarrow> (rr_frozen r, rr_trust_cap r))"

fun is_tightening :: "bool \<times> rat option \<Rightarrow> bool \<times> rat option \<Rightarrow> bool" where
  "is_tightening (prior_frozen, prior_cap) (new_frozen, new_cap) =
     (if new_frozen then True
      else if prior_frozen then False
      else case new_cap of
          None \<Rightarrow> prior_cap = None
        | Some c \<Rightarrow> (case prior_cap of None \<Rightarrow> True | Some p \<Rightarrow> c \<le> p))"

definition persist_trust_control ::
  "ucs \<Rightarrow> time \<Rightarrow> bool \<Rightarrow> rat option \<Rightarrow> rat \<Rightarrow> registry_row option \<Rightarrow> registry_row option" where
  "persist_trust_control spiffe now frozen cap score row =
     (if frozen \<or> cap \<noteq> None then
        (case row of
           Some r \<Rightarrow> Some (r\<lparr>rr_frozen := frozen, rr_trust_cap := cap\<rparr>)
         | None \<Rightarrow> Some
             \<lparr>rr_namespace = take 255 (case namespace_from_spiffe spiffe of
                  Some n \<Rightarrow> if n = [] then code_points ''default'' else n | None \<Rightarrow> code_points ''default''),
              rr_agent_class = take 255 (case class_from_spiffe spiffe of Some c \<Rightarrow> c | None \<Rightarrow> []),
              rr_trust_score = score,
              rr_trust_category = (if frozen then ''Frozen'' else if 7/10 \<le> score then ''High''
                else if 4/10 \<le> score then ''Medium'' else ''Low''),
              rr_violation_count = 0, rr_last_seen = now, rr_frozen = frozen, rr_trust_cap = cap\<rparr>)
      else map_option (\<lambda>r. r\<lparr>rr_frozen := False, rr_trust_cap := None\<rparr>) row)"

section \<open>One admin request\<close>

text \<open>Commands of other writers, with the arguments their scripts get.\<close>

datatype admin_cmd = Claim "nat option" | Control string string string string | Warm string string string

fun run_cmd :: "admin_cmd \<Rightarrow> control_store \<Rightarrow> control_store" where
  "run_cmd (Claim t) st = snd (claim_admin_trust_owner t st)"
| "run_cmd (Control token frozen cap display) st = snd (fenced_control_lua token frozen cap display st)"
| "run_cmd (Warm token frozen cap) st = snd (fenced_warm_lua token frozen cap st)"

definition run_cmds :: "admin_cmd list \<Rightarrow> control_store \<Rightarrow> control_store" where
  "run_cmds cmds st = fold run_cmd cmds st"

datatype fate = Answered | Unanswered | Cut_off

datatype lock_outcome = Lock_granted | Lock_contended | Lock_unavailable

text \<open>What the database does with the request, and what lands in the store while the registry commits.\<close>

record request_db =
  rq_lock :: lock_outcome
  rq_read :: bool
  rq_token :: bool
  rq_execute :: bool
  rq_commit :: fate
  rq_meanwhile :: "admin_cmd list"
  rq_now :: time

record admin_world =
  aw_store :: control_store
  aw_row :: "registry_row option"
  aw_seq :: nat
  aw_turns :: "(admin_cmd list \<times> fate) list"
  aw_connected :: "bool list"

text \<open>One call of the store under its time bound; \<open>None\<close> is the exception of a call without an answer.\<close>

definition store_call :: "(control_store \<Rightarrow> 'a \<times> control_store) \<Rightarrow> admin_world \<Rightarrow> 'a option \<times> admin_world" where
  "store_call f w =
     (let (cmds, fate, rest) = (case aw_turns w of [] \<Rightarrow> ([], Answered, []) | (c, x) # ts \<Rightarrow> (c, x, ts));
          st = run_cmds cmds (aw_store w)
      in case fate of
           Answered \<Rightarrow> (Some (fst (f st)), w\<lparr>aw_store := snd (f st), aw_turns := rest\<rparr>)
         | Unanswered \<Rightarrow> (None, w\<lparr>aw_store := snd (f st), aw_turns := rest\<rparr>)
         | Cut_off \<Rightarrow> (None, w\<lparr>aw_store := st, aw_turns := rest\<rparr>))"

definition still_connected :: "admin_world \<Rightarrow> bool \<times> admin_world" where
  "still_connected w =
     (case aw_connected w of [] \<Rightarrow> (True, w) | b # bs \<Rightarrow> (b, w\<lparr>aw_connected := bs\<rparr>))"

definition fence_token :: "request_db \<Rightarrow> admin_world \<Rightarrow> nat option \<times> admin_world" where
  "fence_token rq w =
     (if rq_token rq then (Some (aw_seq w + 1), w\<lparr>aw_seq := aw_seq w + 1\<rparr>) else (None, w))"

text \<open>Claim and write through the fence; the outcome is \<open>None\<close> while no script has answered.\<close>

fun fenced_write ::
  "(rat \<Rightarrow> string) \<Rightarrow> nat \<Rightarrow> bool \<Rightarrow> nat option \<Rightarrow> bool \<Rightarrow> rat option \<Rightarrow> string \<Rightarrow> int option \<Rightarrow> admin_world
   \<Rightarrow> int option \<times> admin_world" where
  "fenced_write show_float 0 has_conn token frozen cap display outcome w = (outcome, w)"
| "fenced_write show_float (Suc attempts) has_conn token frozen cap display outcome w =
     (let (alive, w0) = (if has_conn then still_connected w else (True, w))
      in if \<not> alive then (outcome, w0)
         else case store_call (claim_admin_trust_owner token) w0 of
           (None, w1) \<Rightarrow> fenced_write show_float attempts has_conn token frozen cap display None w1
         | (Some None, w1) \<Rightarrow> (Some fence_lost, w1)
         | (Some (Some claimed), w1) \<Rightarrow>
             (case store_call (apply_admin_trust_control_if_owner show_float claimed frozen cap display) w1 of
                (None, w2) \<Rightarrow> fenced_write show_float attempts has_conn token frozen cap display None w2
              | (Some x, w2) \<Rightarrow>
                  if x = fence_applied \<or> x = fence_lost then (Some x, w2)
                  else fenced_write show_float attempts has_conn token frozen cap display (Some x) w2))"

text \<open>The registry write and its commit: acknowledged or not, and if not, effective or not.\<close>

definition persist_and_commit ::
  "request_db \<Rightarrow> ucs \<Rightarrow> bool \<Rightarrow> rat option \<Rightarrow> rat \<Rightarrow> admin_world \<Rightarrow> bool \<times> admin_world" where
  "persist_and_commit rq spiffe frozen cap score w =
     (let w' = w\<lparr>aw_store := run_cmds (rq_meanwhile rq) (aw_store w)\<rparr>;
          done = w'\<lparr>aw_row := persist_trust_control spiffe (rq_now rq) frozen cap score (aw_row w')\<rparr>
      in case rq_commit rq of Answered \<Rightarrow> (True, done) | Unanswered \<Rightarrow> (False, done) | Cut_off \<Rightarrow> (False, w'))"

datatype trust_answer =
    Trust_updated rat string
  | Not_admin
  | Invalid_agent_id
  | Freeze_live_not_persisted
  | Change_not_applied
  | Refused_newer_change
  | Live_maybe_not_persisted
  | Unconfirmed_refused
  | Unconfirmed
  | Persisted_refused
  | Persisted_unconfirmed
  | Registry_unconfirmed

text \<open>The schema of a displayed score (\<open>TrustScore\<close> of \<open>norviq/sdk/core/trust.py\<close>).\<close>

definition display_category :: "rat \<Rightarrow> string \<Rightarrow> rat \<Rightarrow> string" where
  "display_category threshold category score =
     (if category \<noteq> '''' then category
      else if threshold \<le> round4 score then ''High'' else if 4/10 \<le> round4 score then ''Medium'' else ''Low'')"

record admin_env =
  ae_show_float :: "rat \<Rightarrow> string"
  ae_read_float :: "string \<Rightarrow> rat option"
  ae_dump :: "rat \<Rightarrow> string \<Rightarrow> string"
  ae_threshold :: rat

text \<open>\<open>None\<close> is the exception of a registry that cannot be used: nothing was written.\<close>

definition tighten ::
  "admin_env \<Rightarrow> request_db \<Rightarrow> ucs \<Rightarrow> bool \<Rightarrow> rat option \<Rightarrow> rat \<Rightarrow> string \<Rightarrow> trust_answer \<Rightarrow> admin_world
   \<Rightarrow> trust_answer option \<times> admin_world" where
  "tighten ae rq spiffe frozen cap score display ok w =
     (case fence_token rq w of
        (None, w0) \<Rightarrow> (None, w0)
      | (Some token, w0) \<Rightarrow>
          (case fenced_write (ae_show_float ae) 2 True (Some token) frozen cap display None w0 of
             (outcome, w1) \<Rightarrow>
               let live = (outcome = Some fence_applied); refused = (outcome = Some fence_lost)
               in case persist_and_commit rq spiffe frozen cap score w1 of
                    (False, w2) \<Rightarrow>
                      (case (if frozen \<and> \<not> live
                             then fenced_write (ae_show_float ae) 2 False None True None display None w2
                             else (outcome, w2)) of
                         (stolen, w3) \<Rightarrow>
                           (Some (if live \<or> (frozen \<and> stolen = Some fence_applied) then Live_maybe_not_persisted
                              else if refused then Unconfirmed_refused else Unconfirmed), w3))
                  | (True, w2) \<Rightarrow>
                      (Some (if live then ok else if refused then Persisted_refused else Persisted_unconfirmed), w2)))"

definition loosen ::
  "admin_env \<Rightarrow> request_db \<Rightarrow> ucs \<Rightarrow> bool \<Rightarrow> rat option \<Rightarrow> rat \<Rightarrow> string \<Rightarrow> trust_answer \<Rightarrow> admin_world
   \<Rightarrow> trust_answer \<times> admin_world" where
  "loosen ae rq spiffe frozen cap score display ok w =
     (case fence_token rq w of
        (None, w0) \<Rightarrow> (Change_not_applied, w0)
      | (Some token, w0) \<Rightarrow>
          (case store_call (claim_admin_trust_owner (Some token)) w0 of
             (None, w1) \<Rightarrow> (Change_not_applied, w1)
           | (Some None, w1) \<Rightarrow> (Refused_newer_change, w1)
           | (Some (Some claimed), w1) \<Rightarrow>
               (case persist_and_commit rq spiffe frozen cap score w1 of
                  (False, w2) \<Rightarrow> (Registry_unconfirmed, w2)
                | (True, w2) \<Rightarrow>
                    (case store_call (apply_admin_trust_control_if_owner (ae_show_float ae) (show_nat token)
                            frozen cap display) w2 of
                       (x, w3) \<Rightarrow>
                         (case (if x \<noteq> Some fence_applied \<and> x \<noteq> Some fence_lost
                                then (case still_connected w3 of
                                    (True, w4) \<Rightarrow>
                                      fenced_write (ae_show_float ae) 1 True (Some token) frozen cap display None w4
                                  | (False, w4) \<Rightarrow> (x, w4))
                                else (x, w3)) of
                            (outcome, w5) \<Rightarrow>
                              (if outcome = Some fence_applied then ok
                               else if outcome = Some fence_lost then Persisted_refused
                               else Persisted_unconfirmed, w5))))))"

definition update_trust ::
  "admin_env \<Rightarrow> request_db \<Rightarrow> bool \<Rightarrow> ucs \<Rightarrow> rat \<Rightarrow> admin_world \<Rightarrow> trust_answer \<times> admin_world" where
  "update_trust ae rq admin spiffe score w =
     (let frozen = (score = 0);
          cap = (if 0 < score \<and> score < 1 then Some score else None);
          category = display_category (ae_threshold ae) (if frozen then ''frozen'' else '''') score;
          display = ae_dump ae (round4 score) category;
          ok = Trust_updated (round4 score) (lower category);
          no_registry = (\<lambda>w.
            if frozen then
              (case fenced_write (ae_show_float ae) 2 False None True None display None w of
                 (outcome, w') \<Rightarrow>
                   (if outcome = Some fence_applied then Freeze_live_not_persisted else Change_not_applied, w'))
            else (Change_not_applied, w))
      in if \<not> admin then (Not_admin, w)
         else if \<not> is_controllable_spiffe_id spiffe then (Invalid_agent_id, w)
         else if rq_lock rq \<noteq> Lock_granted \<or> \<not> rq_read rq then no_registry w
         else if is_tightening (registry_control (aw_row w)) (frozen, cap)
         then (case tighten ae rq spiffe frozen cap score display ok w of
                 (None, w') \<Rightarrow> no_registry w'
               | (Some a, w') \<Rightarrow> (a, w'))
         else loosen ae rq spiffe frozen cap score display ok w)"

text \<open>
  Removing an agent: refused while the row or the live keys carry a control. The row cannot gain a
  control between the read and the delete, both of which happen under the agent's lock.
\<close>

datatype delete_answer =
    Deleted ucs
  | Delete_not_admin
  | Delete_invalid_id
  | Not_found
  | Under_control bool
  | Delete_busy
  | Delete_unconfirmed
  | Not_deleted

definition live_control :: "admin_env \<Rightarrow> admin_world \<Rightarrow> (bool \<times> rat option) option \<times> admin_world" where
  "live_control ae w =
     (case store_call (\<lambda>st. (cs_frozen st, st)) w of
        (None, w1) \<Rightarrow> (None, w1)
      | (Some frozen, w1) \<Rightarrow>
          (case store_call (\<lambda>st. (cs_override st, st)) w1 of
             (None, w2) \<Rightarrow> (None, w2)
           | (Some None, w2) \<Rightarrow> (Some (frozen \<noteq> None \<and> frozen \<noteq> Some '''', None), w2)
           | (Some (Some cap), w2) \<Rightarrow>
               (map_option (\<lambda>c. (frozen \<noteq> None \<and> frozen \<noteq> Some '''', Some c)) (ae_read_float ae cap), w2)))"

definition deregister_agent ::
  "admin_env \<Rightarrow> request_db \<Rightarrow> bool \<Rightarrow> ucs \<Rightarrow> admin_world \<Rightarrow> delete_answer \<times> admin_world" where
  "deregister_agent ae rq admin spiffe w =
     (if \<not> admin then (Delete_not_admin, w)
      else if \<not> is_controllable_spiffe_id spiffe then (Delete_invalid_id, w)
      else case rq_lock rq of
        Lock_contended \<Rightarrow> (Delete_busy, w)
      | Lock_unavailable \<Rightarrow> (Not_deleted, w)
      | Lock_granted \<Rightarrow>
          if \<not> rq_read rq then (Not_deleted, w)
          else case aw_row w of
              None \<Rightarrow> (Not_found, w)
            | Some row \<Rightarrow>
                (case live_control ae w of
                   (None, w1) \<Rightarrow> (Not_deleted, w1)
                 | (Some (live_frozen, live_cap), w1) \<Rightarrow>
                     let frozen = rr_frozen row \<or> live_frozen;
                         capped = rr_trust_cap row \<noteq> None \<or> live_cap \<noteq> None
                     in if frozen \<or> capped then (Under_control frozen, w1)
                        else if \<not> rq_execute rq then (Not_deleted, w1)
                        else (case rq_commit rq of
                            Answered \<Rightarrow> (Deleted (rr_namespace row), w1\<lparr>aw_row := None\<rparr>)
                          | Unanswered \<Rightarrow> (Delete_unconfirmed, w1\<lparr>aw_row := None\<rparr>)
                          | Cut_off \<Rightarrow> (Delete_unconfirmed, w1))))"

end
