(* ===== verification/Admin_Control_Props.thy ===== *)
theory Admin_Control_Props
  imports Admin_Control
begin

text \<open>
  Correctness of the admin controls: the fence lets no older or superseded writer land over a newer
  one, freezes that steal it cannot starve later writers, and what each answer of the endpoint says
  about the registry and the live state is true, whatever fails or lands late.
\<close>

section \<open>Owner values\<close>

text \<open>The value of the owner key after token \<open>u\<close> claimed and \<open>n\<close> freezes stole the fence since.\<close>

definition owner_of :: "nat \<Rightarrow> nat \<Rightarrow> string" where
  "owner_of u n = (if n = 0 then show_nat u else show_nat u @ '':'' @ show_nat n)"

lemma owner_of_0 [simp]: "owner_of u 0 = show_nat u"
  by (simp add: owner_of_def)

lemma colon_not_digit [simp]: "\<not> is_digit CHR '':''"
  by (simp add: is_digit_def)

lemma show_nat_While [simp]:
  "takeWhile is_digit (show_nat n) = show_nat n" "dropWhile is_digit (show_nat n) = []"
  "takeWhile is_digit (show_nat n @ CHR '':'' # s) = show_nat n"
  "dropWhile is_digit (show_nat n @ CHR '':'' # s) = CHR '':'' # s"
proof -
  have "\<forall>c \<in> set (show_nat n). is_digit c" using show_nat_digits(1) [of n] by (simp add: list_all_iff)
  then show "takeWhile is_digit (show_nat n) = show_nat n" "dropWhile is_digit (show_nat n) = []"
    "takeWhile is_digit (show_nat n @ CHR '':'' # s) = show_nat n"
    "dropWhile is_digit (show_nat n @ CHR '':'' # s) = CHR '':'' # s"
    by (simp_all add: takeWhile_append2 dropWhile_append2)
qed

lemma show_nat_length: "n < 10 ^ k \<Longrightarrow> 0 < k \<Longrightarrow> length (show_nat n) \<le> k"
proof (rule ccontr)
  assume n: "n < 10 ^ k" and k: "0 < k" and "\<not> length (show_nat n) \<le> k"
  then have long: "k \<le> length (show_nat n) - 1" "show_nat n \<noteq> ''0''" by auto
  have "(10::nat) ^ k \<le> 10 ^ (length (show_nat n) - 1)" using long(1) by (simp add: power_increasing)
  also have "\<dots> \<le> n" using canonical_lower [OF show_nat_canonical long(2)] by simp
  finally show False using n by simp
qed

lemma show_nat_no_colon: "CHR '':'' \<notin> set (show_nat n)"
  using numeric_free [OF show_nat_digits(1)] by simp

lemma owner_of_inject: "owner_of u n = owner_of v m \<longleftrightarrow> u = v \<and> n = m"
proof -
  have "show_nat u \<noteq> show_nat v @ CHR '':'' # s" for u v s
    using show_nat_no_colon [of u] by (metis in_set_conv_decomp)
  moreover have "show_nat u @ CHR '':'' # show_nat n = show_nat v @ CHR '':'' # show_nat m \<longleftrightarrow> u = v \<and> n = m"
    using append_Cons_eq_iff [of "CHR '':''" "show_nat u" "show_nat n" "show_nat v" "show_nat m"]
      show_nat_no_colon by auto
  ultimately show ?thesis by (auto simp: owner_of_def) metis+
qed

lemma owner_state_owner_of:
  assumes "n < 10 ^ 9"
  shows "owner_state (Some (owner_of u n)) = (show_nat u, n)"
proof (cases "n = 0")
  case True
  then show ?thesis by (simp add: owner_state_def match_stolen_def)
next
  case False
  have "length (show_nat n) \<le> 9" by (rule show_nat_length) (use assms in simp_all)
  with False show ?thesis
    by (simp add: owner_state_def match_stolen_def owner_of_def show_nat_digits(2))
qed

lemma older_show [simp]: "older (show_nat t) (show_nat u) \<longleftrightarrow> t < u"
  using older_read show_nat_canonical by simp

lemma show_nat_not_empty [simp]: "show_nat n \<noteq> []" "[] \<noteq> show_nat n"
  using show_nat_digits(2) by metis+

text \<open>What a claim does to such an owner.\<close>

lemma claim_owned:
  assumes "cs_owner st = Some (owner_of u n)" "n < 10 ^ 9"
  shows "claim_admin_trust_owner None st = (Some (owner_of u (Suc n)), st\<lparr>cs_owner := Some (owner_of u (Suc n))\<rparr>)"
    and "claim_admin_trust_owner (Some t) st =
      (if t < u \<or> (t = u \<and> 0 < n) then (None, st) else (Some (show_nat t), st\<lparr>cs_owner := Some (show_nat t)\<rparr>))"
  using assms owner_state_owner_of [OF assms(2), of u]
  by (auto simp: claim_admin_trust_owner_def claim_lua_def owner_of_def Let_def)

section \<open>What may land after an acknowledged write\<close>

definition held :: "string \<Rightarrow> string \<Rightarrow> control_store \<Rightarrow> bool" where
  "held frozen cap st \<longleftrightarrow>
     cs_frozen st = (if frozen = ''1'' then Some ''1'' else None)
     \<and> cs_override st = (if cap \<noteq> '''' then Some cap else None)"

text \<open>
  Commands that can still arrive once token \<open>u\<close> wrote the control \<open>(frozen, cap)\<close> and no later lock
  holder exists: claims and writes of older tokens, repetitions of the writer's own, and freezes that
  steal the fence, with the writes they make under what the steal returned.
\<close>

fun late :: "nat \<Rightarrow> string \<Rightarrow> string \<Rightarrow> admin_cmd \<Rightarrow> bool" where
  "late u frozen cap (Claim None) = True"
| "late u frozen cap (Claim (Some t)) = (t \<le> u)"
| "late u frozen cap (Control token f c _) =
     ((\<exists>t < u. token = show_nat t) \<or> (token = show_nat u \<and> f = frozen \<and> c = cap)
      \<or> (\<exists>l n. token = owner_of l (Suc n) \<and> f = ''1'' \<and> c = ''''))"
| "late u frozen cap (Warm token _ _) = (\<exists>t < u. token = show_nat t)"

definition fence_inv :: "nat \<Rightarrow> string \<Rightarrow> string \<Rightarrow> nat \<Rightarrow> control_store \<Rightarrow> bool" where
  "fence_inv u frozen cap n st \<longleftrightarrow>
     cs_owner st = Some (owner_of u n) \<and> (held frozen cap st \<or> (0 < n \<and> cs_frozen st = Some ''1''))"

lemma late_step:
  assumes "fence_inv u frozen cap n st" "late u frozen cap cmd" "n < 10 ^ 9"
  shows "fence_inv u frozen cap (if cmd = Claim None then Suc n else n) (run_cmd cmd st)"
proof (cases cmd)
  case (Claim t)
  with assms show ?thesis
    using claim_owned [of st u n] by (cases t) (auto simp: fence_inv_def held_def)
next
  case (Control token f c disp)
  have own: "cs_owner st = Some (owner_of u n)" using assms(1) by (simp add: fence_inv_def)
  have "token = show_nat t \<Longrightarrow> t < u \<Longrightarrow> owner_of u n \<noteq> token" for t
    using owner_of_inject [of u n t 0] by simp
  moreover have "token = show_nat u \<Longrightarrow> owner_of u n = token \<longleftrightarrow> n = 0"
    using owner_of_inject [of u n u 0] by simp
  moreover have "token = owner_of l (Suc m) \<Longrightarrow> owner_of u n = token \<Longrightarrow> 0 < n" for l m
    by (simp add: owner_of_inject)
  ultimately show ?thesis
    using assms(1,2) own Control by (auto simp: fence_inv_def held_def fenced_control_lua_def)
next
  case (Warm token f c)
  then obtain t where "t < u" "token = show_nat t" using assms(2) by auto
  then have "owner_of u n \<noteq> token" using owner_of_inject [of u n t 0] by simp
  then show ?thesis using assms(1) Warm by (auto simp: fence_inv_def fenced_warm_lua_def)
qed

lemma late_run:
  assumes "fence_inv u frozen cap n st" "list_all (late u frozen cap) cmds" "n + length cmds < 10 ^ 9"
  shows "fence_inv u frozen cap (n + count_list cmds (Claim None)) (run_cmds cmds st)"
  using assms
proof (induction cmds arbitrary: n st)
  case (Cons cmd cmds)
  let ?n = "if cmd = Claim None then Suc n else n"
  have "fence_inv u frozen cap ?n (run_cmd cmd st)"
    by (rule late_step) (use Cons.prems in simp_all)
  moreover have "?n + length cmds < 10 ^ 9" using Cons.prems(3) by (auto split: if_splits)
  ultimately have "fence_inv u frozen cap (?n + count_list cmds (Claim None)) (run_cmds cmds (run_cmd cmd st))"
    using Cons.IH Cons.prems(2) by simp
  then show ?case by (simp add: run_cmds_def split: if_splits)
qed (simp add: run_cmds_def)

section \<open>Writes through the fence\<close>

lemma claim_returns: "claim_admin_trust_owner (Some u) st = (Some token, st') \<Longrightarrow> token = show_nat u"
  by (auto simp: claim_admin_trust_owner_def claim_lua_def Let_def split: prod.splits if_splits)

lemma apply_applied:
  assumes "apply_admin_trust_control_if_owner show_float token frozen cap display st = (fence_applied, st')"
  shows "cs_owner st = Some token" "cs_owner st' = Some token" "held (frozen_arg frozen) (cap_arg show_float cap) st'"
  using assms
  by (auto simp: apply_admin_trust_control_if_owner_def fenced_control_lua_def fence_applied_def held_def
      split: option.splits if_splits)

lemma store_call_frame:
  "store_call f w = (x, w') \<Longrightarrow> aw_row w' = aw_row w \<and> aw_seq w' = aw_seq w"
  by (auto simp: store_call_def Let_def split: prod.splits fate.splits)

lemma store_call_Some: "store_call f w = (Some x, w') \<Longrightarrow> \<exists>st. f st = (x, aw_store w')"
  by (auto simp: store_call_def Let_def split: prod.splits fate.splits)

lemma still_connected_frame:
  "still_connected w = (b, w') \<Longrightarrow> aw_row w' = aw_row w \<and> aw_seq w' = aw_seq w \<and> aw_store w' = aw_store w"
  by (auto simp: still_connected_def split: list.splits)

text \<open>An acknowledged fenced write left the control it wrote, under the owner value it claimed.\<close>

lemma fenced_write_applied:
  assumes "fenced_write show_float k has_conn token frozen cap display outcome w = (Some fence_applied, w')"
    and "outcome \<noteq> Some fence_applied"
  shows "held (frozen_arg frozen) (cap_arg show_float cap) (aw_store w')
    \<and> (\<forall>u. token = Some u \<longrightarrow> cs_owner (aw_store w') = Some (show_nat u))"
  using assms
proof (induction k arbitrary: outcome w)
  case (Suc k)
  obtain alive w0 where a: "(if has_conn then still_connected w else (True, w)) = (alive, w0)"
    by (meson surj_pair)
  obtain c w1 where c: "store_call (claim_admin_trust_owner token) w0 = (c, w1)" by (meson surj_pair)
  note step = Suc.prems [simplified, unfolded a, simplified, unfolded c, simplified]
  have al: alive using step Suc.prems(2) by (auto split: if_splits)
  show ?case
  proof (cases c)
    case None
    with step al show ?thesis by (intro Suc.IH [of None w1]) simp_all
  next
    case (Some r)
    then obtain claimed where cl: "r = Some claimed"
      using step al by (cases r) (auto simp: fence_lost_def fence_applied_def)
    obtain x w2 where x: "store_call (apply_admin_trust_control_if_owner show_float claimed frozen cap display) w1 = (x, w2)"
      by (meson surj_pair)
    note step' = step [unfolded Some cl]
    show ?thesis
    proof (cases "x = Some fence_applied")
      case True
      then have "w' = w2" using step' al x by simp
      obtain st where "apply_admin_trust_control_if_owner show_float claimed frozen cap display st = (fence_applied, aw_store w2)"
        using store_call_Some [OF x [unfolded True]] by blast
      note ap = apply_applied [OF this]
      obtain st0 where "claim_admin_trust_owner token st0 = (Some claimed, aw_store w1)"
        using store_call_Some [OF c [unfolded Some cl]] by blast
      then have "\<forall>u. token = Some u \<longrightarrow> claimed = show_nat u" using claim_returns by blast
      with ap show ?thesis by (simp add: \<open>w' = w2\<close>)
    next
      case False
      then have "\<exists>oc. oc \<noteq> Some fence_applied
          \<and> fenced_write show_float k has_conn token frozen cap display oc w2 = (Some fence_applied, w')"
        using step' al x by (cases x) (auto simp: fence_lost_def fence_applied_def split: if_splits)
      with Suc.IH show ?thesis by blast
    qed
  qed
qed simp

lemma fenced_write_frame:
  "fenced_write show_float k has_conn token frozen cap display outcome w = (r, w') \<Longrightarrow>
     aw_row w' = aw_row w \<and> aw_seq w' = aw_seq w"
proof (induction k arbitrary: outcome w)
  case (Suc k)
  obtain alive w0 where a: "(if has_conn then still_connected w else (True, w)) = (alive, w0)"
    by (meson surj_pair)
  then have f0: "aw_row w0 = aw_row w \<and> aw_seq w0 = aw_seq w"
    using still_connected_frame by (auto split: if_splits)
  obtain c w1 where c: "store_call (claim_admin_trust_owner token) w0 = (c, w1)" by (meson surj_pair)
  note f1 = store_call_frame [OF c]
  note step = Suc.prems [simplified, unfolded a, simplified, unfolded c, simplified]
  show ?case
  proof (cases c)
    case None
    with step f0 f1 Suc.IH show ?thesis by (auto split: if_splits)
  next
    case (Some r)
    show ?thesis
    proof (cases r)
      case None
      with Some step f0 f1 show ?thesis by (auto split: if_splits)
    next
      case cl: (Some claimed)
      obtain x w2 where x: "store_call (apply_admin_trust_control_if_owner show_float claimed frozen cap display) w1 = (x, w2)"
        by (meson surj_pair)
      from step [unfolded Some cl] x store_call_frame [OF x] f0 f1 Suc.IH
      show ?thesis by (cases x) (auto split: if_splits)
    qed
  qed
qed simp

lemma acknowledged_inv:
  assumes "claim_admin_trust_owner (Some u) st = (Some token, st0)"
    and "apply_admin_trust_control_if_owner show_float token frozen cap display st1 = (fence_applied, st2)"
  shows "fence_inv u (frozen_arg frozen) (cap_arg show_float cap) 0 st2"
  using apply_applied [OF assms(2)] claim_returns [OF assms(1)] by (simp add: fence_inv_def)

lemma count_list_pos: "0 < count_list xs x \<Longrightarrow> x \<in> set xs"
  by (metis count_notin less_irrefl)

section \<open>Properties\<close>


definition empty_store :: control_store where
  "empty_store = \<lparr>cs_owner = None, cs_frozen = None, cs_override = None, cs_trust = None\<rparr>"

definition half :: "rat \<Rightarrow> string" where
  "half _ = ''0.5''"

definition frozen_by_7 :: control_store where
  "frozen_by_7 = \<lparr>cs_owner = Some (show_nat 7), cs_frozen = Some ''1'', cs_override = None, cs_trust = None\<rparr>"

lemma claimed_by_7:
  "claim_admin_trust_owner (Some 7) empty_store = (Some (show_nat 7), empty_store\<lparr>cs_owner := Some (show_nat 7)\<rparr>)"
proof -
  have "owner_state None = (show_nat 0, 0)" by code_simp
  then show ?thesis by (simp add: claim_admin_trust_owner_def claim_lua_def empty_store_def Let_def)
qed

lemma applied_by_7:
  "apply_admin_trust_control_if_owner half (show_nat 7) True None '''' (empty_store\<lparr>cs_owner := Some (show_nat 7)\<rparr>)
     = (fence_applied, frozen_by_7)"
  by (simp add: apply_admin_trust_control_if_owner_def fenced_control_lua_def fence_applied_def empty_store_def
      frozen_by_7_def frozen_arg_def cap_arg_def)




section \<open>The endpoint\<close>

text \<open>The control a request asks for.\<close>

definition asked :: "rat \<Rightarrow> bool \<times> rat option" where
  "asked score = (score = 0, if 0 < score \<and> score < 1 then Some score else None)"

definition in_force :: "admin_env \<Rightarrow> rat \<Rightarrow> control_store \<Rightarrow> bool" where
  "in_force ae score st \<longleftrightarrow>
     held (frozen_arg (fst (asked score))) (cap_arg (ae_show_float ae) (snd (asked score))) st"

definition late_for :: "admin_env \<Rightarrow> rat \<Rightarrow> admin_world \<Rightarrow> admin_cmd list \<Rightarrow> bool" where
  "late_for ae score w cmds \<longleftrightarrow> length cmds < 10 ^ 9
     \<and> list_all (late (aw_seq w + 1) (frozen_arg (fst (asked score))) (cap_arg (ae_show_float ae) (snd (asked score)))) cmds"

lemma persist_trust_control_row:
  "registry_control (persist_trust_control spiffe now (fst (asked score)) (snd (asked score)) score row) = asked score"
  by (auto simp: persist_trust_control_def registry_control_def asked_def split: option.splits)

lemma persist_and_commit_facts:
  assumes "persist_and_commit rq spiffe frozen cap score w = (b, w')"
  shows "aw_store w' = run_cmds (rq_meanwhile rq) (aw_store w)" "aw_seq w' = aw_seq w"
    and "aw_row w' \<in> {aw_row w, persist_trust_control spiffe (rq_now rq) frozen cap score (aw_row w)}"
    and "b \<Longrightarrow> aw_row w' = persist_trust_control spiffe (rq_now rq) frozen cap score (aw_row w)"
  using assms by (auto simp: persist_and_commit_def Let_def split: fate.splits)

fun live_answer :: "trust_answer \<Rightarrow> bool" where
  "live_answer (Trust_updated _ _) = True"
| "live_answer Live_maybe_not_persisted = True"
| "live_answer Freeze_live_not_persisted = True"
| "live_answer _ = False"

fun durable_answer :: "trust_answer \<Rightarrow> bool" where
  "durable_answer (Trust_updated _ _) = True"
| "durable_answer Persisted_refused = True"
| "durable_answer Persisted_unconfirmed = True"
| "durable_answer _ = False"

definition unregistered_answer :: "trust_answer \<Rightarrow> bool" where
  "unregistered_answer a \<longleftrightarrow>
     a \<in> {Not_admin, Invalid_agent_id, Change_not_applied, Refused_newer_change, Freeze_live_not_persisted}"

definition answer_true :: "admin_env \<Rightarrow> rat \<Rightarrow> admin_world \<Rightarrow> trust_answer \<Rightarrow> admin_world \<Rightarrow> bool" where
  "answer_true ae score w a w' \<longleftrightarrow>
     (live_answer a \<longrightarrow> in_force ae score (aw_store w') \<or> cs_frozen (aw_store w') = Some ''1'')
     \<and> (durable_answer a \<longrightarrow> registry_control (aw_row w') = asked score)
     \<and> (unregistered_answer a \<longrightarrow> aw_row w' = aw_row w)"

lemma steal_freezes:
  assumes "fenced_write sf k False None True None display None w = (Some fence_applied, w')"
  shows "cs_frozen (aw_store w') = Some ''1''"
  using fenced_write_applied [OF assms] by (simp add: held_def frozen_arg_def)

lemma fenced_write_in_force:
  assumes "fenced_write (ae_show_float ae) k b (Some (aw_seq w + 1)) (fst (asked score)) (snd (asked score)) display None w1
      = (Some fence_applied, w2)"
    and "late_for ae score w cmds"
  shows "in_force ae score (run_cmds cmds (aw_store w2)) \<or> cs_frozen (run_cmds cmds (aw_store w2)) = Some ''1''"
proof -
  let ?f = "frozen_arg (fst (asked score))" and ?c = "cap_arg (ae_show_float ae) (snd (asked score))"
  have "fence_inv (aw_seq w + 1) ?f ?c 0 (aw_store w2)"
    using fenced_write_applied [OF assms(1)] by (simp add: fence_inv_def)
  from late_run [OF this] show ?thesis
    using assms(2) by (auto simp: late_for_def in_force_def fence_inv_def)
qed

lemma tighten_true:
  assumes "tighten ae rq spiffe (fst (asked score)) (snd (asked score)) score display (Trust_updated x c) w = (Some a, w')"
    and "late_for ae score w (rq_meanwhile rq)"
  shows "answer_true ae score w a w'"
proof -
  obtain w0 where t: "fence_token rq w = (Some (aw_seq w + 1), w0)"
    using assms(1) by (auto simp: tighten_def fence_token_def split: if_splits)
  obtain oc w1 where f: "fenced_write (ae_show_float ae) 2 True (Some (aw_seq w + 1)) (fst (asked score))
      (snd (asked score)) display None w0 = (oc, w1)"
    by (meson surj_pair)
  obtain b w2 where p: "persist_and_commit rq spiffe (fst (asked score)) (snd (asked score)) score w1 = (b, w2)"
    by (meson surj_pair)
  note pf = persist_and_commit_facts [OF p]
  have live: "in_force ae score (aw_store w2) \<or> cs_frozen (aw_store w2) = Some ''1''" if "oc = Some fence_applied"
    using fenced_write_in_force [OF f [unfolded that] assms(2)] pf(1) by simp
  have step: "(Some a, w') = (if b
      then (Some (if oc = Some fence_applied then Trust_updated x c
          else if oc = Some fence_lost then Persisted_refused else Persisted_unconfirmed), w2)
      else case (if fst (asked score) \<and> oc \<noteq> Some fence_applied
          then fenced_write (ae_show_float ae) 2 False None True None display None w2 else (oc, w2)) of
        (st, w3) \<Rightarrow> (Some (if oc = Some fence_applied \<or> (fst (asked score) \<and> st = Some fence_applied)
            then Live_maybe_not_persisted
          else if oc = Some fence_lost then Unconfirmed_refused else Unconfirmed), w3))"
    using assms(1) p unfolding tighten_def t prod.case option.case f Let_def by (cases b) simp_all
  show ?thesis
  proof (cases b)
    case True
    with step pf(4) have "registry_control (aw_row w') = asked score"
      by (auto simp: persist_trust_control_row split: if_splits)
    with True step live show ?thesis by (auto simp: answer_true_def unregistered_answer_def split: if_splits)
  next
    case False
    obtain st w3 where steal: "(if fst (asked score) \<and> oc \<noteq> Some fence_applied
        then fenced_write (ae_show_float ae) 2 False None True None display None w2 else (oc, w2)) = (st, w3)"
      by (meson surj_pair)
    then have "cs_frozen (aw_store w3) = Some ''1''" if "fst (asked score)" "oc \<noteq> Some fence_applied" "st = Some fence_applied"
      using steal_freezes that by (auto split: if_splits)
    with False step steal live show ?thesis
      by (auto simp: answer_true_def unregistered_answer_def split: if_splits)
  qed
qed

lemma tighten_None:
  "tighten ae rq spiffe frozen cap score display ok w = (None, w') \<Longrightarrow> w' = w"
  by (auto simp: tighten_def fence_token_def Let_def split: if_splits prod.splits bool.splits)

text \<open>The store write of a loosening, with the retry under a fresh claim.\<close>

definition loosen_store ::
  "admin_env \<Rightarrow> nat \<Rightarrow> bool \<Rightarrow> rat option \<Rightarrow> string \<Rightarrow> admin_world \<Rightarrow> int option \<times> admin_world" where
  "loosen_store ae token frozen cap display w =
     (case store_call (apply_admin_trust_control_if_owner (ae_show_float ae) (show_nat token) frozen cap display) w of
        (x, w3) \<Rightarrow>
          (if x \<noteq> Some fence_applied \<and> x \<noteq> Some fence_lost
           then (case still_connected w3 of
               (True, w4) \<Rightarrow> fenced_write (ae_show_float ae) 1 True (Some token) frozen cap display None w4
             | (False, w4) \<Rightarrow> (x, w4))
           else (x, w3)))"

lemma loosen_store_applied:
  assumes "loosen_store ae token frozen cap display w = (Some fence_applied, w')"
  shows "held (frozen_arg frozen) (cap_arg (ae_show_float ae) cap) (aw_store w')"
proof -
  obtain x w3 where x: "store_call (apply_admin_trust_control_if_owner (ae_show_float ae) (show_nat token) frozen cap display) w
      = (x, w3)"
    by (meson surj_pair)
  show ?thesis
  proof (cases "x = Some fence_applied")
    case True
    then have "w' = w3" using assms x by (simp add: loosen_store_def)
    obtain st where "apply_admin_trust_control_if_owner (ae_show_float ae) (show_nat token) frozen cap display st
        = (fence_applied, aw_store w3)"
      using store_call_Some [OF x [unfolded True]] by blast
    then show ?thesis using apply_applied(3) \<open>w' = w3\<close> by simp
  next
    case False
    then obtain w4 where
      "fenced_write (ae_show_float ae) 1 True (Some token) frozen cap display None w4 = (Some fence_applied, w')"
      using assms x by (auto simp: loosen_store_def fence_lost_def fence_applied_def split: prod.splits bool.splits if_splits)
    then show ?thesis using fenced_write_applied by blast
  qed
qed

lemma loosen_store_frame:
  assumes "loosen_store ae token frozen cap display w = (x, w')"
  shows "aw_row w' = aw_row w"
  using assms
  by (auto simp: loosen_store_def simp del: fenced_write.simps One_nat_def split: prod.splits bool.splits if_splits
      dest!: store_call_frame still_connected_frame fenced_write_frame)

lemma loosen_true:
  assumes "loosen ae rq spiffe (fst (asked score)) (snd (asked score)) score display (Trust_updated x c) w = (a, w')"
  shows "answer_true ae score w a w'"
proof (cases "rq_token rq")
  case False
  with assms show ?thesis by (simp add: loosen_def fence_token_def answer_true_def unregistered_answer_def)
next
  case True
  let ?w0 = "w\<lparr>aw_seq := aw_seq w + 1\<rparr>" and ?t = "aw_seq w + 1"
  obtain cl w1 where cl: "store_call (claim_admin_trust_owner (Some ?t)) ?w0 = (cl, w1)" by (meson surj_pair)
  obtain b w2 where p: "persist_and_commit rq spiffe (fst (asked score)) (snd (asked score)) score w1 = (b, w2)"
    by (meson surj_pair)
  obtain oc w5 where st: "loosen_store ae ?t (fst (asked score)) (snd (asked score)) display w2 = (oc, w5)"
    by (meson surj_pair)
  have "(a, w') = (case cl of None \<Rightarrow> (Change_not_applied, w1) | Some None \<Rightarrow> (Refused_newer_change, w1)
      | Some (Some claimed) \<Rightarrow> if \<not> b then (Registry_unconfirmed, w2)
          else (if oc = Some fence_applied then Trust_updated x c
             else if oc = Some fence_lost then Persisted_refused else Persisted_unconfirmed, w5))"
    using assms True cl p st unfolding loosen_def loosen_store_def fence_token_def
    by (auto split: option.splits prod.splits bool.splits if_splits)
  moreover have "aw_row w1 = aw_row w" using store_call_frame [OF cl] by simp
  moreover have "registry_control (aw_row w5) = asked score" if b
    using persist_and_commit_facts(4) [OF p that] loosen_store_frame [OF st] by (simp add: persist_trust_control_row)
  moreover have "in_force ae score (aw_store w5)" if "oc = Some fence_applied"
    using loosen_store_applied [OF st [unfolded that]] by (simp add: in_force_def)
  ultimately show ?thesis
    by (auto simp: answer_true_def unregistered_answer_def split: option.splits if_splits)
qed

text \<open>A change whose calls are all answered is applied.\<close>

lemma claim_newer:
  assumes "owner_state (cs_owner st) = (show_nat u, n)" "u < t"
  shows "claim_admin_trust_owner (Some t) st = (Some (show_nat t), st\<lparr>cs_owner := Some (show_nat t)\<rparr>)"
  using assms by (simp add: claim_admin_trust_owner_def claim_lua_def Let_def)

lemma store_call_answered:
  "aw_turns w = [] \<Longrightarrow> store_call f w = (Some (fst (f (aw_store w))), w\<lparr>aw_store := snd (f (aw_store w))\<rparr>)"
  by (cases w) (simp add: store_call_def run_cmds_def)

lemma apply_owned:
  "cs_owner st = Some token \<Longrightarrow>
     \<exists>st'. apply_admin_trust_control_if_owner show_float token frozen cap display st = (fence_applied, st')
       \<and> cs_owner st' = Some token"
  by (simp add: apply_admin_trust_control_if_owner_def fenced_control_lua_def fence_applied_def)

lemma fenced_write_answered:
  assumes "aw_turns w = []" "aw_connected w = []" "owner_state (cs_owner (aw_store w)) = (show_nat u, n)" "u < t"
  shows "fst (fenced_write show_float (Suc k) has_conn (Some t) frozen cap display oc w) = Some fence_applied"
proof -
  have conn: "(if has_conn then still_connected w else (True, w)) = (True, w)"
    using assms(2) by (simp add: still_connected_def)
  obtain st where "apply_admin_trust_control_if_owner show_float (show_nat t) frozen cap display
      ((aw_store w)\<lparr>cs_owner := Some (show_nat t)\<rparr>) = (fence_applied, st)"
    using apply_owned [of "(aw_store w)\<lparr>cs_owner := Some (show_nat t)\<rparr>" "show_nat t"] by fastforce
  then show ?thesis
    using conn assms(1) claim_newer [OF assms(3,4)] by (simp add: store_call_answered)
qed

lemma freeze_succeeds:
  assumes "is_controllable_spiffe_id spiffe" "rq_lock rq = Lock_granted" "rq_read rq" "rq_token rq" "rq_commit rq = Answered"
    and "aw_turns w = []" "aw_connected w = []" "owner_state (cs_owner (aw_store w)) = (show_nat u, n)" "u \<le> aw_seq w"
  shows "fst (update_trust ae rq True spiffe 0 w) = Trust_updated 0 ''frozen''"
proof -
  let ?d = "ae_dump ae (round4 0) ''frozen''" and ?w = "w\<lparr>aw_seq := aw_seq w + 1\<rparr>"
  have "fst (fenced_write (ae_show_float ae) (Suc 1) True (Some (aw_seq w + 1)) True None ?d None ?w) = Some fence_applied"
    by (rule fenced_write_answered [where u = u and n = n]) (use assms(6-9) in \<open>auto simp: less_Suc_eq_le\<close>)
  then obtain w1 where f: "fenced_write (ae_show_float ae) 2 True (Some (aw_seq w + 1)) True None ?d None ?w
      = (Some fence_applied, w1)"
    by (metis Suc_1 prod.collapse)
  have "round4 0 = 0" by (simp add: round4_def half_even_def)
  moreover have "lower ''frozen'' = ''frozen''" by code_simp
  moreover have "is_tightening c (True, None)" for c by (cases c) simp
  ultimately show ?thesis
    using assms(1-5) f
    by (auto simp: update_trust_def tighten_def fence_token_def display_category_def persist_and_commit_def Let_def
        simp del: fenced_write.simps)
qed


definition demo_admin_env :: admin_env where
  "demo_admin_env = \<lparr>ae_show_float = half, ae_read_float = (\<lambda>_. Some (1/2)), ae_dump = (\<lambda>_ c. c), ae_threshold = 7/10\<rparr>"

definition demo_request :: request_db where
  "demo_request = \<lparr>rq_lock = Lock_granted, rq_read = True, rq_token = True, rq_execute = True, rq_commit = Answered,
     rq_meanwhile = [Claim (Some 1)], rq_now = 0\<rparr>"

definition demo_world :: admin_world where
  "demo_world = \<lparr>aw_store = empty_store, aw_row = None, aw_seq = 1, aw_turns = [], aw_connected = []\<rparr>"

lemma demo_freeze:
  "\<exists>w'. update_trust demo_admin_env demo_request True (code_points ''spiffe://a'') 0 demo_world
     = (Trust_updated 0 ''frozen'', w')"
proof -
  have "owner_state None = (show_nat 0, 0)" by code_simp
  then have "fst (update_trust demo_admin_env demo_request True (code_points ''spiffe://a'') 0 demo_world)
      = Trust_updated 0 ''frozen''"
    by (intro freeze_succeeds [where u = 0 and n = 0])
      (simp_all add: demo_request_def demo_world_def empty_store_def is_controllable_spiffe_id_def spiffe_scheme_def
        starts_with_def ucs_strip_def ucs_space_def spiffe_id_max_len_def storable_def)
  then show ?thesis by (metis prod.collapse)
qed


section \<open>Live state and registry\<close>

definition live_state :: "admin_env \<Rightarrow> control_store \<Rightarrow> bool \<times> rat option" where
  "live_state ae st =
     (cs_frozen st = Some ''1'', case cs_override st of None \<Rightarrow> None | Some s \<Rightarrow> ae_read_float ae s)"

text \<open>Python writes a float as a nonempty text and reads it back.\<close>

definition float_codec :: "admin_env \<Rightarrow> rat option \<Rightarrow> bool" where
  "float_codec ae cap \<longleftrightarrow>
     (case cap of None \<Rightarrow> True
      | Some c \<Rightarrow> ae_show_float ae c \<noteq> '''' \<and> ae_read_float ae (ae_show_float ae c) = Some c)"

lemma float_codec_None [simp]: "float_codec ae None"
  by (simp add: float_codec_def)

text \<open>No other writer's command lands during the request.\<close>

definition undisturbed :: "request_db \<Rightarrow> admin_world \<Rightarrow> bool" where
  "undisturbed rq w \<longleftrightarrow> rq_meanwhile rq = [] \<and> list_all (\<lambda>(cmds, _). cmds = []) (aw_turns w)"

lemma is_tightening_refl [simp]: "is_tightening c c"
  by (cases c; cases "snd c") auto

lemma is_tightening_trans:
  "\<lbrakk>is_tightening a b; is_tightening b c\<rbrakk> \<Longrightarrow> is_tightening a c"
  by (cases a; cases b; cases c) (auto split: if_splits option.splits)

lemma is_tightening_total: "\<not> is_tightening a b \<Longrightarrow> is_tightening b a"
  by (cases a; cases b) (auto split: if_splits option.splits)

lemma is_tightening_frozen [simp]: "is_tightening a (True, c)"
  by (cases a) simp

lemma held_live_state:
  "\<lbrakk>held (frozen_arg frozen) (cap_arg (ae_show_float ae) cap) st; float_codec ae cap\<rbrakk> \<Longrightarrow> live_state ae st = (frozen, cap)"
  by (auto simp: held_def live_state_def float_codec_def cap_arg_def frozen_arg_def split: option.splits if_splits)

lemma claim_live_state [simp]: "live_state ae (snd (claim_admin_trust_owner t st)) = live_state ae st"
  by (auto simp: claim_admin_trust_owner_def claim_lua_def live_state_def Let_def split: prod.splits)

lemma apply_live_state:
  assumes "float_codec ae cap"
  shows "live_state ae (snd (apply_admin_trust_control_if_owner (ae_show_float ae) token frozen cap display st))
    \<in> {live_state ae st, (frozen, cap)}"
proof (cases "cs_owner st = Some token")
  case True
  then obtain st' where "apply_admin_trust_control_if_owner (ae_show_float ae) token frozen cap display st = (fence_applied, st')"
    using apply_owned by blast
  with apply_applied(3) [OF this] held_live_state [OF _ assms] show ?thesis by simp
qed (simp add: apply_admin_trust_control_if_owner_def fenced_control_lua_def split: option.splits)

lemma store_call_undisturbed:
  assumes "store_call f w = (x, w')" "undisturbed rq w"
  shows "undisturbed rq w' \<and> aw_store w' \<in> {aw_store w, snd (f (aw_store w))}"
  using assms
  by (auto simp: store_call_def undisturbed_def run_cmds_def Let_def split: list.splits prod.splits fate.splits)

lemma fenced_write_undisturbed:
  assumes "fenced_write (ae_show_float ae) k has_conn token frozen cap display outcome w = (r, w')"
    and "undisturbed rq w" "float_codec ae cap"
  shows "undisturbed rq w' \<and> live_state ae (aw_store w') \<in> {live_state ae (aw_store w), (frozen, cap)}"
  using assms(1,2)
proof (induction k arbitrary: outcome w)
  case (Suc k)
  obtain alive w0 where a: "(if has_conn then still_connected w else (True, w)) = (alive, w0)"
    by (meson surj_pair)
  then have w0: "aw_store w0 = aw_store w" "undisturbed rq w0"
    using Suc.prems(2) by (auto simp: still_connected_def undisturbed_def split: if_splits list.splits)
  obtain c w1 where c: "store_call (claim_admin_trust_owner token) w0 = (c, w1)" by (meson surj_pair)
  have w1: "undisturbed rq w1" "live_state ae (aw_store w1) = live_state ae (aw_store w)"
    using store_call_undisturbed [OF c w0(2)] w0 by auto
  show ?case
  proof (cases "\<exists>claimed. c = Some (Some claimed)")
    case False
    then consider "c = None" | "c = Some None" by (cases c) auto
    then show ?thesis
    proof cases
      case 1
      with Suc.IH [OF _ w1(1), of None] Suc.prems(1) a c w0 w1 show ?thesis by (auto split: if_splits)
    next
      case 2
      with Suc.prems(1) a c w0 w1 show ?thesis by (auto split: if_splits)
    qed
  next
    case True
    then obtain claimed where cl: "c = Some (Some claimed)" by blast
    obtain x w2 where x: "store_call (apply_admin_trust_control_if_owner (ae_show_float ae) claimed frozen cap display) w1
        = (x, w2)"
      by (meson surj_pair)
    have w2: "undisturbed rq w2" "live_state ae (aw_store w2) \<in> {live_state ae (aw_store w), (frozen, cap)}"
      using store_call_undisturbed [OF x w1(1)] w1(2)
        apply_live_state [OF assms(3), of claimed frozen display "aw_store w1"] by auto
    have "w' = w0 \<or> w' = w2
        \<or> (\<exists>oc. fenced_write (ae_show_float ae) k has_conn token frozen cap display oc w2 = (r, w'))"
      using Suc.prems(1) a c cl x by (cases x) (auto split: if_splits)
    then show ?thesis using Suc.IH [OF _ w2(1)] w0 w2 by fastforce
  qed
qed (use assms in auto)

lemma persist_and_commit_undisturbed:
  assumes "persist_and_commit rq spiffe (fst (asked score)) (snd (asked score)) score w = (b, w')" "undisturbed rq w"
  shows "undisturbed rq w' \<and> aw_store w' = aw_store w
    \<and> registry_control (aw_row w') \<in> {registry_control (aw_row w), asked score}
    \<and> (b \<longrightarrow> registry_control (aw_row w') = asked score)"
  using assms
  by (auto simp: persist_and_commit_def undisturbed_def run_cmds_def persist_trust_control_row Let_def split: fate.splits)

text \<open>A tightening answered other than as unconfirmed or not live leaves the live state strict enough.\<close>

definition not_live :: "trust_answer \<Rightarrow> bool" where
  "not_live a \<longleftrightarrow> a \<in> {Persisted_refused, Persisted_unconfirmed, Unconfirmed_refused, Unconfirmed}"

lemma tighten_strict:
  assumes "tighten ae rq spiffe (fst (asked score)) (snd (asked score)) score display (Trust_updated x c) w = (Some a, w')"
    and "undisturbed rq w" "float_codec ae (snd (asked score))" "is_tightening (registry_control (aw_row w)) (asked score)"
  shows "not_live a \<or> is_tightening (registry_control (aw_row w')) (live_state ae (aw_store w'))"
proof -
  let ?w0 = "w\<lparr>aw_seq := aw_seq w + 1\<rparr>"
  have t: "fence_token rq w = (Some (aw_seq w + 1), ?w0)"
    using assms(1) by (auto simp: tighten_def fence_token_def split: if_splits)
  obtain oc w1 where f: "fenced_write (ae_show_float ae) 2 True (Some (aw_seq w + 1)) (fst (asked score))
      (snd (asked score)) display None ?w0 = (oc, w1)"
    by (meson surj_pair)
  obtain b w2 where p: "persist_and_commit rq spiffe (fst (asked score)) (snd (asked score)) score w1 = (b, w2)"
    by (meson surj_pair)
  have w1: "undisturbed rq w1" "registry_control (aw_row w1) = registry_control (aw_row w)"
    using fenced_write_undisturbed [OF f _ assms(3), of rq] assms(2) fenced_write_frame [OF f]
    by (simp_all add: undisturbed_def)
  note pu = persist_and_commit_undisturbed [OF p w1(1)]
  have live: "is_tightening (registry_control (aw_row w2)) (live_state ae (aw_store w2))" if "oc = Some fence_applied"
  proof -
    have "live_state ae (aw_store w2) = asked score"
      using held_live_state [OF conjunct1 [OF fenced_write_applied [OF f [unfolded that]]] assms(3)] pu by simp
    then show ?thesis using pu w1(2) assms(4) by auto
  qed
  have frozen: "cs_frozen (aw_store w3) = Some ''1''"
    if "fenced_write (ae_show_float ae) 2 False None True None display None w2 = (Some fence_applied, w3)" for w3
    using steal_freezes that by blast
  show ?thesis
    using assms(1) p live frozen unfolding tighten_def t prod.case option.case f Let_def
    by (cases b) (auto simp: not_live_def live_state_def simp del: fenced_write.simps split: if_splits prod.splits)
qed

lemma loosen_store_undisturbed:
  assumes "loosen_store ae token frozen cap display w = (x, w')" "undisturbed rq w" "float_codec ae cap"
  shows "live_state ae (aw_store w') \<in> {live_state ae (aw_store w), (frozen, cap)}"
proof -
  obtain r w3 where r: "store_call (apply_admin_trust_control_if_owner (ae_show_float ae) (show_nat token) frozen cap display) w
      = (r, w3)"
    by (meson surj_pair)
  have w3: "undisturbed rq w3" "live_state ae (aw_store w3) \<in> {live_state ae (aw_store w), (frozen, cap)}"
    using store_call_undisturbed [OF r assms(2)]
      apply_live_state [OF assms(3), of "show_nat token" frozen display "aw_store w"] by auto
  obtain b w4 where c: "still_connected w3 = (b, w4)" by (meson surj_pair)
  have w4: "undisturbed rq w4" "aw_store w4 = aw_store w3"
    using c w3(1) by (auto simp: still_connected_def undisturbed_def split: list.splits)
  have "w' \<in> {w3, w4} \<or> fenced_write (ae_show_float ae) 1 True (Some token) frozen cap display None w4 = (x, w')"
    using assms(1) r c by (auto simp: loosen_store_def split: if_splits bool.splits)
  then show ?thesis using fenced_write_undisturbed [OF _ w4(1) assms(3)] w3 w4 by fastforce
qed

lemma loosen_strict:
  assumes "loosen ae rq spiffe (fst (asked score)) (snd (asked score)) score display ok w = (a, w')"
    and "undisturbed rq w" "float_codec ae (snd (asked score))" "\<not> is_tightening (registry_control (aw_row w)) (asked score)"
    and "is_tightening (registry_control (aw_row w)) (live_state ae (aw_store w))"
  shows "is_tightening (registry_control (aw_row w')) (live_state ae (aw_store w'))"
proof (cases "rq_token rq")
  case False
  with assms(1,5) show ?thesis by (simp add: loosen_def fence_token_def)
next
  case True
  let ?w0 = "w\<lparr>aw_seq := aw_seq w + 1\<rparr>" and ?t = "aw_seq w + 1"
  have strict: "is_tightening (asked score) (live_state ae (aw_store w))"
    using is_tightening_trans [OF is_tightening_total [OF assms(4)] assms(5)] .
  obtain cl w1 where cl: "store_call (claim_admin_trust_owner (Some ?t)) ?w0 = (cl, w1)" by (meson surj_pair)
  have w1: "undisturbed rq w1" "live_state ae (aw_store w1) = live_state ae (aw_store w)" "aw_row w1 = aw_row w"
    using store_call_undisturbed [OF cl, of rq] store_call_frame [OF cl] assms(2) by (auto simp: undisturbed_def)
  obtain b w2 where p: "persist_and_commit rq spiffe (fst (asked score)) (snd (asked score)) score w1 = (b, w2)"
    by (meson surj_pair)
  note w2 = persist_and_commit_undisturbed [OF p w1(1)]
  obtain oc w5 where st: "loosen_store ae ?t (fst (asked score)) (snd (asked score)) display w2 = (oc, w5)"
    by (meson surj_pair)
  have "live_state ae (aw_store w5) \<in> {live_state ae (aw_store w2), asked score}"
    using loosen_store_undisturbed [OF st _ assms(3), of rq] w2 by simp
  then have "is_tightening (asked score) (live_state ae (aw_store w5))" using w1 w2 strict by auto
  moreover have "w' = w1 \<or> (\<not> b \<and> w' = w2) \<or> (b \<and> w' = w5)"
    using assms(1) True cl p st unfolding loosen_def loosen_store_def fence_token_def
    by (auto split: option.splits prod.splits bool.splits if_splits)
  ultimately show ?thesis
    using assms(5) w1 w2 strict loosen_store_frame [OF st] by auto
qed

text \<open>
  C35. The order of the two writes keeps the live state at least as strict as the registry: if it was
  before a trust change that no other writer disturbs, it is afterwards, whatever fails or goes without
  an answer, except after a tightening whose answer says that it is not live or not confirmed.
\<close>

theorem live_state_stays_strict:
  assumes "update_trust ae rq admin spiffe score w = (a, w')" "undisturbed rq w" "float_codec ae (snd (asked score))"
    and "is_tightening (registry_control (aw_row w)) (live_state ae (aw_store w))"
  shows "is_tightening (registry_control (aw_row w')) (live_state ae (aw_store w'))
    \<or> (is_tightening (registry_control (aw_row w)) (asked score) \<and> not_live a)"
proof -
  let ?cat = "display_category (ae_threshold ae) (if score = 0 then ''frozen'' else '''') score"
  let ?disp = "ae_dump ae (round4 score) ?cat" and ?ok = "Trust_updated (round4 score) (lower ?cat)"
  have steal: "is_tightening (registry_control (aw_row w2)) (live_state ae (aw_store w2))"
    if "fenced_write (ae_show_float ae) 2 False None True None ?disp None w = (oc, w2)" for oc w2
    using fenced_write_undisturbed [OF that assms(2)] fenced_write_frame [OF that] assms(4) by auto
  have "\<not> is_tightening (registry_control (aw_row w)) (asked score) \<Longrightarrow>
      loosen ae rq spiffe (fst (asked score)) (snd (asked score)) score ?disp ?ok w = (a, w') \<Longrightarrow>
      is_tightening (registry_control (aw_row w')) (live_state ae (aw_store w'))"
    using loosen_strict [OF _ assms(2,3) _ assms(4)] by blast
  moreover have "is_tightening (registry_control (aw_row w)) (asked score) \<Longrightarrow>
      tighten ae rq spiffe (fst (asked score)) (snd (asked score)) score ?disp ?ok w = (Some a, w') \<Longrightarrow>
      not_live a \<or> is_tightening (registry_control (aw_row w')) (live_state ae (aw_store w'))"
    using tighten_strict [OF _ assms(2,3)] by blast
  moreover have "(a, w') = (a, w) \<or> (\<exists>oc. fenced_write (ae_show_float ae) 2 False None True None ?disp None w = (oc, w'))
      \<or> (is_tightening (registry_control (aw_row w)) (asked score)
          \<and> tighten ae rq spiffe (fst (asked score)) (snd (asked score)) score ?disp ?ok w = (Some a, w'))
      \<or> (\<not> is_tightening (registry_control (aw_row w)) (asked score)
          \<and> loosen ae rq spiffe (fst (asked score)) (snd (asked score)) score ?disp ?ok w = (a, w'))"
    using assms(1) unfolding update_trust_def asked_def Let_def
    by (auto simp del: fenced_write.simps is_tightening.simps split: if_splits prod.splits option.splits dest!: tighten_None)
  ultimately show ?thesis using assms(4) steal by auto
qed

text \<open>A cap is added; the store does not answer, and neither does the commit, which is effective.\<close>

definition quiet_request :: request_db where
  "quiet_request = demo_request\<lparr>rq_meanwhile := [], rq_commit := Unanswered\<rparr>"

definition frozen_world :: admin_world where
  "frozen_world = demo_world\<lparr>aw_store := empty_store\<lparr>cs_frozen := Some ''1''\<rparr>, aw_turns := [([], Cut_off)]\<rparr>"

theorem live_state_stays_strict_witness:
  "let (a, w') = update_trust demo_admin_env quiet_request True (code_points ''spiffe://a'') (1/2) frozen_world
   in is_tightening (registry_control (aw_row w')) (live_state demo_admin_env (aw_store w')) \<or> not_live a"
proof -
  have "undisturbed quiet_request frozen_world" by (simp add: undisturbed_def quiet_request_def frozen_world_def)
  moreover have "float_codec demo_admin_env (snd (asked (1/2)))"
    by (simp add: float_codec_def asked_def demo_admin_env_def half_def)
  moreover have "is_tightening (registry_control (aw_row frozen_world)) (live_state demo_admin_env (aw_store frozen_world))"
    by (simp add: live_state_def frozen_world_def)
  ultimately show ?thesis
    using live_state_stays_strict [of demo_admin_env quiet_request True "code_points ''spiffe://a''" "1/2" frozen_world]
    by (auto split: prod.splits)
qed

section \<open>Removal and the boot warm\<close>

lemma live_control_frame: "live_control ae w = (x, w') \<Longrightarrow> aw_row w' = aw_row w"
  by (auto simp: live_control_def split: prod.splits option.splits dest!: store_call_frame)

text \<open>Removing an agent never removes the durable record of a control.\<close>

lemma deregister_keeps_control:
  assumes "deregister_agent ae rq admin spiffe w = (a, w')" "registry_control (aw_row w) \<noteq> (False, None)"
  shows "aw_row w' = aw_row w"
  using assms
  by (auto simp: deregister_agent_def registry_control_def Let_def
      split: if_splits lock_outcome.splits option.splits prod.splits fate.splits dest!: live_control_frame)

definition warmed :: "(rat \<Rightarrow> string) \<Rightarrow> control_stores \<Rightarrow> ucs \<times> bool \<times> rat option \<Rightarrow> bool" where
  "warmed show_float sts e =
     (case e of (i, frozen, cap) \<Rightarrow>
        if frozen then cs_frozen (sts i) = Some ''1''
        else case cap of None \<Rightarrow> True | Some c \<Rightarrow> show_float c \<noteq> '''' \<longrightarrow> cs_override (sts i) = Some (show_float c))"

definition keeps_controls :: "control_stores \<Rightarrow> control_stores \<Rightarrow> bool" where
  "keeps_controls sts sts' \<longleftrightarrow>
     (\<forall>i. (cs_frozen (sts i) = Some ''1'' \<longrightarrow> cs_frozen (sts' i) = Some ''1'')
        \<and> (cs_override (sts i) \<noteq> None \<longrightarrow> cs_override (sts' i) \<noteq> None))"

lemma keeps_controls_trans: "\<lbrakk>keeps_controls a b; keeps_controls b c\<rbrakk> \<Longrightarrow> keeps_controls a c"
  by (auto simp: keeps_controls_def)

lemma warm_claims_controls:
  "cs_frozen (warm_claims token es sts i) = cs_frozen (sts i)"
  "cs_override (warm_claims token es sts i) = cs_override (sts i)"
proof -
  have one: "cs_frozen (snd (claim_admin_trust_owner t st)) = cs_frozen st"
    "cs_override (snd (claim_admin_trust_owner t st)) = cs_override st" for t st
    by (auto simp: claim_admin_trust_owner_def claim_lua_def Let_def split: prod.splits)
  show "cs_frozen (warm_claims token es sts i) = cs_frozen (sts i)"
    "cs_override (warm_claims token es sts i) = cs_override (sts i)"
    unfolding warm_claims_def
    by (induction es arbitrary: sts) (simp_all add: on_agent_def one split_def)
qed

lemma warm_adds_facts:
  assumes "warm_adds show_float token es sts = (rs, sts')" "distinct (map fst es)"
  shows "length rs = length es" "\<forall>i. i \<notin> fst ` set es \<longrightarrow> sts' i = sts i" "keeps_controls sts sts'"
    and "list_all2 (\<lambda>e r. r = fence_applied \<longrightarrow> warmed show_float sts' e) es rs"
proof -
  have "length rs = length es \<and> (\<forall>i. i \<notin> fst ` set es \<longrightarrow> sts' i = sts i) \<and> keeps_controls sts sts'
      \<and> list_all2 (\<lambda>e r. r = fence_applied \<longrightarrow> warmed show_float sts' e) es rs"
    using assms
  proof (induction es arbitrary: sts rs)
    case (Cons e es)
    obtain i frozen cap where e: "e = (i, frozen, cap)" by (cases e)
    obtain r st where r: "fenced_warm_lua (show_nat token) (frozen_arg frozen) (cap_arg show_float cap) (sts i) = (r, st)"
      by (meson surj_pair)
    obtain rs' where w: "warm_adds show_float token es (sts(i := st)) = (rs', sts')" and rs: "rs = r # rs'"
      using Cons.prems(1) r by (auto simp: e on_agent_def split: prod.splits)
    note ih = Cons.IH [OF w]
    have i: "sts' i = st" using ih Cons.prems(2) by (auto simp: e)
    have "r = fence_applied \<longrightarrow> warmed show_float sts' e"
      using r unfolding e warmed_def i prod.case
      by (auto simp: fenced_warm_lua_def frozen_arg_def cap_arg_def fence_applied_def split: option.splits if_splits)
    moreover have "keeps_controls sts (sts(i := st))"
      using r by (auto simp: keeps_controls_def fenced_warm_lua_def split: option.splits if_splits)
    ultimately show ?case
      using ih Cons.prems(2) keeps_controls_trans by (fastforce simp: e rs)
  qed (simp add: keeps_controls_def)
  then show "length rs = length es" "\<forall>i. i \<notin> fst ` set es \<longrightarrow> sts' i = sts i" "keeps_controls sts sts'"
    "list_all2 (\<lambda>e r. r = fence_applied \<longrightarrow> warmed show_float sts' e) es rs"
    by blast+
qed

text \<open>What earlier rounds applied stays, since later rounds touch only the agents still pending.\<close>

lemma merge_outcomes_warmed:
  assumes "list_all2 (\<lambda>e x. x = fence_applied \<longrightarrow> P e) es outcomes"
    and "list_all2 (\<lambda>e r. r = fence_applied \<longrightarrow> P e) (map fst (filter (\<lambda>(_, x). x \<noteq> fence_applied) (zip es outcomes))) rs"
  shows "list_all2 (\<lambda>e x. x = fence_applied \<longrightarrow> P e) es (merge_outcomes outcomes rs)"
  using assms
proof (induction es outcomes arbitrary: rs rule: list_all2_induct)
  case (Cons e es x xs)
  then show ?case by (cases "x = fence_applied"; cases rs) auto
qed simp

lemma warm_rounds_facts:
  assumes "warm_rounds show_float token n es outcomes sts = (outcomes', sts')" "distinct (map fst es)"
    and "list_all2 (\<lambda>e x. x = fence_applied \<longrightarrow> warmed show_float sts e) es outcomes"
  shows "keeps_controls sts sts' \<and> list_all2 (\<lambda>e x. x = fence_applied \<longrightarrow> warmed show_float sts' e) es outcomes'"
  using assms
proof (induction n arbitrary: outcomes sts)
  case (Suc n)
  let ?p = "map fst (filter (\<lambda>(_, x). x \<noteq> fence_applied) (zip es outcomes))"
  show ?case
  proof (cases "?p = []")
    case True
    then show ?thesis using Suc.prems by (simp add: keeps_controls_def)
  next
    case False
    obtain rs sts1 where a: "warm_adds show_float token ?p (warm_claims token ?p sts) = (rs, sts1)" by (meson surj_pair)
    have len: "length outcomes = length es" using Suc.prems(3) list_all2_lengthD by fastforce
    have "distinct (map fst ?p)"
    proof -
      have "map (fst \<circ> fst) (zip es outcomes) = map fst es" by (simp add: len flip: map_map)
      then have "distinct (map (fst \<circ> fst) (filter (\<lambda>(_, x). x \<noteq> fence_applied) (zip es outcomes)))"
        using Suc.prems(2) by (metis distinct_map_filter)
      then show ?thesis by simp
    qed
    note f = warm_adds_facts [OF a this]
    have k: "keeps_controls sts sts1"
      using f(3) by (simp add: keeps_controls_def warm_claims_controls)
    have "warmed show_float sts1 (es ! m)" if m: "m < length es" "outcomes ! m = fence_applied" for m
    proof -
      have "fst (es ! m) \<notin> fst ` set ?p"
      proof
        assume "fst (es ! m) \<in> fst ` set ?p"
        then obtain e y where "(e, y) \<in> set (zip es outcomes)" "y \<noteq> fence_applied" "fst e = fst (es ! m)" by auto
        then obtain l where l: "l < length es" "outcomes ! l \<noteq> fence_applied" "fst (es ! l) = fst (es ! m)"
          by (auto simp: in_set_zip)
        then have "l = m" using Suc.prems(2) m(1) by (metis distinct_conv_nth length_map nth_map)
        with l m show False by simp
      qed
      moreover have "warmed show_float sts (es ! m)" using Suc.prems(3) m by (simp add: list_all2_conv_all_nth)
      ultimately show ?thesis
        using f(2) by (auto simp: warmed_def warm_claims_controls split: prod.splits option.splits if_splits)
    qed
    then have "list_all2 (\<lambda>e x. x = fence_applied \<longrightarrow> warmed show_float sts1 e) es outcomes"
      using len by (simp add: list_all2_conv_all_nth)
    from Suc.IH [OF _ Suc.prems(2) merge_outcomes_warmed [OF this f(4)]] Suc.prems(1) a False k
    show ?thesis by (auto intro: keeps_controls_trans)
  qed
qed (simp add: keeps_controls_def)

text \<open>
  The boot warm puts controls back and lifts none: no agent loses a freeze or a cap, and every agent
  whose outcome is reported as applied has the freeze, or else the cap, that the registry holds for it.
\<close>

lemma warm_restores_controls:
  assumes "warm_admin_trust_controls show_float token es sts = (outcomes, sts')" "distinct (map fst es)"
  shows "keeps_controls sts sts' \<and> list_all2 (\<lambda>e x. x = fence_applied \<longrightarrow> warmed show_float sts' e) es outcomes"
proof -
  have "list_all2 (\<lambda>e x. x = fence_applied \<longrightarrow> warmed show_float sts e) es (replicate (length es) fence_lost)"
    by (simp add: list_all2_conv_all_nth fence_lost_def fence_applied_def)
  with warm_rounds_facts [OF assms(1) [unfolded warm_admin_trust_controls_def] assms(2)] show ?thesis by simp
qed

end
