(* ===== verification/Redis_Cache.thy ===== *)
theory Redis_Cache
  imports Evaluate Digits
begin

text \<open>
  The shared Redis cache (\<open>RedisCache\<close> of \<open>norviq/engine/cache.py\<close>): hashed keys of policies and
  decisions, scope invalidation, policy entries, cross-replica locks and windowed counters. The Redis
  server is an argument, a record of the commands the cache issues, each of which may raise; what
  Redis documents of them is the predicate \<open>redis_documented\<close>. SHA-256, the JSON encoder and the
  schema's encoder are arguments too.
\<close>

section \<open>The server and the encoders\<close>

datatype redis_error = Redis_failed

type_synonym ('w, 'a) command = "'w \<Rightarrow> (redis_error, 'a) res \<times> 'w"

record 'w redis_api =
  ra_get :: "string \<Rightarrow> ('w, string option) command"
  ra_set :: "string \<Rightarrow> string \<Rightarrow> int option \<Rightarrow> ('w, unit) command"
  ra_set_nx :: "string \<Rightarrow> string \<Rightarrow> int \<Rightarrow> ('w, bool) command"
  ra_delete :: "string list \<Rightarrow> ('w, int) command"
  ra_scan :: "string \<Rightarrow> ('w, string list) command"
  ra_incr :: "string \<Rightarrow> ('w, int) command"
  ra_expire :: "string \<Rightarrow> int \<Rightarrow> ('w, unit) command"

record codecs =
  co_sha256 :: "string \<Rightarrow> string"
  co_dumps :: "json \<Rightarrow> string"
  co_loads :: "string \<Rightarrow> json option"
  co_dump_decision :: "policy_decision \<Rightarrow> string"
  co_repr :: "json \<Rightarrow> string"
  co_load_decision :: "string \<Rightarrow> policy_decision option"
  co_eval_ttl :: int
  co_policy_ttl :: int

section \<open>Keys\<close>

definition hash_seg :: "codecs \<Rightarrow> string \<Rightarrow> string" where
  "hash_seg co segment = take 16 (co_sha256 co segment)"

definition redis_policy_key :: "codecs \<Rightarrow> string \<Rightarrow> string \<Rightarrow> string" where
  "redis_policy_key co ns cls = ''policy:'' @ hash_seg co ns @ '':'' @ hash_seg co cls"

definition eval_key :: "codecs \<Rightarrow> string \<Rightarrow> string \<Rightarrow> string \<Rightarrow> string" where
  "eval_key co ns cls tool = ''eval:'' @ hash_seg co ns @ '':'' @ hash_seg co cls @ '':'' @ hash_seg co tool"

definition eval_scope_pattern :: "codecs \<Rightarrow> string \<Rightarrow> string option \<Rightarrow> string" where
  "eval_scope_pattern co ns cls =
     (if cls \<noteq> None \<and> cls \<noteq> Some ''''
      then ''eval:'' @ hash_seg co ns @ '':'' @ hash_seg co (the cls) @ '':*''
      else ''eval:'' @ hash_seg co ns @ '':*'')"

section \<open>Decisions\<close>

definition get_eval ::
  "'w redis_api \<Rightarrow> codecs \<Rightarrow> string \<Rightarrow> string \<Rightarrow> string \<Rightarrow> ('w, policy_decision option) command" where
  "get_eval api co ns cls tool w =
     then_do (ra_get api (eval_key co ns cls tool) w) (\<lambda>v w1.
       case v of
         None \<Rightarrow> (Inr None, w1)
       | Some s \<Rightarrow> (case co_load_decision co s of None \<Rightarrow> (Inl Redis_failed, w1) | Some d \<Rightarrow> (Inr (Some d), w1)))"

definition set_eval ::
  "'w redis_api \<Rightarrow> codecs \<Rightarrow> string \<Rightarrow> string \<Rightarrow> string \<Rightarrow> policy_decision \<Rightarrow> ('w, unit) command" where
  "set_eval api co ns cls tool d w =
     ra_set api (eval_key co ns cls tool) (co_dump_decision co d) (Some (co_eval_ttl co)) w"

text \<open>
  Invalidation first clears the evaluator's local cache, through the hook it registered, and then
  deletes what a scan of the keys finds.
\<close>

definition delete_found :: "'w redis_api \<Rightarrow> string \<Rightarrow> ('w, int) command" where
  "delete_found api pattern w =
     then_do (ra_scan api pattern w) (\<lambda>keys w1. if keys = [] then (Inr 0, w1) else ra_delete api keys w1)"

definition invalidate_eval_scope ::
  "'w redis_api \<Rightarrow> codecs \<Rightarrow> string \<Rightarrow> string option \<Rightarrow> ('k, 'v) ttl_cache \<times> 'w
   \<Rightarrow> (redis_error, int) res \<times> ('k, 'v) ttl_cache \<times> 'w" where
  "invalidate_eval_scope api co ns cls s =
     (case delete_found api (eval_scope_pattern co ns cls) (snd s) of (r, w) \<Rightarrow> (r, ttl_clear (fst s), w))"

definition invalidate_all_eval ::
  "'w redis_api \<Rightarrow> ('k, 'v) ttl_cache \<times> 'w \<Rightarrow> (redis_error, int) res \<times> ('k, 'v) ttl_cache \<times> 'w" where
  "invalidate_all_eval api s =
     (case delete_found api ''eval:*'' (snd s) of (r, w) \<Rightarrow> (r, ttl_clear (fst s), w))"

section \<open>Policy entries\<close>

definition policy_payload :: "string \<Rightarrow> string \<Rightarrow> string \<Rightarrow> int \<Rightarrow> int \<Rightarrow> json" where
  "policy_payload ns cls rego priority version = JObj
     [(''rego'', JStr rego), (''priority'', JInt priority), (''version'', JInt version),
      (''namespace'', JStr ns), (''agent_class'', JStr cls)]"

text \<open>The jitter is what the random generator adds to the lifetime.\<close>

definition jitter_ttl :: "int \<Rightarrow> int \<Rightarrow> int" where
  "jitter_ttl random base_ttl = base_ttl + random"

definition set_policy ::
  "'w redis_api \<Rightarrow> codecs \<Rightarrow> int \<Rightarrow> string \<Rightarrow> string \<Rightarrow> string \<Rightarrow> int \<Rightarrow> int \<Rightarrow> ('w, unit) command" where
  "set_policy api co random ns cls rego priority version w =
     ra_set api (redis_policy_key co ns cls) (co_dumps co (policy_payload ns cls rego priority version))
       (Some (jitter_ttl random (co_policy_ttl co))) w"

definition warm_policy ::
  "'w redis_api \<Rightarrow> codecs \<Rightarrow> int \<Rightarrow> string \<Rightarrow> string \<Rightarrow> string \<Rightarrow> int \<Rightarrow> int \<Rightarrow> ('w, bool) command" where
  "warm_policy api co random ns cls rego priority version w =
     ra_set_nx api (redis_policy_key co ns cls) (co_dumps co (policy_payload ns cls rego priority version))
       (jitter_ttl random (co_policy_ttl co)) w"

definition delete_policy_entry :: "'w redis_api \<Rightarrow> codecs \<Rightarrow> string \<Rightarrow> string \<Rightarrow> ('w, int) command" where
  "delete_policy_entry api co ns cls w = ra_delete api [redis_policy_key co ns cls] w"

definition raw_entry :: "string \<Rightarrow> (string \<times> json) list" where
  "raw_entry value = [(''rego'', JStr value), (''priority'', JInt 100), (''version'', JInt 0)]"

definition get_policy_entry ::
  "'w redis_api \<Rightarrow> codecs \<Rightarrow> string \<Rightarrow> string \<Rightarrow> ('w, (string \<times> json) list option) command" where
  "get_policy_entry api co ns cls w =
     then_do (ra_get api (redis_policy_key co ns cls) w) (\<lambda>v w1.
       (Inr (map_option (\<lambda>value. case co_loads co value of Some (JObj fs) \<Rightarrow> fs | _ \<Rightarrow> raw_entry value) v), w1))"

text \<open>Listing: the scope of an entry is read from its value, since the key only has the hashes.\<close>

definition listed_entry :: "codecs \<Rightarrow> string \<Rightarrow> (string \<times> (string \<times> json) list) option" where
  "listed_entry co value =
     (let fs = (case co_loads co value of Some (JObj fs) \<Rightarrow> Some fs | Some _ \<Rightarrow> None | None \<Rightarrow> Some (raw_entry value))
      in case fs of
           None \<Rightarrow> None
         | Some fs \<Rightarrow>
             (case (map_of fs ''namespace'', map_of fs ''agent_class'') of
                (Some ns, Some cls) \<Rightarrow>
                  if \<not> json_truthy ns \<or> \<not> json_truthy cls then None
                  else Some (''policy:'' @ py_str (co_repr co) ns @ '':'' @ py_str (co_repr co) cls, fs)
              | _ \<Rightarrow> None))"

fun list_keys ::
  "'w redis_api \<Rightarrow> codecs \<Rightarrow> string list \<Rightarrow> (string \<times> (string \<times> json) list) list
   \<Rightarrow> ('w, (string \<times> (string \<times> json) list) list) command" where
  "list_keys api co [] acc w = (Inr acc, w)"
| "list_keys api co (k # ks) acc w =
     then_do (ra_get api k w) (\<lambda>v w1.
       case v of
         None \<Rightarrow> list_keys api co ks acc w1
       | Some value \<Rightarrow>
           (case listed_entry co value of
              None \<Rightarrow> list_keys api co ks acc w1
            | Some (display, fs) \<Rightarrow> list_keys api co ks (AList.update display fs acc) w1))"

definition list_policy_entries ::
  "'w redis_api \<Rightarrow> codecs \<Rightarrow> ('w, (string \<times> (string \<times> json) list) list) command" where
  "list_policy_entries api co w =
     then_do (ra_scan api ''policy:*'' w) (\<lambda>keys w1. list_keys api co keys [] w1)"

section \<open>Locks and counters\<close>

text \<open>\<open>None\<close> is the lock acquired, or a lock whose holder vanished between the two commands.\<close>

definition acquire_lock :: "'w redis_api \<Rightarrow> string \<Rightarrow> string \<Rightarrow> int \<Rightarrow> ('w, string option) command" where
  "acquire_lock api name holder ttl w =
     then_do (ra_set_nx api (''lock:'' @ name) holder ttl w) (\<lambda>acquired w1.
       if acquired then (Inr None, w1) else ra_get api (''lock:'' @ name) w1)"

definition release_lock :: "'w redis_api \<Rightarrow> string \<Rightarrow> string \<Rightarrow> ('w, unit) command" where
  "release_lock api name holder w =
     then_do (ra_get api (''lock:'' @ name) w) (\<lambda>current w1.
       if current = Some holder
       then then_do (ra_delete api [''lock:'' @ name] w1) (\<lambda>_ w2. (Inr (), w2))
       else (Inr (), w1))"

definition callcount_key :: "ucs \<Rightarrow> string" where
  "callcount_key spiffe = ''callcount:'' @ utf8 spiffe"

definition incr_call_count :: "'w redis_api \<Rightarrow> ucs \<Rightarrow> int \<Rightarrow> ('w, int) command" where
  "incr_call_count api spiffe window w =
     then_do (ra_incr api (callcount_key spiffe) w) (\<lambda>count w1.
       if count = 1 then then_do (ra_expire api (callcount_key spiffe) window w1) (\<lambda>_ w2. (Inr count, w2))
       else (Inr count, w1))"

definition reset_call_count :: "'w redis_api \<Rightarrow> ucs \<Rightarrow> ('w, int) command" where
  "reset_call_count api spiffe w = ra_delete api [callcount_key spiffe] w"

end
