(* ===== verification/Redis_Cache_Props.thy ===== *)
theory Redis_Cache_Props
  imports Redis_Cache Evaluate_Props
begin

text \<open>
  The scope of a cached decision: which calls share a key, and what an invalidation removes. The
  hypotheses on Redis, SHA-256 and the digest of a JSON document are the documented ones.
\<close>

section \<open>What is documented of the server and of the hash\<close>

text \<open>
  \<open>view\<close> reads the live string keys. A pattern that ends in its only special character matches the
  keys with that prefix.
\<close>

definition literal :: "string \<Rightarrow> bool" where
  "literal p \<longleftrightarrow> list_all (\<lambda>c. c \<notin> {CHR ''*'', CHR ''?'', CHR ''['', CHR 0x5C}) p"

definition redis_documented :: "'w redis_api \<Rightarrow> ('w \<Rightarrow> string \<rightharpoonup> string) \<Rightarrow> (string \<Rightarrow> string \<Rightarrow> bool) \<Rightarrow> bool" where
  "redis_documented api view glob \<longleftrightarrow>
     (\<forall>k w v w'. ra_get api k w = (Inr v, w') \<longrightarrow> v = view w k \<and> view w' = view w)
     \<and> (\<forall>k v ex w w'. ra_set api k v ex w = (Inr (), w') \<longrightarrow> view w' = (view w)(k \<mapsto> v))
     \<and> (\<forall>ks w n w'. ra_delete api ks w = (Inr n, w') \<longrightarrow> view w' = (view w) |` (- set ks))
     \<and> (\<forall>p w ks w'. ra_scan api p w = (Inr ks, w') \<longrightarrow> set ks = {k \<in> dom (view w). glob p k} \<and> view w' = view w)
     \<and> (\<forall>p k. literal p \<longrightarrow> glob (p @ ''*'') k = starts_with k p)"

text \<open>A hash is 16 hexadecimal digits or more, and tells the segments in use apart.\<close>

definition is_hex :: "char \<Rightarrow> bool" where
  "is_hex c \<longleftrightarrow> is_digit c \<or> c \<in> set ''abcdef''"

definition hash_separates :: "codecs \<Rightarrow> string set \<Rightarrow> bool" where
  "hash_separates co U \<longleftrightarrow>
     (\<forall>s. 16 \<le> length (co_sha256 co s) \<and> list_all is_hex (co_sha256 co s)) \<and> inj_on (hash_seg co) U"

lemma hash_seg_facts:
  assumes "hash_separates co U"
  shows "length (hash_seg co s) = 16" "list_all is_hex (hash_seg co s)" "literal (hash_seg co s)"
proof -
  have h: "16 \<le> length (co_sha256 co s)" "list_all is_hex (co_sha256 co s)"
    using assms by (simp_all add: hash_separates_def)
  then show "length (hash_seg co s) = 16" by (simp add: hash_seg_def)
  show hex: "list_all is_hex (hash_seg co s)"
    using h(2) by (auto simp: hash_seg_def list_all_iff dest: in_set_takeD)
  have "c \<notin> {CHR ''*'', CHR ''?'', CHR ''['', CHR 0x5C}" if "is_hex c" for c
    using that by (auto simp: is_hex_def is_digit_def)
  with hex show "literal (hash_seg co s)" by (auto simp: literal_def list_all_iff)
qed

lemma eval_key_prefix:
  assumes "hash_separates co U" "ns \<in> U" "ns' \<in> U" "cls \<in> U" "cls' \<in> U"
  shows "starts_with (eval_key co ns' cls' tool) (''eval:'' @ hash_seg co ns @ '':'' @ hash_seg co cls @ '':'')
      \<longleftrightarrow> ns' = ns \<and> cls' = cls"
    and "starts_with (eval_key co ns' cls' tool) (''eval:'' @ hash_seg co ns @ '':'') \<longleftrightarrow> ns' = ns"
proof -
  have inj: "hash_seg co a = hash_seg co b \<longleftrightarrow> a = b" if "a \<in> U" "b \<in> U" for a b
    using assms(1) that by (auto simp: hash_separates_def inj_on_def)
  show "starts_with (eval_key co ns' cls' tool) (''eval:'' @ hash_seg co ns @ '':'' @ hash_seg co cls @ '':'')
      \<longleftrightarrow> ns' = ns \<and> cls' = cls"
    and "starts_with (eval_key co ns' cls' tool) (''eval:'' @ hash_seg co ns @ '':'') \<longleftrightarrow> ns' = ns"
    using inj [OF assms(3,2)] inj [OF assms(5,4)] hash_seg_facts(1) [OF assms(1)]
    by (auto simp: starts_with_def eval_key_def)
qed

lemma delete_found_view:
  assumes "redis_documented api view glob" "delete_found api (p @ ''*'') w = (Inr n, w')" "literal p"
  shows "view w' k = (if starts_with k p then None else view w k)"
proof -
  obtain ks w1 where s: "ra_scan api (p @ ''*'') w = (Inr ks, w1)"
    and d: "(if ks = [] then (Inr 0, w1) else ra_delete api ks w1) = (Inr n, w')"
    using assms(2) by (auto simp: delete_found_def then_do_Inr)
  have ks: "set ks = {k \<in> dom (view w). starts_with k p}" "view w1 = view w"
    using assms(1,3) s by (auto simp: redis_documented_def)
  have "view w' = view w |` (- set ks)"
    using assms(1) d ks by (auto simp: redis_documented_def split: if_splits)
  then show ?thesis by (auto simp: ks restrict_map_def domIff)
qed

section \<open>Properties\<close>

text \<open>
  Invalidating a scope removes exactly its decisions: afterwards no decision cached for any tool of
  that namespace and class, or of the whole namespace when no class is given, can be read, those of
  every other scope are as they were, and the evaluator's local cache is empty.
\<close>

lemma scope_invalidation_exact:
  assumes "redis_documented api view glob" "hash_separates co U" "ns \<in> U" "cls \<in> U" "cls \<noteq> ''''"
    and "invalidate_eval_scope api co ns target (l1, w) = (Inr n, l1', w')" "target \<in> {None, Some cls}"
    and "ns' \<in> U" "cls' \<in> U"
  shows "view w' (eval_key co ns' cls' tool) =
      (if ns' = ns \<and> (target = None \<or> cls' = cls) then None else view w (eval_key co ns' cls' tool))
    \<and> ttl_lookup l1' now k = None"
proof -
  let ?p = "if target = None then ''eval:'' @ hash_seg co ns @ '':''
    else ''eval:'' @ hash_seg co ns @ '':'' @ hash_seg co cls @ '':''"
  have "literal ''eval:''" "literal '':''" by (simp_all add: literal_def)
  then have "literal ?p" using hash_seg_facts(3) [OF assms(2)] by (simp add: literal_def)
  moreover have "eval_scope_pattern co ns target = ?p @ ''*''"
    using assms(5,7) by (auto simp: eval_scope_pattern_def)
  then have del: "delete_found api (?p @ ''*'') w = (Inr n, w')" and l1: "l1' = ttl_clear l1"
    using assms(6) by (auto simp: invalidate_eval_scope_def split: prod.splits)
  ultimately have "view w' (eval_key co ns' cls' tool) =
      (if starts_with (eval_key co ns' cls' tool) ?p then None else view w (eval_key co ns' cls' tool))"
    using delete_found_view [OF assms(1)] by blast
  then show ?thesis
    using eval_key_prefix [OF assms(2,3,8,4,9)] assms(7) l1 by (auto simp: cache_defs)
qed
text \<open>A keyspace as an association list, and a hash that tells two segments apart.\<close>

definition demo_glob :: "string \<Rightarrow> string \<Rightarrow> bool" where
  "demo_glob p k = (if p \<noteq> [] \<and> last p = CHR ''*'' then starts_with k (butlast p) else p = k)"

definition demo_redis :: "(string \<times> string) list redis_api" where
  "demo_redis =
     \<lparr>ra_get = (\<lambda>k w. (Inr (map_of w k), w)),
      ra_set = (\<lambda>k v ex w. (Inr (), AList.update k v w)),
      ra_set_nx = (\<lambda>k v ex w. if map_of w k = None then (Inr True, AList.update k v w) else (Inr False, w)),
      ra_delete = (\<lambda>ks w. (Inr (int (length ks)), filter (\<lambda>(k, _). k \<notin> set ks) w)),
      ra_scan = (\<lambda>p w. (Inr (filter (demo_glob p) (map fst w)), w)),
      ra_incr = (\<lambda>k w. (Inr 1, w)), ra_expire = (\<lambda>k ex w. (Inr (), w))\<rparr>"

definition demo_codecs :: codecs where
  "demo_codecs =
     \<lparr>co_sha256 = (\<lambda>s. replicate 16 (if s = ''prod'' then CHR ''a'' else CHR ''b'')), co_dumps = (\<lambda>_. ''''),
      co_loads = (\<lambda>_. None), co_dump_decision = (\<lambda>_. ''d''), co_repr = (\<lambda>_. ''''), co_load_decision = (\<lambda>_. None),
      co_eval_ttl = 5, co_policy_ttl = 60\<rparr>"

lemma demo_redis_documented: "redis_documented demo_redis map_of demo_glob"
proof -
  have "map_of (filter (\<lambda>(k, _). k \<notin> set ks) w) = map_of w |` (- set ks)" for ks :: "string list" and w :: "(string \<times> string) list"
    by (induction w) (auto simp: restrict_map_def fun_eq_iff)
  then show ?thesis
    by (auto simp: redis_documented_def demo_redis_def demo_glob_def update_conv' dom_map_of_conv_image_fst)
qed

lemma demo_hash_separates: "hash_separates demo_codecs {''prod'', ''dev''}"
  by (auto simp: hash_separates_def demo_codecs_def hash_seg_def inj_on_def is_hex_def list_all_iff)

text \<open>The digest of a document is hexadecimal.\<close>

definition digest_plain :: "(json \<Rightarrow> string) \<Rightarrow> bool" where
  "digest_plain digest \<longleftrightarrow> (\<forall>j. CHR '':'' \<notin> set (digest j))"

text \<open>The last segment of a text with a separator is determined by the text.\<close>

lemma last_segment:
  assumes "xs @ c # ys = xs' @ c # ys'" "c \<notin> set ys" "c \<notin> set ys'"
  shows "xs = xs' \<and> ys = ys'"
proof -
  have "rev ys @ c # rev xs = rev ys' @ c # rev xs'" using arg_cong [OF assms(1), of rev] by simp
  moreover have "takeWhile (\<lambda>x. x \<noteq> c) (rev zs @ c # us) = rev zs" if "c \<notin> set zs" for zs us
    using that by (auto simp: takeWhile_tail)
  ultimately have "rev ys = rev ys'" using assms(2,3) by metis
  with assms(1) show ?thesis by simp
qed

lemma cache_tool_key_inject:
  assumes "digest_plain digest" "cache_tool_key digest e = cache_tool_key digest f"
    and "CHR '':'' \<notin> set (ai_workload (ev_agent_identity e))" "CHR '':'' \<notin> set (ai_workload (ev_agent_identity f))"
  shows "ev_tool_name e = ev_tool_name f \<and> params_digest digest e = params_digest digest f
    \<and> ev_call_depth e = ev_call_depth f \<and> ai_workload (ev_agent_identity e) = ai_workload (ev_agent_identity f)
    \<and> (ev_mcp e = [] \<longleftrightarrow> ev_mcp f = []) \<and> (ev_mcp e \<noteq> [] \<longrightarrow> digest (JObj (ev_mcp e)) = digest (JObj (ev_mcp f)))"
proof -
  define body where "body ev = ev_tool_name ev @ CHR '':'' # params_digest digest ev @ CHR '':'' # ''d''
      @ show_int (ev_call_depth ev) @ CHR '':'' # ''w'' @ ai_workload (ev_agent_identity ev)" for ev
  define seg where "seg ev = ''w'' @ ai_workload (ev_agent_identity ev)" for ev
  have key: "cache_tool_key digest ev =
      (if ev_mcp ev = [] then body ev else body ev @ CHR '':'' # ''m'' @ digest (JObj (ev_mcp ev)))" for ev
    by (simp add: cache_tool_key_def body_def)
  have d: "CHR '':'' \<notin> set (digest j)" for j using assms(1) by (simp add: digest_plain_def)
  have cut: "body ev = (ev_tool_name ev @ CHR '':'' # params_digest digest ev @ CHR '':'' # ''d'' @ show_int (ev_call_depth ev))
      @ CHR '':'' # ''w'' @ ai_workload (ev_agent_identity ev)" for ev
    by (simp add: body_def)
  have bodies: "ev_tool_name e = ev_tool_name f \<and> params_digest digest e = params_digest digest f
      \<and> ev_call_depth e = ev_call_depth f \<and> ai_workload (ev_agent_identity e) = ai_workload (ev_agent_identity f)"
    if "body e = body f"
  proof -
    have 1: "ev_tool_name e @ CHR '':'' # params_digest digest e @ CHR '':'' # ''d'' @ show_int (ev_call_depth e)
        = ev_tool_name f @ CHR '':'' # params_digest digest f @ CHR '':'' # ''d'' @ show_int (ev_call_depth f)"
      and w: "ai_workload (ev_agent_identity e) = ai_workload (ev_agent_identity f)"
      using that last_segment [OF that [unfolded cut]] assms(3,4) by simp_all
    have "(ev_tool_name e @ CHR '':'' # params_digest digest e) @ CHR '':'' # ''d'' @ show_int (ev_call_depth e)
        = (ev_tool_name f @ CHR '':'' # params_digest digest f) @ CHR '':'' # ''d'' @ show_int (ev_call_depth f)"
      using 1 by simp
    from last_segment [OF this]
    have 2: "ev_tool_name e @ CHR '':'' # params_digest digest e = ev_tool_name f @ CHR '':'' # params_digest digest f"
      and "ev_call_depth e = ev_call_depth f"
      by simp_all
    moreover have "ev_tool_name e = ev_tool_name f \<and> params_digest digest e = params_digest digest f"
      by (rule last_segment [OF 2]) (simp_all add: params_digest_def d)
    ultimately show ?thesis using w by simp
  qed
  have mixed: "body ev \<noteq> body ev' @ CHR '':'' # ''m'' @ digest j"
    if "CHR '':'' \<notin> set (ai_workload (ev_agent_identity ev))" for ev ev' j
  proof
    assume "body ev = body ev' @ CHR '':'' # ''m'' @ digest j"
    from last_segment [OF this [unfolded cut [of ev]]] that d show False by simp
  qed
  have both: "body e = body f \<and> digest (JObj (ev_mcp e)) = digest (JObj (ev_mcp f))"
    if "body e @ CHR '':'' # ''m'' @ digest (JObj (ev_mcp e)) = body f @ CHR '':'' # ''m'' @ digest (JObj (ev_mcp f))"
    using last_segment [OF that] d by simp
  show ?thesis
    using assms(2) mixed [OF assms(3), of f] mixed [OF assms(4), of e] both bodies
    unfolding key by (auto split: if_splits) metis+
qed


definition three_codecs :: codecs where
  "three_codecs = demo_codecs\<lparr>co_sha256 := (\<lambda>s. replicate 16
     (if s = ''prod'' then CHR ''a'' else if s = ''billing'' then CHR ''b'' else CHR ''c''))\<rparr>"


text \<open>
  A workload with a colon reaches into the next segment of the key: a call with no MCP context whose
  workload text ends in the MCP segment of another call has that call's key, and so is served the
  decision cached for it, although the workload and the MCP context both differ.
\<close>

lemma workload_colon_aliases_mcp_key:
  assumes "ev_mcp e \<noteq> []"
    and "f = e\<lparr>ev_mcp := [], ev_agent_identity := (ev_agent_identity e)\<lparr>ai_workload :=
        ai_workload (ev_agent_identity e) @ '':m'' @ vv_digest env (JObj (ev_mcp e))\<rparr>\<rparr>"
  shows "cache_scope env f = cache_scope env e
    \<and> ai_workload (ev_agent_identity f) \<noteq> ai_workload (ev_agent_identity e)
    \<and> ev_mcp f \<noteq> ev_mcp e"
  using assms by (simp add: cache_scope_def cache_tool_key_def params_digest_def)


end
