(* ===== verification/Sdk_Client.thy ===== *)
theory Sdk_Client
  imports Decision
begin

text \<open>
  The client an enforcement point uses to ask the engine for a decision
  (\<open>norviq/sdk/client/engine.py\<close>): the search for numbers JSON cannot carry, the retry loop
  around one HTTP exchange, the circuit breaker, and the decision each kind of failure becomes.

  The HTTP library, the serialiser of the event and the validation of the answer are arguments:
  what each attempt brought, the encoded body if there is one, and the decision a JSON document
  denotes if it denotes one. The monotonic clock is an argument as well.
\<close>

section \<open>Numbers the request cannot carry\<close>

text \<open>
  The parameters of a call are Python objects, which may share parts and may contain themselves.
  They are a heap of objects; a container lists the addresses of its parts.
\<close>

type_synonym addr = nat

datatype pyfloat = Finite rat | Infinite | NotANumber

datatype pyobject =
    PyFloat pyfloat
  | PyDict "(addr \<times> addr) list"
  | PySequence "addr list"
  | PyOther

type_synonym heap = "addr \<Rightarrow> pyobject"

fun isfinite :: "pyfloat \<Rightarrow> bool" where
  "isfinite (Finite r) = True"
| "isfinite Infinite = False"
| "isfinite NotANumber = False"

text \<open>The parts of a container in the order the search pushes them: the keys, then the values.\<close>

fun parts :: "pyobject \<Rightarrow> addr list option" where
  "parts (PyDict kvs) = Some (map fst kvs @ map snd kvs)"
| "parts (PySequence xs) = Some xs"
| "parts _ = None"

fun bad_number :: "pyobject \<Rightarrow> bool" where
  "bad_number (PyFloat f) \<longleftrightarrow> \<not> isfinite f"
| "bad_number _ \<longleftrightarrow> False"

definition max_param_nodes :: nat where
  "max_param_nodes = 100000"

datatype post_error =
    Unencodable_Request string
  | Engine_Timeout int
  | Status_Error int
  | Request_Error
  | Request_Failed
  | Other_Error

text \<open>
  The stack has its top first, so the last part of a container is the next one looked at.
\<close>

function non_finite_loop :: "heap \<Rightarrow> addr list \<Rightarrow> addr list \<Rightarrow> (post_error, bool) res" where
  "non_finite_loop h [] visited = Inr False"
| "non_finite_loop h (a # stack) visited =
     (if bad_number (h a) then Inr True
      else case parts (h a) of
        None \<Rightarrow> non_finite_loop h stack visited
      | Some ps \<Rightarrow>
          if a \<in> set visited then non_finite_loop h stack visited
          else if length (a # visited) > max_param_nodes
          then Inl (Unencodable_Request (''more than 100000 containers in the call''))
          else non_finite_loop h (rev ps @ stack) (a # visited))"
  by pat_completeness auto
termination
  by (relation "measures [\<lambda>(h, stack, visited). max_param_nodes - length visited,
        \<lambda>(h, stack, visited). length stack]")
    (auto simp: not_less intro: diff_less_mono2 split: if_splits)

definition non_finite :: "heap \<Rightarrow> addr \<Rightarrow> (post_error, bool) res" where
  "non_finite h value = non_finite_loop h [value] []"

section \<open>The client and its circuit breaker\<close>

record sdk_client =
  sk_timeout_ms :: int
  sk_max_retries :: int
  sk_fail_threshold :: int
  sk_reset_after_ms :: rat
  sk_failure_count :: int
  sk_circuit_open_until :: time

definition new_client :: "int \<Rightarrow> int \<Rightarrow> int \<Rightarrow> rat \<Rightarrow> sdk_client" where
  "new_client timeout_ms max_retries fail_threshold reset_after_ms =
     \<lparr>sk_timeout_ms = timeout_ms, sk_max_retries = max_retries,
      sk_fail_threshold = fail_threshold, sk_reset_after_ms = reset_after_ms,
      sk_failure_count = 0, sk_circuit_open_until = 0\<rparr>"

definition is_circuit_open :: "sdk_client \<Rightarrow> time \<Rightarrow> bool" where
  "is_circuit_open c now \<longleftrightarrow> now < sk_circuit_open_until c"

definition record_failure :: "sdk_client \<Rightarrow> time \<Rightarrow> sdk_client" where
  "record_failure c now =
     (let c' = c\<lparr>sk_failure_count := sk_failure_count c + 1\<rparr>
      in if sk_failure_count c' \<ge> sk_fail_threshold c'
         then c'\<lparr>sk_circuit_open_until := now + sk_reset_after_ms c' / 1000\<rparr>
         else c')"

definition record_success :: "sdk_client \<Rightarrow> sdk_client" where
  "record_success c = c\<lparr>sk_failure_count := 0, sk_circuit_open_until := 0\<rparr>"

section \<open>One request with its retries\<close>

text \<open>
  What one attempt brings: a response with its status and its body if the body is JSON, a timeout,
  another transport error, or an exception of any other kind.
\<close>

datatype answer = Response int "json option" | Timed_Out | Transport_Failed | Other_Failure

type_synonym exchange = "time \<times> answer"

text \<open>\<open>raise_for_status\<close> of the HTTP library raises for every status outside 200 to 299.\<close>

definition is_success :: "int \<Rightarrow> bool" where
  "is_success st \<longleftrightarrow> 200 \<le> st \<and> st < 300"

text \<open>
  The loop over the attempts. Besides the result and the client it gives the exchanges made, each
  with the clock at its outcome. The pauses between attempts only pass time.
\<close>

fun post_loop ::
  "sdk_client \<Rightarrow> (nat \<Rightarrow> exchange) \<Rightarrow> nat list
     \<Rightarrow> (post_error, json) res \<times> sdk_client \<times> exchange list" where
  "post_loop c net [] = (Inl Request_Failed, c, [])"
| "post_loop c net (attempt # rest) =
     (case net attempt of (now, a) \<Rightarrow>
        (case a of
           Response st body \<Rightarrow>
             if is_success st
             then ((case body of None \<Rightarrow> Inl Other_Error | Some j \<Rightarrow> Inr j), record_success c, [(now, a)])
             else (Inl (Status_Error st), (if st \<ge> 500 then record_failure c now else c), [(now, a)])
         | Timed_Out \<Rightarrow>
             if int attempt \<ge> sk_max_retries c
             then (Inl (Engine_Timeout (sk_timeout_ms c)), record_failure c now, [(now, a)])
             else (case post_loop (record_failure c now) net rest of
                     (r, c', made) \<Rightarrow> (r, c', (now, a) # made))
         | Transport_Failed \<Rightarrow>
             if int attempt \<ge> sk_max_retries c
             then (Inl Request_Error, record_failure c now, [(now, a)])
             else (case post_loop (record_failure c now) net rest of
                     (r, c', made) \<Rightarrow> (r, c', (now, a) # made))
         | Other_Failure \<Rightarrow> (Inl Other_Error, c, [(now, a)])))"

record sdk_call =
  sc_event_id :: string
  sc_heap :: heap
  sc_tool_params :: addr
  sc_mcp :: addr

text \<open>
  The two searches in their order; the second runs only when the first finds nothing. The encoded
  body is \<open>None\<close> when the serialiser raises.
\<close>

definition check_numbers :: "sdk_call \<Rightarrow> (post_error, unit) res" where
  "check_numbers e =
     bind_res (non_finite (sc_heap e) (sc_tool_params e)) (\<lambda>b.
       bind_res (if b then Inr True else non_finite (sc_heap e) (sc_mcp e)) (\<lambda>b'.
         if b' then Inl (Unencodable_Request ''a non-finite number (inf or nan) in the call'')
         else Inr ()))"

definition post ::
  "sdk_client \<Rightarrow> (sdk_call \<Rightarrow> string option) \<Rightarrow> (nat \<Rightarrow> exchange) \<Rightarrow> sdk_call
     \<Rightarrow> (post_error, json) res \<times> sdk_client \<times> exchange list" where
  "post c encode net e =
     (case check_numbers e of
        Inl x \<Rightarrow> (Inl x, c, [])
      | Inr _ \<Rightarrow>
          (case encode e of
             None \<Rightarrow> (Inl (Unencodable_Request ''''), c, [])
           | Some body \<Rightarrow> post_loop c net [0..<nat (sk_max_retries c + 1)]))"

section \<open>The decision\<close>

definition sdk_fallback_decision :: "string \<Rightarrow> time \<Rightarrow> string \<Rightarrow> policy_decision" where
  "sdk_fallback_decision fallback_mode now event_id =
     (let mode = (if fallback_mode \<notin> {''allow'', ''block''} then ''block'' else fallback_mode)
      in (default_decision (if mode = ''allow'' then Allow else Block) now)
           \<lparr>pd_rule_id := ''engine_unavailable_fallback'',
            pd_reason := ''Engine unavailable, fallback='' @ mode,
            pd_event_id := event_id\<rparr>)"

definition handle_http_error :: "string \<Rightarrow> time \<Rightarrow> string \<Rightarrow> int \<Rightarrow> policy_decision" where
  "handle_http_error fallback_mode now event_id status =
     (if 400 \<le> status \<and> status < 500
      then (default_decision Block now)
             \<lparr>pd_rule_id := ''engine_rejected_request'',
              pd_reason := ''Policy engine rejected the request (HTTP '' @ show_int status @ '') ''
                @ em_dash @ '' this is a credential or request error, not an engine outage; ''
                @ ''fail-open does not apply.'',
              pd_event_id := event_id\<rparr>
      else sdk_fallback_decision fallback_mode now event_id)"

definition unencodable_decision :: "time \<Rightarrow> string \<Rightarrow> policy_decision" where
  "unencodable_decision now event_id =
     (default_decision Block now)
       \<lparr>pd_rule_id := ''engine_request_unencodable'',
        pd_reason := ''The evaluate request could not be encoded locally (for example, arguments ''
          @ ''nested too deeply); this is not an engine outage, and fail-open does not apply.'',
        pd_event_id := event_id\<rparr>"

fun error_decision :: "string \<Rightarrow> time \<Rightarrow> string \<Rightarrow> post_error \<Rightarrow> policy_decision" where
  "error_decision mode now eid (Unencodable_Request _) = unencodable_decision now eid"
| "error_decision mode now eid (Engine_Timeout _) = sdk_fallback_decision mode now eid"
| "error_decision mode now eid (Status_Error st) = handle_http_error mode now eid st"
| "error_decision mode now eid Request_Error = sdk_fallback_decision mode now eid"
| "error_decision mode now eid Request_Failed = sdk_fallback_decision mode now eid"
| "error_decision mode now eid Other_Error = sdk_fallback_decision mode now eid"

text \<open>
  \<open>evaluate\<close>: the breaker first, then the request; a body that is no decision is one more
  unexpected error.
\<close>

definition sdk_evaluate ::
  "string \<Rightarrow> (json \<Rightarrow> policy_decision option) \<Rightarrow> (sdk_call \<Rightarrow> string option)
     \<Rightarrow> time \<Rightarrow> (nat \<Rightarrow> exchange) \<Rightarrow> sdk_client \<Rightarrow> sdk_call
     \<Rightarrow> policy_decision \<times> sdk_client \<times> exchange list" where
  "sdk_evaluate mode validate encode now net c e =
     (if is_circuit_open c now then (sdk_fallback_decision mode now (sc_event_id e), c, [])
      else
        (case post c encode net e of
           (Inl x, c', made) \<Rightarrow> (error_decision mode now (sc_event_id e) x, c', made)
         | (Inr j, c', made) \<Rightarrow>
             (case validate j of
                None \<Rightarrow> (error_decision mode now (sc_event_id e) Other_Error, c', made)
              | Some d \<Rightarrow> (d, c', made))))"

end
