(* ===== verification/Sdk_Client_Props.thy ===== *)
theory Sdk_Client_Props
  imports Sdk_Client
begin

text \<open>
  What the client of the engine promises: the search for non-finite numbers is exact on every
  object graph, cyclic ones included; the breaker opens on silence alone; a call is let through
  without a decision of the engine only by the configured fallback. The last property shows which
  answers of a reachable engine take that fallback.
\<close>

section \<open>The search is exact\<close>

inductive reachable :: "heap \<Rightarrow> addr \<Rightarrow> addr \<Rightarrow> bool" for h r where
  reach_root: "reachable h r r"
| reach_part: "reachable h r a \<Longrightarrow> parts (h a) = Some ps \<Longrightarrow> p \<in> set ps \<Longrightarrow> reachable h r p"

definition examined :: "heap \<Rightarrow> addr set \<Rightarrow> addr \<Rightarrow> bool" where
  "examined h V a \<longleftrightarrow> \<not> bad_number (h a) \<and> (parts (h a) \<noteq> None \<longrightarrow> a \<in> V)"

lemma examined_mono: "examined h V a \<Longrightarrow> V \<subseteq> W \<Longrightarrow> examined h W a"
  by (auto simp: examined_def)

lemma non_finite_loop_True:
  assumes "non_finite_loop h stack visited = Inr True" and "set stack \<subseteq> Collect (reachable h r)"
  shows "\<exists>a. reachable h r a \<and> bad_number (h a)"
  using assms
proof (induction h stack visited rule: non_finite_loop.induct)
  case (2 h a stack visited)
  show ?case
  proof (cases "bad_number (h a)")
    case True
    then show ?thesis using "2.prems"(2) by auto
  next
    case False
    have "\<forall>ps. parts (h a) = Some ps \<longrightarrow> set ps \<subseteq> Collect (reachable h r)"
      using "2.prems"(2) reach_part [of h r a] by auto
    then show ?thesis
      using False 2 by (auto split: option.splits if_splits)
  qed
qed simp

definition search_closed :: "heap \<Rightarrow> addr list \<Rightarrow> addr set \<Rightarrow> addr set \<Rightarrow> bool" where
  "search_closed h stack U V \<longleftrightarrow> U \<subseteq> V \<and> (\<forall>a\<in>set stack. examined h V a)
     \<and> (\<forall>a\<in>V - U. \<forall>ps. parts (h a) = Some ps \<longrightarrow> (\<forall>p\<in>set ps. examined h V p))"

lemma search_closed_skip:
  assumes "search_closed h stack U V" and "\<not> bad_number (h a)"
    and "parts (h a) = None \<or> a \<in> U"
  shows "search_closed h (a # stack) U V"
  using assms unfolding search_closed_def examined_def by auto

lemma search_closed_push:
  assumes "search_closed h (rev ps @ stack) (insert a U) V" and "\<not> bad_number (h a)"
    and "parts (h a) = Some ps"
  shows "search_closed h (a # stack) U V"
proof -
  have "examined h V a" using assms by (simp add: search_closed_def examined_def)
  moreover have "\<forall>p\<in>set ps. examined h V p" using assms(1) by (simp add: search_closed_def)
  ultimately show ?thesis using assms(1,3) unfolding search_closed_def by fastforce
qed

lemma non_finite_loop_False:
  assumes "non_finite_loop h stack visited = Inr False"
  shows "\<exists>V. search_closed h stack (set visited) V"
  using assms
proof (induction h stack visited rule: non_finite_loop.induct)
  case (1 h visited)
  show ?case by (rule exI [of _ "set visited"]) (simp add: search_closed_def)
next
  case (2 h a stack visited)
  from "2.prems" have good: "\<not> bad_number (h a)" by (auto split: if_splits)
  show ?case
  proof (cases "parts (h a) = None \<or> a \<in> set visited")
    case True
    then have "\<exists>V. search_closed h stack (set visited) V"
      using "2.prems" "2.IH"(1,2) good by (cases "parts (h a)") auto
    then show ?thesis using search_closed_skip good True by blast
  next
    case False
    then obtain ps where ps: "parts (h a) = Some ps" by auto
    have "\<exists>V. search_closed h (rev ps @ stack) (set (a # visited)) V"
      using "2.prems" "2.IH"(3) good False ps by (simp split: if_splits)
    then show ?thesis using search_closed_push [of h ps stack a "set visited"] good ps by auto
  qed
qed

lemma non_finite_loop_error:
  assumes "non_finite_loop h stack visited = Inl e"
    and "set stack \<union> set visited \<subseteq> Collect (reachable h r)"
    and "distinct visited" and "\<forall>a\<in>set visited. parts (h a) \<noteq> None"
  shows "\<exists>ws. distinct ws \<and> max_param_nodes < length ws
    \<and> set ws \<subseteq> {w. reachable h r w \<and> parts (h w) \<noteq> None}"
  using assms
proof (induction h stack visited rule: non_finite_loop.induct)
  case (2 h a stack visited)
  from "2.prems"(1) have good: "\<not> bad_number (h a)" by (auto split: if_splits)
  show ?case
  proof (cases "parts (h a)")
    case None
    then show ?thesis using 2 good by auto
  next
    case (Some ps)
    have parts: "set ps \<subseteq> Collect (reachable h r)"
      using Some "2.prems"(2) reach_part [of h r a ps] by auto
    show ?thesis
    proof (cases "a \<in> set visited")
      case True
      then show ?thesis using 2 good Some by auto
    next
      case False
      show ?thesis
      proof (cases "length (a # visited) > max_param_nodes")
        case True
        then show ?thesis using "2.prems" False Some by (intro exI [of _ "a # visited"]) auto
      next
        case small: False
        then have "non_finite_loop h (rev ps @ stack) (a # visited) = Inl e"
          using "2.prems"(1) good Some False by simp
        then show ?thesis
          using "2.IH"(3) [OF good Some False small] "2.prems"(2-4) parts False Some by auto
      qed
    qed
  qed
qed simp

lemma closed_examined:
  assumes "reachable h r a" and "examined h V r"
    and "\<forall>a\<in>V. \<forall>ps. parts (h a) = Some ps \<longrightarrow> (\<forall>p\<in>set ps. examined h V p)"
  shows "examined h V a"
  using assms by induction (auto simp: examined_def)

text \<open>
  C40. On every object graph, shared and cyclic ones included, the search for a non-finite
  number ends with the right answer: it reports one exactly when one can be reached from the
  value, through keys or values, and it refuses only a graph with more than 100000 containers.
\<close>

theorem non_finite_search_exact:
  "case non_finite h r of
     Inr found \<Rightarrow> found = (\<exists>a. reachable h r a \<and> bad_number (h a))
   | Inl e \<Rightarrow> \<exists>ws. distinct ws \<and> 100000 < length ws
       \<and> set ws \<subseteq> {w. reachable h r w \<and> parts (h w) \<noteq> None}"
proof (cases "non_finite h r")
  case (Inl e)
  then show ?thesis
    using non_finite_loop_error [of h "[r]" "[]" e r]
    by (auto simp: non_finite_def max_param_nodes_def intro: reach_root)
next
  case (Inr found)
  show ?thesis
  proof (cases found)
    case True
    then show ?thesis
      using Inr non_finite_loop_True [of h "[r]" "[]" r] by (auto simp: non_finite_def reach_root)
  next
    case False
    then obtain V where V: "examined h V r"
      "\<forall>a\<in>V. \<forall>ps. parts (h a) = Some ps \<longrightarrow> (\<forall>p\<in>set ps. examined h V p)"
      using Inr non_finite_loop_False [of h "[r]" "[]"]
      by (auto simp: non_finite_def search_closed_def)
    have "\<not> bad_number (h a)" if "reachable h r a" for a
      using closed_examined [OF that V] by (simp add: examined_def)
    then show ?thesis using Inr False by simp
  qed
qed

section \<open>The breaker counts silence\<close>

fun silent :: "answer \<Rightarrow> bool" where
  "silent (Response st _) \<longleftrightarrow> 500 \<le> st"
| "silent Timed_Out \<longleftrightarrow> True"
| "silent Transport_Failed \<longleftrightarrow> True"
| "silent Other_Failure \<longleftrightarrow> False"

fun accepted :: "answer \<Rightarrow> bool" where
  "accepted (Response st _) \<longleftrightarrow> is_success st"
| "accepted _ \<longleftrightarrow> False"

text \<open>The times of the silences since the last accepted request, the newest first.\<close>

fun silences :: "exchange list \<Rightarrow> time list" where
  "silences [] = []"
| "silences ((t, a) # h) =
     (if accepted a then [] else if silent a then t # silences h else silences h)"

definition breaker_state :: "exchange list \<Rightarrow> sdk_client \<Rightarrow> bool" where
  "breaker_state h c \<longleftrightarrow>
     sk_failure_count c = int (length (silences h)) \<and>
     sk_circuit_open_until c =
       (if silences h \<noteq> [] \<and> sk_fail_threshold c \<le> int (length (silences h))
        then hd (silences h) + sk_reset_after_ms c / 1000 else 0)"

definition note_exchange :: "exchange \<Rightarrow> sdk_client \<Rightarrow> sdk_client" where
  "note_exchange x c =
     (if accepted (snd x) then record_success c
      else if silent (snd x) then record_failure c (fst x) else c)"

lemma note_exchange_fixed [simp]:
  "sk_fail_threshold (note_exchange x c) = sk_fail_threshold c"
  "sk_reset_after_ms (note_exchange x c) = sk_reset_after_ms c"
  "sk_max_retries (note_exchange x c) = sk_max_retries c"
  by (simp_all add: note_exchange_def record_success_def record_failure_def Let_def)

lemma note_exchange_breaker: "breaker_state h c \<Longrightarrow> breaker_state (x # h) (note_exchange x c)"
  by (cases x) (auto simp: breaker_state_def note_exchange_def record_success_def
      record_failure_def Let_def)

lemma fold_breaker:
  "breaker_state h c \<Longrightarrow> breaker_state (rev xs @ h) (fold note_exchange xs c)
     \<and> sk_fail_threshold (fold note_exchange xs c) = sk_fail_threshold c
     \<and> sk_reset_after_ms (fold note_exchange xs c) = sk_reset_after_ms c"
proof (induction xs arbitrary: h c)
  case (Cons x xs)
  show ?case using Cons.IH [OF note_exchange_breaker [OF Cons.prems, of x]] by simp
qed simp

lemma post_loop_notes:
  "post_loop c net ks = (r, c', made) \<Longrightarrow> c' = fold note_exchange made c"
proof (induction ks arbitrary: c r made)
  case (Cons k ks)
  obtain now a where net: "net k = (now, a)" by (cases "net k")
  show ?case
  proof (cases a)
    case (Response st body)
    then show ?thesis
      using Cons.prems net
      by (auto simp: note_exchange_def is_success_def split: if_splits)
  next
    case Timed_Out
    then show ?thesis
      using Cons.prems net Cons.IH
      by (auto simp: note_exchange_def split: if_splits prod.splits)
  next
    case Transport_Failed
    then show ?thesis
      using Cons.prems net Cons.IH
      by (auto simp: note_exchange_def split: if_splits prod.splits)
  next
    case Other_Failure
    then show ?thesis using Cons.prems net by (auto simp: note_exchange_def)
  qed
qed simp

lemma sdk_evaluate_notes:
  assumes "sdk_evaluate mode validate encode now net c e = (d, c', made)"
  shows "c' = fold note_exchange made c"
proof -
  obtain r c1 xs where p: "post c encode net e = (r, c1, xs)" by (cases "post c encode net e")
  have "c1 = fold note_exchange xs c"
    using p by (auto simp: post_def split: sum.splits option.splits dest: post_loop_notes)
  then show ?thesis
    using assms p by (auto simp: sdk_evaluate_def split: if_splits sum.splits option.splits)
qed

text \<open>
  The evaluations of one client in sequence, with the exchanges they made, the newest first.
\<close>

inductive sdk_runs :: "sdk_client \<Rightarrow> exchange list \<Rightarrow> sdk_client \<Rightarrow> bool" for c0 where
  run_start: "sdk_runs c0 [] c0"
| run_step: "sdk_runs c0 h c \<Longrightarrow>
    sdk_evaluate mode validate encode now net c e = (d, c', made) \<Longrightarrow> sdk_runs c0 (rev made @ h) c'"

lemma sdk_runs_breaker:
  assumes "sdk_runs c0 h c" and "breaker_state [] c0"
  shows "breaker_state h c \<and> sk_fail_threshold c = sk_fail_threshold c0
    \<and> sk_reset_after_ms c = sk_reset_after_ms c0"
  using assms
proof induction
  case (run_step h c mode validate encode now net e d c' made)
  then show ?case using fold_breaker [of h c made] sdk_evaluate_notes [OF run_step(2)] by simp
qed simp

text \<open>
  C39. After any sequence of evaluations the circuit is open exactly when the engine stayed
  silent, by a timeout, a transport error or a status of 500 or above, at least the threshold
  number of times since the last accepted request, and the reset period since the newest silence
  is not over. Refusals of the engine, below 500, neither open nor close it.
\<close>

theorem breaker_opens_on_silence_only:
  assumes "sdk_runs (new_client timeout_ms max_retries threshold reset_ms) h c" and "0 \<le> now"
  shows "is_circuit_open c now \<longleftrightarrow>
    silences h \<noteq> [] \<and> threshold \<le> int (length (silences h)) \<and> now < hd (silences h) + reset_ms / 1000"
proof -
  have "breaker_state [] (new_client timeout_ms max_retries threshold reset_ms)"
    by (simp add: breaker_state_def new_client_def)
  from sdk_runs_breaker [OF assms(1) this] show ?thesis
    using assms(2) by (simp add: breaker_state_def is_circuit_open_def new_client_def)
qed

theorem breaker_opens_on_silence_only_witness:
  "is_circuit_open (fold note_exchange [(1, Response 503 None), (2, Response 401 None), (3, Timed_Out)]
     (new_client 5000 0 2 2000)) 4"
proof -
  let ?e = "\<lparr>sc_event_id = ''e'', sc_heap = \<lambda>_. PyOther, sc_tool_params = 0, sc_mcp = 0\<rparr>"
  let ?run = "\<lambda>x c. sdk_evaluate ''block'' (\<lambda>_. None) (\<lambda>_. Some '''') 0 (\<lambda>_. x) c ?e"
  have "check_numbers ?e = Inr ()" by (simp add: check_numbers_def non_finite_def)
  then have made: "snd (snd (?run x c)) = [x]"
    if "sk_circuit_open_until c = 0" "sk_max_retries c = 0" for x c
    using that by (cases x; cases "snd x")
      (auto simp: sdk_evaluate_def post_def is_circuit_open_def split: option.splits)
  have step: "sdk_runs c0 (x # h) (note_exchange x c)"
    if run: "sdk_runs c0 h c" and idle: "sk_circuit_open_until c = 0" "sk_max_retries c = 0" for c0 h c x
  proof -
    obtain d c' where r: "?run x c = (d, c', [x])" using made [OF idle, of x] by (metis prod.collapse)
    from run_step [OF run r] sdk_evaluate_notes [OF r] show ?thesis by simp
  qed
  have "sdk_runs (new_client 5000 0 2 2000)
      [(3, Timed_Out), (2, Response 401 None), (1, Response 503 None)]
      (fold note_exchange [(1, Response 503 None), (2, Response 401 None), (3, Timed_Out)]
        (new_client 5000 0 2 2000))"
    by (simp, intro step run_start)
      (simp_all add: note_exchange_def new_client_def record_failure_def is_success_def Let_def)
  from breaker_opens_on_silence_only [OF this, of 4] show ?thesis
    by (simp add: is_success_def)
qed

section \<open>Calls let through without a decision\<close>

fun refusal :: "answer \<Rightarrow> bool" where
  "refusal (Response st _) \<longleftrightarrow> 400 \<le> st \<and> st < 500"
| "refusal _ \<longleftrightarrow> False"

definition refused :: "exchange list \<Rightarrow> bool" where
  "refused made \<longleftrightarrow> made \<noteq> [] \<and> refusal (snd (last made))"

fun explains :: "exchange list \<Rightarrow> (post_error, json) res \<Rightarrow> bool" where
  "explains made (Inr j) \<longleftrightarrow>
     (\<exists>t st. made \<noteq> [] \<and> last made = (t, Response st (Some j)) \<and> is_success st)"
| "explains made (Inl (Status_Error st)) \<longleftrightarrow>
     (\<exists>t body. made \<noteq> [] \<and> last made = (t, Response st body) \<and> \<not> is_success st)"
| "explains made (Inl (Unencodable_Request m)) \<longleftrightarrow> False"
| "explains made (Inl x) \<longleftrightarrow> \<not> refused made"

lemma explains_Cons:
  assumes "explains made r" and "\<not> refusal a"
  shows "explains ((t, a) # made) r"
  using assms by (cases "(made, r)" rule: explains.cases) (auto simp: refused_def)

lemma post_loop_explains: "post_loop c net ks = (r, c', made) \<Longrightarrow> explains made r"
proof (induction ks arbitrary: c r made)
  case Nil
  then show ?case by (auto simp: refused_def)
next
  case (Cons k ks)
  obtain now a where net: "net k = (now, a)" by (cases "net k")
  show ?case
  proof (cases a)
    case (Response st body)
    then show ?thesis
      using Cons.prems net
      by (cases body) (auto simp: refused_def is_success_def split: if_splits)
  next
    case Timed_Out
    then show ?thesis
      using Cons.prems net Cons.IH explains_Cons [of _ r Timed_Out now]
      by (auto simp: refused_def split: if_splits prod.splits)
  next
    case Transport_Failed
    then show ?thesis
      using Cons.prems net Cons.IH explains_Cons [of _ r Transport_Failed now]
      by (auto simp: refused_def split: if_splits prod.splits)
  next
    case Other_Failure
    then show ?thesis using Cons.prems net by (auto simp: refused_def)
  qed
qed

lemma sdk_fallback_decision_simps [simp]:
  "pd_decision (sdk_fallback_decision mode now eid) = (if mode = ''allow'' then Allow else Block)"
  "pd_rule_id (sdk_fallback_decision mode now eid) = ''engine_unavailable_fallback''"
  "pd_event_id (sdk_fallback_decision mode now eid) = eid"
  by (simp_all add: sdk_fallback_decision_def default_decision_def Let_def)

lemma error_decision_allowed:
  assumes "is_allowed (error_decision mode now eid x)"
  shows "mode = ''allow'' \<and> error_decision mode now eid x = sdk_fallback_decision ''allow'' now eid
    \<and> (\<forall>m. x \<noteq> Unencodable_Request m) \<and> (\<forall>st. x = Status_Error st \<longrightarrow> \<not> (400 \<le> st \<and> st < 500))"
  using assms
  by (cases x) (auto simp: is_allowed_def unencodable_decision_def handle_http_error_def
      default_decision_def split: if_splits)

lemma non_finite_loop_raises:
  "non_finite_loop h stack visited = Inl x \<Longrightarrow> \<exists>m. x = Unencodable_Request m"
proof (induction h stack visited rule: non_finite_loop.induct)
  case (2 h a stack visited)
  then show ?case by (auto split: if_splits option.splits)
qed simp

lemma non_finite_raises: "non_finite h v = Inl x \<Longrightarrow> \<exists>m. x = Unencodable_Request m"
  unfolding non_finite_def by (rule non_finite_loop_raises)

lemma check_numbers_error: "check_numbers e = Inl x \<Longrightarrow> \<exists>m. x = Unencodable_Request m"
  by (cases "non_finite (sc_heap e) (sc_tool_params e)";
      cases "non_finite (sc_heap e) (sc_mcp e)")
    (auto simp: check_numbers_def dest: non_finite_raises split: if_splits)

lemma post_explained:
  assumes "post c encode net e = (r, c', made)" and "\<forall>m. r \<noteq> Inl (Unencodable_Request m)"
  shows "check_numbers e = Inr () \<and> encode e \<noteq> None \<and> explains made r"
  using assms
  by (auto simp: post_def split: sum.splits option.splits
      dest: post_loop_explains check_numbers_error)



text \<open>
  An engine that answers can still have its answer replaced by the fallback. With a closed
  circuit and an encodable request, a redirect, which the HTTP library does not follow, and an
  accepted answer whose body is no decision both let the call through under the mode
  \<open>allow\<close>; the first leaves the breaker as it is and the second resets it.
\<close>

lemma unreadable_answer_falls_open:
  assumes "\<not> is_circuit_open c now" and "check_numbers e = Inr ()" and "encode e \<noteq> None"
    and "0 \<le> sk_max_retries c" and "net 0 = (t, Response st body)"
    and "300 \<le> st \<and> st < 400
      \<or> is_success st \<and> (case body of None \<Rightarrow> True | Some j \<Rightarrow> validate j = None)"
  shows "sdk_evaluate ''allow'' validate encode now net c e =
    (sdk_fallback_decision ''allow'' now (sc_event_id e),
     (if is_success st then record_success c else c), [(t, Response st body)])
    \<and> is_allowed (sdk_fallback_decision ''allow'' now (sc_event_id e))"
proof -
  obtain n where n: "nat (sk_max_retries c + 1) = Suc n"
    using assms(4) by (cases "nat (sk_max_retries c + 1)") auto
  then have "post c encode net e = post_loop c net (0 # [1..<Suc n])"
    using assms(2,3) by (auto simp: post_def upt_conv_Cons simp del: upt_Suc)
  then show ?thesis
    using assms(1,5,6)
    by (cases body)
      (auto simp: sdk_evaluate_def is_success_def handle_http_error_def is_allowed_def)
qed

end
