(* ===== verification/Mcp_Protocol.thy ===== *)
theory Mcp_Protocol
  imports Decision "HOL-Library.AList"
begin

text \<open>
  The JSON-RPC messages of the MCP proxy (\<open>norviq/mcp/protocol.py\<close>): access to JSON objects, the
  decoding of one line with the refusal of duplicate and folding keys and of deep nesting, the
  classification of a message as request, notification or response, the accessors of its parts, and
  the two shapes of a refusal.

  The JSON parser and the Unicode folding of keys are arguments.
\<close>

section \<open>JSON values\<close>

fun is_dict :: "json \<Rightarrow> bool" where
  "is_dict (JObj _) \<longleftrightarrow> True"
| "is_dict _ \<longleftrightarrow> False"

fun is_list :: "json \<Rightarrow> bool" where
  "is_list (JList _) \<longleftrightarrow> True"
| "is_list _ \<longleftrightarrow> False"

fun members :: "json \<Rightarrow> (string \<times> json) list" where
  "members (JObj kvs) = kvs"
| "members _ = []"

fun elements :: "json \<Rightarrow> json list" where
  "elements (JList xs) = xs"
| "elements _ = []"

text \<open>\<open>d.get(k)\<close>, \<open>k in d\<close> and \<open>d[k] = v\<close>.\<close>

definition jget :: "json \<Rightarrow> string \<Rightarrow> json option" where
  "jget j k = map_of (members j) k"

definition jkeys :: "json \<Rightarrow> string list" where
  "jkeys j = map fst (members j)"

definition jset :: "string \<Rightarrow> json \<Rightarrow> json \<Rightarrow> json" where
  "jset k v j = JObj (AList.update k v (members j))"

definition jdel :: "string \<Rightarrow> json \<Rightarrow> json" where
  "jdel k j = JObj (AList.delete k (members j))"

text \<open>\<open>d.get(k)\<close> when it is an object, else \<open>{}\<close>; when it is a string, else the empty string.\<close>

definition jdict :: "json \<Rightarrow> string \<Rightarrow> json" where
  "jdict j k = (case jget j k of Some (JObj kvs) \<Rightarrow> JObj kvs | _ \<Rightarrow> JObj [])"

definition jstr :: "json \<Rightarrow> string \<Rightarrow> string" where
  "jstr j k = (case jget j k of Some (JStr s) \<Rightarrow> s | _ \<Rightarrow> '''')"

fun truthy :: "json \<Rightarrow> bool" where
  "truthy JNull \<longleftrightarrow> False"
| "truthy (JBool b) \<longleftrightarrow> b"
| "truthy (JInt i) \<longleftrightarrow> i \<noteq> 0"
| "truthy (JFloat r) \<longleftrightarrow> r \<noteq> 0"
| "truthy (JStr s) \<longleftrightarrow> s \<noteq> ''''"
| "truthy (JList xs) \<longleftrightarrow> xs \<noteq> []"
| "truthy (JObj kvs) \<longleftrightarrow> kvs \<noteq> []"

fun is_container :: "json \<Rightarrow> bool" where
  "is_container (JList _) \<longleftrightarrow> True"
| "is_container (JObj _) \<longleftrightarrow> True"
| "is_container _ \<longleftrightarrow> False"

fun children :: "json \<Rightarrow> json list" where
  "children (JList xs) = xs"
| "children (JObj kvs) = map snd kvs"
| "children _ = []"

lemma children_size: "c \<in> set (children j) \<Longrightarrow> size c < size j"
proof (cases j)
  case (JList xs)
  then show "c \<in> set (children j) \<Longrightarrow> size c < size j"
    using size_list_estimation' [of c xs "size c" size] by force
next
  case (JObj kvs)
  assume "c \<in> set (children j)"
  then obtain k where "(k, c) \<in> set kvs" using JObj by auto
  then show "size c < size j"
    using JObj size_list_estimation' [of "(k, c)" kvs "size c" "size_prod (\<lambda>_. 0) size"] by simp
qed simp_all

section \<open>Decoding\<close>

definition max_depth :: nat where
  "max_depth = 128"

text \<open>\<open>_deeper_than\<close>, one level of containers at a time.\<close>

function deeper_loop :: "nat \<Rightarrow> nat \<Rightarrow> json list \<Rightarrow> bool" where
  "deeper_loop limit depth level =
     (if level = [] then False
      else if depth + 1 > limit then True
      else deeper_loop limit (depth + 1)
        (filter is_container (concat (map children level))))"
  by pat_completeness auto
termination
  by (relation "measure (\<lambda>(limit, depth, level). limit - depth)") auto

declare deeper_loop.simps [simp del]

definition deeper_than :: "json \<Rightarrow> nat \<Rightarrow> bool" where
  "deeper_than data limit = deeper_loop limit 0 (if is_container data then [data] else [])"

text \<open>
  \<open>_unique_keys\<close>: the keys of one object must differ, and differ after folding; keys that are all
  lower-case ASCII are not folded.
\<close>

definition ascii_lower :: "string \<Rightarrow> bool" where
  "ascii_lower s \<longleftrightarrow> list_all (\<lambda>c. of_char c < (128::nat)) s \<and> lower s = s"

definition unique_keys :: "(string \<Rightarrow> string) \<Rightarrow> (string \<times> json) list \<Rightarrow> bool" where
  "unique_keys fold_key pairs \<longleftrightarrow>
     distinct (map fst pairs) \<and>
     (length pairs > 1 \<longrightarrow> ascii_lower (concat (map fst pairs)) \<or>
        distinct (map (fold_key \<circ> fst) pairs))"

fun all_unique :: "(string \<Rightarrow> string) \<Rightarrow> json \<Rightarrow> bool" where
  "all_unique f (JObj kvs) \<longleftrightarrow> unique_keys f kvs \<and> (\<forall>kv\<in>set kvs. all_unique f (snd kv))"
| "all_unique f (JList xs) \<longleftrightarrow> (\<forall>x\<in>set xs. all_unique f x)"
| "all_unique f _ \<longleftrightarrow> True"

definition count_open :: "string \<Rightarrow> nat" where
  "count_open s = length (filter (\<lambda>c. c = CHR ''['' \<or> c = CHR 0x7B) s)"

text \<open>
  \<open>decode\<close>: the parser gives the document of a well-formed line without non-finite numbers.
\<close>

definition decode ::
  "(string \<Rightarrow> json option) \<Rightarrow> (string \<Rightarrow> string) \<Rightarrow> string \<Rightarrow> json option" where
  "decode loads fold_key line =
     (let stripped = strip line
      in if stripped = '''' then None
         else case loads stripped of
             None \<Rightarrow> None
           | Some data \<Rightarrow>
               if \<not> all_unique fold_key data then None
               else if count_open stripped > max_depth \<and> deeper_than data max_depth then None
               else Some data)"

section \<open>Messages\<close>

definition is_batch :: "json \<Rightarrow> bool" where
  "is_batch m \<longleftrightarrow> is_list m"

definition msg_method :: "json \<Rightarrow> string" where
  "msg_method m = jstr m ''method''"

definition msg_id :: "json \<Rightarrow> json" where
  "msg_id m = (case jget m ''id'' of Some i \<Rightarrow> i | None \<Rightarrow> JNull)"

definition has_id :: "json \<Rightarrow> bool" where
  "has_id m \<longleftrightarrow> msg_id m \<noteq> JNull"

definition carries_answer :: "json \<Rightarrow> bool" where
  "carries_answer m \<longleftrightarrow> ''result'' \<in> set (jkeys m) \<or> ''error'' \<in> set (jkeys m)"

definition is_request :: "json \<Rightarrow> bool" where
  "is_request m \<longleftrightarrow> msg_method m \<noteq> '''' \<and> has_id m \<and> \<not> carries_answer m"

definition is_notification :: "json \<Rightarrow> bool" where
  "is_notification m \<longleftrightarrow> msg_method m \<noteq> '''' \<and> \<not> has_id m \<and> \<not> carries_answer m"

definition is_response :: "json \<Rightarrow> bool" where
  "is_response m \<longleftrightarrow> is_dict m \<and> ''method'' \<notin> set (jkeys m) \<and> ''id'' \<in> set (jkeys m) \<and> carries_answer m"

definition msg_params :: "json \<Rightarrow> json" where
  "msg_params m = jdict m ''params''"

definition msg_result :: "json \<Rightarrow> json" where
  "msg_result m = jdict m ''result''"

definition result_type :: "json \<Rightarrow> string" where
  "result_type m =
     (if \<not> is_response m then ''''
      else case jget (msg_result m) ''resultType'' of Some (JStr s) \<Rightarrow> s | _ \<Rightarrow> ''complete'')"

definition is_input_required :: "json \<Rightarrow> bool" where
  "is_input_required m \<longleftrightarrow> result_type m = ''input_required''"

definition input_requests :: "json \<Rightarrow> json list" where
  "input_requests m =
     (case jget (msg_result m) ''inputRequests'' of Some (JList xs) \<Rightarrow> xs | _ \<Rightarrow> [])"

definition input_responses :: "json \<Rightarrow> json option" where
  "input_responses m =
     (case jget (msg_params m) ''inputResponses'' of
        None \<Rightarrow> None
      | Some v \<Rightarrow> if v \<in> {JNull, JObj [], JList []} then None else Some v)"

definition msg_meta :: "json \<Rightarrow> json" where
  "msg_meta m =
     (case jget (msg_params m) ''_meta'' of Some (JObj kvs) \<Rightarrow> JObj kvs
      | _ \<Rightarrow> jdict (msg_result m) ''_meta'')"

section \<open>Refusals\<close>

definition e_invalid_request :: int where
  "e_invalid_request = -32600"

definition e_policy_denied :: int where
  "e_policy_denied = -32001"

definition error_response :: "json \<Rightarrow> int \<Rightarrow> string \<Rightarrow> (string \<times> json) list \<Rightarrow> json" where
  "error_response i code message data =
     JObj [(''jsonrpc'', JStr ''2.0''), (''id'', i),
       (''error'', JObj ([(''code'', JInt code), (''message'', JStr message)]
          @ (if data \<noteq> [] then [(''data'', JObj data)] else [])))]"

definition tool_error_result :: "json \<Rightarrow> string \<Rightarrow> (string \<times> json) list \<Rightarrow> json" where
  "tool_error_result i txt meta =
     JObj [(''jsonrpc'', JStr ''2.0''), (''id'', i),
       (''result'', JObj ([(''content'', JList [JObj [(''type'', JStr ''text''), (''text'', JStr txt)]]),
            (''isError'', JBool True)]
          @ (if meta \<noteq> [] then [(''_meta'', JObj [(''norviq'', JObj meta)])] else [])))]"

section \<open>What decoding guarantees\<close>

text \<open>The nesting of a value by structural recursion, the reference for the level-wise search.\<close>

fun nesting :: "json \<Rightarrow> nat" where
  "nesting (JList xs) = Suc (foldr max (map nesting xs) 0)"
| "nesting (JObj kvs) = Suc (foldr max (map (\<lambda>kv. nesting (snd kv)) kvs) 0)"
| "nesting _ = 0"

lemma less_foldr_max: "n < foldr max (map f xs) (0::nat) \<longleftrightarrow> (\<exists>x\<in>set xs. n < f x)"
  by (induction xs) (auto simp: less_max_iff_disj)

lemma nesting_step:
  assumes "is_container j"
  shows "Suc n < nesting j \<longleftrightarrow> (\<exists>c\<in>set (children j). n < nesting c)" "0 < nesting j"
  using assms by (cases j; simp add: less_foldr_max)+

lemma nesting_pos: "0 < nesting j \<longleftrightarrow> is_container j"
  by (cases j) simp_all

lemma deeper_loop_nesting:
  assumes "\<forall>x\<in>set level. is_container x" and "depth \<le> limit"
  shows "deeper_loop limit depth level \<longleftrightarrow> (\<exists>x\<in>set level. limit < depth + nesting x)"
  using assms
proof (induction limit depth level rule: deeper_loop.induct)
  case (1 limit depth level)
  show ?case
  proof (cases "level = [] \<or> depth + 1 > limit")
    case True
    then show ?thesis
      using "1.prems" nesting_step(2)
      by (subst deeper_loop.simps) (cases level; fastforce)
  next
    case False
    let ?next = "filter is_container (concat (map children level))"
    have "deeper_loop limit depth level = deeper_loop limit (depth + 1) ?next"
      using False by (subst deeper_loop.simps) simp
    also have "\<dots> \<longleftrightarrow> (\<exists>y\<in>set ?next. limit < depth + 1 + nesting y)"
      using "1.IH" False by simp
    also have "\<dots> \<longleftrightarrow> (\<exists>x\<in>set level. \<exists>y\<in>set (children x). limit - Suc depth < nesting y)"
    proof -
      have "(is_container y \<and> limit < depth + 1 + nesting y) \<longleftrightarrow> limit - Suc depth < nesting y" for y
        using False nesting_pos [of y] by auto
      then show ?thesis by auto
    qed
    also have "\<dots> \<longleftrightarrow> (\<exists>x\<in>set level. limit < depth + nesting x)"
    proof -
      have "(\<exists>y\<in>set (children x). limit - Suc depth < nesting y) \<longleftrightarrow> limit < depth + nesting x"
        if "x \<in> set level" for x
        using nesting_step(1) [of x "limit - Suc depth"] "1.prems"(1) that False by auto
      then show ?thesis by auto
    qed
    finally show ?thesis .
  qed
qed

lemma deeper_than_nesting: "deeper_than data limit \<longleftrightarrow> limit < nesting data"
  using deeper_loop_nesting [of "if is_container data then [data] else []" 0 limit] nesting_pos [of data]
  by (auto simp: deeper_than_def)

text \<open>Every object of a document, the document itself included.\<close>

fun objects :: "json \<Rightarrow> (string \<times> json) list set" where
  "objects (JObj kvs) = insert kvs (\<Union>kv\<in>set kvs. objects (snd kv))"
| "objects (JList xs) = (\<Union>x\<in>set xs. objects x)"
| "objects _ = {}"

lemma all_unique_objects: "all_unique f j \<longleftrightarrow> (\<forall>kvs\<in>objects j. unique_keys f kvs)"
  by (induction j rule: objects.induct) auto

lemma ascii_lower_part: "ascii_lower (concat ks) \<Longrightarrow> k \<in> set ks \<Longrightarrow> ascii_lower k"
proof (induction ks)
  case (Cons x ks)
  then show ?case by (auto simp: ascii_lower_def lower_def append_eq_append_conv)
qed simp

lemma unique_keys_folded:
  assumes "\<And>k. ascii_lower k \<Longrightarrow> fold_key k = k" and "unique_keys fold_key pairs"
  shows "distinct (map (fold_key \<circ> fst) pairs)"
proof (cases "length pairs > 1 \<and> \<not> ascii_lower (concat (map fst pairs))")
  case True
  then show ?thesis using assms(2) by (simp add: unique_keys_def)
next
  case False
  show ?thesis
  proof (cases "length pairs > 1")
    case True
    have "map (fold_key \<circ> fst) pairs = map fst pairs"
      using False True assms(1) ascii_lower_part [of "map fst pairs"] by auto
    then show ?thesis using assms(2) unfolding unique_keys_def by metis
  next
    case False
    then show ?thesis by (cases pairs; cases "tl pairs") auto
  qed
qed

text \<open>
  C16. A line the decoder accepts gives a document in which no object has two keys that a
  case-insensitive peer could read as one, and which nests at most 128 levels: the level-wise search
  and the shortcuts over ASCII keys and over the count of brackets miss nothing. It rests on the
  folding leaving lower-case ASCII alone and on every container of a parsed document having an
  opening bracket of its own in the text.
\<close>

theorem decoded_document_unambiguous:
  assumes "\<And>k. ascii_lower k \<Longrightarrow> fold_key k = k"
    and "\<And>s j. loads s = Some j \<Longrightarrow> nesting j \<le> count_open s"
    and "decode loads fold_key line = Some data"
  shows "(\<forall>kvs\<in>objects data. distinct (map (fold_key \<circ> fst) kvs)) \<and> nesting data \<le> 128"
proof -
  have "all_unique fold_key data" and loads: "loads (strip line) = Some data"
    and "\<not> (count_open (strip line) > max_depth \<and> deeper_than data max_depth)"
    using assms(3) by (auto simp: decode_def Let_def split: if_splits option.splits)
  then show ?thesis
    using unique_keys_folded [OF assms(1)] assms(2) [OF loads]
    by (auto simp: all_unique_objects deeper_than_nesting max_depth_def)
qed

theorem decoded_document_unambiguous_witness:
  "nesting (JObj [(''id'', JInt 1), (''method'', JStr ''ping'')]) \<le> 128"
proof -
  let ?d = "JObj [(''id'', JInt 1), (''method'', JStr ''ping'')]"
  let ?loads = "\<lambda>s. if s = [CHR 0x7B] then Some ?d else None"
  have "decode ?loads (\<lambda>k. k) [CHR 0x7B] = Some ?d" by code_simp
  moreover have "nesting j \<le> count_open s" if "?loads s = Some j" for s j
    using that by (auto simp: count_open_def split: if_splits)
  ultimately show ?thesis
    using decoded_document_unambiguous [of "\<lambda>k. k" ?loads "[CHR 0x7B]" ?d] by blast
qed

end
