(* ===== verification/Mcp_Pins.thy ===== *)
theory Mcp_Pins
  imports Mcp_Protocol
begin

text \<open>
  Content pins of MCP tool definitions (\<open>norviq/mcp/pins.py\<close>): the canonical definition and its
  digest, the comparison of a served definition with its pin, the operator's approval, the
  in-process store and the store refreshed from the control plane, and the choice of a store.

  The stores share the interface \<open>pin_store\<close>, under which the registry's promises are proved once;
  a store that also takes over records of the control plane is a \<open>refreshed_pin_store\<close>. SHA-256,
  the JSON serialiser and \<open>str\<close> of a value that is no string are arguments.
\<close>

record hashing =
  hx_sha256 :: "string \<Rightarrow> string"
  hx_dumps :: "json \<Rightarrow> string"
  hx_str :: "json \<Rightarrow> string"

text \<open>\<open>str(d.get(k, ""))\<close>.\<close>

definition str_member :: "hashing \<Rightarrow> json \<Rightarrow> string \<Rightarrow> string" where
  "str_member h j k =
     (case jget j k of None \<Rightarrow> '''' | Some (JStr s) \<Rightarrow> s | Some v \<Rightarrow> hx_str h v)"

section \<open>What is pinned\<close>

definition pinned_fields :: "string list" where
  "pinned_fields =
     [''name'', ''title'', ''description'', ''inputSchema'', ''outputSchema'', ''annotations'']"

definition canonical_definition :: "hashing \<Rightarrow> json \<Rightarrow> string" where
  "canonical_definition h tool =
     hx_dumps h (JObj (List.map_filter (\<lambda>k. map_option (Pair k) (jget tool k)) pinned_fields))"

definition definition_digest :: "hashing \<Rightarrow> json \<Rightarrow> string" where
  "definition_digest h tool = hx_sha256 h (canonical_definition h tool)"

definition pin_id :: "hashing \<Rightarrow> string \<Rightarrow> string \<Rightarrow> string" where
  "pin_id h server_id tool_name = take 32 (hx_sha256 h (server_id @ [CHR 0x00] @ tool_name))"

record tool_pin =
  tp_pin :: string
  tp_server_id :: string
  tp_tool_name :: string
  tp_digest :: string
  tp_first_seen_at :: time
  tp_approved :: bool
  tp_scan_severity :: string
  tp_canonical :: string
  tp_drift_count :: int
  tp_last_digest :: string

datatype pin_status = Pin_OK | Pin_First_Seen | Pin_Drift | Pin_Quarantined

fun string_of_pin_status :: "pin_status \<Rightarrow> string" where
  "string_of_pin_status Pin_OK = ''pinned''"
| "string_of_pin_status Pin_First_Seen = ''first_seen''"
| "string_of_pin_status Pin_Drift = ''drift''"
| "string_of_pin_status Pin_Quarantined = ''quarantined''"

section \<open>The registry over a store\<close>

text \<open>An unrecognised mode is the stricter one.\<close>

definition registry_mode :: "string \<Rightarrow> string" where
  "registry_mode mode = (if mode \<in> {''tofu'', ''strict''} then mode else ''strict'')"

definition pin_check ::
  "('s \<Rightarrow> string \<Rightarrow> tool_pin option) \<Rightarrow> (tool_pin \<Rightarrow> 's \<Rightarrow> 's) \<Rightarrow> hashing \<Rightarrow> string \<Rightarrow> time
     \<Rightarrow> string \<Rightarrow> json \<Rightarrow> string \<Rightarrow> 's \<Rightarrow> pin_status \<times> 's" where
  "pin_check get put h mode now server_id tool scan_severity store =
     (let name = str_member h tool ''name'';
          pid = pin_id h server_id name;
          digest = definition_digest h tool;
          canonical = canonical_definition h tool
      in case get store pid of
           None \<Rightarrow>
             let approved = (registry_mode mode = ''tofu'')
             in (if approved then Pin_First_Seen else Pin_Quarantined,
                 put \<lparr>tp_pin = pid, tp_server_id = server_id, tp_tool_name = name,
                      tp_digest = digest, tp_first_seen_at = now, tp_approved = approved,
                      tp_scan_severity = scan_severity, tp_canonical = canonical,
                      tp_drift_count = 0, tp_last_digest = digest\<rparr> store)
         | Some existing \<Rightarrow>
             if tp_digest existing = digest
             then (if tp_approved existing then Pin_OK else Pin_Quarantined, store)
             else (Pin_Drift,
                   put (existing\<lparr>tp_drift_count := tp_drift_count existing + 1,
                        tp_last_digest := digest\<rparr>) store))"

definition pin_approve ::
  "('s \<Rightarrow> string \<Rightarrow> tool_pin option) \<Rightarrow> (tool_pin \<Rightarrow> 's \<Rightarrow> 's) \<Rightarrow> hashing
     \<Rightarrow> string \<Rightarrow> string \<Rightarrow> string \<Rightarrow> 's \<Rightarrow> bool \<times> 's" where
  "pin_approve get put h server_id tool_name digest store =
     (case get store (pin_id h server_id tool_name) of
        None \<Rightarrow> (False, store)
      | Some record \<Rightarrow>
          if digest \<notin> {tp_digest record, tp_last_digest record} then (False, store)
          else (True, put (record\<lparr>tp_digest := digest, tp_approved := True\<rparr>) store))"

section \<open>Stores\<close>

text \<open>The in-process store; the file store keeps the same map and writes it out on each \<open>put\<close>.\<close>

type_synonym memory_pins = "(string \<times> tool_pin) list"

definition memory_get :: "memory_pins \<Rightarrow> string \<Rightarrow> tool_pin option" where
  "memory_get pins p = map_of pins p"

definition memory_put :: "tool_pin \<Rightarrow> memory_pins \<Rightarrow> memory_pins" where
  "memory_put r pins = AList.update (tp_pin r) r pins"

record cp_pins =
  cp_map :: memory_pins
  cp_pending :: "tool_pin list"
  cp_degraded :: bool

definition cp_get :: "cp_pins \<Rightarrow> string \<Rightarrow> tool_pin option" where
  "cp_get s p = map_of (cp_map s) p"

definition cp_put :: "tool_pin \<Rightarrow> cp_pins \<Rightarrow> cp_pins" where
  "cp_put r s = s\<lparr>cp_map := AList.update (tp_pin r) r (cp_map s), cp_pending := cp_pending s @ [r]\<rparr>"

text \<open>One row of the control plane's answer, and the record it becomes.\<close>

record pin_row =
  pw_tool_name :: string
  pw_approved_digest :: string
  pw_approved :: bool
  pw_scan_severity :: string
  pw_approved_canonical :: string
  pw_drift_count :: int
  pw_last_digest :: string

definition pin_of_row :: "hashing \<Rightarrow> string \<Rightarrow> pin_row \<Rightarrow> tool_pin" where
  "pin_of_row h server_id row =
     \<lparr>tp_pin = pin_id h server_id (pw_tool_name row), tp_server_id = server_id,
      tp_tool_name = pw_tool_name row, tp_digest = pw_approved_digest row, tp_first_seen_at = 0,
      tp_approved = pw_approved row, tp_scan_severity = pw_scan_severity row,
      tp_canonical = pw_approved_canonical row, tp_drift_count = pw_drift_count row,
      tp_last_digest = pw_last_digest row\<rparr>"

definition cp_adopt :: "tool_pin \<Rightarrow> cp_pins \<Rightarrow> cp_pins" where
  "cp_adopt r s = s\<lparr>cp_map := AList.update (tp_pin r) r (cp_map s)\<rparr>"

text \<open>\<open>load\<close>: the rows of a successful read, or \<open>None\<close> when the control plane cannot be read.\<close>

definition cp_load :: "hashing \<Rightarrow> string \<Rightarrow> pin_row list option \<Rightarrow> cp_pins \<Rightarrow> cp_pins" where
  "cp_load h server_id answer s =
     (case answer of
        None \<Rightarrow> s\<lparr>cp_degraded := True\<rparr>
      | Some rows \<Rightarrow>
          (fold (\<lambda>row. cp_adopt (pin_of_row h server_id row)) rows s)\<lparr>cp_degraded := False\<rparr>)"

text \<open>
  \<open>flush\<close>: what is reported to the control plane, if anything; a failure of the report changes
  nothing more.
\<close>

definition cp_flush :: "cp_pins \<Rightarrow> tool_pin list option \<times> cp_pins" where
  "cp_flush s =
     (if cp_degraded s \<or> cp_pending s = [] then (None, s\<lparr>cp_pending := []\<rparr>)
      else (Some (cp_pending s), s\<lparr>cp_pending := []\<rparr>))"

definition local_pin_store_kinds :: "string list" where
  "local_pin_store_kinds = ['''', ''memory'', ''file'']"

definition effective_store_kind :: "string \<Rightarrow> string \<Rightarrow> string" where
  "effective_store_kind kind path =
     (if kind = ''file'' \<and> path = '''' then ''memory''
      else if kind = '''' then ''memory'' else kind)"

text \<open>\<open>build_store\<close>: the kind of the store constructed, or an error.\<close>

definition build_store :: "string \<Rightarrow> string \<Rightarrow> (string, string) res" where
  "build_store kind path =
     (if kind = ''control-plane'' then Inl ''requires an awaited load''
      else if kind \<notin> set local_pin_store_kinds then Inl ''unknown MCP pin store kind''
      else if kind = ''file'' \<and> path \<noteq> '''' then Inr ''file''
      else Inr ''memory'')"

section \<open>The interface of a store\<close>

locale pin_store =
  fixes get :: "'s \<Rightarrow> string \<Rightarrow> tool_pin option"
    and put :: "tool_pin \<Rightarrow> 's \<Rightarrow> 's"
    and inv :: "'s \<Rightarrow> bool"
  assumes get_put: "get (put r s) p = (if p = tp_pin r then Some r else get s p)"
    and get_pin: "inv s \<Longrightarrow> get s p = Some r \<Longrightarrow> tp_pin r = p"
    and inv_put: "inv s \<Longrightarrow> inv (put r s)"
begin

text \<open>A check never changes which digest is approved for a pin that exists.\<close>

lemma check_keeps:
  assumes "inv s" and "get s p = Some r" and "pin_check get put h mode now sid tool sev s = (st, s')"
  shows "\<exists>r'. get s' p = Some r' \<and> tp_digest r' = tp_digest r \<and> tp_approved r' = tp_approved r"
  using assms get_pin
  by (auto simp: pin_check_def Let_def get_put split: option.splits if_splits)

lemma check_absent:
  assumes "inv s" and "get s p = None" and "pin_check get put h mode now sid tool sev s = (st, s')"
    and "p \<noteq> pin_id h sid (str_member h tool ''name'')"
  shows "get s' p = None"
  using assms get_pin
  by (auto simp: pin_check_def Let_def get_put split: option.splits if_splits)

lemma check_first:
  assumes "get s (pin_id h sid (str_member h tool ''name'')) = None"
    and "pin_check get put h mode now sid tool sev s = (st, s')"
  shows "st = (if registry_mode mode = ''tofu'' then Pin_First_Seen else Pin_Quarantined)
    \<and> (\<exists>r. get s' (pin_id h sid (str_member h tool ''name'')) = Some r
         \<and> tp_digest r = definition_digest h tool \<and> (tp_approved r \<longleftrightarrow> registry_mode mode = ''tofu''))"
  using assms by (auto simp: pin_check_def Let_def get_put)

lemma check_status:
  assumes "get s (pin_id h sid (str_member h tool ''name'')) = Some r"
    and "pin_check get put h mode now sid tool sev s = (st, s')"
  shows "st = (if tp_digest r = definition_digest h tool
     then if tp_approved r then Pin_OK else Pin_Quarantined else Pin_Drift)"
  using assms by (auto simp: pin_check_def Let_def split: if_splits)

lemma check_inv:
  assumes "inv s" and "pin_check get put h mode now sid tool sev s = (st, s')"
  shows "inv s'"
  using assms inv_put by (auto simp: pin_check_def Let_def split: option.splits if_splits)

lemma approve_get:
  assumes "inv s" and "pin_approve get put h sid name d s = (ok, s')"
  shows "get s' p = get s p \<or> p = pin_id h sid name \<and> get s p \<noteq> None
    \<and> (\<exists>r'. get s' p = Some r' \<and> tp_digest r' = d \<and> tp_approved r')"
  using assms get_pin by (auto simp: pin_approve_def get_put split: option.splits if_splits)

lemma approve_inv:
  assumes "inv s" and "pin_approve get put h sid name d s = (ok, s')"
  shows "inv s'"
  using assms inv_put by (auto simp: pin_approve_def split: option.splits if_splits)

end

locale refreshed_pin_store = pin_store get put inv
  for get :: "'s \<Rightarrow> string \<Rightarrow> tool_pin option" and put and inv +
  fixes adopt :: "tool_pin \<Rightarrow> 's \<Rightarrow> 's"
  assumes get_adopt: "get (adopt r s) p = (if p = tp_pin r then Some r else get s p)"
    and inv_adopt: "inv s \<Longrightarrow> inv (adopt r s)"

text \<open>
  The operations on the pins of one server in sequence, and the digests somebody vouched for: the
  first one checked under trust on first use, one the operator approved, one the control plane
  holds as approved.
\<close>

datatype pin_op = Op_Check time json string | Op_Approve string string | Op_Adopt tool_pin

fun pin_step ::
  "('s \<Rightarrow> string \<Rightarrow> tool_pin option) \<Rightarrow> (tool_pin \<Rightarrow> 's \<Rightarrow> 's) \<Rightarrow> (tool_pin \<Rightarrow> 's \<Rightarrow> 's)
     \<Rightarrow> hashing \<Rightarrow> string \<Rightarrow> string \<Rightarrow> pin_op \<Rightarrow> 's \<Rightarrow> 's" where
  "pin_step get put adopt h mode sid (Op_Check now tool sev) s =
     snd (pin_check get put h mode now sid tool sev s)"
| "pin_step get put adopt h mode sid (Op_Approve name d) s =
     snd (pin_approve get put h sid name d s)"
| "pin_step get put adopt h mode sid (Op_Adopt r) s = adopt r s"

definition checked_digests :: "hashing \<Rightarrow> string \<Rightarrow> pin_op list \<Rightarrow> string \<Rightarrow> string list" where
  "checked_digests h sid ops pid =
     List.map_filter (\<lambda>op. case op of
         Op_Check now tool sev \<Rightarrow>
           if pin_id h sid (str_member h tool ''name'') = pid then Some (definition_digest h tool) else None
       | _ \<Rightarrow> None) ops"

definition vouched ::
  "hashing \<Rightarrow> string \<Rightarrow> string \<Rightarrow> pin_op list \<Rightarrow> string \<Rightarrow> string \<Rightarrow> bool" where
  "vouched h mode sid ops pid d \<longleftrightarrow>
     registry_mode mode = ''tofu'' \<and> checked_digests h sid ops pid \<noteq> []
       \<and> hd (checked_digests h sid ops pid) = d
     \<or> (\<exists>name. Op_Approve name d \<in> set ops \<and> pin_id h sid name = pid)
     \<or> (\<exists>r. Op_Adopt r \<in> set ops \<and> tp_pin r = pid \<and> tp_approved r \<and> tp_digest r = d)"

lemma checked_digests_snoc:
  "checked_digests h sid (ops @ [op]) pid = checked_digests h sid ops pid @
     (case op of Op_Check now tool sev \<Rightarrow>
        if pin_id h sid (str_member h tool ''name'') = pid then [definition_digest h tool] else []
      | _ \<Rightarrow> [])"
  by (auto simp: checked_digests_def map_filter_def split: pin_op.splits)

lemma vouched_snoc: "vouched h mode sid ops pid d \<Longrightarrow> vouched h mode sid (ops @ [op]) pid d"
  by (auto simp: vouched_def checked_digests_snoc)

context refreshed_pin_store
begin

definition pins_sound :: "hashing \<Rightarrow> string \<Rightarrow> string \<Rightarrow> pin_op list \<Rightarrow> 's \<Rightarrow> bool" where
  "pins_sound h mode sid ops s \<longleftrightarrow> inv s
     \<and> (\<forall>pid. get s pid = None \<longrightarrow> checked_digests h sid ops pid = [])
     \<and> (\<forall>pid r. get s pid = Some r \<and> tp_approved r \<longrightarrow> vouched h mode sid ops pid (tp_digest r))"

lemma pins_soundD:
  assumes "pins_sound h mode sid ops s" and "get s pid = Some r" and "tp_approved r"
  shows "vouched h mode sid (ops @ [op]) pid (tp_digest r)"
  using assms vouched_snoc by (simp add: pins_sound_def)

lemma pins_sound_check:
  assumes "pins_sound h mode sid ops s"
  shows "pins_sound h mode sid (ops @ [Op_Check now tool sev])
    (snd (pin_check get put h mode now sid tool sev s))"
proof -
  obtain st s' where c: "pin_check get put h mode now sid tool sev s = (st, s')"
    by (cases "pin_check get put h mode now sid tool sev s")
  let ?pid = "pin_id h sid (str_member h tool ''name'')"
  have inv: "inv s" using assms by (simp add: pins_sound_def)
  have "vouched h mode sid (ops @ [Op_Check now tool sev]) pid (tp_digest r)"
    if "get s' pid = Some r" "tp_approved r" for pid r
  proof (cases "get s pid")
    case None
    then have "pid = ?pid" using check_absent [OF inv None c] that(1) by auto
    moreover have "checked_digests h sid ops pid = []" using None assms by (simp add: pins_sound_def)
    ultimately show ?thesis
      using check_first [OF _ c] None that by (auto simp: vouched_def checked_digests_snoc)
  next
    case (Some r0)
    from check_keeps [OF inv Some c] that
    have "tp_digest r0 = tp_digest r" "tp_approved r0" by auto
    then show ?thesis using pins_soundD [OF assms Some] by metis
  qed
  moreover have "checked_digests h sid (ops @ [Op_Check now tool sev]) pid = []"
    if "get s' pid = None" for pid
  proof -
    have "get s pid = None" using that check_keeps [OF inv _ c, of pid] by (cases "get s pid") auto
    moreover have "pid \<noteq> ?pid" using calculation check_first [OF _ c] that by auto
    ultimately show ?thesis using assms by (auto simp: pins_sound_def checked_digests_snoc)
  qed
  ultimately show ?thesis using check_inv [OF inv c] c by (simp add: pins_sound_def)
qed

lemma pins_sound_approve:
  assumes "pins_sound h mode sid ops s"
  shows "pins_sound h mode sid (ops @ [Op_Approve name d]) (snd (pin_approve get put h sid name d s))"
proof -
  obtain ok s' where c: "pin_approve get put h sid name d s = (ok, s')"
    by (cases "pin_approve get put h sid name d s")
  have inv: "inv s" using assms by (simp add: pins_sound_def)
  have new: "vouched h mode sid (ops @ [Op_Approve name d]) (pin_id h sid name) d"
    by (auto simp: vouched_def)
  show ?thesis
    unfolding pins_sound_def
  proof (intro conjI allI impI)
    show "inv (snd (pin_approve get put h sid name d s))" using approve_inv [OF inv c] c by simp
    show "checked_digests h sid (ops @ [Op_Approve name d]) pid = []"
      if "get (snd (pin_approve get put h sid name d s)) pid = None" for pid
      using that approve_get [OF inv c, of pid] assms c
      by (auto simp: pins_sound_def checked_digests_snoc)
    show "vouched h mode sid (ops @ [Op_Approve name d]) pid (tp_digest r)"
      if "get (snd (pin_approve get put h sid name d s)) pid = Some r \<and> tp_approved r" for pid r
      using that approve_get [OF inv c, of pid] assms c new vouched_snoc
      by (auto simp: pins_sound_def)
  qed
qed

lemma pins_sound_adopt:
  assumes "pins_sound h mode sid ops s"
  shows "pins_sound h mode sid (ops @ [Op_Adopt r]) (adopt r s)"
  unfolding pins_sound_def
proof (intro conjI allI impI)
  show "inv (adopt r s)" using assms inv_adopt by (simp add: pins_sound_def)
  show "checked_digests h sid (ops @ [Op_Adopt r]) pid = []" if "get (adopt r s) pid = None" for pid
    using that assms by (simp add: pins_sound_def get_adopt checked_digests_snoc split: if_splits)
  show "vouched h mode sid (ops @ [Op_Adopt r]) pid (tp_digest r')"
    if a: "get (adopt r s) pid = Some r' \<and> tp_approved r'" for pid r'
  proof (cases "pid = tp_pin r")
    case True
    then show ?thesis using a by (auto simp: get_adopt vouched_def)
  next
    case False
    then show ?thesis using a pins_soundD [OF assms, of pid r'] by (simp add: get_adopt)
  qed
qed

lemma pins_sound_run:
  assumes "inv s0" and "\<And>pid. get s0 pid = None"
  shows "pins_sound h mode sid ops (fold (pin_step get put adopt h mode sid) ops s0)"
proof (induction ops rule: rev_induct)
  case Nil
  then show ?case using assms by (simp add: pins_sound_def checked_digests_def)
next
  case (snoc op ops)
  then show ?case
    by (cases op) (simp_all add: pins_sound_check pins_sound_approve pins_sound_adopt)
qed

lemma passing_is_vouched:
  assumes "inv s0" and "\<And>pid. get s0 pid = None"
    and "pin_check get put h mode now sid tool sev
      (fold (pin_step get put adopt h mode sid) ops s0) = (st, s')"
    and "st = Pin_OK \<or> st = Pin_First_Seen"
  shows "vouched h mode sid (ops @ [Op_Check now tool sev])
    (pin_id h sid (str_member h tool ''name'')) (definition_digest h tool)"
proof -
  let ?s = "fold (pin_step get put adopt h mode sid) ops s0"
  let ?pid = "pin_id h sid (str_member h tool ''name'')"
  have sound: "pins_sound h mode sid ops ?s" by (rule pins_sound_run [OF assms(1,2)])
  show ?thesis
  proof (cases "get ?s ?pid")
    case None
    then have "checked_digests h sid ops ?pid = []" using sound by (simp add: pins_sound_def)
    then show ?thesis
      using check_first [OF None assms(3)] assms(4)
      by (auto simp: vouched_def checked_digests_snoc split: if_splits)
  next
    case (Some r)
    then show ?thesis
      using check_status [OF Some assms(3)] assms(4) pins_soundD [OF sound Some]
      by (metis pin_status.distinct(3,5,7,9))
  qed
qed

end

text \<open>The stores of the code satisfy the interface: a record is kept under its own pin.\<close>

definition memory_inv :: "memory_pins \<Rightarrow> bool" where
  "memory_inv pins \<longleftrightarrow> (\<forall>p r. map_of pins p = Some r \<longrightarrow> tp_pin r = p)"

lemma memory_inv_update: "memory_inv pins \<Longrightarrow> memory_inv (AList.update (tp_pin r) r pins)"
  by (auto simp: memory_inv_def update_conv' split: if_splits)

interpretation memory: pin_store memory_get memory_put memory_inv
  by unfold_locales
    (auto simp: memory_get_def memory_put_def update_conv' memory_inv_update memory_inv_def)

interpretation control_plane: refreshed_pin_store cp_get cp_put "\<lambda>s. memory_inv (cp_map s)" cp_adopt
  by unfold_locales
    (auto simp: cp_get_def cp_put_def cp_adopt_def update_conv' memory_inv_update memory_inv_def)

definition no_cp_pins :: cp_pins where
  "no_cp_pins = \<lparr>cp_map = [], cp_pending = [], cp_degraded = False\<rparr>"

text \<open>
  C12. A served tool definition passes the pin check, as pinned or as first seen, only when somebody
  vouched for exactly that content: it is the first definition checked for the tool under trust on
  first use, or its digest was approved by the operator, or the control plane holds it as approved.
  No sequence of served definitions, approvals and refreshes makes a changed definition pass by
  itself.
\<close>

theorem passing_definition_vouched:
  assumes "pin_check cp_get cp_put h mode now sid tool sev
      (fold (pin_step cp_get cp_put cp_adopt h mode sid) ops no_cp_pins) = (st, s')"
    and "st = Pin_OK \<or> st = Pin_First_Seen"
  shows "vouched h mode sid (ops @ [Op_Check now tool sev])
    (pin_id h sid (str_member h tool ''name'')) (definition_digest h tool)"
  by (rule control_plane.passing_is_vouched [OF _ _ assms])
    (simp_all add: no_cp_pins_def memory_inv_def cp_get_def)

theorem passing_definition_vouched_witness:
  "vouched \<lparr>hx_sha256 = id, hx_dumps = \<lambda>_. ''d'', hx_str = \<lambda>_. ''''\<rparr> ''tofu'' ''srv''
     [Op_Check 0 (JObj [(''name'', JStr ''t'')]) ''none'', Op_Check 1 (JObj [(''name'', JStr ''t'')]) ''none'']
     (''srv'' @ [CHR 0x00] @ ''t'') ''d''"
proof -
  let ?h = "\<lparr>hx_sha256 = id, hx_dumps = \<lambda>_. ''d'', hx_str = \<lambda>_. ''''\<rparr>"
  let ?t = "JObj [(''name'', JStr ''t'')]"
  show ?thesis
    using passing_definition_vouched [of ?h "''tofu''" 1 "''srv''" ?t "''none''"
        "[Op_Check 0 ?t ''none'']"]
    by (simp add: pin_check_def no_cp_pins_def cp_get_def cp_put_def pin_id_def str_member_def
        definition_digest_def canonical_definition_def registry_mode_def jget_def Let_def)
qed

end
