(* ===== verification/Mcp_Correlation.thy ===== *)
theory Mcp_Correlation
  imports Mcp_Protocol
begin

text \<open>
  Which request a response answers (\<open>norviq/mcp/firewall.py\<close>, \<open>_PendingMap\<close>, \<open>Correlation\<close> and
  \<open>_response_defect\<close>): the bounded map of requests, the keys a response id can answer, the two states
  of a request and the well-formedness of an answer.

  The numbers a client library reads a string id as are an argument, in ascending order.
\<close>

section \<open>Request ids\<close>

text \<open>
  The keys of the map. The code writes them as strings with the kind as a prefix; the kinds keep
  them apart.
\<close>

datatype request_key = Key_Bool bool | Key_Num int | Key_Fraction rat | Key_Str string | Key_Other json

fun id_key :: "json \<Rightarrow> request_key" where
  "id_key (JBool b) = Key_Bool b"
| "id_key (JInt n) = Key_Num n"
| "id_key (JFloat r) = (if of_int \<lfloor>r\<rfloor> = r then Key_Num \<lfloor>r\<rfloor> else Key_Fraction r)"
| "id_key (JStr s) = Key_Str s"
| "id_key j = Key_Other j"

fun id_candidates :: "(string \<Rightarrow> int list) \<Rightarrow> json \<Rightarrow> request_key list" where
  "id_candidates readings (JStr s) = Key_Str s # map Key_Num (readings s)"
| "id_candidates readings (JInt n) = [Key_Num n, Key_Str (show_int n)]"
| "id_candidates readings (JFloat r) =
     (if of_int \<lfloor>r\<rfloor> = r then [Key_Num \<lfloor>r\<rfloor>, Key_Str (show_int \<lfloor>r\<rfloor>)] else [Key_Fraction r])"
| "id_candidates readings j = [id_key j]"

section \<open>The pending map\<close>

record pending_map =
  pm_map :: "(request_key \<times> string) list"
  pm_cap :: nat

definition new_pending :: "int \<Rightarrow> pending_map" where
  "new_pending cap = \<lparr>pm_map = [], pm_cap = nat (max 16 cap)\<rparr>"

definition pm_put :: "json \<Rightarrow> string \<Rightarrow> pending_map \<Rightarrow> pending_map" where
  "pm_put i method pm =
     (let key = id_key i;
          m = (if key \<notin> fst ` set (pm_map pm) \<and> length (pm_map pm) \<ge> pm_cap pm
               then tl (pm_map pm) else pm_map pm)
      in pm\<lparr>pm_map := AList.update key method m\<rparr>)"

fun first_match :: "request_key list \<Rightarrow> (request_key \<times> string) list \<Rightarrow> (request_key \<times> string) option" where
  "first_match [] m = None"
| "first_match (k # ks) m =
     (case map_of m k of Some method \<Rightarrow> Some (k, method) | None \<Rightarrow> first_match ks m)"

definition pm_match ::
  "(string \<Rightarrow> int list) \<Rightarrow> json \<Rightarrow> pending_map \<Rightarrow> (request_key \<times> string) option" where
  "pm_match readings i pm = first_match (id_candidates readings i) (pm_map pm)"

definition pm_pop :: "request_key \<Rightarrow> pending_map \<Rightarrow> pending_map" where
  "pm_pop key pm = pm\<lparr>pm_map := AList.delete key (pm_map pm)\<rparr>"

definition pm_discard :: "json \<Rightarrow> pending_map \<Rightarrow> pending_map" where
  "pm_discard i pm = pm_pop (id_key i) pm"

definition pm_take ::
  "(string \<Rightarrow> int list) \<Rightarrow> json \<Rightarrow> pending_map \<Rightarrow> string \<times> pending_map" where
  "pm_take readings i pm =
     (case pm_match readings i pm of
        None \<Rightarrow> ('''', pm)
      | Some (key, method) \<Rightarrow> (method, pm_pop key pm))"

section \<open>Scopes\<close>

record correlation =
  cl_held :: pending_map
  cl_pending :: pending_map
  cl_get_stream :: bool
  cl_resumed :: bool
  cl_request_id :: json

definition new_correlation :: "int \<Rightarrow> bool \<Rightarrow> correlation" where
  "new_correlation cap get_stream =
     \<lparr>cl_held = new_pending cap, cl_pending = new_pending cap, cl_get_stream = get_stream,
      cl_resumed = False, cl_request_id = JNull\<rparr>"

definition resumption :: "correlation \<Rightarrow> correlation" where
  "resumption c = c\<lparr>cl_get_stream := False, cl_resumed := True\<rparr>"

section \<open>Well-formed answers\<close>

definition list_result_key :: "string \<Rightarrow> string option" where
  "list_result_key method = map_of
     [(''tools/list'', ''tools''), (''prompts/list'', ''prompts''), (''resources/list'', ''resources''),
      (''resources/templates/list'', ''resourceTemplates'')] method"

definition is_error_object :: "json \<Rightarrow> bool" where
  "is_error_object err \<longleftrightarrow>
     (case jget err ''code'' of Some (JInt _) \<Rightarrow> True | _ \<Rightarrow> False) \<and>
     (case jget err ''message'' of Some (JStr _) \<Rightarrow> True | _ \<Rightarrow> False)"

definition response_defect :: "json \<Rightarrow> string \<Rightarrow> string" where
  "response_defect m method =
     (if ''method'' \<in> set (jkeys m) then ''a response carries a method''
      else if jget m ''jsonrpc'' \<noteq> Some (JStr ''2.0'') then ''jsonrpc is not \"2.0\"''
      else if (''result'' \<in> set (jkeys m)) = (''error'' \<in> set (jkeys m))
      then ''a response carries exactly one of result and error''
      else case jget m ''error'' of
          Some err \<Rightarrow>
            if is_error_object err then '''' else ''error is not a JSON-RPC error object''
        | None \<Rightarrow>
            (case jget m ''result'' of
               Some (JObj kvs) \<Rightarrow>
                 (case list_result_key method of
                    None \<Rightarrow> ''''
                  | Some key \<Rightarrow>
                      (case jget (JObj kvs) key of
                         Some (JList _) \<Rightarrow> ''''
                       | _ \<Rightarrow> ''a '' @ method @ '' result without a '' @ key @ '' list''))
             | _ \<Rightarrow> ''result is not an object''))"

section \<open>The map stays small and exact\<close>

definition pending_ok :: "pending_map \<Rightarrow> bool" where
  "pending_ok pm \<longleftrightarrow> distinct (map fst (pm_map pm)) \<and> length (pm_map pm) \<le> pm_cap pm \<and> 0 < pm_cap pm"

lemma new_pending_ok: "pending_ok (new_pending cap)"
  by (auto simp: pending_ok_def new_pending_def)

lemma length_update:
  "length (AList.update k v m) = (if k \<in> fst ` set m then length m else Suc (length m))"
  by (induction m) (auto split: if_splits)

lemma pm_put_ok:
  assumes "pending_ok pm"
  shows "pending_ok (pm_put i method pm)"
proof -
  have "distinct (map fst (AList.update (id_key i) method m))" if "distinct (map fst m)" for m
    using that by (rule distinct_update)
  then show ?thesis
    using assms
    by (cases "pm_map pm") (auto simp: pending_ok_def pm_put_def Let_def length_update distinct_tl)
qed

lemma pm_pop_ok:
  assumes "pending_ok pm"
  shows "pending_ok (pm_pop key pm)"
  using assms length_delete_le [of key "pm_map pm"]
  by (auto simp: pending_ok_def pm_pop_def distinct_delete intro: le_trans)

lemma first_match_in: "first_match ks m = Some (k, v) \<Longrightarrow> k \<in> set ks \<and> map_of m k = Some v"
  by (induction ks) (auto split: option.splits)

lemma first_match_None: "first_match ks m = None \<longleftrightarrow> (\<forall>k\<in>set ks. map_of m k = None)"
  by (induction ks) (auto split: option.splits)

lemma id_key_candidate: "id_key i \<in> set (id_candidates readings i)"
  by (cases i) auto

lemma pm_put_lookup:
  "map_of (pm_map (pm_put i method pm)) k =
     (if k = id_key i then Some method
      else if id_key i \<notin> fst ` set (pm_map pm) \<and> length (pm_map pm) \<ge> pm_cap pm
      then map_of (tl (pm_map pm)) k else map_of (pm_map pm) k)"
  by (simp add: pm_put_def Let_def update_conv')

lemma pm_pop_lookup:
  "map_of (pm_map (pm_pop key pm)) k = (if k = key then None else map_of (pm_map pm) k)"
  by (simp add: pm_pop_def delete_conv')

end
