(* ===== verification/Mcp_Firewall.thy ===== *)
theory Mcp_Firewall
  imports Mcp_Gates
begin

text \<open>
  The MCP firewall (\<open>norviq/mcp/firewall.py\<close>, class \<open>McpFirewall\<close>, and \<open>norviq/mcp/servers.py\<close>): one
  session between a client and an upstream server. Its state is a record; a handler takes the message
  and the state and gives what the transport must do with the message together with the new state, or
  no result where the code raises.

  The policy engine is the function the interceptor asks, with \<open>None\<close> where it raises. The scanner,
  the masker, the folding and the hashes are fields of the environment. The proxy's own list of a cold
  catalog waits for the server, so what other messages do to the state meanwhile is an argument; the
  sharing of one such list between calls is not modelled, nor are the log lines.
\<close>

section \<open>The registry of servers\<close>

type_synonym server_decisions = "(string \<times> string) list"

record server_registry =
  sv_decisions :: server_decisions
  sv_degraded :: bool

definition server_status :: "server_registry \<Rightarrow> string \<Rightarrow> string" where
  "server_status reg sid =
     (case map_of (sv_decisions reg) sid of Some st \<Rightarrow> st | None \<Rightarrow> ''discovered'')"

definition server_reachable :: "server_registry \<Rightarrow> string \<Rightarrow> bool" where
  "server_reachable reg sid \<longleftrightarrow> server_status reg sid \<noteq> ''blocked''"

text \<open>\<open>from_rows\<close>, on the id and status of each row; an unrecognised status reads as discovered.\<close>

definition registry_rows :: "(string \<times> string) list \<Rightarrow> server_decisions" where
  "registry_rows rows =
     fold (\<lambda>(sid, status) reg.
        if sid = '''' then reg
        else AList.update sid
          (if status \<in> {''discovered'', ''registered'', ''blocked''} then status else ''discovered'') reg)
       rows []"

text \<open>\<open>load\<close>: a failed read keeps the last decisions, a successful one replaces them.\<close>

definition load_servers :: "(string \<times> string) list option \<Rightarrow> server_registry \<Rightarrow> server_registry" where
  "load_servers answer reg =
     (case answer of
        None \<Rightarrow> reg\<lparr>sv_degraded := True\<rparr>
      | Some rows \<Rightarrow> \<lparr>sv_decisions = registry_rows rows, sv_degraded = False\<rparr>)"

section \<open>Environment and state\<close>

record mcp_env =
  me_server_id :: string
  me_transport :: string
  me_prefix :: string
  me_pin_mode :: string
  me_strip_severity :: string
  me_sanitize_severity :: string
  me_scan_responses :: bool
  me_govern_sampling :: bool
  me_govern_resources :: bool
  me_allow_tool_headers :: bool
  me_enforce_schema :: bool
  me_output_dlp :: bool
  me_cold_timeout :: rat
  me_hashing :: hashing
  me_fold :: "string \<Rightarrow> string"
  me_skeleton :: "string \<Rightarrow> string"
  me_readings :: "string \<Rightarrow> int list"
  me_scan_tool :: "json \<Rightarrow> nat \<Rightarrow> nat \<Rightarrow> scan_report \<times> nat"
  me_scan_item :: "json \<Rightarrow> string \<Rightarrow> nat \<Rightarrow> nat \<Rightarrow> scan_report \<times> nat"
  me_scan_text :: "string \<Rightarrow> string \<Rightarrow> nat \<Rightarrow> scan_report"
  me_scan_object :: "json \<Rightarrow> string \<Rightarrow> scan_report"
  me_scan_messages :: "json list \<Rightarrow> scan_report"
  me_mask_text :: "string \<Rightarrow> string"
  me_mask_tree :: "json \<Rightarrow> json \<times> nat"
  me_show_note :: "schema_note \<Rightarrow> string"

datatype gate_action = Act_Pass | Act_Sanitize | Act_Strip

record catalog_entry =
  ce_name :: string
  ce_digest :: string
  ce_pin_status :: pin_status
  ce_scan_severity :: severity
  ce_action :: gate_action
  ce_findings :: "finding list"
  ce_stale :: bool
  ce_canonical :: string
  ce_input_schema :: json
  ce_schema_notes :: "schema_note list"
  ce_schema_closed :: bool

definition schema_enforced :: "catalog_entry \<Rightarrow> bool" where
  "schema_enforced e \<longleftrightarrow> members (ce_input_schema e) \<noteq> [] \<and> ce_schema_notes e = []"

definition call_denied :: "catalog_entry \<Rightarrow> bool" where
  "call_denied e \<longleftrightarrow> ce_pin_status e \<in> {Pin_Drift, Pin_Quarantined} \<or> ce_action e = Act_Strip"

text \<open>What the interceptor is asked, or told when the proxy has refused the call itself.\<close>

record intercept =
  ic_tool :: string
  ic_params :: json
  ic_mcp :: json
  ic_pep_decision :: string
  ic_pep_rule_id :: string
  ic_pep_reason :: string

type_synonym engine = "intercept \<Rightarrow> policy_decision option"

record mcp_state =
  ms_catalog :: "(string \<times> catalog_entry) list"
  ms_skeletons :: "(string \<times> string) list"
  ms_server_pending :: pending_map
  ms_denials :: "((string \<times> string) \<times> (time \<times> nat)) list"
  ms_listed :: bool
  ms_cold_failed :: "(string \<times> time) list"
  ms_generation :: nat
  ms_unmatched :: "time \<times> nat"
  ms_pins :: cp_pins
  ms_servers :: server_registry
  ms_stats :: "(string \<times> nat) list"
  ms_reports :: "intercept list"

definition new_firewall :: "int \<Rightarrow> cp_pins \<Rightarrow> server_registry \<Rightarrow> mcp_state" where
  "new_firewall max_pending pins servers =
     \<lparr>ms_catalog = [], ms_skeletons = [],
      ms_server_pending = new_pending max_pending, ms_denials = [], ms_listed = False,
      ms_cold_failed = [], ms_generation = 0, ms_unmatched = (0, 0), ms_pins = pins,
      ms_servers = servers, ms_stats = [], ms_reports = []\<rparr>"

definition bump :: "string \<Rightarrow> mcp_state \<Rightarrow> mcp_state" where
  "bump key st =
     st\<lparr>ms_stats := AList.update key
       (case map_of (ms_stats st) key of Some n \<Rightarrow> n + 1 | None \<Rightarrow> 1) (ms_stats st)\<rparr>"

text \<open>
  What the transport must do: forward the original bytes or another document, answer the sender, or
  nothing.
\<close>

datatype outgoing = Original | Document json

record mediation =
  md_forward :: "outgoing option"
  md_reply :: "json option"
  md_blocked :: bool
  md_decision :: "policy_decision option"
  md_note :: string
  md_catalog_scanned :: bool

definition pass_on :: mediation where
  "pass_on = \<lparr>md_forward = Some Original, md_reply = None, md_blocked = False, md_decision = None,
     md_note = '''', md_catalog_scanned = False\<rparr>"

definition rewritten_to :: "json \<Rightarrow> string \<Rightarrow> mediation" where
  "rewritten_to doc note = pass_on\<lparr>md_forward := Some (Document doc), md_note := note\<rparr>"

definition dropped :: "string \<Rightarrow> mediation" where
  "dropped note = pass_on\<lparr>md_forward := None, md_blocked := True, md_note := note\<rparr>"

definition refused_with :: "json \<Rightarrow> string \<Rightarrow> mediation" where
  "refused_with answer note = (dropped note)\<lparr>md_reply := Some answer\<rparr>"

definition engine_tool_name :: "mcp_env \<Rightarrow> string \<Rightarrow> string" where
  "engine_tool_name env name = (if me_prefix env \<noteq> '''' then me_prefix env @ name else name)"

section \<open>Asking the engine\<close>

definition mcp_context :: "mcp_env \<Rightarrow> mcp_state \<Rightarrow> string \<Rightarrow> string \<Rightarrow> json" where
  "mcp_context env st tool_name surface =
     (let entry = map_of (ms_catalog st) tool_name
      in JObj ([(''server'', JStr (me_server_id env)), (''transport'', JStr (me_transport env)),
          (''surface'', JStr surface),
          (''pin_status'', JStr (case entry of Some e \<Rightarrow> string_of_pin_status (ce_pin_status e)
             | None \<Rightarrow> ''unknown'')),
          (''scan_severity'', JStr (case entry of Some e \<Rightarrow> string_of_severity (ce_scan_severity e)
             | None \<Rightarrow> ''unknown'')),
          (''definition_seen'', JBool (entry \<noteq> None)),
          (''catalog_stale'', JBool (case entry of Some e \<Rightarrow> ce_stale e | None \<Rightarrow> False)),
          (''schema_enforced'', JBool (case entry of Some e \<Rightarrow> schema_enforced e | None \<Rightarrow> False)),
          (''schema_closed'', JBool (case entry of Some e \<Rightarrow> ce_schema_closed e | None \<Rightarrow> False)),
          (''schema_notes'', JList (case entry of
             Some e \<Rightarrow> map (\<lambda>n. JStr (me_show_note env n)) (ce_schema_notes e) | None \<Rightarrow> [])),
          (''direction'', JStr (if surface = ''answer'' then ''answer'' else ''call''))]
         @ (case entry of
              Some e \<Rightarrow> if ce_digest e \<noteq> '''' then [(''tool_digest'', JStr (take 16 (ce_digest e)))] else []
            | None \<Rightarrow> [])))"

definition ask_engine ::
  "mcp_env \<Rightarrow> engine \<Rightarrow> mcp_state \<Rightarrow> string \<Rightarrow> json \<Rightarrow> string \<Rightarrow> policy_decision option" where
  "ask_engine env engine st tool_name params surface =
     engine \<lparr>ic_tool = engine_tool_name env tool_name, ic_params = params,
       ic_mcp = mcp_context env st tool_name surface, ic_pep_decision = '''', ic_pep_rule_id = '''',
       ic_pep_reason = ''''\<rparr>"

definition denial_report_window :: rat where
  "denial_report_window = 60"

definition denial_report_max_keys :: nat where
  "denial_report_max_keys = 512"

definition denial_report_due ::
  "time \<Rightarrow> string \<Rightarrow> string \<Rightarrow> mcp_state \<Rightarrow> (bool \<times> nat) \<times> mcp_state" where
  "denial_report_due now tool_name rule_id st =
     (let key = (tool_name, rule_id);
          (last, suppressed) = (case map_of (ms_denials st) key of Some v \<Rightarrow> v | None \<Rightarrow> (0, 0))
      in if last \<noteq> 0 \<and> now - last < denial_report_window
         then ((False, 0), st\<lparr>ms_denials := AList.update key (last, suppressed + 1) (ms_denials st)\<rparr>)
         else ((True, suppressed),
               st\<lparr>ms_denials := AList.update key (now, 0)
                 (if length (ms_denials st) \<ge> denial_report_max_keys then [] else ms_denials st)\<rparr>))"

text \<open>The report is sent or fails, and neither changes the refusal it reports.\<close>

definition report_denial ::
  "mcp_env \<Rightarrow> time \<Rightarrow> string \<Rightarrow> json \<Rightarrow> string \<Rightarrow> string \<Rightarrow> string \<Rightarrow> mcp_state \<Rightarrow> mcp_state" where
  "report_denial env now tool_name params rule_id reason surface st =
     (case denial_report_due now tool_name rule_id st of
        ((due, suppressed), st') \<Rightarrow>
          if \<not> due then st'
          else
            let reason' = (if suppressed > 0
                  then reason @ '' (+'' @ show_nat suppressed @ '' further refusal(s) of this tool suppressed)''
                  else reason)
            in st'\<lparr>ms_reports := ms_reports st' @
                 [\<lparr>ic_tool = engine_tool_name env tool_name, ic_params = params,
                   ic_mcp = mcp_context env st' tool_name surface, ic_pep_decision = ''block'',
                   ic_pep_rule_id = clip pep_rule_id_max rule_id,
                   ic_pep_reason = clip pep_reason_max (me_mask_text env reason')\<rparr>]\<rparr>)"

section \<open>Gate A: the listing of tools\<close>

definition list_scan_budget :: nat where
  "list_scan_budget = 786432"

definition definition_scan_budget :: nat where
  "definition_scan_budget = 262144"

definition list_walk_nodes :: nat where
  "list_walk_nodes = 65536"

definition max_walk_nodes :: nat where
  "max_walk_nodes = 65536"

definition canonical_max :: nat where
  "canonical_max = 8192"

definition sanitized_text :: string where
  "sanitized_text =
     ''[Description withheld by the Norviq MCP firewall: the text supplied by this server matched ''
     @ ''instruction-injection patterns and was not passed through. The tool remains callable and every ''
     @ ''call is still evaluated against policy.]''"

definition action_for :: "mcp_env \<Rightarrow> severity \<Rightarrow> pin_status \<Rightarrow> gate_action" where
  "action_for env sev status =
     (if status \<in> {Pin_Drift, Pin_Quarantined} then Act_Strip
      else if severity_order sev \<ge> order_of_setting (me_strip_severity env) 3 then Act_Strip
      else if severity_order sev \<ge> order_of_setting (me_sanitize_severity env) 2 then Act_Sanitize
      else Act_Pass)"

text \<open>
  One entry of the listing: what is kept of it, whether the listing changes, the scan budgets left
  and the state with its catalog entry.
\<close>

record listing =
  ls_kept :: "json list"
  ls_changed :: bool
  ls_budget :: nat
  ls_nodes :: nat
  ls_state :: mcp_state

definition tool_findings ::
  "mcp_env \<Rightarrow> json \<Rightarrow> string \<Rightarrow> scan_report \<Rightarrow> mcp_state \<Rightarrow> (finding list \<times> severity) \<times> mcp_state" where
  "tool_findings env tool name report st =
     (let alias = server_alias (me_fold env) tool;
          found = sr_findings report @ (if alias \<noteq> '''' then [alias_finding alias alias] else []);
          folded = me_skeleton env name;
          shadowed = (case map_of (ms_skeletons st) folded of Some s \<Rightarrow> s | None \<Rightarrow> '''')
      in if shadowed \<noteq> '''' \<and> shadowed \<noteq> name
         then ((found @ [shadow_finding name shadowed], Sev_Critical), st)
         else ((found, report_severity (report\<lparr>sr_findings := found\<rparr>)),
               if folded \<in> fst ` set (ms_skeletons st) then st
               else st\<lparr>ms_skeletons := ms_skeletons st @ [(folded, name)]\<rparr>))"

definition catalog_entry_of ::
  "mcp_env \<Rightarrow> json \<Rightarrow> string \<Rightarrow> finding list \<Rightarrow> severity \<Rightarrow> pin_status \<Rightarrow> bool \<Rightarrow> catalog_entry" where
  "catalog_entry_of env tool name findings sev status exhausted =
     (let h = me_hashing env; schema = jdict tool ''inputSchema''
      in \<lparr>ce_name = name, ce_digest = definition_digest h tool, ce_pin_status = status,
          ce_scan_severity = sev,
          ce_action = (if exhausted then Act_Strip else action_for env sev status),
          ce_findings = findings, ce_stale = False,
          ce_canonical = take canonical_max (canonical_definition h tool), ce_input_schema = schema,
          ce_schema_notes = (if members schema \<noteq> [] then schema_enforceability schema else []),
          ce_schema_closed = (jget schema ''additionalProperties'' = Some (JBool False))\<rparr>)"

definition catalog_tool ::
  "mcp_env \<Rightarrow> time \<Rightarrow> json \<Rightarrow> string \<Rightarrow> scan_report \<Rightarrow> mcp_state \<Rightarrow> catalog_entry \<times> mcp_state" where
  "catalog_tool env now tool name report st =
     (case tool_findings env tool name report st of
        ((findings, sev), st1) \<Rightarrow>
          (case pin_check cp_get cp_put (me_hashing env) (me_pin_mode env) now (me_server_id env) tool
               (string_of_severity sev) (ms_pins st1) of
             (status, pins) \<Rightarrow>
               let entry = catalog_entry_of env tool name findings sev status (sr_budget_exhausted report);
                   st2 = st1\<lparr>ms_pins := pins, ms_catalog := AList.update name entry (ms_catalog st1)\<rparr>
               in (entry, if ce_schema_notes entry \<noteq> [] \<and> me_enforce_schema env
                          then bump ''schema_not_fully_enforceable'' st2 else st2)))"

definition gate_a_tool :: "mcp_env \<Rightarrow> time \<Rightarrow> json \<Rightarrow> listing \<Rightarrow> listing" where
  "gate_a_tool env now tool ls =
     (let name = str_member (me_hashing env) tool ''name''
      in if \<not> is_dict tool \<or> name = '''' then ls\<lparr>ls_changed := True\<rparr>
         else
           let granted = min max_walk_nodes (ls_nodes ls);
               (report, left) = me_scan_tool env tool (min definition_scan_budget (ls_budget ls)) granted;
               (entry, st) = catalog_tool env now tool name report (ls_state ls);
               ls' = ls\<lparr>ls_budget := ls_budget ls - sr_scanned_chars report,
                 ls_nodes := ls_nodes ls - (granted - left)\<rparr>
           in case ce_action entry of
                Act_Strip \<Rightarrow>
                  ls'\<lparr>ls_changed := True, ls_state := bump ''gate_a_stripped'' st\<rparr>
              | Act_Sanitize \<Rightarrow>
                  ls'\<lparr>ls_changed := True, ls_state := bump ''gate_a_sanitized'' st,
                    ls_kept := ls_kept ls @
                      [jdel ''annotations'' (jset ''description'' (JStr sanitized_text) tool)]\<rparr>
              | Act_Pass \<Rightarrow>
                  ls'\<lparr>ls_state := (if ce_findings entry \<noteq> [] then bump ''gate_a_annotated'' st else st),
                    ls_kept := ls_kept ls @ [tool]\<rparr>)"

definition entries_with :: "gate_action \<Rightarrow> mcp_state \<Rightarrow> json" where
  "entries_with a st =
     JList (map (\<lambda>e. JStr (ce_name e)) (filter (\<lambda>e. ce_action e = a) (map snd (ms_catalog st))))"

definition gate_a_tools_list :: "mcp_env \<Rightarrow> time \<Rightarrow> json \<Rightarrow> mcp_state \<Rightarrow> mediation \<times> mcp_state" where
  "gate_a_tools_list env now m st =
     (case jget (msg_result m) ''tools'' of
        Some (JList tools) \<Rightarrow>
          let st1 = st\<lparr>ms_listed := True\<rparr>;
              sid = me_server_id env;
              st2 = (if sv_degraded (ms_servers st1) \<and> sid \<notin> fst ` set (sv_decisions (ms_servers st1))
                then bump ''server_decision_unavailable'' st1 else st1)
          in if \<not> server_reachable (ms_servers st2) sid
             then
               let st3 = report_denial env now ''tools/list'' (JObj []) ''mcp_server_blocked''
                     (''discovery refused: MCP server '' @ [CHR 0x27] @ sid @ [CHR 0x27]
                      @ '' is blocked by operator decision; '' @ show_nat (length tools)
                      @ '' tool definition(s) were withheld before reaching the model'')
                     ''tools/list'' (bump ''server_blocked'' st2)
               in (rewritten_to (jset ''result'' (annotate
                     [(''server_blocked'', JBool True), (''server_id'', JStr sid),
                      (''status'', JStr (server_status (ms_servers st2) sid))]
                     (jset ''tools'' (JList []) (msg_result m))) m) ''server_blocked'', st3)
             else
               let ls = fold (gate_a_tool env now) tools
                     \<lparr>ls_kept = [], ls_changed = False, ls_budget = list_scan_budget,
                      ls_nodes = list_walk_nodes, ls_state = st2\<rparr>;
                   st' = ls_state ls
               in if \<not> ls_changed ls then (pass_on, st')
                  else (rewritten_to (jset ''result'' (annotate
                     [(''gate'', JStr ''A''), (''server'', JStr sid),
                      (''withheld'', entries_with Act_Strip st'),
                      (''sanitized'', entries_with Act_Sanitize st')]
                     (jset ''tools'' (JList (ls_kept ls)) (msg_result m))) m)
                     ''gate_a_rewrote_tools_list'', st')
      | _ \<Rightarrow> (pass_on, st))"

definition on_catalog_changed :: "mcp_state \<Rightarrow> mcp_state" where
  "on_catalog_changed st =
     bump ''catalog_changed''
       (st\<lparr>ms_catalog := map (\<lambda>(n, e). (n, e\<lparr>ce_stale := True\<rparr>)) (ms_catalog st)\<rparr>)"

section \<open>The proxy's own list of a cold catalog\<close>

text \<open>What the upstream list brought, and what else happened while it was awaited.\<close>

datatype list_answer = List_Timeout | List_Failed | List_Answer "json option"

record call_env =
  cx_now :: time
  cx_engine :: engine
  cx_upstream :: "list_answer option"
  cx_credential :: string
  cx_uuid :: string
  cx_meanwhile :: "mcp_state \<Rightarrow> mcp_state"

definition cold_list_retry :: rat where
  "cold_list_retry = 30"

definition cold_list_max_credentials :: nat where
  "cold_list_max_credentials = 64"

definition cold_list_id_prefix :: string where
  "cold_list_id_prefix = ''norviq-cold-list-''"

definition is_cold_list_id :: "json \<Rightarrow> bool" where
  "is_cold_list_id i \<longleftrightarrow> (case i of JStr s \<Rightarrow> starts_with s cold_list_id_prefix | _ \<Rightarrow> False)"

definition bounded_put :: "string \<Rightarrow> 'a \<Rightarrow> (string \<times> 'a) list \<Rightarrow> (string \<times> 'a) list" where
  "bounded_put key v m =
     AList.update key v
       (if key \<notin> fst ` set m \<and> length m \<ge> cold_list_max_credentials then tl m else m)"

definition usable_list_answer :: "string \<Rightarrow> list_answer \<Rightarrow> json option" where
  "usable_list_answer request_id a =
     (case a of
        List_Answer (Some r) \<Rightarrow>
          if is_response r \<and> msg_id r = JStr request_id \<and> ''error'' \<notin> set (jkeys r)
            \<and> response_defect r ''tools/list'' = ''''
          then Some r else None
      | _ \<Rightarrow> None)"

definition cold_list_once ::
  "mcp_env \<Rightarrow> call_env \<Rightarrow> list_answer \<Rightarrow> mcp_state \<Rightarrow> bool \<times> mcp_state" where
  "cold_list_once env cx a st =
     (let st1 = cx_meanwhile cx st
      in case usable_list_answer (cold_list_id_prefix @ cx_uuid cx) a of
           None \<Rightarrow>
             (False, bump ''cold_list_failed''
                (st1\<lparr>ms_cold_failed := bounded_put (cx_credential cx) (cx_now cx) (ms_cold_failed st1)\<rparr>))
         | Some r \<Rightarrow>
             if ms_generation st1 \<noteq> ms_generation st then (True, bump ''cold_list_superseded'' st1)
             else
               let st2 = snd (gate_a_tools_list env (cx_now cx) r st1)
               in (True, bump ''cold_listed''
                    (st2\<lparr>ms_cold_failed := AList.delete (cx_credential cx) (ms_cold_failed st2)\<rparr>)))"

definition warm_cold_catalog :: "mcp_env \<Rightarrow> call_env \<Rightarrow> mcp_state \<Rightarrow> bool \<times> mcp_state" where
  "warm_cold_catalog env cx st =
     (case cx_upstream cx of
        None \<Rightarrow> (False, st)
      | Some a \<Rightarrow>
          if ms_listed st \<or> me_cold_timeout env \<le> 0
            \<or> \<not> server_reachable (ms_servers st) (me_server_id env)
          then (False, st)
          else case map_of (ms_cold_failed st) (cx_credential cx) of
              Some failed_at \<Rightarrow>
                if cx_now cx - failed_at < cold_list_retry then (False, st)
                else cold_list_once env cx a st
            | None \<Rightarrow> cold_list_once env cx a st)"

section \<open>Gate B: calls\<close>

definition gate_a_denial_reason :: "catalog_entry \<Rightarrow> string" where
  "gate_a_denial_reason e =
     ''Norviq MCP firewall blocked '' @ [CHR 0x27] @ ce_name e @ [CHR 0x27] @ '': ''
     @ (case ce_pin_status e of
          Pin_Drift \<Rightarrow>
            ''this server is serving a tool definition that DIFFERS from the one that was approved ''
            @ ''(content hash changed). This is the rug-pull pattern. The call was not executed and the ''
            @ ''tool stays blocked until an operator re-approves the new definition.''
        | Pin_Quarantined \<Rightarrow>
            ''the tool definition is not approved (pin mode '' @ [CHR 0x27] @ ''strict'' @ [CHR 0x27]
            @ '' requires operator approval before first use).''
        | _ \<Rightarrow>
            ''its definition matched instruction-injection patterns (severity ''
            @ string_of_severity (ce_scan_severity e) @ '') and was withheld from the model. A call to a ''
            @ ''withheld tool means the name reached the model through another channel.'')"

definition blocked_call_text :: "string \<Rightarrow> policy_decision \<Rightarrow> string" where
  "blocked_call_text name d =
     ''Norviq policy '' @ (if is_blocked d then ''blocked'' else ''held for human approval'')
     @ '' this call to '' @ [CHR 0x27] @ name @ [CHR 0x27] @ ''.'' @ [CHR 0x0A]
     @ ''rule: '' @ or_else (pd_rule_id d) ''unspecified'' @ [CHR 0x0A]
     @ ''reason: '' @ or_else (pd_reason d) ''not permitted for this agent identity'' @ [CHR 0x0A]
     @ ''The tool was NOT executed. Do not retry; choose a different approach or ask the user.''"

text \<open>The half that depends on the catalog: Gate A's verdict, the tool's schema, the policy.\<close>

definition gate_b_decide ::
  "mcp_env \<Rightarrow> call_env \<Rightarrow> json \<Rightarrow> string \<Rightarrow> json \<Rightarrow> mcp_state \<Rightarrow> mediation option \<times> mcp_state" where
  "gate_b_decide env cx m name arguments st =
     (let entry = map_of (ms_catalog st) name;
          sid = JStr (me_server_id env);
          denied = (case entry of Some e \<Rightarrow> call_denied e | None \<Rightarrow> False);
          violations = (case entry of
             Some e \<Rightarrow> if me_enforce_schema env \<and> members (ce_input_schema e) \<noteq> []
               then schema_violations (ce_input_schema e) arguments else Some []
           | None \<Rightarrow> Some [])
      in if denied then
           (let e = the entry; status = string_of_pin_status (ce_pin_status e);
                reason = gate_a_denial_reason e
            in (Some (refused_with (tool_error_result (msg_id m) reason
                  [(''gate'', JStr ''A''), (''tool'', JStr name), (''pin_status'', JStr status),
                   (''scan_severity'', JStr (string_of_severity (ce_scan_severity e))), (''server'', sid)])
                  (''gate_a:'' @ status)),
                report_denial env (cx_now cx) name arguments (''mcp_gate_a_'' @ status) reason ''tools/call''
                  (bump ''gate_a_denied'' st)))
         else case violations of
             None \<Rightarrow> (None, st)
           | Some vs \<Rightarrow>
               if vs \<noteq> [] then
                 (let why = ''does not match the tool'' @ [CHR 0x27] @ ''s own declared inputSchema ''
                        @ em_dash @ '' '' @ join ''; '' vs
                  in (Some (refused_with (tool_error_result (msg_id m)
                        (''Norviq refused '' @ [CHR 0x27] @ name @ [CHR 0x27] @ '': the call '' @ why @ ''.'')
                        [(''gate'', JStr ''B''), (''tool'', JStr name), (''server'', sid),
                         (''schema_violations'', JList (map JStr vs))]) ''schema_violation''),
                      report_denial env (cx_now cx) name arguments ''mcp_schema_violation''
                        (''the call '' @ why) ''tools/call'' (bump ''schema_violation'' st)))
               else case ask_engine env (cx_engine cx) st name arguments ''tools/call'' of
                   None \<Rightarrow> (None, st)
                 | Some d \<Rightarrow>
                     if is_allowed d
                     then (Some (pass_on\<lparr>md_decision := Some d\<rparr>),
                           bump (''allow:'' @ string_of_verdict (pd_decision d)) st)
                     else (Some ((refused_with (tool_error_result (msg_id m) (blocked_call_text name d)
                             [(''gate'', JStr ''B''), (''decision'', JStr (string_of_verdict (pd_decision d))),
                              (''rule_id'', JStr (pd_rule_id d)), (''trust_score'', JFloat (pd_trust_score d)),
                              (''server'', sid)])
                             (''gate_b:'' @ string_of_verdict (pd_decision d)))\<lparr>md_decision := Some d\<rparr>),
                           bump (''block:'' @ string_of_verdict (pd_decision d)) st))"

definition gate_b_tools_call ::
  "mcp_env \<Rightarrow> call_env \<Rightarrow> json \<Rightarrow> mcp_state \<Rightarrow> mediation option \<times> mcp_state" where
  "gate_b_tools_call env cx m st =
     (let params = msg_params m;
          name = str_member (me_hashing env) params ''name'';
          arguments = (case jget params ''arguments'' of Some a \<Rightarrow> a | None \<Rightarrow> JNull)
      in if \<not> me_allow_tool_headers env \<and> sets_transport_headers (me_fold env) arguments
         then
           (let st1 = bump ''tool_header_denied'' st
            in (Some (refused_with (error_response (msg_id m) e_policy_denied
                  (''Norviq policy refused '' @ [CHR 0x27] @ name @ [CHR 0x27]
                   @ '': its arguments set outbound HTTP headers via '' @ [CHR 0x27] @ x_mcp_header @ [CHR 0x27]
                   @ ''. Model-controlled input reaching the header layer is header injection and SSRF ''
                   @ ''surface; enable NRVQ_MCP_ALLOW_TOOL_HEADERS only for a tool that genuinely needs it.'')
                  []) ''tool_header_denied''),
                if is_dict arguments
                then report_denial env (cx_now cx) name arguments ''mcp_tool_header_injection''
                  (''the call'' @ [CHR 0x27] @ ''s arguments set outbound HTTP headers, which is ''
                   @ ''header-injection and SSRF surface'') ''tools/call'' st1
                else st1))
         else if \<not> is_dict arguments \<and> arguments \<noteq> JNull
         then (Some (refused_with (error_response (msg_id m) e_invalid_request
                 ''tools/call params.arguments must be an object'' []) ''malformed_arguments''),
               bump ''malformed_call'' st)
         else
           let arguments' = (if is_dict arguments then arguments else JObj []);
               (scanned, st1) = warm_cold_catalog env cx st
           in case gate_b_decide env cx m name arguments' st1 of
                (r, st2) \<Rightarrow> (map_option (md_catalog_scanned_update (\<lambda>_. scanned)) r, st2))"

definition gate_b_resources_read ::
  "mcp_env \<Rightarrow> call_env \<Rightarrow> json \<Rightarrow> mcp_state \<Rightarrow> mediation option \<times> mcp_state" where
  "gate_b_resources_read env cx m st =
     (let uri = str_member (me_hashing env) (msg_params m) ''uri''
      in case ask_engine env (cx_engine cx) st ''resources/read'' (JObj [(''uri'', JStr uri)])
           ''resources/read'' of
           None \<Rightarrow> (None, st)
         | Some d \<Rightarrow>
             if is_allowed d then (Some (pass_on\<lparr>md_decision := Some d\<rparr>), st)
             else (Some ((refused_with (error_response (msg_id m) e_policy_denied
                     (''Norviq policy blocked resources/read (rule: '' @ pd_rule_id d @ '')'')
                     [(''uri'', JStr (clip 200 uri)),
                      (''decision'', JStr (string_of_verdict (pd_decision d))),
                      (''rule_id'', JStr (pd_rule_id d))]) ''gate_b:resources_read'')
                     \<lparr>md_decision := Some d\<rparr>),
                   bump ''block:resources_read'' st))"

definition sampling_request :: "mcp_env \<Rightarrow> json \<Rightarrow> json" where
  "sampling_request env params =
     (let messages = (case jget params ''messages'' of Some (JList ms) \<Rightarrow> ms | _ \<Rightarrow> []);
          preview = (case messages of [] \<Rightarrow> ''''
             | first # _ \<Rightarrow> clip 512 (jstr (jdict first ''content'') ''text''))
      in JObj [(''message_count'', JInt (int (length messages))),
           (''max_tokens'', case jget params ''maxTokens'' of Some j \<Rightarrow> j | None \<Rightarrow> JNull),
           (''system_prompt'', JStr (clip 512 (str_member (me_hashing env) params ''systemPrompt''))),
           (''first_message'', JStr preview)])"

definition gate_b_sampling ::
  "mcp_env \<Rightarrow> call_env \<Rightarrow> json \<Rightarrow> mcp_state \<Rightarrow> mediation option \<times> mcp_state" where
  "gate_b_sampling env cx m st =
     (case ask_engine env (cx_engine cx) st ''sampling/createMessage''
         (sampling_request env (msg_params m)) ''sampling/createMessage'' of
        None \<Rightarrow> (None, st)
      | Some d \<Rightarrow>
          if is_allowed d then (Some (pass_on\<lparr>md_decision := Some d\<rparr>), st)
          else (Some ((refused_with (error_response (msg_id m) e_policy_denied
                  (''Norviq policy blocked sampling/createMessage (rule: '' @ pd_rule_id d @ '')'')
                  [(''decision'', JStr (string_of_verdict (pd_decision d))),
                   (''rule_id'', JStr (pd_rule_id d))]) ''gate_b:sampling'')\<lparr>md_decision := Some d\<rparr>),
                bump ''block:sampling'' st))"

text \<open>
  The answer plane: \<open>None\<close> inside the result when the answer is permitted and the message goes on to
  the call gate. The name is prefixed here and again where the engine is asked.
\<close>

definition gate_answer ::
  "mcp_env \<Rightarrow> call_env \<Rightarrow> json \<Rightarrow> json \<Rightarrow> mcp_state \<Rightarrow> mediation option option \<times> mcp_state" where
  "gate_answer env cx answers m st =
     (let params = msg_params m;
          name = (case jget params ''name'' of
             Some j \<Rightarrow> if truthy j then (case j of JStr s \<Rightarrow> s | _ \<Rightarrow> hx_str (me_hashing env) j)
               else msg_method m
           | None \<Rightarrow> msg_method m)
      in case ask_engine env (cx_engine cx) st (engine_tool_name env name)
           (JObj [(''inputResponses'', answers),
             (''requestState'', case jget params ''requestState'' of Some j \<Rightarrow> j | None \<Rightarrow> JNull)])
           ''answer'' of
           None \<Rightarrow> (None, st)
         | Some d \<Rightarrow>
             if is_allowed d then (Some None, bump ''answer_allowed'' st)
             else (Some (Some (refused_with (error_response (msg_id m) e_policy_denied
                     (''Norviq policy refused to answer this server'' @ [CHR 0x27] @ ''s request ('' @ pd_rule_id d
                      @ ''). The server asked the client for additional input; that answer was not ''
                      @ ''permitted to leave.'') []) ''answer_denied'')),
                   bump ''answer_denied'' st))"

section \<open>From the client\<close>

definition note_client_request :: "json \<Rightarrow> correlation \<Rightarrow> correlation" where
  "note_client_request m corr =
     (if is_request m
      then corr\<lparr>cl_held := pm_put (msg_id m) (msg_method m) (cl_held corr)\<rparr> else corr)"

definition client_dispatch ::
  "mcp_env \<Rightarrow> call_env \<Rightarrow> json \<Rightarrow> mcp_state \<Rightarrow> mediation option \<times> mcp_state" where
  "client_dispatch env cx m st =
     (let gate = (\<lambda>st.
            if msg_method m = ''tools/call'' then gate_b_tools_call env cx m st
            else if msg_method m = ''resources/read'' \<and> me_govern_resources env
            then gate_b_resources_read env cx m st
            else (Some pass_on, st))
      in case input_responses m of
           None \<Rightarrow> gate st
         | Some answers \<Rightarrow>
             (case gate_answer env cx answers m st of
                (None, st1) \<Rightarrow> (None, st1)
              | (Some (Some r), st1) \<Rightarrow> (Some r, st1)
              | (Some None, st1) \<Rightarrow> gate st1))"

text \<open>
  The scope is the one the message arrived in; with the driver's early registration the request is
  held already. The scope comes back with the state.
\<close>

definition on_client_message ::
  "mcp_env \<Rightarrow> call_env \<Rightarrow> bool \<Rightarrow> json \<Rightarrow> correlation \<Rightarrow> mcp_state
     \<Rightarrow> mediation option \<times> correlation \<times> mcp_state" where
  "on_client_message env cx registered m corr st =
     (if is_batch m
      then (Some (refused_with (error_response JNull e_invalid_request
             (''Norviq MCP firewall does not forward JSON-RPC batches; send messages individually.'') [])
             ''batch_refused''), corr, bump ''batch_refused'' st)
      else if envelope_alias (me_fold env) m \<noteq> ''''
      then (Some (refused_with (error_response
             (case msg_id m of JStr s \<Rightarrow> JStr s | JInt n \<Rightarrow> JInt n | _ \<Rightarrow> JNull) e_invalid_request
             (''Norviq MCP firewall refused this message: its key '' @ [CHR 0x27]
              @ clip 64 (envelope_alias (me_fold env) m) @ [CHR 0x27]
              @ '' differs from a protocol field only by case or compatibility form.'') []) ''ambiguous_key''),
            corr\<lparr>cl_held := pm_discard (msg_id m) (cl_held corr)\<rparr>, bump ''ambiguous_key_refused'' st)
      else
        let corr1 = (if registered then corr else note_client_request m corr)
        in case client_dispatch env cx m st of
             (None, st1) \<Rightarrow> (None, corr1, st1)
           | (Some r, st1) \<Rightarrow>
               if \<not> is_request m then (Some r, corr1, st1)
               else
                 let corr2 = corr1\<lparr>cl_held := pm_discard (msg_id m) (cl_held corr1)\<rparr>
                 in (Some r,
                     if md_forward r \<noteq> None
                     then corr2\<lparr>cl_pending := pm_put (msg_id m) (msg_method m) (cl_pending corr2),
                            cl_request_id := msg_id m\<rparr>
                     else corr2, st1))"

section \<open>From the server\<close>

definition unmatched_log_window :: rat where
  "unmatched_log_window = 60"

definition drop_unmatched :: "time \<Rightarrow> mcp_state \<Rightarrow> mediation \<times> mcp_state" where
  "drop_unmatched now st =
     (let (last, suppressed) = ms_unmatched st
      in (dropped ''unmatched_response_dropped'',
          (bump ''unmatched_response_dropped'' st)
            \<lparr>ms_unmatched := (if now - last \<ge> unmatched_log_window then (now, 0)
               else (last, suppressed + 1))\<rparr>))"

definition refuse_alias :: "mcp_env \<Rightarrow> json \<Rightarrow> string \<Rightarrow> string \<Rightarrow> mcp_state \<Rightarrow> mediation \<times> mcp_state" where
  "refuse_alias env m surface alias st =
     (let txt = ''Norviq MCP firewall withheld this '' @ surface @ '' message: its key '' @ [CHR 0x27]
            @ clip 64 alias @ [CHR 0x27]
            @ '' differs from a protocol field only by case or compatibility form, so its content was not ''
            @ ''inspected.'';
          err = error_response (msg_id m) e_policy_denied txt []
      in (if is_notification m then dropped ''alias_key''
          else if is_request m then refused_with err ''alias_key''
          else if surface = ''tools/call''
          then rewritten_to (tool_error_result (msg_id m) txt
                 [(''gate'', JStr ''A''), (''server'', JStr (me_server_id env)), (''alias_key'', JBool True)])
                 ''alias_key''
          else rewritten_to err ''alias_key'',
          bump ''alias_key_refused'' st))"

definition withhold_at :: "mcp_env \<Rightarrow> scan_report \<Rightarrow> bool" where
  "withhold_at env report \<longleftrightarrow>
     sr_budget_exhausted report \<or>
     severity_order (report_severity report) \<ge> order_of_setting (me_strip_severity env) 3"

definition gate_a_prompts_get :: "mcp_env \<Rightarrow> json \<Rightarrow> mcp_state \<Rightarrow> mediation \<times> mcp_state" where
  "gate_a_prompts_get env m st =
     (case jget (msg_result m) ''messages'' of
        Some (JList messages) \<Rightarrow>
          let report = me_scan_messages env messages
          in if \<not> me_scan_responses env \<or> report_clean report then (pass_on, st)
             else
               let scan = JObj [(''severity'', JStr (string_of_severity (report_severity report))),
                     (''findings'', redact_evidence (sr_findings report))];
                   noted = annotate [(''gate'', JStr ''A''), (''surface'', JStr ''prompts/get''), (''scan'', scan)]
                     (msg_result m);
                   withheld = JList [JObj [(''role'', JStr ''user''), (''content'', JObj [(''type'', JStr ''text''),
                     (''text'', JStr (''[Prompt withheld by the Norviq MCP firewall: the template supplied by this ''
                       @ ''server '' @ (if sr_budget_exhausted report
                         then ''is larger than the scan budget allows, so it could not be read in full''
                         else ''matched instruction-injection patterns'') @ ''.]''))])]]
               in (rewritten_to (jset ''result''
                     (if withhold_at env report then jset ''messages'' withheld noted else noted) m)
                     ''gate_a_prompt'', bump ''gate_a_prompt_flagged'' st)
      | _ \<Rightarrow> (pass_on, st))"

text \<open>The other listings: resources, resource templates and prompts.\<close>

definition max_item_text :: nat where
  "max_item_text = 16384"

definition max_list_annotations :: nat where
  "max_list_annotations = 64"

definition unclassifiable_finding :: "string \<Rightarrow> nat \<Rightarrow> json \<Rightarrow> finding" where
  "unclassifiable_finding key index item =
     \<lparr>fd_rule = ''mcp_a_unclassifiable_item'', fd_severity = Sev_High,
      fd_field = key @ ''['' @ show_nat index @ '']'',
      fd_evidence = (case item of JStr s \<Rightarrow> clip 120 s | _ \<Rightarrow> ''''),
      fd_detail = ''a '' @ key @ '' entry was not an object, so it could not be classified as a catalogue ''
        @ ''entry; withheld rather than forwarded unexamined''\<rparr>"

record item_list =
  il_kept :: "json list"
  il_withheld :: "json list"
  il_findings :: "finding list"
  il_budget :: nat
  il_nodes :: nat

definition gate_a_item :: "mcp_env \<Rightarrow> string \<Rightarrow> nat \<times> json \<Rightarrow> item_list \<Rightarrow> item_list" where
  "gate_a_item env key entry il =
     (case entry of (index, item) \<Rightarrow>
        if \<not> is_dict item then
          (let report = (case item of
               JStr s \<Rightarrow> me_scan_text env (clip max_item_text s) (key @ ''['' @ show_nat index @ '']'') (il_budget il)
             | _ \<Rightarrow> \<lparr>sr_findings = [], sr_scanned_chars = 0, sr_budget_exhausted = False\<rparr>)
           in il\<lparr>il_withheld := il_withheld il @ [item], il_budget := il_budget il - sr_scanned_chars report,
                il_findings := il_findings il @ sr_findings report @ [unclassifiable_finding key index item]\<rparr>)
        else
          let granted = min max_walk_nodes (il_nodes il);
              (scanned, left) = me_scan_item env item key (min definition_scan_budget (il_budget il)) granted;
              alias = server_alias (me_fold env) item;
              report = scanned\<lparr>sr_findings := sr_findings scanned @
                (if alias \<noteq> '''' then [alias_finding alias
                   (key @ ''['' @ show_nat index @ ''].'' @ clip 64 alias)] else [])\<rparr>;
              il' = il\<lparr>il_budget := il_budget il - sr_scanned_chars scanned,
                il_nodes := il_nodes il - (granted - left)\<rparr>
          in if report_clean report then il'\<lparr>il_kept := il_kept il @ [item]\<rparr>
             else if withhold_at env report
             then il'\<lparr>il_findings := il_findings il @ sr_findings report,
                    il_withheld := il_withheld il @ [item]\<rparr>
             else il'\<lparr>il_findings := il_findings il @ sr_findings report, il_kept := il_kept il @ [item]\<rparr>)"

text \<open>
  The annotation counts what was withheld; the identifiers it names besides are not modelled.
\<close>

definition gate_a_item_list ::
  "mcp_env \<Rightarrow> string \<Rightarrow> string \<Rightarrow> json \<Rightarrow> mcp_state \<Rightarrow> mediation \<times> mcp_state" where
  "gate_a_item_list env surface key m st =
     (case jget (msg_result m) key of
        Some (JList items) \<Rightarrow>
          if \<not> me_scan_responses env \<or> items = [] then (pass_on, st)
          else
            let il = fold (gate_a_item env key) (enumerate 0 items)
                  \<lparr>il_kept = [], il_withheld = [], il_findings = [], il_budget = list_scan_budget,
                   il_nodes = list_walk_nodes\<rparr>
            in if il_findings il = [] \<and> il_withheld il = [] then (pass_on, st)
               else (rewritten_to (jset ''result'' (annotate
                     [(''gate'', JStr ''A''), (''surface'', JStr surface),
                      (''findings'', redact_evidence (take max_list_annotations (il_findings il))),
                      (''withheld_total'', JInt (int (length (il_withheld il)))),
                      (''findings_total'', JInt (int (length (il_findings il))))]
                     (jset key (JList (il_kept il)) (msg_result m))) m) (''gate_a_'' @ key),
                   bump (''gate_a_'' @ key @ ''_flagged'') st)
      | _ \<Rightarrow> (pass_on, st))"

definition gate_a_handshake ::
  "mcp_env \<Rightarrow> string \<Rightarrow> string \<Rightarrow> json \<Rightarrow> mcp_state \<Rightarrow> mediation \<times> mcp_state" where
  "gate_a_handshake env surface label m st =
     (let report = me_scan_object env (msg_result m) label
      in if report_clean report then (pass_on, bump ''discover_clean'' st)
         else if sr_budget_exhausted report
         then (rewritten_to (error_response (msg_id m) e_policy_denied
                 (''Norviq MCP firewall withheld this '' @ surface @ '' result: it is larger than the scan ''
                  @ ''budget allows, so it could not be read in full.'') []) ''discover_withheld'',
               bump ''discover_withheld_unscanned'' st)
         else (rewritten_to (jset ''result'' (annotate
                 [(''gate'', JStr ''A''), (''surface'', JStr surface),
                  (''scan'', JList (map finding_dict (sr_findings report)))] (msg_result m)) m)
                 ''discover_flagged'', bump ''discover_flagged'' st))"

definition gate_a_elicitation :: "mcp_env \<Rightarrow> json \<Rightarrow> mcp_state \<Rightarrow> mediation \<times> mcp_state" where
  "gate_a_elicitation env m st =
     (let report = me_scan_object env (msg_params m) ''params''
      in if \<not> me_scan_responses env \<or> report_clean report then (pass_on, st)
         else if withhold_at env report
         then (refused_with (error_response (msg_id m) e_policy_denied
                 (''Norviq refused this elicitation: the question composed by the server matched ''
                  @ ''instruction-injection patterns.'') []) ''elicitation_denied'',
               bump ''gate_a_elicitation_flagged'' st)
         else (rewritten_to (annotate_params [(''gate'', JStr ''A''), (''surface'', JStr ''elicitation/create''),
                 (''scan'', report_dict report)] m) ''gate_a_elicitation'',
               bump ''gate_a_elicitation_flagged'' st))"

definition gate_a_notification_text :: "mcp_env \<Rightarrow> json \<Rightarrow> mcp_state \<Rightarrow> mediation \<times> mcp_state" where
  "gate_a_notification_text env m st =
     (let report = me_scan_object env (msg_params m) ''params''
      in if \<not> me_scan_responses env \<or> report_clean report then (pass_on, st)
         else if sr_budget_exhausted report
         then (dropped ''notification_withheld'', bump ''notification_withheld_unscanned'' st)
         else (rewritten_to (annotate_params [(''gate'', JStr ''A''), (''surface'', JStr (msg_method m)),
                 (''scan'', report_dict report)] m) ''notification_flagged'',
               bump ''notification_text_flagged'' st))"

text \<open>The content guard, on the list of blocks under one member of the result or of the params.\<close>

definition guard_content ::
  "mcp_env \<Rightarrow> string \<Rightarrow> string \<Rightarrow> json \<Rightarrow> json option \<Rightarrow> mcp_state \<Rightarrow> mediation \<times> mcp_state" where
  "guard_content env envelope key m blocks st =
     (case blocks of
        Some (JList bs) \<Rightarrow>
          if bs = [] \<or> \<not> me_output_dlp env \<and> \<not> me_scan_responses env then (pass_on, st)
          else
            let outs = guard_blocks (guard_block (me_output_dlp env) (me_scan_responses env)
                   (me_scan_text env) (me_mask_text env) (envelope @ ''.'' @ key)) content_guard_budget bs;
                redacted = sum_list (map go_redacted outs);
                over = sum_list (map go_over_budget outs);
                findings = concat (map go_findings outs);
                st1 = (if over > 0 then bump ''content_guard_budget_exhausted'' st else st);
                st2 = (if redacted > 0 then bump ''output_dlp_redacted'' st1 else st1);
                st3 = (if findings \<noteq> [] then bump ''response_injection_flagged'' st2 else st2)
            in if redacted = 0 \<and> findings = [] \<and> over = 0 then (pass_on, st)
               else (rewritten_to (jset envelope (annotate
                     [(''output_dlp_redacted_blocks'', JInt (int redacted)),
                      (''response_scan'', JList (map finding_dict findings)),
                      (''content_guard_unscanned_blocks'', JInt (int over))]
                     (jset key (JList (map go_block outs)) (jdict m envelope))) m) ''response_guarded'', st3)
      | _ \<Rightarrow> (pass_on, st))"

text \<open>The masking of \<open>structuredContent\<close>, after the content guard and over its document.\<close>

definition guard_structured ::
  "mcp_env \<Rightarrow> json \<Rightarrow> mediation \<Rightarrow> mcp_state \<Rightarrow> mediation \<times> mcp_state" where
  "guard_structured env m prior st =
     (let doc = (case md_forward prior of Some (Document d) \<Rightarrow> d | _ \<Rightarrow> m);
          result = msg_result doc;
          carried = (if md_forward prior \<noteq> None
             then members (jdict (jdict result ''_meta'') ''norviq'') else [])
      in if md_blocked prior \<or> \<not> me_output_dlp env then (prior, st)
         else case jget result ''structuredContent'' of
             None \<Rightarrow> (prior, st)
           | Some sc \<Rightarrow>
               (case me_mask_tree env sc of (masked, count) \<Rightarrow>
                  if count = 0 then (prior, st)
                  else (rewritten_to (jset ''result'' (annotate
                          (AList.update ''structured_dlp_redacted'' (JInt (int count)) carried)
                          (jset ''structuredContent'' masked result)) doc) ''structured_guarded'',
                        bump ''structured_dlp_redacted'' st)))"

definition on_tool_result :: "mcp_env \<Rightarrow> json \<Rightarrow> mcp_state \<Rightarrow> mediation \<times> mcp_state" where
  "on_tool_result env m st =
     (case guard_content env ''result'' ''content'' m (jget (msg_result m) ''content'') st of
        (r, st1) \<Rightarrow> guard_structured env m r st1)"

definition gate_input_required :: "mcp_env \<Rightarrow> json \<Rightarrow> mcp_state \<Rightarrow> mediation \<times> mcp_state" where
  "gate_input_required env m st =
     (let requests = input_requests m;
          report = me_scan_object env (JObj [(''inputRequests'', JList requests)]) ''result''
      in if requests = [] then (pass_on, st)
         else if sr_budget_exhausted report
         then (rewritten_to (tool_error_result (msg_id m)
                 (''Norviq MCP firewall withheld this demand for input: it is larger than the scan budget ''
                  @ ''allows, so it could not be read in full.'') [(''gate'', JStr ''answer'')])
                 ''input_required_withheld'', bump ''input_required_withheld'' st)
         else if report_clean report then (pass_on, bump ''input_required_clean'' st)
         else (rewritten_to (jset ''result'' (annotate [(''gate'', JStr ''answer''),
                 (''input_request_scan'', JList (map finding_dict (sr_findings report)))] (msg_result m)) m)
                 ''input_required_flagged'', bump ''input_required_flagged'' st))"

definition subscription_content :: "json \<Rightarrow> json option" where
  "subscription_content m =
     (let params = msg_params m;
          tagged = (case jget (jdict params ''_meta'') ''io.modelcontextprotocol/subscriptionId'' of
             Some j \<Rightarrow> truthy j | None \<Rightarrow> False)
      in if \<not> tagged \<and> ''subscriptionId'' \<notin> set (jkeys params) then None
         else case jget params ''content'' of
             Some (JList bs) \<Rightarrow> if bs \<noteq> [] then Some (JList bs) else None
           | _ \<Rightarrow> None)"

text \<open>The gate of each answer, by the method of the request it answers.\<close>

definition answer_gate ::
  "mcp_env \<Rightarrow> time \<Rightarrow> string \<Rightarrow> json \<Rightarrow> mcp_state \<Rightarrow> mediation \<times> mcp_state" where
  "answer_gate env now requested m st =
     (let alias = message_alias (me_fold env) (msg_result m)
      in if requested \<in> {''tools/call'', ''resources/read'', ''prompts/get''} \<and> alias \<noteq> ''''
         then refuse_alias env m requested alias st
         else if requested = ''server/discover''
         then gate_a_handshake env ''server/discover'' ''result.server_discover'' m st
         else if requested = ''initialize'' then gate_a_handshake env ''initialize'' ''result.initialize'' m st
         else if requested = ''tools/list''
         then (case gate_a_tools_list env now m st of
                 (r, st1) \<Rightarrow> (r, st1\<lparr>ms_generation := ms_generation st1 + 1\<rparr>))
         else if requested = ''prompts/get'' then gate_a_prompts_get env m st
         else if requested = ''resources/list''
         then gate_a_item_list env ''resources/list'' ''resources'' m st
         else if requested = ''resources/templates/list''
         then gate_a_item_list env ''resources/templates/list'' ''resourceTemplates'' m st
         else if requested = ''prompts/list'' then gate_a_item_list env ''prompts/list'' ''prompts'' m st
         else if requested = ''tools/call''
         then (if is_input_required m then gate_input_required env m st else on_tool_result env m st)
         else if requested = ''resources/read''
         then guard_content env ''result'' ''contents'' m (jget (msg_result m) ''contents'') st
         else (pass_on, st))"

definition on_server_response ::
  "mcp_env \<Rightarrow> time \<Rightarrow> json \<Rightarrow> correlation \<Rightarrow> mcp_state \<Rightarrow> mediation \<times> correlation \<times> mcp_state" where
  "on_server_response env now m corr st =
     (let keep = (\<lambda>(r, st'). (r, corr, st'));
          m' = (if cl_resumed corr then jset ''id'' (cl_request_id corr) m else m)
      in if is_cold_list_id (msg_id m)
         then (dropped ''cold_list_answer_dropped'', corr, bump ''cold_list_answer_dropped'' st)
         else if cl_get_stream corr then keep (drop_unmatched now st)
         else if cl_resumed corr \<and> (cl_request_id corr = JNull
             \<or> pm_match (me_readings env) (cl_request_id corr) (cl_pending corr) = None)
         then keep (drop_unmatched now st)
         else case pm_match (me_readings env) (msg_id m') (cl_pending corr) of
             None \<Rightarrow> keep (drop_unmatched now st)
           | Some (key, requested) \<Rightarrow>
               if response_defect m' requested \<noteq> '''' then keep (drop_unmatched now st)
               else
                 (case answer_gate env now requested m' st of
                    (r, st') \<Rightarrow> (r, corr\<lparr>cl_pending := pm_pop key (cl_pending corr)\<rparr>, st')))"

definition on_server_notification ::
  "mcp_env \<Rightarrow> json \<Rightarrow> mcp_state \<Rightarrow> mediation \<times> mcp_state" where
  "on_server_notification env m st =
     (let alias = message_alias (me_fold env) (msg_params m);
          method = msg_method m;
          st1 = (if method \<in> {''notifications/tools/list_changed'', ''notifications/prompts/list_changed'',
               ''notifications/resources/list_changed''} then on_catalog_changed st else st)
      in if alias \<noteq> '''' then refuse_alias env m method alias st
         else if starts_with method ''notifications/'' \<and> subscription_content m \<noteq> None
         then guard_content env ''params'' ''content'' m (subscription_content m) st1
         else if method \<in> {''notifications/message'', ''notifications/progress''}
         then gate_a_notification_text env m st1
         else (pass_on, st1))"

definition on_server_request ::
  "mcp_env \<Rightarrow> call_env \<Rightarrow> json \<Rightarrow> mcp_state \<Rightarrow> mediation option \<times> mcp_state" where
  "on_server_request env cx m st =
     (let st1 = st\<lparr>ms_server_pending := pm_put (msg_id m) (msg_method m) (ms_server_pending st)\<rparr>;
          method = msg_method m;
          alias = message_alias (me_fold env) (msg_params m);
          some = (\<lambda>(r, st'). (Some r, st'))
      in if method = ''sampling/createMessage'' \<and> alias \<noteq> ''''
         then some (refuse_alias env m method alias st1)
         else if method = ''sampling/createMessage'' \<and> me_govern_sampling env
         then gate_b_sampling env cx m st1
         else if method = ''elicitation/create'' then some (gate_a_elicitation env m st1)
         else (Some pass_on, st1))"

definition on_server_message ::
  "mcp_env \<Rightarrow> call_env \<Rightarrow> json \<Rightarrow> correlation \<Rightarrow> mcp_state
     \<Rightarrow> mediation option \<times> correlation \<times> mcp_state" where
  "on_server_message env cx m corr st =
     (if is_batch m
      then (Some (dropped ''batch_refused_from_server''), corr, bump ''batch_refused'' st)
      else if alias_in (me_fold env) envelope_keys m \<noteq> ''''
      then (Some (dropped ''alias_key''), corr, bump ''alias_key_refused'' st)
      else if is_request m
      then (case on_server_request env cx m st of (r, st1) \<Rightarrow> (r, corr, st1))
      else if is_notification m
      then (case on_server_notification env m st of (r, st1) \<Rightarrow> (Some r, corr, st1))
      else if is_response m
      then (case on_server_response env (cx_now cx) m corr st of (r, corr1, st1) \<Rightarrow> (Some r, corr1, st1))
      else (Some (dropped ''malformed''), corr, bump ''malformed_from_server'' st))"

section \<open>The catalog as reported\<close>

definition observed_catalog :: "mcp_state \<Rightarrow> json list" where
  "observed_catalog st =
     map (\<lambda>(_, e). JObj [(''tool_name'', JStr (ce_name e)), (''digest'', JStr (ce_digest e)),
         (''canonical'', JStr (ce_canonical e)),
         (''scan_severity'', JStr (string_of_severity (ce_scan_severity e))),
         (''findings'', JList (map finding_dict (ce_findings e)))]) (ms_catalog st)"

text \<open>The fingerprint of the last report is kept beside the state; the catalog is due when it differs.\<close>

definition catalog_fingerprint :: "mcp_env \<Rightarrow> mcp_state \<Rightarrow> string" where
  "catalog_fingerprint env st =
     hx_sha256 (me_hashing env) (hx_dumps (me_hashing env)
       (JList (map (\<lambda>(_, e). JList [JStr (ce_name e), JStr (ce_digest e)]) (ms_catalog st))))"

definition catalog_report_due ::
  "mcp_env \<Rightarrow> string option \<Rightarrow> mcp_state \<Rightarrow> json list option \<times> string option" where
  "catalog_report_due env reported st =
     (let fp = catalog_fingerprint env st
      in if ms_catalog st = [] then (None, reported)
         else if reported = Some fp then (None, reported)
         else (Some (observed_catalog st), Some fp))"

end
