(* ===== verification/Mcp_Firewall_Props.thy ===== *)
theory Mcp_Firewall_Props
  imports Mcp_Firewall "HOL-Library.Multiset"
begin

text \<open>
  What the MCP firewall promises of the messages it passes on: a call reaches the server only through
  every gate, and an answer of the server reaches the client only as the answer to one forwarded
  request.
\<close>

lemma bump_simps [simp]:
  "ms_catalog (bump k st) = ms_catalog st" "ms_pins (bump k st) = ms_pins st"
  "ms_servers (bump k st) = ms_servers st" "ms_listed (bump k st) = ms_listed st"
  "ms_denials (bump k st) = ms_denials st" "ms_skeletons (bump k st) = ms_skeletons st"
  "ms_reports (bump k st) = ms_reports st" "ms_generation (bump k st) = ms_generation st"
  "ms_cold_failed (bump k st) = ms_cold_failed st"
  "ms_server_pending (bump k st) = ms_server_pending st"
  by (simp_all add: bump_def)

lemma mediation_simps [simp]:
  "md_forward pass_on = Some Original" "md_forward (rewritten_to d n) = Some (Document d)"
  "md_forward (dropped n) = None" "md_forward (refused_with a n) = None"
  "md_reply (refused_with a n) = Some a" "md_blocked (dropped n)" "md_blocked (refused_with a n)"
  "\<not> md_blocked pass_on" "\<not> md_blocked (rewritten_to d n)"
  by (simp_all add: pass_on_def rewritten_to_def dropped_def refused_with_def)

section \<open>Calls\<close>

definition call_name :: "mcp_env \<Rightarrow> json \<Rightarrow> string" where
  "call_name env m = str_member (me_hashing env) (msg_params m) ''name''"

definition call_arguments :: "json \<Rightarrow> json" where
  "call_arguments m =
     (case jget (msg_params m) ''arguments'' of Some (JObj kvs) \<Rightarrow> JObj kvs | _ \<Rightarrow> JObj [])"

definition entry_admits :: "mcp_env \<Rightarrow> catalog_entry option \<Rightarrow> json \<Rightarrow> bool" where
  "entry_admits env entry arguments \<longleftrightarrow>
     (case entry of
        None \<Rightarrow> True
      | Some e \<Rightarrow> \<not> call_denied e \<and> (me_enforce_schema env \<and> members (ce_input_schema e) \<noteq> []
          \<longrightarrow> schema_violations (ce_input_schema e) arguments = Some []))"

lemma gate_b_decide_forward:
  assumes "gate_b_decide env cx m name arguments st = (Some r, st')" and "md_forward r \<noteq> None"
  shows "md_forward r = Some Original \<and> entry_admits env (map_of (ms_catalog st) name) arguments
    \<and> (\<exists>d. ask_engine env (cx_engine cx) st name arguments ''tools/call'' = Some d \<and> is_allowed d)"
proof (cases "map_of (ms_catalog st) name")
  case None
  then show ?thesis
    using assms by (auto simp: gate_b_decide_def entry_admits_def Let_def split: option.splits if_splits)
next
  case (Some e)
  have "\<not> call_denied e" using assms Some by (auto simp: gate_b_decide_def Let_def)
  then show ?thesis
    using assms Some
    by (auto simp: gate_b_decide_def entry_admits_def Let_def split: option.splits if_splits)
qed

lemma gate_b_tools_call_forward:
  assumes "gate_b_tools_call env cx m st = (Some r, st')" and "md_forward r \<noteq> None"
  shows "md_forward r = Some Original
    \<and> (me_allow_tool_headers env \<or> \<not> sets_transport_headers (me_fold env)
         (case jget (msg_params m) ''arguments'' of Some a \<Rightarrow> a | None \<Rightarrow> JNull))
    \<and> (let st1 = snd (warm_cold_catalog env cx st); name = call_name env m; args = call_arguments m
       in entry_admits env (map_of (ms_catalog st1) name) args
        \<and> (\<exists>d. ask_engine env (cx_engine cx) st1 name args ''tools/call'' = Some d \<and> is_allowed d))"
proof -
  define a where "a = (case jget (msg_params m) ''arguments'' of Some a \<Rightarrow> a | None \<Rightarrow> JNull)"
  obtain sc st1 where w: "warm_cold_catalog env cx st = (sc, st1)"
    by (cases "warm_cold_catalog env cx st")
  have args: "call_arguments m = (if is_dict a then a else JObj [])"
    unfolding call_arguments_def a_def by (auto split: option.splits json.splits)
  have hd: "me_allow_tool_headers env \<or> \<not> sets_transport_headers (me_fold env) a"
    and md: "is_dict a \<or> a = JNull"
    using assms unfolding gate_b_tools_call_def Let_def a_def [symmetric]
    by (auto split: if_splits)
  obtain r0 where r0: "gate_b_decide env cx m (call_name env m) (call_arguments m) st1 = (Some r0, st')"
    and "r = r0\<lparr>md_catalog_scanned := sc\<rparr>"
    using assms hd md w args unfolding gate_b_tools_call_def Let_def a_def [symmetric] call_name_def
    by (auto split: if_splits prod.splits)
  then have "md_forward r0 = md_forward r" by simp
  then show ?thesis
    using gate_b_decide_forward [OF r0] assms(2) hd w by (simp add: a_def Let_def)
qed


text \<open>An environment in which every scan is clean and nothing is masked, for concrete runs.\<close>

definition clean_report :: scan_report where
  "clean_report = \<lparr>sr_findings = [], sr_scanned_chars = 0, sr_budget_exhausted = False\<rparr>"

definition sample_env :: mcp_env where
  "sample_env = \<lparr>me_server_id = ''srv'', me_transport = ''stdio'', me_prefix = '''',
     me_pin_mode = ''tofu'', me_strip_severity = ''high'', me_sanitize_severity = ''medium'',
     me_scan_responses = True, me_govern_sampling = True, me_govern_resources = True,
     me_allow_tool_headers = False, me_enforce_schema = True, me_output_dlp = True,
     me_cold_timeout = 5, me_hashing = \<lparr>hx_sha256 = id, hx_dumps = \<lambda>j. concat (jkeys j), hx_str = \<lambda>_. ''''\<rparr>,
     me_fold = id, me_skeleton = id, me_readings = \<lambda>_. [],
     me_scan_tool = \<lambda>_ _ n. (clean_report, n), me_scan_item = \<lambda>_ _ _ n. (clean_report, n),
     me_scan_text = \<lambda>_ _ _. clean_report, me_scan_object = \<lambda>_ _. clean_report,
     me_scan_messages = \<lambda>_. clean_report, me_mask_text = id, me_mask_tree = \<lambda>j. (j, 0),
     me_show_note = \<lambda>_. ''''\<rparr>"

definition sample_cx :: "verdict \<Rightarrow> call_env" where
  "sample_cx v = \<lparr>cx_now = 1, cx_engine = \<lambda>_. Some (default_decision v 1), cx_upstream = None,
     cx_credential = '''', cx_uuid = '''', cx_meanwhile = id\<rparr>"

definition sample_state :: mcp_state where
  "sample_state = new_firewall 16 no_cp_pins \<lparr>sv_decisions = [], sv_degraded = False\<rparr>"

definition sample_call :: json where
  "sample_call = JObj [(''jsonrpc'', JStr ''2.0''), (''id'', JInt 1), (''method'', JStr ''tools/call''),
     (''params'', JObj [(''name'', JStr ''t'')])]"

lemmas sample_defs = sample_env_def sample_cx_def sample_state_def sample_call_def clean_report_def

lemma sample_call_dispatched:
  "client_dispatch sample_env (sample_cx Allow) sample_call sample_state =
     (Some (pass_on\<lparr>md_decision := Some (default_decision Allow 1)\<rparr>),
      bump ''allow:allow'' sample_state)"
  by (simp add: sample_defs client_dispatch_def gate_b_tools_call_def gate_b_decide_def input_responses_def
      msg_method_def msg_params_def jstr_def jdict_def jget_def str_member_def sets_transport_headers_def
      header_walk_nodes_def warm_cold_catalog_def new_firewall_def ask_engine_def engine_tool_name_def
      default_decision_def is_allowed_def pass_on_def Let_def)

lemma sample_call_plain: "envelope_alias id sample_call = '''' \<and> \<not> is_batch sample_call"
  by code_simp


section \<open>Answers\<close>

text \<open>
  The messages of one scope in any order, with the keys of the requests forwarded upstream and of the
  answers forwarded to the client.
\<close>

definition was_forwarded :: "mediation option \<Rightarrow> bool" where
  "was_forwarded r \<longleftrightarrow> (\<exists>r'. r = Some r' \<and> md_forward r' \<noteq> None)"

definition answered_key :: "mcp_env \<Rightarrow> json \<Rightarrow> correlation \<Rightarrow> request_key" where
  "answered_key env m corr = fst (the (pm_match (me_readings env) (msg_id m) (cl_pending corr)))"

inductive session ::
  "mcp_env \<Rightarrow> correlation \<Rightarrow> mcp_state \<Rightarrow> request_key list \<Rightarrow> request_key list \<Rightarrow> bool" for env where
  session_start: "session env (new_correlation cap False) st [] []"
| session_read: "session env corr st fwd ans \<Longrightarrow> session env (note_client_request m corr) st fwd ans"
| session_client: "session env corr st fwd ans \<Longrightarrow>
    on_client_message env cx reg m corr st = (r, corr', st') \<Longrightarrow>
    session env corr' st' (if is_request m \<and> was_forwarded r then id_key (msg_id m) # fwd else fwd) ans"
| session_server: "session env corr st fwd ans \<Longrightarrow>
    on_server_message env cx m corr st = (r, corr', st') \<Longrightarrow>
    session env corr' st' fwd
      (if is_response m \<and> was_forwarded r then answered_key env m corr # ans else ans)"

definition pending_count :: "pending_map \<Rightarrow> request_key \<Rightarrow> nat" where
  "pending_count pm k = (if map_of (pm_map pm) k = None then 0 else 1)"

lemma pending_count_put:
  "pending_count (pm_put i method pm) k \<le> pending_count pm k + (if k = id_key i then 1 else 0)"
proof -
  have "map_of (pm_map pm) k = None \<Longrightarrow> map_of (tl (pm_map pm)) k = None"
    by (cases "pm_map pm") (auto split: if_splits)
  then show ?thesis by (auto simp: pending_count_def pm_put_lookup)
qed

lemma pending_count_pop: "pending_count (pm_pop key pm) k = (if k = key then 0 else pending_count pm k)"
  by (simp add: pending_count_def pm_pop_lookup)

definition correlated :: "correlation \<Rightarrow> request_key list \<Rightarrow> request_key list \<Rightarrow> bool" where
  "correlated corr fwd ans \<longleftrightarrow> \<not> cl_get_stream corr \<and> \<not> cl_resumed corr \<and>
     (\<forall>k. count (mset ans) k + pending_count (cl_pending corr) k \<le> count (mset fwd) k)"

lemma correlated_answer:
  assumes "correlated corr fwd ans"
    and "pm_match readings i (cl_pending corr) = Some (k, md)"
  shows "k \<in> set (id_candidates readings i) \<and> count (mset ans) k < count (mset fwd) k"
proof -
  have "k \<in> set (id_candidates readings i)" "pending_count (cl_pending corr) k = 1"
    using assms(2) first_match_in by (auto simp: pm_match_def pending_count_def)
  then show ?thesis using assms(1) unfolding correlated_def by (metis add_le_imp_le_left less_eq_Suc_le Suc_eq_plus1)
qed

lemma on_client_corr:
  assumes "on_client_message env cx reg m corr st = (r, corr', st')"
  shows "cl_get_stream corr' = cl_get_stream corr \<and> cl_resumed corr' = cl_resumed corr
    \<and> cl_pending corr' = (if is_request m \<and> was_forwarded r
         then pm_put (msg_id m) (msg_method m) (cl_pending corr) else cl_pending corr)"
  using assms
  by (auto simp: on_client_message_def note_client_request_def was_forwarded_def Let_def
      split: if_splits option.splits prod.splits)

lemma on_server_corr:
  assumes "on_server_message env cx m corr st = (r, corr', st')"
    and "\<not> cl_get_stream corr" and "\<not> cl_resumed corr"
  shows "corr' = corr \<and> \<not> (is_response m \<and> was_forwarded r)
    \<or> is_response m \<and> (\<exists>k method. pm_match (me_readings env) (msg_id m) (cl_pending corr) = Some (k, method)
         \<and> corr' = corr\<lparr>cl_pending := pm_pop k (cl_pending corr)\<rparr>)"
proof (cases "is_response m \<and> \<not> is_batch m \<and> alias_in (me_fold env) envelope_keys m = ''''")
  case True
  then have "\<not> is_request m" "\<not> is_notification m"
    by (auto simp: is_response_def is_request_def is_notification_def)
  then show ?thesis
    using assms True
    by (auto simp: on_server_message_def on_server_response_def drop_unmatched_def was_forwarded_def Let_def
        split: if_splits option.splits prod.splits)
next
  case False
  then show ?thesis
    using assms
    by (auto simp: on_server_message_def was_forwarded_def is_response_def is_request_def
        is_notification_def is_batch_def split: if_splits prod.splits)
qed

lemma session_correlated: "session env corr st fwd ans \<Longrightarrow> correlated corr fwd ans"
proof (induction rule: session.induct)
  case (session_start cap st)
  then show ?case by (simp add: correlated_def new_correlation_def new_pending_def pending_count_def)
next
  case (session_read corr st fwd ans m)
  then show ?case by (simp add: correlated_def note_client_request_def)
next
  case (session_client corr st fwd ans cx reg m r corr' st')
  note c = on_client_corr [OF session_client(2)]
  have "count (mset ans) k + pending_count (pm_put (msg_id m) (msg_method m) (cl_pending corr)) k
      \<le> count (mset (id_key (msg_id m) # fwd)) k" for k
    using session_client(3) pending_count_put [of "msg_id m" "msg_method m" "cl_pending corr" k]
    by (auto simp: correlated_def dest!: spec [of _ k] split: if_splits)
  then show ?case using session_client(3) c by (simp add: correlated_def)
next
  case (session_server corr st fwd ans cx m r corr' st')
  have flags: "\<not> cl_get_stream corr" "\<not> cl_resumed corr" using session_server(3) by (simp_all add: correlated_def)
  from on_server_corr [OF session_server(2) flags] show ?case
  proof
    assume "corr' = corr \<and> \<not> (is_response m \<and> was_forwarded r)"
    then show ?thesis using session_server(3) by auto
  next
    assume "is_response m \<and> (\<exists>k method. pm_match (me_readings env) (msg_id m) (cl_pending corr) = Some (k, method)
         \<and> corr' = corr\<lparr>cl_pending := pm_pop k (cl_pending corr)\<rparr>)"
    then obtain k md where k: "pm_match (me_readings env) (msg_id m) (cl_pending corr) = Some (k, md)"
      "corr' = corr\<lparr>cl_pending := pm_pop k (cl_pending corr)\<rparr>" by blast
    then show ?thesis
      using session_server(3) correlated_answer [OF session_server(3) k(1)]
      by (auto simp: correlated_def pending_count_pop answered_key_def less_eq_Suc_le
          intro: le_trans [OF le_add1])
  qed
qed

text \<open>
  C9. In any interleaving of client messages, early registrations and server messages of one scope,
  an answer of the server is forwarded to the client only as the answer to a request the proxy has
  forwarded upstream more often than it has been answered, under an id the client reads as that
  request's: no unsolicited, early or second answer reaches the client.
\<close>

theorem answer_needs_forwarded_request:
  assumes "session env corr st fwd ans" and "on_server_message env cx m corr st = (Some r, corr', st')"
    and "is_response m" and "md_forward r \<noteq> None"
  shows "\<exists>k\<in>set (id_candidates (me_readings env) (msg_id m)). count (mset ans) k < count (mset fwd) k"
proof -
  have c: "correlated corr fwd ans" by (rule session_correlated [OF assms(1)])
  then have flags: "\<not> cl_get_stream corr" "\<not> cl_resumed corr" by (simp_all add: correlated_def)
  obtain k md where "pm_match (me_readings env) (msg_id m) (cl_pending corr) = Some (k, md)"
    using on_server_corr [OF assms(2) flags] assms(3,4) by (auto simp: was_forwarded_def)
  from correlated_answer [OF c this] show ?thesis by blast
qed

definition sample_answer :: json where
  "sample_answer = JObj [(''jsonrpc'', JStr ''2.0''), (''id'', JInt 1), (''result'', JObj [(''content'', JList [])])]"

theorem answer_needs_forwarded_request_witness:
  "\<exists>corr st r corr' st'. session sample_env corr st [Key_Num 1] []
     \<and> on_server_message sample_env (sample_cx Allow) sample_answer corr st = (Some r, corr', st')
     \<and> md_forward r \<noteq> None \<and> (\<exists>k\<in>set (id_candidates (\<lambda>_. []) (JInt 1)). count (mset []) k < count (mset [Key_Num 1]) k)"
proof -
  let ?c0 = "new_correlation 16 False"
  let ?r = "pass_on\<lparr>md_decision := Some (default_decision Allow 1)\<rparr>"
  obtain c s where client: "on_client_message sample_env (sample_cx Allow) True sample_call ?c0 sample_state = (Some ?r, c, s)"
    and c: "cl_pending c = pm_put (JInt 1) ''tools/call'' (new_pending 16)" "\<not> cl_get_stream c" "\<not> cl_resumed c"
    using sample_call_dispatched sample_call_plain
    by (simp add: on_client_message_def Let_def sample_env_def is_request_def has_id_def msg_method_def msg_id_def jstr_def
        jget_def jkeys_def carries_answer_def sample_call_def new_correlation_def)
  have sess: "session sample_env c s [Key_Num 1] []"
    using session_client [OF session_start client]
    by (simp add: was_forwarded_def is_request_def has_id_def msg_method_def msg_id_def jstr_def jget_def jkeys_def
        carries_answer_def sample_call_def)
  have plain: "alias_in id envelope_keys sample_answer = '''' \<and> message_alias id (msg_result sample_answer) = ''''
      \<and> \<not> is_batch sample_answer \<and> is_response sample_answer \<and> \<not> is_request sample_answer
      \<and> \<not> is_notification sample_answer \<and> response_defect sample_answer ''tools/call'' = ''''
      \<and> \<not> is_input_required sample_answer \<and> msg_id sample_answer = JInt 1 \<and> \<not> is_cold_list_id (JInt 1)
      \<and> jget (msg_result sample_answer) ''content'' = Some (JList [])
      \<and> jget (msg_result sample_answer) ''structuredContent'' = None"
    by code_simp
  have match: "pm_match (\<lambda>_. []) (JInt 1) (cl_pending c) = Some (Key_Num 1, ''tools/call'')"
    unfolding c by code_simp
  obtain corr' st' where srv: "on_server_message sample_env (sample_cx Allow) sample_answer c s = (Some pass_on, corr', st')"
    using plain match c(2,3)
    by (simp add: on_server_message_def on_server_response_def answer_gate_def on_tool_result_def guard_content_def
        guard_structured_def sample_env_def Let_def)
  have "\<exists>k\<in>set (id_candidates (me_readings sample_env) (msg_id sample_answer)).
      count (mset []) k < count (mset [Key_Num 1]) k"
    by (rule answer_needs_forwarded_request [OF sess srv]) (simp_all add: plain)
  then have "\<exists>k\<in>set (id_candidates (\<lambda>_. []) (JInt 1)). count (mset []) k < count (mset [Key_Num 1]) k"
    using plain by (simp add: sample_env_def)
  moreover have "md_forward pass_on \<noteq> None" by simp
  ultimately show ?thesis using sess srv by blast
qed

end
