(* ===== verification/Mcp_Gate_Props.thy ===== *)
theory Mcp_Gate_Props
  imports Mcp_Gates
begin

text \<open>
  The stateless checks of the MCP firewall against their reference definitions: the arguments of a call
  against the schema the tool declares, the walk for header-setting arguments, and what the content
  guard leaves of a block.
\<close>

section \<open>The schema of a tool\<close>

text \<open>What JSON Schema says a type name admits: a boolean is no number, an integral number an integer.\<close>

fun has_json_type :: "string \<Rightarrow> json \<Rightarrow> bool" where
  "has_json_type name JNull \<longleftrightarrow> name = ''null''"
| "has_json_type name (JBool b) \<longleftrightarrow> name = ''boolean''"
| "has_json_type name (JInt n) \<longleftrightarrow> name \<in> {''number'', ''integer''}"
| "has_json_type name (JFloat r) \<longleftrightarrow> name = ''number'' \<or> name = ''integer'' \<and> integral r"
| "has_json_type name (JStr s) \<longleftrightarrow> name = ''string''"
| "has_json_type name (JList xs) \<longleftrightarrow> name = ''array''"
| "has_json_type name (JObj kvs) \<longleftrightarrow> name = ''object''"

definition type_names :: "json \<Rightarrow> string list" where
  "type_names spec = (case jget spec ''type'' of
     Some (JStr s) \<Rightarrow> [s] | Some (JList xs) \<Rightarrow> strings_of xs | _ \<Rightarrow> [])"

definition conforms :: "json \<Rightarrow> string list \<Rightarrow> json \<Rightarrow> bool" where
  "conforms schema required arguments \<longleftrightarrow>
     set required \<subseteq> set (jkeys arguments)
     \<and> (jget schema ''additionalProperties'' = Some (JBool False) \<longrightarrow>
          set (jkeys arguments) \<subseteq> set (jkeys (jdict schema ''properties'')) \<union> set required)
     \<and> (\<forall>(key, spec)\<in>set (members (jdict schema ''properties'')). \<forall>val.
          is_dict spec \<and> jget arguments key = Some val
          \<and> set (type_names spec) \<inter> set json_type_names \<noteq> {}
          \<longrightarrow> (\<exists>n\<in>set (type_names spec). has_json_type n val))"

lemma strings_of_wanted:
  "strings_of (case jget spec ''type'' of Some (JStr s) \<Rightarrow> [JStr s] | Some (JList xs) \<Rightarrow> xs | _ \<Rightarrow> [])
     = type_names spec"
  by (auto simp: type_names_def split: option.splits json.splits)

lemma type_check_exact:
  "((\<exists>n\<in>set (filter (\<lambda>n. n \<in> set json_type_names) names). instance_of n val)
       \<and> \<not> ((\<exists>b. val = JBool b) \<and> ''boolean'' \<notin> set names)
     \<or> ''integer'' \<in> set names \<and> (case val of JFloat r \<Rightarrow> integral r | _ \<Rightarrow> False))
   \<longleftrightarrow> (\<exists>n\<in>set names. has_json_type n val)"
  by (cases val) (simp_all add: instance_of_def json_type_names_def, blast+)

lemma type_violation_exact:
  assumes "type_violation key spec val = Some vs"
  shows "vs = [] \<longleftrightarrow> (set (type_names spec) \<inter> set json_type_names \<noteq> {}
    \<longrightarrow> (\<exists>n\<in>set (type_names spec). has_json_type n val))"
proof -
  have "filter (\<lambda>n. n \<in> set json_type_names) (type_names spec) = [] \<longleftrightarrow>
      set (type_names spec) \<inter> set json_type_names = {}"
    by (auto simp: filter_empty_conv)
  then show ?thesis
    using assms unfolding type_violation_def Let_def strings_of_wanted type_check_exact
    by (simp split: if_splits) (blast, clarsimp)
qed

lemma concat_opt_empty: "concat_opt os = Some [] \<longleftrightarrow> (\<forall>x\<in>set os. x = Some [])"
  by (induction os rule: concat_opt.induct) auto

lemma concat_opt_some: "concat_opt os = Some vs \<Longrightarrow> (vs = [] \<longleftrightarrow> (\<forall>x\<in>set os. x = Some []))"
  using concat_opt_empty [of os] by simp

lemma concat_opt_defined: "concat_opt os = Some vs \<Longrightarrow> x \<in> set os \<Longrightarrow> x \<noteq> None"
  by (induction os arbitrary: vs rule: concat_opt.induct) auto

definition type_checks :: "json \<Rightarrow> json \<Rightarrow> string list option list" where
  "type_checks schema arguments = map (\<lambda>(key, spec).
      (case jget arguments key of
         Some val \<Rightarrow> if is_dict spec then type_violation key spec val else Some []
       | None \<Rightarrow> Some [])) (members (jdict schema ''properties''))"

lemma type_checks_mem:
  "(key, spec) \<in> set (members (jdict schema ''properties'')) \<Longrightarrow> is_dict spec \<Longrightarrow>
     jget arguments key = Some val \<Longrightarrow> type_violation key spec val \<in> set (type_checks schema arguments)"
  unfolding type_checks_def set_map by (rule image_eqI [of _ _ "(key, spec)"]) simp_all

lemma type_checks_empty:
  "(\<forall>x\<in>set (type_checks schema arguments). x = Some []) \<longleftrightarrow>
     (\<forall>(key, spec)\<in>set (members (jdict schema ''properties'')). \<forall>val.
        is_dict spec \<and> jget arguments key = Some val \<longrightarrow> type_violation key spec val = Some [])"
  unfolding type_checks_def set_map ball_simps split_def by (intro ball_cong refl) (simp split: option.split)

lemma type_checks_exact:
  assumes "concat_opt (type_checks schema arguments) = Some ts"
  shows "ts = [] \<longleftrightarrow> (\<forall>(key, spec)\<in>set (members (jdict schema ''properties'')). \<forall>val.
          is_dict spec \<and> jget arguments key = Some val
          \<and> set (type_names spec) \<inter> set json_type_names \<noteq> {}
          \<longrightarrow> (\<exists>n\<in>set (type_names spec). has_json_type n val))"
proof -
  have "type_violation key spec val = Some [] \<longleftrightarrow> (set (type_names spec) \<inter> set json_type_names \<noteq> {}
      \<longrightarrow> (\<exists>n\<in>set (type_names spec). has_json_type n val))"
    if m: "(key, spec) \<in> set (members (jdict schema ''properties''))" "is_dict spec"
      "jget arguments key = Some val" for key spec val
  proof -
    obtain us where us: "type_violation key spec val = Some us"
      using concat_opt_defined [OF assms type_checks_mem [OF m]] by blast
    show ?thesis using type_violation_exact [OF us] us by simp
  qed
  then show ?thesis unfolding concat_opt_some [OF assms] type_checks_empty by blast
qed

lemma schema_violations_parts:
  assumes "is_dict schema" and "admits_object (jget schema ''type'')"
    and "schema_violations schema arguments = Some vs" and "required_keys schema = Some required"
  shows "\<exists>ts. concat_opt (type_checks schema arguments) = Some ts
    \<and> (vs = [] \<longleftrightarrow> filter (\<lambda>k. k \<notin> set (jkeys arguments)) required = []
        \<and> (jget schema ''additionalProperties'' = Some (JBool False) \<longrightarrow>
             filter (\<lambda>k. k \<notin> set (jkeys (jdict schema ''properties'')) \<union> set required) (jkeys arguments) = [])
        \<and> ts = [])"
  using assms(3) assms(1,2,4)
  unfolding schema_violations_def Let_def type_checks_def [symmetric] jkeys_def [symmetric]
  by (cases "concat_opt (type_checks schema arguments)") (auto simp del: take_append append_assoc)



section \<open>Arguments that set headers\<close>

fun node_count :: "json \<Rightarrow> nat" where
  "node_count (JList xs) = Suc (sum_list (map node_count xs))"
| "node_count (JObj kvs) = Suc (sum_list (map (\<lambda>kv. node_count (snd kv)) kvs))"
| "node_count j = 1"

fun names_header :: "(string \<Rightarrow> string) \<Rightarrow> json \<Rightarrow> bool" where
  "names_header fold_key (JList xs) \<longleftrightarrow> (\<exists>x\<in>set xs. names_header fold_key x)"
| "names_header fold_key (JObj kvs) \<longleftrightarrow>
     (\<exists>kv\<in>set kvs. fold_key (fst kv) = x_mcp_header \<or> names_header fold_key (snd kv))"
| "names_header fold_key j \<longleftrightarrow> False"

lemma node_count_pos: "0 < node_count j"
  by (cases j) simp_all

lemma header_walk_exact:
  "seen \<le> header_walk_nodes \<Longrightarrow> header_walk fold_key seen stack \<longleftrightarrow>
     (\<exists>j\<in>set stack. names_header fold_key j) \<or> header_walk_nodes < seen + sum_list (map node_count stack)"
proof (induction fold_key seen stack rule: header_walk.induct)
  case (1 fold_key seen)
  then show ?case by simp
next
  case (2 fold_key seen node stack)
  show ?case
  proof (cases "header_walk_nodes \<le> seen")
    case True
    then show ?thesis using node_count_pos [of node] by auto
  next
    case False
    then have "Suc seen \<le> header_walk_nodes" by simp
    with False "2.IH" show ?thesis
      by (cases node) (auto simp: rev_map [symmetric] sum_list_rev comp_def)
  qed
qed

text \<open>
  C15. The walk over a call's arguments refuses exactly the arguments that name a transport header at
  any depth, under a key that folds to it, and those with more than 65536 nodes: no nesting and no
  padding hides a header from it.
\<close>

theorem transport_header_search_exact:
  "sets_transport_headers fold_key arguments \<longleftrightarrow>
     names_header fold_key arguments \<or> node_count arguments > 65536"
  using header_walk_exact [of 0 fold_key "[arguments]"]
  by (simp add: sets_transport_headers_def header_walk_nodes_def)

section \<open>Where the checks fall short\<close>

text \<open>
  C18. A content block that carries a text of its own beside an embedded resource with text has only
  the embedded text guarded: its own text is forwarded as the server sent it, unmasked and unscanned,
  whatever the masker and the scanner say of it.
\<close>

theorem text_beside_resource_unguarded:
  assumes "jget (jdict block ''resource'') ''text'' = Some (JStr embedded)"
  shows "jget (go_block (guard_block dlp scan_on scan mask_text path budget block)) ''text'' = jget block ''text''"
proof -
  have "jget (with_text True new block) ''text'' = jget block ''text''" for new
    by (simp add: with_text_def jget_def jset_def update_conv')
  then show ?thesis using assms by (simp add: guard_block_def block_text_def Let_def)
qed

theorem text_beside_resource_unguarded_witness:
  "go_block (guard_block True True (\<lambda>_ _ _. \<lparr>sr_findings = [], sr_scanned_chars = 0, sr_budget_exhausted = False\<rparr>)
     (\<lambda>_. ''***'') ''result.content'' 100
     (JObj [(''text'', JStr ''secret''), (''resource'', JObj [(''text'', JStr ''secret'')])]))
   = JObj [(''text'', JStr ''secret''), (''resource'', JObj [(''text'', JStr ''***'')])]
   \<and> jget (go_block (guard_block True True (\<lambda>_ _ _. \<lparr>sr_findings = [], sr_scanned_chars = 0, sr_budget_exhausted = False\<rparr>)
     (\<lambda>_. ''***'') ''result.content'' 100
     (JObj [(''text'', JStr ''secret''), (''resource'', JObj [(''text'', JStr ''secret'')])]))) ''text''
   = Some (JStr ''secret'')"
proof -
  let ?b = "JObj [(''text'', JStr ''secret''), (''resource'', JObj [(''text'', JStr ''secret'')])]"
  have b: "jget (jdict ?b ''resource'') ''text'' = Some (JStr ''secret'')" by code_simp
  show ?thesis
    unfolding text_beside_resource_unguarded [OF b]
    by (simp add: guard_block_def block_text_def with_text_def jget_def jdict_def jset_def report_clean_def Let_def)
qed

text \<open>
  The check raises on schemas a server may choose: when a declared type is a list with a
  container among its members, every call that passes the argument ends in an exception instead of an
  answer.
\<close>

theorem schema_check_raises:
  assumes "admits_object (jget schema ''type'')" and "required_keys schema = Some required"
    and "(key, spec) \<in> set (members (jdict schema ''properties''))" and "is_dict spec"
    and "jget spec ''type'' = Some (JList ts)" and "t \<in> set ts" and "is_container t"
    and "jget arguments key = Some val"
  shows "schema_violations schema arguments = None"
proof -
  have "is_dict schema" using assms(3) by (auto simp: jdict_def jget_def split: option.splits json.splits)
      (cases schema; simp)
  moreover have "type_violation key spec val = None"
    using assms(5-7) by (auto simp: type_violation_def Let_def)
  then have "None \<in> set (type_checks schema arguments)" using type_checks_mem [OF assms(3,4,8)] by simp
  then have "concat_opt (type_checks schema arguments) = None"
    using concat_opt_defined by (cases "concat_opt (type_checks schema arguments)") blast+
  ultimately show ?thesis
    using assms(1,2) unfolding schema_violations_def Let_def type_checks_def [symmetric] by simp
qed

theorem schema_check_raises_witness:
  "schema_violations (JObj [(''properties'', JObj [(''a'', JObj [(''type'', JList [JObj []])])])])
     (JObj [(''a'', JInt 1)]) = None"
  by (rule schema_check_raises [of _ "[]" "''a''" "JObj [(''type'', JList [JObj []])]" "[JObj []]" "JObj []"])
    code_simp+

end
