(* ===== verification/Mcp_Listing_Props.thy ===== *)
theory Mcp_Listing_Props
  imports Mcp_Firewall_Props
begin

text \<open>
  What the listing of tools promises: the tools a client is shown are exactly the tools it can call, a
  definition that differs from its pin is neither, and keys or names made to be misread are withheld
  under every setting. The last section shows where the code departs from its comments.
\<close>

abbreviation tool_name :: "mcp_env \<Rightarrow> json \<Rightarrow> string" where
  "tool_name env tool \<equiv> str_member (me_hashing env) tool ''name''"

definition tools_of :: "json \<Rightarrow> json list" where
  "tools_of m = (case jget (msg_result m) ''tools'' of Some (JList ts) \<Rightarrow> ts | _ \<Rightarrow> [])"

definition shown_tools :: "json \<Rightarrow> mediation \<Rightarrow> json list" where
  "shown_tools m r =
     (case md_forward r of None \<Rightarrow> [] | Some Original \<Rightarrow> tools_of m | Some (Document d) \<Rightarrow> tools_of d)"

definition callable :: "mcp_state \<Rightarrow> string \<Rightarrow> bool" where
  "callable st name \<longleftrightarrow> (\<exists>e. map_of (ms_catalog st) name = Some e \<and> \<not> call_denied e)"

section \<open>One entry\<close>

lemma tool_findings_keeps:
  "tool_findings env tool name report st = (fs, st') \<Longrightarrow>
     ms_catalog st' = ms_catalog st \<and> ms_pins st' = ms_pins st \<and> ms_listed st' = ms_listed st"
  by (auto simp: tool_findings_def Let_def split: if_splits)

lemma catalog_entry_of_simps:
  "ce_pin_status (catalog_entry_of env tool name fs sev status ex) = status"
  "ce_scan_severity (catalog_entry_of env tool name fs sev status ex) = sev"
  "call_denied (catalog_entry_of env tool name fs sev status ex) \<longleftrightarrow>
     ce_action (catalog_entry_of env tool name fs sev status ex) = Act_Strip"
  by (auto simp: catalog_entry_of_def Let_def call_denied_def action_for_def)

lemma catalog_tool_effect:
  assumes "catalog_tool env now tool name report st = (e, st')"
  shows "ms_catalog st' = AList.update name e (ms_catalog st) \<and> ms_listed st' = ms_listed st
    \<and> pin_check cp_get cp_put (me_hashing env) (me_pin_mode env) now (me_server_id env) tool
        (string_of_severity (ce_scan_severity e)) (ms_pins st) = (ce_pin_status e, ms_pins st')
    \<and> (call_denied e \<longleftrightarrow> ce_action e = Act_Strip)"
  using assms tool_findings_keeps
  by (auto simp: catalog_tool_def Let_def catalog_entry_of_simps split: prod.splits if_splits)

lemma gate_a_tool_nameless:
  "tool_name env tool = '''' \<Longrightarrow> gate_a_tool env now tool ls = ls\<lparr>ls_changed := True\<rparr>"
  by (simp add: gate_a_tool_def)

lemma nameless_if_not_dict: "\<not> is_dict tool \<Longrightarrow> str_member h tool k = ''''"
  by (cases tool) (simp_all add: str_member_def jget_def)

lemma gate_a_tool_effect:
  assumes "tool_name env tool \<noteq> ''''"
  obtains report e st' where
    "catalog_tool env now tool (tool_name env tool) report (ls_state ls) = (e, st')"
    "ms_catalog (ls_state (gate_a_tool env now tool ls)) = ms_catalog st'"
    "ms_pins (ls_state (gate_a_tool env now tool ls)) = ms_pins st'"
    "ms_listed (ls_state (gate_a_tool env now tool ls)) = ms_listed st'"
    "map (tool_name env) (ls_kept (gate_a_tool env now tool ls)) =
       map (tool_name env) (ls_kept ls) @ (if ce_action e = Act_Strip then [] else [tool_name env tool])"
    "\<not> ls_changed (gate_a_tool env now tool ls) \<Longrightarrow>
       \<not> ls_changed ls \<and> ls_kept (gate_a_tool env now tool ls) = ls_kept ls @ [tool]"
proof -
  have d: "is_dict tool" using assms nameless_if_not_dict by metis
  have keep: "str_member h (jdel ''annotations'' (jset ''description'' v tool)) ''name'' = str_member h tool ''name''"
    for h v by (simp add: str_member_def jget_def jdel_def jset_def update_conv' delete_conv')
  define granted where "granted = min max_walk_nodes (ls_nodes ls)"
  obtain report left where scan:
    "me_scan_tool env tool (min definition_scan_budget (ls_budget ls)) granted = (report, left)"
    by (cases "me_scan_tool env tool (min definition_scan_budget (ls_budget ls)) granted")
  obtain e st' where cat: "catalog_tool env now tool (tool_name env tool) report (ls_state ls) = (e, st')"
    by (cases "catalog_tool env now tool (tool_name env tool) report (ls_state ls)")
  show thesis
    by (rule that [OF cat]; cases "ce_action e")
      (use assms d scan cat in \<open>simp_all add: gate_a_tool_def Let_def keep granted_def [symmetric]\<close>)
qed

section \<open>The listing\<close>

definition listing_inv :: "mcp_env \<Rightarrow> json list \<Rightarrow> listing \<Rightarrow> bool" where
  "listing_inv env ts ls \<longleftrightarrow>
     set (map (tool_name env) (ls_kept ls)) =
       {n \<in> set (map (tool_name env) ts). n \<noteq> '''' \<and> callable (ls_state ls) n}
     \<and> (\<not> ls_changed ls \<longrightarrow> ls_kept ls = ts)"

lemma listing_step:
  assumes "listing_inv env ts ls" and "tool_name env tool \<notin> set (map (tool_name env) ts) - {''''}"
  shows "listing_inv env (ts @ [tool]) (gate_a_tool env now tool ls)"
proof (cases "tool_name env tool = ''''")
  case True
  then show ?thesis using assms(1) gate_a_tool_nameless [OF True] by (auto simp: listing_inv_def)
next
  case False
  let ?ls = "gate_a_tool env now tool ls"
  from False obtain report e st' where
    cat: "catalog_tool env now tool (tool_name env tool) report (ls_state ls) = (e, st')"
    and st: "ms_catalog (ls_state ?ls) = ms_catalog st'"
    and kept: "map (tool_name env) (ls_kept ?ls) =
       map (tool_name env) (ls_kept ls) @ (if ce_action e = Act_Strip then [] else [tool_name env tool])"
    and same: "\<not> ls_changed ?ls \<Longrightarrow> \<not> ls_changed ls \<and> ls_kept ?ls = ls_kept ls @ [tool]"
    by (rule gate_a_tool_effect [of env tool now ls]) blast
  have "callable (ls_state ?ls) n \<longleftrightarrow>
      (if n = tool_name env tool then ce_action e \<noteq> Act_Strip else callable (ls_state ls) n)" for n
    using catalog_tool_effect [OF cat] st by (simp add: callable_def update_conv')
  moreover define K N where "K = set (map (tool_name env) (ls_kept ls))" and "N = set (map (tool_name env) ts)"
  have "K = {n \<in> N. n \<noteq> '''' \<and> callable (ls_state ls) n}" "tool_name env tool \<notin> N"
    using assms False unfolding K_def N_def listing_inv_def by blast+
  moreover have "set (map (tool_name env) (ls_kept ?ls)) =
      K \<union> (if ce_action e = Act_Strip then {} else {tool_name env tool})"
    "set (map (tool_name env) (ts @ [tool])) = insert (tool_name env tool) N"
    unfolding kept K_def N_def by auto
  ultimately have "set (map (tool_name env) (ls_kept ?ls)) =
      {n \<in> set (map (tool_name env) (ts @ [tool])). n \<noteq> '''' \<and> callable (ls_state ?ls) n}"
    using False by (auto split: if_splits)
  moreover have "ls_kept ?ls = ts @ [tool]" if "\<not> ls_changed ?ls"
    using same [OF that] assms(1) by (simp add: listing_inv_def)
  ultimately show ?thesis unfolding listing_inv_def by blast
qed

definition fresh_names :: "mcp_env \<Rightarrow> json list \<Rightarrow> bool" where
  "fresh_names env ts \<longleftrightarrow> distinct (filter (\<lambda>n. n \<noteq> '''') (map (tool_name env) ts))"

lemma listing_fold:
  assumes "fresh_names env ts" and "ls_kept ls0 = []" and "\<not> ls_changed ls0"
  shows "listing_inv env ts (fold (gate_a_tool env now) ts ls0)"
  using assms(1)
proof (induction ts rule: rev_induct)
  case Nil
  then show ?case using assms(2,3) by (simp add: listing_inv_def)
next
  case (snoc tool ts)
  then have "listing_inv env ts (fold (gate_a_tool env now) ts ls0)" by (simp add: fresh_names_def)
  moreover have "tool_name env tool \<notin> set (map (tool_name env) ts) - {''''}"
    using snoc.prems by (auto simp: fresh_names_def split: if_splits)
  ultimately show ?case by (simp add: listing_step)
qed

lemma tools_of_rewritten:
  "tools_of (jset ''result'' (annotate payload (jset ''tools'' (JList ts) res)) m) = ts"
  by (simp add: tools_of_def msg_result_def jdict_def annotate_def jset_def jget_def update_conv')

definition first_listing :: "mcp_env \<Rightarrow> mcp_state \<Rightarrow> listing" where
  "first_listing env st =
     \<lparr>ls_kept = [], ls_changed = False, ls_budget = list_scan_budget, ls_nodes = list_walk_nodes,
      ls_state = (let st1 = st\<lparr>ms_listed := True\<rparr>
        in if sv_degraded (ms_servers st) \<and> me_server_id env \<notin> fst ` set (sv_decisions (ms_servers st))
           then bump ''server_decision_unavailable'' st1 else st1)\<rparr>"

lemma gate_a_tools_list_reachable:
  assumes "gate_a_tools_list env now m st = (r, st')" and "jget (msg_result m) ''tools'' = Some (JList ts)"
    and "server_reachable (ms_servers st) (me_server_id env)"
  shows "st' = ls_state (fold (gate_a_tool env now) ts (first_listing env st))
    \<and> shown_tools m r = (if ls_changed (fold (gate_a_tool env now) ts (first_listing env st))
         then ls_kept (fold (gate_a_tool env now) ts (first_listing env st)) else ts)"
proof -
  have "tools_of m = ts" using assms(2) by (simp add: tools_of_def)
  then show ?thesis
    using assms
    by (auto simp: gate_a_tools_list_def first_listing_def Let_def shown_tools_def tools_of_rewritten
        split: if_splits)
qed

text \<open>
  C10. Of a listing with no two tools of one name, from a server that is not blocked, the client is
  shown exactly the tools whose calls Gate B will not refuse on Gate A's account: no withheld tool
  stays callable, and no callable tool is hidden.
\<close>

theorem shown_tools_are_callable_tools:
  assumes "gate_a_tools_list env now m st = (r, st')" and "jget (msg_result m) ''tools'' = Some (JList ts)"
    and "server_reachable (ms_servers st) (me_server_id env)" and "fresh_names env ts"
  shows "set (map (tool_name env) (shown_tools m r)) - {''''} =
    {n \<in> set (map (tool_name env) ts). n \<noteq> '''' \<and> callable st' n}"
proof -
  let ?ls = "fold (gate_a_tool env now) ts (first_listing env st)"
  have "listing_inv env ts ?ls" by (rule listing_fold [OF assms(4)]) (simp_all add: first_listing_def)
  then show ?thesis
    using gate_a_tools_list_reachable [OF assms(1-3)] by (auto simp: listing_inv_def)
qed

definition sample_tool :: json where
  "sample_tool = JObj [(''name'', JStr ''t'')]"

definition sample_listing :: json where
  "sample_listing = JObj [(''jsonrpc'', JStr ''2.0''), (''id'', JInt 2),
     (''result'', JObj [(''tools'', JList [sample_tool])])]"

lemma sample_listing_facts:
  "jget (msg_result sample_listing) ''tools'' = Some (JList [sample_tool])"
  "server_reachable (ms_servers sample_state) (me_server_id sample_env)"
  "fresh_names sample_env [sample_tool]"
  by (simp_all add: sample_listing_def sample_tool_def sample_state_def sample_env_def fresh_names_def
      msg_result_def jdict_def jget_def server_reachable_def server_status_def new_firewall_def)

theorem shown_tools_are_callable_tools_witness:
  "\<exists>r st'. gate_a_tools_list sample_env 1 sample_listing sample_state = (r, st')
     \<and> set (map (tool_name sample_env) (shown_tools sample_listing r)) - {''''} =
         {n \<in> {''t''}. n \<noteq> '''' \<and> callable st' n}"
proof -
  obtain r st' where g: "gate_a_tools_list sample_env 1 sample_listing sample_state = (r, st')"
    by (cases "gate_a_tools_list sample_env 1 sample_listing sample_state")
  have "tool_name sample_env sample_tool = ''t''" by (simp add: sample_tool_def str_member_def jget_def)
  with shown_tools_are_callable_tools [OF g sample_listing_facts] g show ?thesis by simp
qed

section \<open>Drift\<close>

definition pinned_digest :: "mcp_env \<Rightarrow> string \<Rightarrow> mcp_state \<Rightarrow> string option" where
  "pinned_digest env name st =
     map_option tp_digest (cp_get (ms_pins st) (pin_id (me_hashing env) (me_server_id env) name))"

abbreviation pins_ok :: "mcp_state \<Rightarrow> bool" where
  "pins_ok st \<equiv> memory_inv (cp_map (ms_pins st))"

definition barred :: "mcp_state \<Rightarrow> string \<Rightarrow> bool" where
  "barred st name \<longleftrightarrow> (\<exists>e. map_of (ms_catalog st) name = Some e \<and> call_denied e)"

lemma gate_a_tool_keeps:
  assumes "pins_ok (ls_state ls)" and "pinned_digest env name (ls_state ls) = Some d"
  shows "pins_ok (ls_state (gate_a_tool env now tool ls))
    \<and> pinned_digest env name (ls_state (gate_a_tool env now tool ls)) = Some d
    \<and> ms_listed (ls_state (gate_a_tool env now tool ls)) = ms_listed (ls_state ls)
    \<and> (tool_name env tool \<noteq> name \<longrightarrow> barred (ls_state (gate_a_tool env now tool ls)) name = barred (ls_state ls) name)"
proof (cases "tool_name env tool = ''''")
  case True
  then show ?thesis using assms gate_a_tool_nameless [OF True] by simp
next
  case False
  let ?ls = "gate_a_tool env now tool ls"
  from False obtain report e st' where
    cat: "catalog_tool env now tool (tool_name env tool) report (ls_state ls) = (e, st')"
    and st: "ms_catalog (ls_state ?ls) = ms_catalog st'" "ms_pins (ls_state ?ls) = ms_pins st'"
      "ms_listed (ls_state ?ls) = ms_listed st'"
    by (rule gate_a_tool_effect [of env tool now ls]) blast
  note eff = catalog_tool_effect [OF cat]
  obtain r where r: "cp_get (ms_pins (ls_state ls)) (pin_id (me_hashing env) (me_server_id env) name) = Some r"
    "tp_digest r = d" using assms(2) by (auto simp: pinned_digest_def)
  note p = conjunct1 [OF conjunct2 [OF conjunct2 [OF eff]]]
  have "pinned_digest env name (ls_state ?ls) = Some d"
    using control_plane.check_keeps [OF assms(1) r(1) p] r(2) st by (auto simp: pinned_digest_def)
  moreover have "pins_ok (ls_state ?ls)" using control_plane.check_inv [OF assms(1) p] st by simp
  ultimately show ?thesis using eff st by (simp add: barred_def update_conv')
qed

lemma listing_keeps:
  assumes "pins_ok (ls_state ls)" and "pinned_digest env name (ls_state ls) = Some d"
  shows "pins_ok (ls_state (fold (gate_a_tool env now) ts ls))
    \<and> pinned_digest env name (ls_state (fold (gate_a_tool env now) ts ls)) = Some d
    \<and> ms_listed (ls_state (fold (gate_a_tool env now) ts ls)) = ms_listed (ls_state ls)
    \<and> (name \<notin> set (map (tool_name env) ts) \<longrightarrow>
         barred (ls_state (fold (gate_a_tool env now) ts ls)) name = barred (ls_state ls) name)"
  using assms
proof (induction ts arbitrary: ls)
  case Nil
  then show ?case by simp
next
  case (Cons t ts)
  note k = gate_a_tool_keeps [OF Cons.prems, of now t]
  show ?case using k Cons.IH [of "gate_a_tool env now t ls"] by auto
qed

lemma drift_denied:
  assumes "tool_name env tool \<noteq> ''''" and "pinned_digest env (tool_name env tool) (ls_state ls) = Some d"
    and "d \<noteq> definition_digest (me_hashing env) tool"
  shows "barred (ls_state (gate_a_tool env now tool ls)) (tool_name env tool)"
proof -
  let ?ls = "gate_a_tool env now tool ls"
  from assms(1) obtain report e st' where
    cat: "catalog_tool env now tool (tool_name env tool) report (ls_state ls) = (e, st')"
    and st: "ms_catalog (ls_state ?ls) = ms_catalog st'"
    by (rule gate_a_tool_effect [of env tool now ls]) blast
  note eff = catalog_tool_effect [OF cat]
  obtain r where r: "cp_get (ms_pins (ls_state ls))
      (pin_id (me_hashing env) (me_server_id env) (tool_name env tool)) = Some r" "tp_digest r = d"
    using assms(2) by (auto simp: pinned_digest_def)
  have "ce_pin_status e = Pin_Drift"
    using control_plane.check_status [OF r(1) conjunct1 [OF conjunct2 [OF conjunct2 [OF eff]]]] r(2) assms(3)
    by simp
  then have "call_denied e" by (simp add: call_denied_def)
  then show ?thesis using eff st by (simp add: barred_def update_conv')
qed

lemma barred_refused:
  assumes "ms_listed st" and "barred st (call_name env m)"
  shows "\<exists>r. fst (gate_b_tools_call env cx m st) = Some r \<and> md_forward r = None"
proof -
  have "warm_cold_catalog env cx st = (False, st)"
    using assms(1) by (simp add: warm_cold_catalog_def split: option.split)
  moreover have "\<exists>r. map_option (md_catalog_scanned_update g) (fst (gate_b_decide env cx m (call_name env m) args st))
      = Some r \<and> md_forward r = None" for args g
    using assms(2) by (auto simp: barred_def gate_b_decide_def Let_def)
  ultimately show ?thesis
    by (simp add: gate_b_tools_call_def Let_def split_def call_name_def del: map_option_eq_Some)
qed


definition drifted_state :: mcp_state where
  "drifted_state = sample_state\<lparr>ms_pins := cp_put
     (pin_of_row (me_hashing sample_env) ''srv'' \<lparr>pw_tool_name = ''t'', pw_approved_digest = ''other'',
        pw_approved = True, pw_scan_severity = ''none'', pw_approved_canonical = '''', pw_drift_count = 0,
        pw_last_digest = ''other''\<rparr>) no_cp_pins\<rparr>"


section \<open>Names and keys made to be misread\<close>

lemma worse_fold_mono: "severity_order s \<le> severity_order (foldl worse s ss)"
  by (induction ss arbitrary: s) (auto simp: worse_def intro: le_trans less_imp_le)

lemma critical_in_report:
  "fd_severity f = Sev_Critical \<Longrightarrow> f \<in> set (sr_findings r) \<Longrightarrow> severity_order (report_severity r) = 4"
proof -
  assume f: "fd_severity f = Sev_Critical" "f \<in> set (sr_findings r)"
  then obtain as bs where s: "map fd_severity (sr_findings r) = as @ Sev_Critical # bs"
    by (metis image_eqI set_map split_list)
  have le: "severity_order x \<le> 4" for x by (cases x) simp_all
  have "severity_order (worse x Sev_Critical) = 4" for x
    using le [of x] by (auto simp: worse_def)
  then have "4 \<le> severity_order (report_severity r)"
    using worse_fold_mono [of "worse (foldl worse Sev_None as) Sev_Critical" bs]
    by (simp add: report_severity_def s)
  then show ?thesis using le [of "report_severity r"] by simp
qed

lemma setting_at_most_critical: "dflt \<le> 4 \<Longrightarrow> order_of_setting s dflt \<le> 4"
  by (simp add: order_of_setting_def)

text \<open>
  C13. Whatever the configured severities and pin mode, a tool definition is withheld and its calls are
  denied when one of its keys only looks like a member the firewall reads, when its name looks like the
  name of another tool already listed, and when it was too large to be scanned in full.
\<close>

theorem misreadable_tool_denied:
  assumes "catalog_tool env now tool name report st = (e, st')"
    and "server_alias (me_fold env) tool \<noteq> ''''
      \<or> (\<exists>other. map_of (ms_skeletons st) (me_skeleton env name) = Some other \<and> other \<noteq> '''' \<and> other \<noteq> name)
      \<or> sr_budget_exhausted report"
  shows "ce_action e = Act_Strip \<and> barred st' name"
proof -
  obtain fs sev st1 where f: "tool_findings env tool name report st = ((fs, sev), st1)"
    by (metis prod.collapse)
  have "severity_order sev = 4 \<or> sr_budget_exhausted report"
    using assms(2) f critical_in_report [of "alias_finding (server_alias (me_fold env) tool) (server_alias (me_fold env) tool)"]
    by (auto simp: tool_findings_def Let_def alias_finding_def split: if_splits)
  moreover have "\<exists>status. e = catalog_entry_of env tool name fs sev status (sr_budget_exhausted report)"
    using assms(1) f by (auto simp: catalog_tool_def Let_def split: prod.splits)
  ultimately have "ce_action e = Act_Strip"
    using setting_at_most_critical [of 3 "me_strip_severity env"]
    by (auto simp: catalog_entry_of_def Let_def action_for_def)
  then show ?thesis using catalog_tool_effect [OF assms(1)] by (simp add: barred_def update_conv')
qed

theorem misreadable_tool_denied_witness:
  "ce_action (fst (catalog_tool sample_env 1 sample_tool ''t''
     \<lparr>sr_findings = [], sr_scanned_chars = 0, sr_budget_exhausted = True\<rparr> sample_state)) = Act_Strip"
  using misreadable_tool_denied [of sample_env 1 sample_tool "''t''"
      "\<lparr>sr_findings = [], sr_scanned_chars = 0, sr_budget_exhausted = True\<rparr>" sample_state, OF prod.collapse [symmetric]]
  by simp

section \<open>Where the code departs from its comments\<close>

text \<open>
  C17. Once a listing was served, neither a change of the pins nor a change of the decision on the
  server reaches the calls: every call is answered as it was before, until the next listing. A revoked
  pin or a blocked server is therefore not bounded by the refresh interval of the stores.
\<close>

theorem revocation_does_not_reach_calls:
  assumes "ms_listed st"
  shows "fst (gate_b_tools_call env cx m (st\<lparr>ms_pins := pins, ms_servers := servers\<rparr>)) =
    fst (gate_b_tools_call env cx m st)"
proof -
  let ?st = "st\<lparr>ms_pins := pins, ms_servers := servers\<rparr>"
  have w: "warm_cold_catalog env cx s = (False, s)" if "ms_listed s" for s
    using that by (simp add: warm_cold_catalog_def split: option.split)
  have "ask_engine env e ?st name args surface = ask_engine env e st name args surface" for e name args surface
    by (simp add: ask_engine_def mcp_context_def)
  then have "fst (gate_b_decide env cx m name args ?st) = fst (gate_b_decide env cx m name args st)" for name args
    by (simp add: gate_b_decide_def Let_def split: option.split)
  then show ?thesis
    using assms w [of st] w [of ?st]
    by (simp add: gate_b_tools_call_def Let_def split_def)
qed

theorem revocation_does_not_reach_calls_witness:
  "fst (gate_b_tools_call sample_env (sample_cx Allow) sample_call
      (sample_state\<lparr>ms_listed := True, ms_pins := no_cp_pins,
         ms_servers := \<lparr>sv_decisions = [(''srv'', ''blocked'')], sv_degraded = False\<rparr>\<rparr>)) =
   fst (gate_b_tools_call sample_env (sample_cx Allow) sample_call (sample_state\<lparr>ms_listed := True\<rparr>))"
  using revocation_does_not_reach_calls [of "sample_state\<lparr>ms_listed := True\<rparr>" sample_env "sample_cx Allow" sample_call
      "\<lparr>sv_decisions = [(''srv'', ''blocked'')], sv_degraded = False\<rparr>" no_cp_pins]
  by simp

text \<open>
  With a tool prefix configured, the answer to a server's demand for input is judged under the
  tool's name with the prefix twice: what the policy says of the name every call of the tool is judged
  under has no effect on it.
\<close>

theorem answer_judged_under_doubled_prefix:
  assumes "me_prefix env \<noteq> ''''" and "jget (msg_params m) ''name'' = Some (JStr name)" and "name \<noteq> ''''"
    and "\<forall>i. ic_tool i \<noteq> engine_tool_name env name \<longrightarrow> e i = cx_engine cx i"
  shows "gate_answer env (cx\<lparr>cx_engine := e\<rparr>) answers m st = gate_answer env cx answers m st"
proof -
  have "ask_engine env e st (engine_tool_name env name) args surface =
      ask_engine env (cx_engine cx) st (engine_tool_name env name) args surface" for args surface
    using assms(1,4) by (simp add: ask_engine_def engine_tool_name_def)
  then show ?thesis using assms(2,3) by (simp add: gate_answer_def Let_def split_def)
qed

theorem answer_judged_under_doubled_prefix_witness:
  "gate_answer (sample_env\<lparr>me_prefix := ''p.''\<rparr>)
     ((sample_cx Allow)\<lparr>cx_engine := \<lambda>i. if ic_tool i = ''p.t'' then Some (default_decision Block 1)
        else Some (default_decision Allow 1)\<rparr>) (JList []) sample_call sample_state =
   gate_answer (sample_env\<lparr>me_prefix := ''p.''\<rparr>) (sample_cx Allow) (JList []) sample_call sample_state"
  by (rule answer_judged_under_doubled_prefix [of _ _ "''t''"])
    (simp_all add: sample_call_def sample_cx_def msg_params_def jdict_def jget_def engine_tool_name_def)

text \<open>
  An annotation the server forged under \<open>_meta.norviq\<close> of a tool's result is forwarded as part of
  the firewall's own whenever the masking of the structured content rewrites that result.
\<close>

theorem forged_annotation_carried:
  assumes "jget (jdict (jdict (msg_result m) ''_meta'') ''norviq'') k = Some v"
    and "k \<notin> {''structured_dlp_redacted'', ''evidence''}" and "me_output_dlp env"
    and "jget (msg_result m) ''structuredContent'' = Some sc" and "snd (me_mask_tree env sc) \<noteq> 0"
  shows "\<exists>d. md_forward (fst (guard_structured env m pass_on st)) = Some (Document d)
    \<and> jget (jdict (jdict (msg_result d) ''_meta'') ''norviq'') k = Some (without_evidence v)"
proof -
  have f: "map_of (map (\<lambda>kv. (fst kv, without_evidence (snd kv))) (filter (\<lambda>kv. fst kv \<noteq> ''evidence'') kvs)) k =
      map_option without_evidence (map_of kvs k)" if "k \<noteq> ''evidence''" for kvs k
    using that by (induction kvs) auto
  show ?thesis
    using assms
    by (simp add: guard_structured_def Let_def split_def annotate_def jset_def jget_def jdict_def msg_result_def
        update_conv' f)
qed

theorem forged_annotation_carried_witness:
  "\<exists>d. md_forward (fst (guard_structured (sample_env\<lparr>me_mask_tree := \<lambda>j. (JNull, 1)\<rparr>)
      (JObj [(''result'', JObj [(''structuredContent'', JInt 1),
         (''_meta'', JObj [(''norviq'', JObj [(''gate'', JStr ''A'')])])])]) pass_on sample_state)) = Some (Document d)
    \<and> jget (jdict (jdict (msg_result d) ''_meta'') ''norviq'') ''gate'' = Some (JStr ''A'')"
  using forged_annotation_carried [of "JObj [(''result'', JObj [(''structuredContent'', JInt 1),
         (''_meta'', JObj [(''norviq'', JObj [(''gate'', JStr ''A'')])])])]" "''gate''" "JStr ''A''"
      "sample_env\<lparr>me_mask_tree := \<lambda>j. (JNull, 1)\<rparr>" "JInt 1" sample_state]
  by (simp add: jget_def jdict_def msg_result_def sample_env_def)

end
