(* ===== verification/Auth.thy ===== *)
theory Auth
  imports Identity Mcp_Protocol
begin

text \<open>
  Authentication and authorisation of the API (\<open>norviq/api/auth.py\<close>, \<open>norviq/api/jwks.py\<close>,
  \<open>norviq/api/api_keys.py\<close>): which credential is accepted, the mapping of an identity provider's groups
  to a role and a namespace, and what of a request is taken from the credential instead of from the
  body.

  Claims and identities are JSON objects. The JWT library, SHA-256 and \<open>str\<close> of a value that is no
  string are arguments, and so is whether a token was logged out. Log lines, timings and the warning
  about expiring sidecar tokens, which never fail a request, are left out; a database that cannot be
  read is not modelled.
\<close>

section \<open>Reading claims\<close>

type_synonym show_json = "json \<Rightarrow> string"

text \<open>\<open>str(d.get(k, ""))\<close> and \<open>str(d.get(k) or "")\<close>.\<close>

definition text_of :: "show_json \<Rightarrow> json \<Rightarrow> string" where
  "text_of str j = (case j of JStr s \<Rightarrow> s | _ \<Rightarrow> str j)"

definition field_text :: "show_json \<Rightarrow> json \<Rightarrow> string \<Rightarrow> string" where
  "field_text str d k = (case jget d k of None \<Rightarrow> '''' | Some v \<Rightarrow> text_of str v)"

definition claim_text :: "show_json \<Rightarrow> json \<Rightarrow> string \<Rightarrow> string" where
  "claim_text str d k = (case jget d k of None \<Rightarrow> '''' | Some v \<Rightarrow> if truthy v then text_of str v else '''')"

definition user_role :: "show_json \<Rightarrow> json \<Rightarrow> string" where
  "user_role str user = lower (field_text str user ''role'')"

text \<open>An HTTP error, by its status and detail.\<close>

datatype http_error = Http nat string

definition forbidden :: "string \<Rightarrow> (http_error, 'a) res" where
  "forbidden detail = Inl (Http 403 detail)"

section \<open>Keys of the identity provider\<close>

text \<open>What the verification of a token raises: an error its caller handles, or another one.\<close>

datatype token_fault = Jwt_Error | Crash

record jwks =
  jk_keys :: "(string \<times> json) list"
  jk_fetched_at :: time
  jk_last_forced :: time

definition new_jwks :: jwks where
  "new_jwks = \<lparr>jk_keys = [], jk_fetched_at = 0, jk_last_forced = 0\<rparr>"

text \<open>
  The keys a fetch brought and when, or what it raised: the handled errors become \<open>Jwt_Error\<close>, and a
  document of another shape than an object of keys escapes.
\<close>

type_synonym jwks_fetch = "(token_fault, (string \<times> json) list \<times> time) res"

definition jwks_refresh :: "jwks_fetch \<Rightarrow> jwks \<Rightarrow> (token_fault, unit) res \<times> jwks" where
  "jwks_refresh fetch st =
     (case fetch of
        Inl f \<Rightarrow> (Inl f, st)
      | Inr (keys, fetched) \<Rightarrow> (Inr (), st\<lparr>jk_keys := keys, jk_fetched_at := fetched\<rparr>))"

text \<open>
  A lookup that a fresh copy of the keys does not answer: one refetch, and for a key that is still
  unknown another one, at most every \<open>min_refresh\<close> seconds. The last component counts the requests
  sent to the identity provider.
\<close>

definition jwks_refetch ::
  "rat \<Rightarrow> jwks_fetch \<Rightarrow> time \<Rightarrow> jwks_fetch \<Rightarrow> string \<Rightarrow> jwks \<Rightarrow> (token_fault, json) res \<times> jwks \<times> nat" where
  "jwks_refetch min_refresh fetch now forced kid st =
     (case jwks_refresh fetch st of
        (Inl f, st1) \<Rightarrow> (Inl f, st1, 1)
      | (Inr _, st1) \<Rightarrow>
          (case map_of (jk_keys st1) kid of
             Some key \<Rightarrow> (Inr key, st1, 1)
           | None \<Rightarrow>
               if now - jk_last_forced st1 > min_refresh
               then (case jwks_refresh forced (st1\<lparr>jk_last_forced := now\<rparr>) of
                       (Inl f, st2) \<Rightarrow> (Inl f, st2, 2)
                     | (Inr _, st2) \<Rightarrow>
                         (case map_of (jk_keys st2) kid of
                            Some key \<Rightarrow> (Inr key, st2, 2) | None \<Rightarrow> (Inl Jwt_Error, st2, 2)))
               else (Inl Jwt_Error, st1, 1)))"

record jwks_times =
  jt_now :: time
  jt_fetch :: jwks_fetch
  jt_later :: time
  jt_forced :: jwks_fetch

definition jwks_get_key ::
  "rat \<Rightarrow> rat \<Rightarrow> jwks_times \<Rightarrow> string \<Rightarrow> jwks \<Rightarrow> (token_fault, json) res \<times> jwks \<times> nat" where
  "jwks_get_key ttl min_refresh t kid st =
     (case map_of (jk_keys st) kid of
        Some key \<Rightarrow>
          if jt_now t - jk_fetched_at st < ttl then (Inr key, st, 0)
          else jwks_refetch min_refresh (jt_fetch t) (jt_later t) (jt_forced t) kid st
      | None \<Rightarrow> jwks_refetch min_refresh (jt_fetch t) (jt_later t) (jt_forced t) kid st)"

section \<open>Group mapping\<close>

record group_mapping =
  gm_role :: "string option"
  gm_namespace :: "string option"
  gm_cluster :: "string option"

record auth_settings =
  at_oidc_enabled :: bool
  at_legacy_hs256_enabled :: bool
  at_oidc_group_claim :: string
  at_oidc_group_mappings :: "(string \<times> group_mapping) list"
  at_spiffe_mode :: string
  at_require_bound_identity :: bool
  at_fleet_cluster_id :: string

definition role_rank :: "string \<Rightarrow> nat" where
  "role_rank r = (case map_of [(''admin'', 3), (''service'', 2), (''viewer'', 1)] r of Some n \<Rightarrow> n | None \<Rightarrow> 0)"

text \<open>\<open>max\<close> with a key gives the first of the greatest.\<close>

definition top_role :: "string list \<Rightarrow> string" where
  "top_role rs = foldl (\<lambda>a r. if role_rank r > role_rank a then r else a) (hd rs) (tl rs)"

text \<open>The groups named by the claim: iteration over a number raises, and so does looking up a container.\<close>

definition group_names :: "json option \<Rightarrow> string list option" where
  "group_names claim =
     (case claim of
        None \<Rightarrow> Some []
      | Some j \<Rightarrow>
          if \<not> truthy j then Some []
          else case j of
              JStr s \<Rightarrow> Some [s]
            | JObj kvs \<Rightarrow> Some (map fst kvs)
            | JList xs \<Rightarrow>
                if list_ex (\<lambda>x. is_dict x \<or> is_list x) xs then None
                else Some (List.map_filter (\<lambda>x. case x of JStr s \<Rightarrow> Some s | _ \<Rightarrow> None) xs)
            | _ \<Rightarrow> None)"

definition text_or_empty :: "string option \<Rightarrow> string" where
  "text_or_empty s = (case s of Some t \<Rightarrow> t | None \<Rightarrow> '''')"

definition with_scope :: "string \<Rightarrow> string \<Rightarrow> string \<Rightarrow> json \<Rightarrow> json" where
  "with_scope role ns cluster claims =
     jset ''cluster'' (JStr cluster) (jset ''namespace'' (JStr ns) (jset ''role'' (JStr role) claims))"

definition apply_group_mapping :: "auth_settings \<Rightarrow> json \<Rightarrow> (token_fault, json) res" where
  "apply_group_mapping cfg claims =
     (case group_names (jget claims (at_oidc_group_claim cfg)) of
        None \<Rightarrow> Inl Crash
      | Some groups \<Rightarrow>
          let matched = List.map_filter (map_of (at_oidc_group_mappings cfg)) groups;
              role = top_role (map (\<lambda>m. case gm_role m of Some r \<Rightarrow> r | None \<Rightarrow> ''viewer'') matched);
              namespaces = remdups (filter (\<lambda>n. n \<noteq> '''') (map (text_or_empty \<circ> gm_namespace) matched));
              clusters = remdups (filter (\<lambda>n. n \<noteq> '''') (map (text_or_empty \<circ> gm_cluster) matched))
          in if matched = [] then Inr (with_scope ''viewer'' '''' '''' claims)
             else if role = ''admin'' then Inr (with_scope ''admin'' '''' ''*'' claims)
             else if length namespaces > 1 \<or> length clusters > 1 then Inl Jwt_Error
             else Inr (with_scope role (case namespaces of [] \<Rightarrow> '''' | n # _ \<Rightarrow> n)
                    (case clusters of [] \<Rightarrow> '''' | c # _ \<Rightarrow> c) claims))"

section \<open>Validation of a token\<close>

text \<open>
  The JWT library: the unverified header, the claims of a token signed with the shared secret that
  carries an expiry, and those of a token signed with a key of the identity provider for the configured
  issuer and audience.
\<close>

record jwt_api =
  jw_header :: "string \<Rightarrow> json option"
  jw_hs256 :: "string \<Rightarrow> json option"
  jw_oidc :: "string \<Rightarrow> json \<Rightarrow> json option"

definition validate_oidc ::
  "auth_settings \<Rightarrow> jwt_api \<Rightarrow> (string \<Rightarrow> (token_fault, json) res) \<Rightarrow> string \<Rightarrow> json \<Rightarrow> (token_fault, json) res" where
  "validate_oidc cfg jwt get_key token header =
     (case jget header ''kid'' of
        Some (JStr kid) \<Rightarrow>
          if kid = '''' then Inl Jwt_Error
          else bind_res (get_key kid) (\<lambda>key.
            case jw_oidc jwt token key of
              None \<Rightarrow> Inl Jwt_Error
            | Some claims \<Rightarrow> apply_group_mapping cfg claims)
      | _ \<Rightarrow> Inl Jwt_Error)"

text \<open>A list or object as the algorithm cannot be looked up in a set, which raises.\<close>

definition validate_token ::
  "auth_settings \<Rightarrow> jwt_api \<Rightarrow> (string \<Rightarrow> (token_fault, json) res) \<Rightarrow> string \<Rightarrow> (token_fault, json) res" where
  "validate_token cfg jwt get_key token =
     (case jw_header jwt token of
        None \<Rightarrow> Inl Jwt_Error
      | Some header \<Rightarrow>
          let alg = jstr header ''alg''
          in if at_oidc_enabled cfg \<and> (case jget header ''alg'' of Some j \<Rightarrow> is_dict j \<or> is_list j | None \<Rightarrow> False)
             then Inl Crash
             else if at_oidc_enabled cfg \<and> alg \<in> {''RS256'', ''ES256''} then validate_oidc cfg jwt get_key token header
             else if at_legacy_hs256_enabled cfg \<and> alg = ''HS256''
             then (case jw_hs256 jwt token of None \<Rightarrow> Inl Jwt_Error | Some claims \<Rightarrow> Inr claims)
             else Inl Jwt_Error)"

section \<open>API keys\<close>

record api_key =
  ak_key_hash :: string
  ak_prefix :: string
  ak_role :: string
  ak_namespace :: string
  ak_name :: string
  ak_agent_class :: string
  ak_spiffe_id :: string
  ak_revoked :: bool
  ak_expires_at :: "time option"
  ak_last_used_at :: "time option"

definition key_prefix :: string where
  "key_prefix = ''nrvq_''"

definition authfail_threshold :: int where
  "authfail_threshold = 10"

definition display_prefix :: "string \<Rightarrow> string" where
  "display_prefix raw = clip 13 raw"

definition is_authfail_locked :: "int option \<Rightarrow> bool" where
  "is_authfail_locked count = (case count of Some n \<Rightarrow> n \<ge> authfail_threshold | None \<Rightarrow> False)"

text \<open>
  The principal of a presented key, the prefix a failure is counted against, and the table with the
  time of last use; \<open>now\<close> is read once. The failures of a prefix are \<open>None\<close> when there is no cache or
  they cannot be read. The hash column is unique.
\<close>

definition authenticate_api_key ::
  "(string \<Rightarrow> string) \<Rightarrow> time \<Rightarrow> (string \<Rightarrow> int option) \<Rightarrow> string \<Rightarrow> api_key list
     \<Rightarrow> json option \<times> string option \<times> api_key list" where
  "authenticate_api_key sha256 now failures raw rows =
     (if \<not> starts_with raw key_prefix then (None, None, rows)
      else if is_authfail_locked (failures (display_prefix raw)) then (None, None, rows)
      else
        case find (\<lambda>r. ak_key_hash r = sha256 raw \<and> \<not> ak_revoked r) rows of
          None \<Rightarrow> (None, Some (display_prefix raw), rows)
        | Some row \<Rightarrow>
            if (case ak_expires_at row of Some t \<Rightarrow> t \<le> now | None \<Rightarrow> False) then (None, Some (display_prefix raw), rows)
            else (Some (JObj [(''sub'', JStr (''apikey:'' @ ak_prefix row)), (''role'', JStr (ak_role row)),
                     (''namespace'', JStr (ak_namespace row)), (''name'', JStr (ak_name row)),
                     (''agent_class'', JStr (ak_agent_class row)), (''spiffe_id'', JStr (ak_spiffe_id row))]),
                  None,
                  map (\<lambda>r. if ak_key_hash r = ak_key_hash row then r\<lparr>ak_last_used_at := Some now\<rparr> else r) rows))"

section \<open>Authentication\<close>

definition max_bearer_len :: nat where
  "max_bearer_len = 8192"

definition must_change_allowed_paths :: "string list" where
  "must_change_allowed_paths = [''/api/v1/auth/change-password'', ''/api/v1/auth/logout'', ''/api/v1/me'']"

text \<open>The caller's claims, or the error it is answered with; \<open>None\<close> where an exception escapes.\<close>

definition authenticate ::
  "(string \<Rightarrow> (token_fault, json) res) \<Rightarrow> (string \<Rightarrow> json option) \<Rightarrow> (string \<Rightarrow> bool) \<Rightarrow> string option
     \<Rightarrow> string option \<Rightarrow> (http_error, json) res option" where
  "authenticate validate api_key revoked path creds =
     (case creds of
        None \<Rightarrow> Some (Inl (Http 401 ''Missing token''))
      | Some token \<Rightarrow>
          if text_length token > max_bearer_len then Some (Inl (Http 401 ''Invalid token''))
          else
            case validate token of
              Inl Crash \<Rightarrow> None
            | Inl Jwt_Error \<Rightarrow>
                (case if starts_with token key_prefix then api_key token else None of
                   Some who \<Rightarrow> Some (Inr who)
                 | None \<Rightarrow> Some (Inl (Http 401 ''Invalid token'')))
            | Inr claims \<Rightarrow>
                if revoked token then Some (Inl (Http 401 ''Session has been logged out''))
                else if (case jget claims ''must_change'' of Some j \<Rightarrow> truthy j | None \<Rightarrow> False)
                  \<and> (case path of Some p \<Rightarrow> p \<notin> set must_change_allowed_paths | None \<Rightarrow> False)
                then Some (Inl (Http 403 ''Password change required''))
                else Some (Inr claims))"

definition decode_token ::
  "(string \<Rightarrow> (token_fault, json) res) \<Rightarrow> (string \<Rightarrow> bool) \<Rightarrow> string \<Rightarrow> (token_fault, json) res" where
  "decode_token validate revoked token =
     bind_res (validate token) (\<lambda>claims. if revoked token then Inl Jwt_Error else Inr claims)"

definition require_admin :: "show_json \<Rightarrow> json \<Rightarrow> (http_error, unit) res" where
  "require_admin str user =
     (if user_role str user = ''admin'' then Inr () else forbidden ''Admin role required'')"

definition require_admin_or_service :: "show_json \<Rightarrow> json \<Rightarrow> (http_error, unit) res" where
  "require_admin_or_service str user =
     (if user_role str user \<in> {''admin'', ''service''} then Inr ()
      else forbidden ''Admin or service role required'')"

definition cluster_mismatch :: "string \<Rightarrow> string \<Rightarrow> string" where
  "cluster_mismatch target served =
     ''target cluster '' @ [CHR 0x27] @ target @ [CHR 0x27]
       @ '' does not match this deployment'' @ [CHR 0x27] @ ''s served cluster '' @ [CHR 0x27] @ served @ [CHR 0x27]
       @ '' '' @ [CHR 0xE2, CHR 0x80, CHR 0x94] @ '' this API only mutates its own cluster; open the target cluster''
       @ [CHR 0x27] @ ''s own console to change it''"

definition require_target_cluster :: "auth_settings \<Rightarrow> string option \<Rightarrow> (http_error, unit) res" where
  "require_target_cluster cfg header =
     (let target = strip (text_or_empty header);
          served = (if at_fleet_cluster_id cfg \<noteq> '''' then at_fleet_cluster_id cfg else ''local'')
      in if target \<noteq> '''' \<and> target \<noteq> served then Inl (Http 409 (cluster_mismatch target served)) else Inr ())"

section \<open>What the credential decides\<close>

text \<open>The namespace of a request as the caller sent it: it may be absent, and need not be a string.\<close>

definition is_given :: "json option \<Rightarrow> bool" where
  "is_given v = (case v of Some j \<Rightarrow> truthy j | None \<Rightarrow> False)"

definition scoped_namespace :: "show_json \<Rightarrow> json \<Rightarrow> json option \<Rightarrow> (http_error, json option) res" where
  "scoped_namespace str user requested =
     (let role = user_role str user; claim = claim_text str user ''namespace''
      in if role = ''admin'' then Inr requested
         else if role \<noteq> ''service'' \<and> claim = '''' then forbidden ''No namespace scope''
         else if is_given requested \<and> claim \<noteq> '''' \<and> requested \<noteq> Some (JStr claim)
         then forbidden ''Not authorized for this namespace''
         else Inr (if claim \<noteq> '''' then Some (JStr claim) else requested))"

text \<open>
  \<open>_parse_norviq_spiffe_id\<close> on the UTF-8 encoding: the parser looks at ASCII only, and no byte of a
  longer sequence is ASCII.
\<close>

definition parse_spiffe_text :: "string \<Rightarrow> (string \<times> string) option" where
  "parse_spiffe_text s =
     map_option (\<lambda>(ns, sa). (map char_of ns, map char_of sa)) (parse_norviq_spiffe_id (code_points s))"

definition attested_namespace :: "show_json \<Rightarrow> json \<Rightarrow> json option \<Rightarrow> (http_error, string) res" where
  "attested_namespace str user requested =
     (if user_role str user \<noteq> ''service'' \<or> claim_text str user ''spiffe_id'' = '''' then Inr ''''
      else case parse_spiffe_text (claim_text str user ''spiffe_id'') of
          None \<Rightarrow> Inr ''''
        | Some (attested, _) \<Rightarrow>
            let claim = claim_text str user ''namespace'';
                asked = (if is_given requested then text_of str (the requested) else '''')
            in if claim \<noteq> '''' \<and> claim \<noteq> attested
               then forbidden ''Credential namespace claim conflicts with its attested identity''
               else if asked \<noteq> '''' \<and> asked \<noteq> attested
               then forbidden ''Not authorized for this namespace''
               else Inr attested)"

definition bound_identity_fields :: "string list" where
  "bound_identity_fields = [''agent_class'', ''spiffe_id'', ''workload'']"

definition required_bound_fields :: "auth_settings \<Rightarrow> string list" where
  "required_bound_fields cfg =
     (if lower (at_spiffe_mode cfg) = ''workload-api'' then [''agent_class''] else [''agent_class'', ''spiffe_id''])"

definition reject_cross_namespace_spiffe :: "show_json \<Rightarrow> json \<Rightarrow> json \<Rightarrow> (http_error, unit) res" where
  "reject_cross_namespace_spiffe str user identity =
     (let claim = claim_text str user ''namespace''; body = claim_text str identity ''spiffe_id''
      in if user_role str user \<noteq> ''service'' \<or> claim = '''' \<or> body = '''' then Inr ()
         else case parse_spiffe_text body of
             None \<Rightarrow> Inr ()
           | Some (ns, _) \<Rightarrow>
               if ns \<noteq> claim then forbidden ''SPIFFE id names a different namespace than this credential'' else Inr ())"

text \<open>One pass over the fields a credential may bind: the identity and the fields that were bound.\<close>

fun bind_fields ::
  "show_json \<Rightarrow> json \<Rightarrow> string list \<Rightarrow> json \<Rightarrow> (http_error, json \<times> string list) res" where
  "bind_fields str user [] identity = Inr (identity, [])"
| "bind_fields str user (f # fs) identity =
     (let claim = claim_text str user f; asked = claim_text str identity f
      in if claim = '''' then bind_fields str user fs identity
         else if asked \<noteq> '''' \<and> asked \<noteq> claim then forbidden (''Not authorized for this '' @ f)
         else bind_res (bind_fields str user fs (jset f (JStr claim) identity))
           (\<lambda>(identity', bound). Inr (identity', f # bound)))"

definition drop_unbound_tier :: "string list \<Rightarrow> json \<Rightarrow> json" where
  "drop_unbound_tier bound identity =
     (if bound \<noteq> [] \<and> ''workload'' \<notin> set bound
         \<and> is_given (jget identity ''workload'')
      then jset ''workload'' (JStr '''') identity else identity)"

definition scoped_identity :: "auth_settings \<Rightarrow> show_json \<Rightarrow> json \<Rightarrow> json option \<Rightarrow> (http_error, json) res" where
  "scoped_identity cfg str user body =
     (let identity = JObj (case body of Some j \<Rightarrow> members j | None \<Rightarrow> []);
          role = user_role str user
      in if role = ''admin'' then Inr identity
         else bind_res (bind_fields str user bound_identity_fields identity) (\<lambda>(identity1, bound).
           let identity2 = drop_unbound_tier bound identity1
           in bind_res (if ''spiffe_id'' \<notin> set bound then reject_cross_namespace_spiffe str user identity2 else Inr ())
             (\<lambda>_. if role = ''service'' \<and> \<not> set (required_bound_fields cfg) \<subseteq> set bound
                     \<and> at_require_bound_identity cfg
                  then forbidden ''Credential is not bound to an agent identity'' else Inr identity2)))"

definition bind_caller_identity ::
  "auth_settings \<Rightarrow> show_json \<Rightarrow> json \<Rightarrow> json option \<Rightarrow> (http_error, json) res" where
  "bind_caller_identity cfg str user body =
     (let requested = (case body of Some j \<Rightarrow> jget j ''namespace'' | None \<Rightarrow> None)
      in bind_res (scoped_namespace str user requested) (\<lambda>effective.
         bind_res (scoped_identity cfg str user body) (\<lambda>identity.
         bind_res (attested_namespace str user requested) (\<lambda>attested.
           let ns = (if attested \<noteq> '''' then Some (JStr attested) else effective)
           in Inr (if is_given ns then jset ''namespace'' (the ns) identity else identity)))))"

text \<open>\<open>None\<close> in the result is a read without a namespace filter.\<close>

definition read_namespace :: "show_json \<Rightarrow> json \<Rightarrow> string option \<Rightarrow> (http_error, json option) res" where
  "read_namespace str user requested =
     (let role = user_role str user; claim = claim_text str user ''namespace''
      in if requested = None \<or> requested = Some ''all''
         then if role = ''admin'' \<or> claim = ''*'' \<or> role = ''service'' \<and> claim = '''' then Inr None
              else if claim = '''' then forbidden ''No namespace scope'' else Inr (Some (JStr claim))
         else scoped_namespace str user (map_option JStr requested))"

definition scoped_cluster :: "show_json \<Rightarrow> json \<Rightarrow> string \<Rightarrow> (http_error, string) res" where
  "scoped_cluster str user requested =
     (let role = user_role str user; claim = claim_text str user ''cluster''
      in if role = ''admin'' \<or> claim = ''*'' then Inr requested
         else if requested \<noteq> '''' \<and> claim \<noteq> '''' \<and> requested \<noteq> claim then forbidden ''Not authorized for this cluster''
         else Inr (if claim \<noteq> '''' then claim else requested))"

end
