(* ===== verification/Auth_Props.thy ===== *)
theory Auth_Props
  imports Auth
begin

text \<open>
  What the credential of a caller decides: the namespace and the identity a call is evaluated under come
  from the credential wherever it carries them, only a live key gives an API principal, and the mapping
  of groups gives the strongest role. The last section shows where the code departs from its comments.
\<close>

section \<open>The identity of a call\<close>

lemma bind_res_Inr_iff [simp]: "bind_res r f = Inr y \<longleftrightarrow> (\<exists>x. r = Inr x \<and> f x = Inr y)"
  by (cases r) simp_all

lemma forbidden_Inr [simp]: "forbidden d \<noteq> Inr x"
  by (simp add: forbidden_def)

lemma jget_jset [simp]: "jget (jset k v j) k' = (if k' = k then Some v else jget j k')"
  by (simp add: jget_def jset_def update_conv')

lemma claim_text_str [simp]: "jget j k = Some (JStr s) \<Longrightarrow> claim_text str j k = s"
  by (simp add: claim_text_def text_of_def)

lemma claim_text_cong: "jget j k = jget j' k \<Longrightarrow> claim_text str j k = claim_text str j' k"
  by (simp add: claim_text_def)

lemma bind_fields_bound:
  assumes "bind_fields str user fs identity = Inr (identity', bound)" and "distinct fs"
  shows "bound = filter (\<lambda>f. claim_text str user f \<noteq> '''') fs
    \<and> (\<forall>f\<in>set bound. jget identity' f = Some (JStr (claim_text str user f)))
    \<and> (\<forall>k. k \<notin> set bound \<longrightarrow> jget identity' k = jget identity k)"
  using assms
proof (induction str user fs identity arbitrary: identity' bound rule: bind_fields.induct)
  case (1 str user identity)
  then show ?case by simp
next
  case (2 str user f fs identity)
  show ?case
  proof (cases "claim_text str user f = ''''")
    case True
    then have run: "bind_fields str user fs identity = Inr (identity', bound)" using "2.prems" by simp
    have "distinct fs" using "2.prems" by simp
    from "2.IH"(1) [OF refl refl True run this] True show ?thesis by simp
  next
    case False
    let ?claim = "claim_text str user f"
    have asked: "\<not> (claim_text str identity f \<noteq> '''' \<and> claim_text str identity f \<noteq> ?claim)"
      using "2.prems"(1) False by (auto split: if_splits)
    then obtain bound' where run: "bind_fields str user fs (jset f (JStr ?claim) identity) = Inr (identity', bound')"
      and b: "bound = f # bound'"
      using "2.prems"(1) False by (auto split: if_splits)
    have f: "f \<notin> set fs" "distinct fs" using "2.prems"(2) by simp_all
    note ih = "2.IH"(2) [OF refl refl False asked run f(2)]
    have "f \<notin> set bound'" using ih f by auto
    then have "jget identity' f = Some (JStr ?claim)" using ih by simp
    moreover have "jget identity' k = jget identity k" if "k \<notin> set bound" for k
    proof -
      have "k \<notin> set bound'" "k \<noteq> f" using that b by simp_all
      then show ?thesis using ih by simp
    qed
    ultimately show ?thesis using ih False b by auto
  qed
qed

definition binds :: "show_json \<Rightarrow> json \<Rightarrow> string list" where
  "binds str user = filter (\<lambda>f. claim_text str user f \<noteq> '''') bound_identity_fields"

lemma scoped_identity_bound:
  assumes "scoped_identity cfg str user body = Inr identity" and "user_role str user \<noteq> ''admin''"
  shows "(\<forall>f\<in>set (binds str user). jget identity f = Some (JStr (claim_text str user f)))
    \<and> (binds str user \<noteq> [] \<and> ''workload'' \<notin> set (binds str user) \<longrightarrow> claim_text str identity ''workload'' = '''')
    \<and> (''spiffe_id'' \<notin> set (binds str user) \<longrightarrow> reject_cross_namespace_spiffe str user identity = Inr ())
    \<and> (user_role str user = ''service'' \<and> at_require_bound_identity cfg
         \<longrightarrow> set (required_bound_fields cfg) \<subseteq> set (binds str user))"
proof -
  obtain identity1 bound where
    run: "bind_fields str user bound_identity_fields (JObj (case body of Some j \<Rightarrow> members j | None \<Rightarrow> [])) = Inr (identity1, bound)"
    and identity: "identity = drop_unbound_tier bound identity1"
    and reject: "''spiffe_id'' \<notin> set bound \<longrightarrow> reject_cross_namespace_spiffe str user identity = Inr ()"
    and strict: "user_role str user = ''service'' \<and> at_require_bound_identity cfg \<longrightarrow> set (required_bound_fields cfg) \<subseteq> set bound"
    using assms by (auto simp: scoped_identity_def Let_def split: if_splits)
  have "distinct bound_identity_fields" by (simp add: bound_identity_fields_def)
  note b = bind_fields_bound [OF run this]
  then have bound: "bound = binds str user" by (simp add: binds_def)
  have "jget identity f = Some (JStr (claim_text str user f))" if "f \<in> set bound" for f
    using b that unfolding identity drop_unbound_tier_def by (auto split: option.splits)
  moreover have "claim_text str identity ''workload'' = ''''" if "bound \<noteq> []" "''workload'' \<notin> set bound"
    using that unfolding identity drop_unbound_tier_def
    by (auto simp: claim_text_def text_of_def is_given_def split: option.splits)
  ultimately show ?thesis using reject strict unfolding bound by blast
qed

lemma parsed_namespace_nonempty: "parse_spiffe_text s = Some (ns, sa) \<Longrightarrow> ns \<noteq> ''''"
  by (auto simp: parse_spiffe_text_def parse_norviq_spiffe_id_def split: if_splits list.splits)


definition sample_auth :: auth_settings where
  "sample_auth = \<lparr>at_oidc_enabled = True, at_legacy_hs256_enabled = True, at_oidc_group_claim = ''groups'',
     at_oidc_group_mappings = [(''ops'', \<lparr>gm_role = Some ''admin'', gm_namespace = None, gm_cluster = None\<rparr>),
       (''team-a'', \<lparr>gm_role = Some ''viewer'', gm_namespace = Some ''team-a'', gm_cluster = None\<rparr>)],
     at_spiffe_mode = ''mock'', at_require_bound_identity = True, at_fleet_cluster_id = ''''\<rparr>"

definition sample_user :: json where
  "sample_user = JObj [(''role'', JStr ''service''), (''agent_class'', JStr ''billing''),
     (''spiffe_id'', JStr ''spiffe://norviq/ns/prod/sa/billing'')]"


section \<open>Credentials\<close>

text \<open>
  A presented API key gives a principal only when a stored key with its hash is neither revoked nor
  expired and its prefix is not locked by failures; the principal has exactly that key's role,
  namespace and bound identity, and nothing else of the table changes but the time of last use.
\<close>

lemma api_key_principal_is_live_key:
  assumes "authenticate_api_key sha256 now failures raw rows = (Some who, counted, rows')"
  shows "\<exists>row\<in>set rows. ak_key_hash row = sha256 raw \<and> \<not> ak_revoked row
      \<and> (case ak_expires_at row of Some t \<Rightarrow> now < t | None \<Rightarrow> True) \<and> \<not> is_authfail_locked (failures (display_prefix raw))
      \<and> jget who ''role'' = Some (JStr (ak_role row)) \<and> jget who ''namespace'' = Some (JStr (ak_namespace row))
      \<and> jget who ''agent_class'' = Some (JStr (ak_agent_class row)) \<and> jget who ''spiffe_id'' = Some (JStr (ak_spiffe_id row))
      \<and> map (\<lambda>r. r\<lparr>ak_last_used_at := None\<rparr>) rows' = map (\<lambda>r. r\<lparr>ak_last_used_at := None\<rparr>) rows"
proof -
  have locked: "\<not> is_authfail_locked (failures (display_prefix raw))" and nrvq: "starts_with raw key_prefix"
    using assms by (auto simp: authenticate_api_key_def split: if_splits)
  obtain row where f: "find (\<lambda>r. ak_key_hash r = sha256 raw \<and> \<not> ak_revoked r) rows = Some row"
    using assms locked nrvq by (auto simp: authenticate_api_key_def split: option.splits)
  then have row: "row \<in> set rows" "ak_key_hash row = sha256 raw" "\<not> ak_revoked row"
    by (auto simp: find_Some_iff)
  have "case ak_expires_at row of Some t \<Rightarrow> now < t | None \<Rightarrow> True"
    using assms locked nrvq f by (auto simp: authenticate_api_key_def split: option.splits if_splits)
  with assms locked nrvq f row show ?thesis
    by (intro bexI [of _ row]) (auto simp: authenticate_api_key_def jget_def split: option.splits if_splits)
qed

text \<open>A token that was logged out authenticates nobody, unless it is the secret of an API key.\<close>

lemma logged_out_token_refused:
  assumes "authenticate validate api_key revoked path (Some token) = Some (Inr claims)" and "revoked token"
  shows "validate token = Inl Jwt_Error \<and> starts_with token key_prefix \<and> api_key token = Some claims"
  using assms by (auto simp: authenticate_def split: sum.splits token_fault.splits option.splits if_splits)

lemma stronger_fold:
  "role_rank x \<le> role_rank (foldl (\<lambda>a r. if role_rank r > role_rank a then r else a) x ys)
     \<and> (\<forall>y\<in>set ys. role_rank y \<le> role_rank (foldl (\<lambda>a r. if role_rank r > role_rank a then r else a) x ys))
     \<and> foldl (\<lambda>a r. if role_rank r > role_rank a then r else a) x ys \<in> insert x (set ys)"
proof (induction ys arbitrary: x)
  case (Cons y ys)
  from Cons.IH [of "if role_rank y > role_rank x then y else x"] show ?case
    by (auto split: if_splits)
qed simp

lemma top_role_greatest:
  assumes "rs \<noteq> []"
  shows "top_role rs \<in> set rs \<and> (\<forall>r\<in>set rs. role_rank r \<le> role_rank (top_role rs))"
proof -
  obtain x ys where rs: "rs = x # ys" using assms by (cases rs) auto
  show ?thesis using stronger_fold [of x ys] unfolding rs top_role_def by simp
qed

lemma admin_rank: "role_rank r \<ge> 3 \<longleftrightarrow> r = ''admin''"
  by (simp add: role_rank_def)

text \<open>
  C20. The groups of an identity provider's token give the administrator role exactly when one of them
  is mapped to it, whatever else the caller belongs to; otherwise the token's namespace is the only one
  its groups name, or none, and never one the token itself claimed.
\<close>

theorem group_mapping_scope:
  assumes "apply_group_mapping cfg claims = Inr claims'"
    and "group_names (jget claims (at_oidc_group_claim cfg)) = Some groups"
  shows "(jget claims' ''role'' = Some (JStr ''admin'')
        \<longleftrightarrow> (\<exists>g\<in>set groups. \<exists>m. map_of (at_oidc_group_mappings cfg) g = Some m \<and> gm_role m = Some ''admin''))
    \<and> (\<exists>ns. jget claims' ''namespace'' = Some (JStr ns)
        \<and> (jget claims' ''role'' \<noteq> Some (JStr ''admin'') \<longrightarrow>
             (\<forall>g\<in>set groups. \<forall>m. map_of (at_oidc_group_mappings cfg) g = Some m \<longrightarrow>
                text_or_empty (gm_namespace m) \<in> {'''', ns}))
        \<and> (ns \<noteq> '''' \<longrightarrow> (\<exists>g\<in>set groups. \<exists>m. map_of (at_oidc_group_mappings cfg) g = Some m \<and> gm_namespace m = Some ns)))"
proof -
  define matched where "matched = List.map_filter (map_of (at_oidc_group_mappings cfg)) groups"
  define roles where "roles = map (\<lambda>m. case gm_role m of Some r \<Rightarrow> r | None \<Rightarrow> ''viewer'') matched"
  define nss where "nss = remdups (filter (\<lambda>n. n \<noteq> '''') (map (text_or_empty \<circ> gm_namespace) matched))"
  have mem: "m \<in> set matched \<longleftrightarrow> (\<exists>g\<in>set groups. map_of (at_oidc_group_mappings cfg) g = Some m)" for m
    by (auto simp: matched_def List.map_filter_def image_iff)
  have nsm: "n \<in> set nss \<longleftrightarrow> n \<noteq> '''' \<and> (\<exists>m\<in>set matched. gm_namespace m = Some n)" for n
    by (auto simp: nss_def text_or_empty_def image_iff split: option.splits) force
  have admin: "top_role roles = ''admin'' \<longleftrightarrow> (\<exists>m\<in>set matched. gm_role m = Some ''admin'')" if "matched \<noteq> []"
  proof -
    have "roles \<noteq> []" using that by (simp add: roles_def)
    note top = top_role_greatest [OF this]
    have "top_role roles = ''admin''" if "''admin'' \<in> set roles"
      using top that admin_rank [of "top_role roles"] by (auto simp: role_rank_def [of "''admin''"])
    then have "top_role roles = ''admin'' \<longleftrightarrow> ''admin'' \<in> set roles" using top by auto
    then show ?thesis by (auto simp: roles_def image_iff split: option.splits)
  qed
  show ?thesis
  proof (cases "matched = []")
    case True
    then have "claims' = with_scope ''viewer'' '''' '''' claims"
      using assms by (simp add: apply_group_mapping_def Let_def matched_def [symmetric])
    then show ?thesis using True mem by (auto simp: with_scope_def)
  next
    case False
    show ?thesis
    proof (cases "top_role roles = ''admin''")
      case True
      then have "claims' = with_scope ''admin'' '''' ''*'' claims"
        using assms False by (simp add: apply_group_mapping_def Let_def matched_def [symmetric] roles_def)
      then show ?thesis using admin [OF False] True mem by (auto simp: with_scope_def) blast
    next
      case nonadmin: False
      then obtain c where "length nss \<le> 1" and claims':
        "claims' = with_scope (top_role roles) (case nss of [] \<Rightarrow> '''' | n # _ \<Rightarrow> n) c claims"
        using assms False
        by (auto simp: apply_group_mapping_def Let_def matched_def [symmetric] roles_def [symmetric] nss_def [symmetric] split: if_splits)
      then have "nss = [] \<or> (\<exists>n. nss = [n])" by (cases nss) (auto simp: length_Suc_conv)
      define ns where "ns = (case nss of [] \<Rightarrow> '''' | n # _ \<Rightarrow> n)"
      have nss: "set nss = (if ns = '''' then {} else {ns})"
        using \<open>nss = [] \<or> (\<exists>n. nss = [n])\<close> nsm [of "hd nss", THEN iffD1] by (elim disjE exE) (simp_all add: ns_def)
      have all: "text_or_empty (gm_namespace m) \<in> {'''', ns}" if "m \<in> set matched" for m
        using nsm [of "the (gm_namespace m)"] that unfolding nss
        by (cases "gm_namespace m") (auto simp: text_or_empty_def split: if_splits)
      have some: "\<exists>m\<in>set matched. gm_namespace m = Some ns" if "ns \<noteq> ''''"
        using nsm [of ns] that unfolding nss by simp
      have c: "jget claims' ''role'' = Some (JStr (top_role roles))" "jget claims' ''namespace'' = Some (JStr ns)"
        by (simp_all add: claims' with_scope_def ns_def)
      have "\<not> (\<exists>g\<in>set groups. \<exists>m. map_of (at_oidc_group_mappings cfg) g = Some m \<and> gm_role m = Some ''admin'')"
        using nonadmin admin [OF False] mem by blast
      moreover have "jget claims' ''role'' \<noteq> Some (JStr ''admin'')" using c(1) nonadmin by simp
      moreover have "\<forall>g\<in>set groups. \<forall>m. map_of (at_oidc_group_mappings cfg) g = Some m \<longrightarrow>
          text_or_empty (gm_namespace m) \<in> {'''', ns}" using all mem by blast
      moreover have "ns \<noteq> '''' \<longrightarrow>
          (\<exists>g\<in>set groups. \<exists>m. map_of (at_oidc_group_mappings cfg) g = Some m \<and> gm_namespace m = Some ns)"
        using some mem by blast
      ultimately show ?thesis using c(2) by blast
    qed
  qed
qed

theorem group_mapping_scope_witness:
  "\<exists>c. apply_group_mapping sample_auth (JObj [(''groups'', JList [JStr ''team-a'', JStr ''ops'']), (''namespace'', JStr ''x'')]) = Inr c
     \<and> jget c ''role'' = Some (JStr ''admin'')"
proof -
  let ?c = "JObj [(''groups'', JList [JStr ''team-a'', JStr ''ops'']), (''namespace'', JStr ''x'')]"
  have "case apply_group_mapping sample_auth ?c of Inr _ \<Rightarrow> True | Inl _ \<Rightarrow> False" by code_simp
  then obtain c where run: "apply_group_mapping sample_auth ?c = Inr c" by (auto split: sum.splits)
  have g: "group_names (jget ?c (at_oidc_group_claim sample_auth)) = Some [''team-a'', ''ops'']" by code_simp
  from group_mapping_scope [OF run g] run show ?thesis
    by (simp add: sample_auth_def)
qed

section \<open>Where the code departs from its comments\<close>

text \<open>
  A caller that is no administrator and has no cluster claim, which is the default of an unmapped
  viewer, is scoped to no cluster at all: it gets whichever cluster it asks for.
\<close>

lemma no_cluster_claim_reads_any_cluster:
  assumes "user_role str user \<noteq> ''admin''" and "claim_text str user ''cluster'' = ''''"
  shows "scoped_cluster str user requested = Inr requested"
  using assms by (simp add: scoped_cluster_def Let_def)

text \<open>
  Every lookup of a key identifier the identity provider never issued sends at least one request to
  it, whatever the minimum interval between forced refreshes: the interval bounds the second request
  only.
\<close>

lemma unknown_key_always_fetches:
  assumes "jwks_get_key ttl min_refresh t kid st = (r, st', n)" and "map_of (jk_keys st) kid = None"
  shows "n \<ge> 1"
  using assms by (auto simp: jwks_get_key_def jwks_refetch_def split: prod.splits sum.splits option.splits if_splits)

end
