(* ===== verification/Spec2Isabelle.thy ===== *)
theory Spec2Isabelle
  imports Loader_Props Opa_Props Replay_Props Admin_Control_Props Redis_Cache_Props Sdk_Client_Props
    Mcp_Firewall_Props Mcp_Gate_Props Mcp_Listing_Props Auth_Props
begin

text \<open>
  Verification of Norviq, a policy engine that decides which tool calls of AI agents may run.

  \<^bold>\<open>The program.\<close> An enforcement point (the SDK, a sidecar or the MCP firewall) intercepts a tool call and
  asks the engine. The API authenticates the caller and binds the call's identity to the credential; the
  evaluator resolves the workload identity, collects the policies that apply, has OPA evaluate them,
  resolves their answers to one winner and passes it through rate limiting, trust, posture and
  attribution. Policies live in Postgres, in a mirror in Redis and in the memory of each replica, kept in
  step by the loader. A behavioural trust score and the freeze or cap an administrator sets tighten the
  decision. Decisions are cached in Redis and per process.

  \<^bold>\<open>Engine.\<close>
  \<^item> \<open>Prelude\<close>, \<open>Digits\<close>: Python strings, lists, rounding and numerals, and lemmas on stable sorting.
  \<^item> \<open>Decision\<close>: decisions and events (\<open>sdk/core/decisions.py\<close>, \<open>events.py\<close>) and the fold of an enforcement
    point's refusal. The locale \<open>tightening_stage\<close> is the contract of a stage that never loosens a decision.
  \<^item> \<open>Resolver\<close>: \<open>_resolve_with_packs\<close> and what it calls in \<open>engine/evaluator.py\<close>, refined to a specification
    by layers; packs never loosen.
  \<^item> \<open>Stages\<close>: rate limits, trust overrides, posture and attribution, each interpreted as a tightening or a
    softening stage.
  \<^item> \<open>Ttl_Cache\<close>: \<open>TTLCache\<close> of \<open>engine/inproc_cache.py\<close>, an interpretation of an expiring store.
  \<^item> \<open>Loader\<close>, \<open>Loader_Props\<close>: \<open>engine/policy_loader.py\<close> over tables, memory and index, with a step relation
    for replicas; memory agrees with the tables, the enforced version is backed, a delete reaches every
    layer, an upsert event converges, and a late delete event does not.
  \<^item> \<open>Candidates\<close>: \<open>_collect_candidates\<close> and the union for the console.
  \<^item> \<open>Trust\<close>, \<open>Trust_Props\<close>: \<open>engine/trust/\<close>; bounds of the score, sustained refusals escalate.
  \<^item> \<open>Identity\<close>: \<open>engine/identity.py\<close>; the parser is exact, only attested identities are returned.
  \<^item> \<open>Opa\<close>, \<open>Opa_Props\<close>: \<open>engine/opa_client.py\<close> and \<open>_evaluate_opa\<close>; an evaluation runs the source it was
    asked for, and a cancelled push breaks that.
  \<^item> \<open>Evaluate\<close>, \<open>Evaluate_Props\<close>, \<open>Replay_Props\<close>: the whole of \<open>OPAEvaluator.evaluate\<close> with its exception
    handlers; floors and freezes block, refusals are recorded, failures have a verdict, blocks are
    attributed, a replayed call gets the same decision.
  \<^item> \<open>Redis_Cache\<close>, \<open>Redis_Cache_Props\<close>: keys, decisions, locks and counters of \<open>engine/cache.py\<close>; which calls
    share a cached decision.
  \<^item> \<open>Admin_Control\<close>, \<open>Admin_Control_Props\<close>: the fence scripts of \<open>engine/cache.py\<close> and the trust endpoints of
    \<open>api/routers/agents.py\<close>; an acknowledged control stands and every answer is true.

  \<^bold>\<open>Callers.\<close>
  \<^item> \<open>Auth\<close>, \<open>Auth_Props\<close>: \<open>api/auth.py\<close>, \<open>api/jwks.py\<close>, \<open>api/api_keys.py\<close>; the identity of a call comes from
    the credential, and groups give exactly the mapped role and namespace.
  \<^item> \<open>Sdk_Client\<close>, \<open>Sdk_Client_Props\<close>: \<open>sdk/client/engine.py\<close>; the search for non-finite numbers on cyclic
    object graphs is exact, the breaker opens on silence only, and only the configured fallback lets an
    unjudged call through.
  \<^item> \<open>Mcp_Protocol\<close>, \<open>Mcp_Pins\<close>, \<open>Mcp_Correlation\<close>, \<open>Mcp_Gates\<close>, \<open>Mcp_Firewall\<close>: \<open>mcp/protocol.py\<close>,
    \<open>pins.py\<close>, \<open>firewall.py\<close> and \<open>servers.py\<close>, every handler of both directions. The locale \<open>pin_store\<close> is
    the contract of a store of pins, interpreted on both stores of the code.
  \<^item> \<open>Mcp_Firewall_Props\<close>: a forwarded call passed every gate, and an answer needs a forwarded request.
    \<open>Mcp_Listing_Props\<close>: the tools shown are the tools callable, and a drifted definition is neither.
    \<open>Mcp_Gate_Props\<close>: the checks of arguments against reference definitions.

  \<^bold>\<open>Conventions.\<close> A \<open>str\<close> is its UTF-8 encoding, except for identities, which are lists of code points;
  floats are exact rationals; a raised exception is a value of a sum or option type; writes to Redis and
  other outputs are lists of effects. Clocks, random numbers, hashes, serialisers, the JWT library, OPA,
  Redis and HTTP answers are arguments, and the hypotheses on them state what they document. Names are
  the source's, without the leading underscore and with a suffix where HOL has the name.

  \<^bold>\<open>Bounds.\<close> No definition runs on fuel that the code does not have: loops are structural or carry a
  termination proof. The limits that appear are the code's own: 256 dry-run modules, ten versions in
  memory, 100000 containers in a search for non-finite numbers, 65536 nodes in a search for headers, 128
  levels of nesting, 512 remembered denials, 8192 characters of a bearer token, three rounds of the boot
  warm, and a thousand million steals of a fence, beyond which the theorems on the fence say nothing.

  \<^bold>\<open>Not modelled.\<close> The revocation of sessions, the scanner and masker (arguments of the firewall), the
  MCP transports, the remaining API routers, the sidecar's servers, the adapters of the SDK, fleet, attack
  graph, intent compiler, red team, telemetry and the command line are input and output around these
  parts, or do not take part in a decision. Within the modelled parts, log lines and metrics are left
  out, operations of one component run one after the other unless a step relation says otherwise, and
  rounding errors of floating point do not occur.
\<close>

end
